(* ===== verification/Prelude.thy ===== *)
theory Prelude
  imports Main "HOL-Library.Signed_Division" "HOL-Library.Word"
begin

text \<open>
  Shared vocabulary of the development: the outcome of a contract call (a failure or a
  value), the checked machine arithmetic the release profile gives (Cargo.toml sets
  \<open>overflow-checks = true\<close> and \<open>panic = "abort"\<close>, so an overflow aborts the call), and the
  generic lemmas on bounded sums and shares that the contract theories use.

  Unsigned integers are \<^typ>\<open>nat\<close> and \<open>i128\<close> is \<^typ>\<open>int\<close>; every arithmetic operation of
  the code that can leave its width is one of the checked operations below and fails with
  \<open>Overflow\<close> there.  Where the code asks for wrapping arithmetic the model uses words.
\<close>

type_synonym u32 = nat
type_synonym u64 = nat
type_synonym i128 = int
type_synonym bytes32 = "8 word list"

section \<open>Outcomes of a call\<close>

text \<open>
  \<open>Panic\<close> carries the panic message of the contract (an enumeration per contract);
  \<open>Unauthorized\<close> is a failed \<open>require_auth\<close>, \<open>Overflow\<close> a failed checked operation,
  \<open>TokenFailure\<close> an aborting call into a token contract, \<open>HostFailure\<close> one of the host.  Every failure rolls the whole
  transaction back, so a failing outcome carries no state.
\<close>

datatype 'p failure =
    Panic 'p | Unauthorized | Overflow | DivisionByZero | TokenFailure | HostFailure

type_synonym ('p, 'a) outcome = "'p failure + 'a"

named_theorems ok_simps "what a successful outcome says of its parts"

definition and_then :: "('p, 'a) outcome \<Rightarrow> ('a \<Rightarrow> ('p, 'b) outcome) \<Rightarrow> ('p, 'b) outcome" where
  "and_then m f = (case m of Inl e \<Rightarrow> Inl e | Inr a \<Rightarrow> f a)"

definition expect :: "'p \<Rightarrow> 'a option \<Rightarrow> ('p, 'a) outcome" where
  "expect p x = (case x of None \<Rightarrow> Inl (Panic p) | Some a \<Rightarrow> Inr a)"

definition unwrap_or :: "'a \<Rightarrow> 'a option \<Rightarrow> 'a" where
  "unwrap_or d x = (case x of None \<Rightarrow> d | Some a \<Rightarrow> a)"

definition succeeds :: "('p, 'a) outcome \<Rightarrow> bool" where
  "succeeds m = (case m of Inl _ \<Rightarrow> False | Inr _ \<Rightarrow> True)"

lemma and_then_simps [simp]:
  "and_then (Inr a) f = f a"
  "and_then (Inl e) f = Inl e"
  by (simp_all add: and_then_def)

lemma and_then_Inr [ok_simps]:
  "and_then m f = Inr b \<longleftrightarrow> (\<exists>a. m = Inr a \<and> f a = Inr b)"
  by (cases m) simp_all

lemma and_then_cong [fundef_cong]:
  "m = m' \<Longrightarrow> (\<And>a. m' = Inr a \<Longrightarrow> f a = f' a) \<Longrightarrow> and_then m f = and_then m' f'"
  by (cases m') simp_all

lemma expect_simps [simp]:
  "expect p (Some a) = Inr a"
  "expect p None = Inl (Panic p)"
  by (simp_all add: expect_def)

lemma expect_Inr [ok_simps]: "expect p x = Inr a \<longleftrightarrow> x = Some a"
  by (cases x) simp_all

lemma unwrap_or_simps [simp]:
  "unwrap_or d None = d"
  "unwrap_or d (Some a) = a"
  by (simp_all add: unwrap_or_def)

lemma succeeds_simps [simp]:
  "succeeds (Inr a)" "\<not> succeeds (Inl e)"
  by (simp_all add: succeeds_def)

lemma if_fail_Inr [ok_simps]:
  "(if c then Inl e else m) = Inr b \<longleftrightarrow> \<not> c \<and> m = Inr b"
  "(if c then m else Inl e) = Inr b \<longleftrightarrow> c \<and> m = Inr b"
  by simp_all

lemma succeeds_iff: "succeeds m \<longleftrightarrow> (\<exists>a. m = Inr a)"
  by (cases m) simp_all

text \<open>The state an entry point leaves; its result is dropped.\<close>

definition state_of :: "('p, 'a \<times> 's) outcome \<Rightarrow> ('p, 's) outcome" where
  "state_of m = and_then m (\<lambda>(_, st). Inr st)"

lemma state_of_Inr [ok_simps]: "state_of m = Inr st \<longleftrightarrow> (\<exists>a. m = Inr (a, st))"
  by (auto simp: state_of_def ok_simps)

section \<open>Checked arithmetic\<close>

definition i128_ok :: "int \<Rightarrow> bool" where
  "i128_ok x \<longleftrightarrow> - (2 ^ 127) \<le> x \<and> x < 2 ^ 127"

definition checked128 :: "int \<Rightarrow> ('p, int) outcome" where
  "checked128 x = (if i128_ok x then Inr x else Inl Overflow)"

definition add128 :: "int \<Rightarrow> int \<Rightarrow> ('p, int) outcome" where
  "add128 a b = checked128 (a + b)"

definition sub128 :: "int \<Rightarrow> int \<Rightarrow> ('p, int) outcome" where
  "sub128 a b = checked128 (a - b)"

definition mul128 :: "int \<Rightarrow> int \<Rightarrow> ('p, int) outcome" where
  "mul128 a b = checked128 (a * b)"

text \<open>Rust's \<open>/\<close> on integers truncates towards zero and aborts on a zero divisor.\<close>

definition div128 :: "int \<Rightarrow> int \<Rightarrow> ('p, int) outcome" where
  "div128 a b = (if b = 0 then Inl DivisionByZero else checked128 (a sdiv b))"

definition add_u32 :: "u32 \<Rightarrow> u32 \<Rightarrow> ('p, u32) outcome" where
  "add_u32 a b = (if a + b < 2 ^ 32 then Inr (a + b) else Inl Overflow)"

definition add_u64 :: "u64 \<Rightarrow> u64 \<Rightarrow> ('p, u64) outcome" where
  "add_u64 a b = (if a + b < 2 ^ 64 then Inr (a + b) else Inl Overflow)"

text \<open>Unsigned subtraction is the same at every width: it aborts below zero.\<close>

definition sub_u :: "nat \<Rightarrow> nat \<Rightarrow> ('p, nat) outcome" where
  "sub_u a b = (if b \<le> a then Inr (a - b) else Inl Overflow)"

definition saturating_add_u32 :: "u32 \<Rightarrow> u32 \<Rightarrow> u32" where
  "saturating_add_u32 a b = min (2 ^ 32 - 1) (a + b)"

text \<open>\<open>saturating_sub\<close> of unsigned values stops at zero, as subtraction on \<^typ>\<open>nat\<close> does.\<close>

definition saturating_sub :: "nat \<Rightarrow> nat \<Rightarrow> nat" where
  "saturating_sub a b = a - b"

lemma checked128_Inr [ok_simps]: "checked128 x = Inr y \<longleftrightarrow> i128_ok x \<and> y = x"
  by (auto simp: checked128_def)

lemma arith128_Inr [ok_simps]:
  "add128 a b = Inr c \<longleftrightarrow> i128_ok (a + b) \<and> c = a + b"
  "sub128 a b = Inr c \<longleftrightarrow> i128_ok (a - b) \<and> c = a - b"
  "mul128 a b = Inr c \<longleftrightarrow> i128_ok (a * b) \<and> c = a * b"
  "div128 a b = Inr c \<longleftrightarrow> b \<noteq> 0 \<and> i128_ok (a sdiv b) \<and> c = a sdiv b"
  by (simp_all add: add128_def sub128_def mul128_def div128_def ok_simps)

lemma arith_u_Inr [ok_simps]:
  "add_u32 a b = Inr c \<longleftrightarrow> a + b < 2 ^ 32 \<and> c = a + b"
  "add_u64 a b = Inr c \<longleftrightarrow> a + b < 2 ^ 64 \<and> c = a + b"
  "sub_u a b = Inr c \<longleftrightarrow> b \<le> a \<and> c = a - b"
  by (auto simp: add_u32_def add_u64_def sub_u_def)

lemmas arith_defs = i128_ok_def checked128_def add128_def sub128_def mul128_def div128_def
  add_u32_def add_u64_def sub_u_def saturating_add_u32_def saturating_sub_def

section \<open>Shares in basis points\<close>

text \<open>The share of a non-negative amount at some basis points, \<open>amount * bps / 10_000\<close>.\<close>

definition bps_share :: "int \<Rightarrow> nat \<Rightarrow> int" where
  "bps_share amount bps = (amount * int bps) sdiv 10000"

lemma sdiv_nonneg_eq: "0 \<le> a \<Longrightarrow> 0 < b \<Longrightarrow> a sdiv b = a div (b::int)"
  by (cases "a = 0") (simp_all add: signed_divide_int_def sgn_mult sgn_if)

lemma bps_share_eq_div: "0 \<le> a \<Longrightarrow> bps_share a n = (a * int n) div 10000"
  by (simp add: bps_share_def sdiv_nonneg_eq)

lemma bps_share_nonneg: "0 \<le> a \<Longrightarrow> 0 \<le> bps_share a n"
  by (simp add: bps_share_eq_div pos_imp_zdiv_nonneg_iff)

lemma bps_share_le:
  assumes "0 \<le> a" "n \<le> 10000"
  shows "bps_share a n \<le> a"
proof -
  have "a * int n \<le> a * 10000"
    using assms by (intro mult_left_mono) simp_all
  then show ?thesis using assms by (simp add: bps_share_eq_div)
qed

text \<open>The shares of a list of recipients never exceed the part of the amount they stand for.\<close>

lemma sum_bps_share_le:
  assumes "0 \<le> a"
  shows "(\<Sum>n\<leftarrow>ns. bps_share a n) * 10000 \<le> a * int (sum_list ns)"
proof (induction ns)
  case Nil
  then show ?case by simp
next
  case (Cons n ns)
  have "bps_share a n * 10000 \<le> a * int n"
    using assms by (simp add: bps_share_eq_div)
  with Cons show ?case by (simp add: distrib_left distrib_right)
qed

text \<open>Rounding down loses less than one unit per share.\<close>

lemma sum_bps_share_ge:
  assumes "0 \<le> a"
  shows "a * int (sum_list ns) - 9999 * int (length ns) \<le> (\<Sum>n\<leftarrow>ns. bps_share a n) * 10000"
proof (induction ns)
  case Nil
  then show ?case by simp
next
  case (Cons n ns)
  have "a * int n - 9999 \<le> bps_share a n * 10000"
    using assms by (simp add: bps_share_eq_div)
  with Cons show ?case by (simp add: distrib_left distrib_right)
qed

section \<open>Sums over stored records\<close>

lemma sum_fun_upd:
  fixes f :: "'a \<Rightarrow> int" and i n :: nat
  assumes "i < n"
  shows "(\<Sum>k<n. f ((m(i := x)) k)) = (\<Sum>k<n. f (m k)) - f (m i) + f x"
proof -
  have "(\<Sum>k<n. f ((m(i := x)) k)) = f x + (\<Sum>k\<in>{..<n} - {i}. f (m k))"
    using assms by (subst sum.remove [where x = i]) (auto intro: sum.cong)
  moreover have "(\<Sum>k<n. f (m k)) = f (m i) + (\<Sum>k\<in>{..<n} - {i}. f (m k))"
    using assms by (subst sum.remove [where x = i]) auto
  ultimately show ?thesis by simp
qed

lemma sum_fun_upd_fresh:
  fixes f :: "'a \<Rightarrow> int" and n :: nat
  shows "(\<Sum>k<Suc n. f ((m(n := x)) k)) = (\<Sum>k<n. f (m k)) + f x"
proof -
  have "(\<Sum>k<n. f ((m(n := x)) k)) = (\<Sum>k<n. f (m k))"
    by (rule sum.cong) simp_all
  then show ?thesis by simp
qed

lemma sum_list_filter_partition:
  fixes f :: "'a \<Rightarrow> int"
  shows "(\<Sum>x\<leftarrow>xs. f x) = (\<Sum>x\<leftarrow>filter P xs. f x) + (\<Sum>x\<leftarrow>filter (\<lambda>x. \<not> P x) xs. f x)"
  by (induction xs) simp_all

end
