(* ===== verification/Soroban.thy ===== *)
theory Soroban
  imports Prelude
begin

text \<open>
  What the contracts see of the Soroban host.  \<open>host\<close> is one invocation's environment: the
  ledger's timestamp and sequence number, the contract's own address, the addresses whose
  \<open>require_auth\<close> succeeds, and the third-party code a contract calls (token contracts, the
  price oracle, the hash function, the deployer), all of it a parameter.  Token balances live
  in a ledger of an unknown type \<open>'l\<close> that only the token operations change;
  \<open>token_laws\<close> states the documented SEP-41 behaviour the money theorems rely on.

  \<open>contract\<close> is the part of the storage the four contracts share.  Storage entries are fields
  of a record, a missing key is \<open>None\<close>, and keys with arguments are partial maps.  Instance and
  persistent entries do not expire in the model: \<open>extend_ttl\<close> only moves the date at which an
  entry is archived (and archived entries are restored, not lost), so it has no effect here.
\<close>

datatype address = Account nat | Contract nat

section \<open>The host\<close>

record 'l host =
  timestamp :: u64
  sequence :: u32
  self_address :: address
  authorized :: "address \<Rightarrow> bool"
  tok_transfer :: "'l \<Rightarrow> address \<Rightarrow> address \<Rightarrow> address \<Rightarrow> i128 \<Rightarrow> 'l option"
  tok_transfer_from ::
    "'l \<Rightarrow> address \<Rightarrow> address \<Rightarrow> address \<Rightarrow> address \<Rightarrow> i128 \<Rightarrow> 'l option"
  tok_approve :: "'l \<Rightarrow> address \<Rightarrow> address \<Rightarrow> address \<Rightarrow> i128 \<Rightarrow> u32 \<Rightarrow> 'l option"
  tok_balance :: "'l \<Rightarrow> address \<Rightarrow> address \<Rightarrow> i128"
  wasm_installed :: "bytes32 \<Rightarrow> bool"
  lastprice :: "address \<Rightarrow> address \<Rightarrow> address \<Rightarrow> (i128 \<times> u64) option"
  to_xdr :: "address \<Rightarrow> 8 word list"
  sha256 :: "8 word list \<Rightarrow> bytes32"
  min_temp_ttl :: u32

definition require_auth :: "'l host \<Rightarrow> address \<Rightarrow> ('p, unit) outcome" where
  "require_auth h a = (if authorized h a then Inr () else Inl Unauthorized)"

lemma require_auth_Inr [ok_simps]: "require_auth h a = Inr u \<longleftrightarrow> authorized h a"
  by (simp add: require_auth_def)

section \<open>Temporary storage\<close>

text \<open>
  A temporary entry carries the last ledger it lives in and is gone after it.  Writing a new
  entry gives it the network's minimum time to live, rewriting a live one keeps its time to
  live, and \<open>extend_ttl\<close> extends an entry that has less than the threshold left.
\<close>

type_synonym ('k, 'v) temporary = "'k \<rightharpoonup> 'v \<times> u32"

definition temp_get :: "'l host \<Rightarrow> 'k \<Rightarrow> ('k, 'v) temporary \<Rightarrow> 'v option" where
  "temp_get h k m = (case m k of
      None \<Rightarrow> None
    | Some (v, live_until) \<Rightarrow> if sequence h \<le> live_until then Some v else None)"

definition temp_set :: "'l host \<Rightarrow> 'k \<Rightarrow> 'v \<Rightarrow> ('k, 'v) temporary \<Rightarrow> ('k, 'v) temporary" where
  "temp_set h k v m =
     (let fresh = m(k \<mapsto> (v, sequence h + min_temp_ttl h - 1)) in
      case m k of
        None \<Rightarrow> fresh
      | Some (_, live_until) \<Rightarrow> if sequence h \<le> live_until then m(k \<mapsto> (v, live_until)) else fresh)"

definition temp_extend_ttl ::
  "'l host \<Rightarrow> 'k \<Rightarrow> u32 \<Rightarrow> u32 \<Rightarrow> ('k, 'v) temporary \<Rightarrow> ('k, 'v) temporary" where
  "temp_extend_ttl h k threshold extend_to m = (case m k of
      None \<Rightarrow> m
    | Some (v, live_until) \<Rightarrow>
        if live_until - sequence h < threshold then m(k \<mapsto> (v, sequence h + extend_to)) else m)"

lemma temp_get_other [simp]:
  "j \<noteq> k \<Longrightarrow> temp_get h j (temp_set h' k v m) = temp_get h j m"
  "j \<noteq> k \<Longrightarrow> temp_get h j (temp_extend_ttl h' k n e m) = temp_get h j m"
  by (auto simp: temp_get_def temp_set_def temp_extend_ttl_def Let_def split: option.splits)

section \<open>The storage the contracts share\<close>

record ('l, 'ev) contract =
  ledger :: 'l
  events :: "'ev list"
  admin :: "address option"
  contract_version :: "u32 option"
  migration_completed :: "u32 \<rightharpoonup> bool"
  paused :: "bool option"
  pause_reason :: "string option"

text \<open>\<open>env.events().publish\<close> appends to the transaction's event log.\<close>

definition publish :: "'ev \<Rightarrow> ('l, 'ev, 'z) contract_scheme \<Rightarrow> ('l, 'ev, 'z) contract_scheme" where
  "publish ev st = st\<lparr>events := events st @ [ev]\<rparr>"

lemma publish_fields [simp]:
  "ledger (publish ev st) = ledger st"
  "events (publish ev st) = events st @ [ev]"
  "admin (publish ev st) = admin st"
  "contract_version (publish ev st) = contract_version st"
  "migration_completed (publish ev st) = migration_completed st"
  "paused (publish ev st) = paused st"
  "pause_reason (publish ev st) = pause_reason st"
  by (simp_all add: publish_def)

text \<open>The three token-client calls.  An aborting token call aborts the caller.\<close>

definition token_transfer ::
  "'l host \<Rightarrow> address \<Rightarrow> address \<Rightarrow> address \<Rightarrow> i128 \<Rightarrow> ('l, 'ev, 'z) contract_scheme \<Rightarrow>
   ('p, ('l, 'ev, 'z) contract_scheme) outcome" where
  "token_transfer h tk src dst amt st =
     (case tok_transfer h (ledger st) tk src dst amt of
        None \<Rightarrow> Inl TokenFailure
      | Some l \<Rightarrow> Inr (st\<lparr>ledger := l\<rparr>))"

definition token_transfer_from ::
  "'l host \<Rightarrow> address \<Rightarrow> address \<Rightarrow> address \<Rightarrow> address \<Rightarrow> i128 \<Rightarrow>
   ('l, 'ev, 'z) contract_scheme \<Rightarrow> ('p, ('l, 'ev, 'z) contract_scheme) outcome" where
  "token_transfer_from h tk spender src dst amt st =
     (case tok_transfer_from h (ledger st) tk spender src dst amt of
        None \<Rightarrow> Inl TokenFailure
      | Some l \<Rightarrow> Inr (st\<lparr>ledger := l\<rparr>))"

definition token_approve ::
  "'l host \<Rightarrow> address \<Rightarrow> address \<Rightarrow> address \<Rightarrow> i128 \<Rightarrow> u32 \<Rightarrow>
   ('l, 'ev, 'z) contract_scheme \<Rightarrow> ('p, ('l, 'ev, 'z) contract_scheme) outcome" where
  "token_approve h tk src spender amt expiration st =
     (case tok_approve h (ledger st) tk src spender amt expiration of
        None \<Rightarrow> Inl TokenFailure
      | Some l \<Rightarrow> Inr (st\<lparr>ledger := l\<rparr>))"

lemma token_calls_Inr [ok_simps]:
  "token_transfer h tk src dst amt st = Inr st' \<longleftrightarrow>
     (\<exists>l. tok_transfer h (ledger st) tk src dst amt = Some l \<and> st' = st\<lparr>ledger := l\<rparr>)"
  "token_transfer_from h tk spender src dst amt st = Inr st' \<longleftrightarrow>
     (\<exists>l. tok_transfer_from h (ledger st) tk spender src dst amt = Some l \<and> st' = st\<lparr>ledger := l\<rparr>)"
  "token_approve h tk src spender amt ex st = Inr st' \<longleftrightarrow>
     (\<exists>l. tok_approve h (ledger st) tk src spender amt ex = Some l \<and> st' = st\<lparr>ledger := l\<rparr>)"
  by (auto simp: token_transfer_def token_transfer_from_def token_approve_def split: option.splits)

section \<open>The documented behaviour of a SEP-41 token\<close>

record 'l view =
  balance :: "'l \<Rightarrow> address \<Rightarrow> address \<Rightarrow> int"
  allowance :: "'l \<Rightarrow> address \<Rightarrow> address \<Rightarrow> address \<Rightarrow> int"

definition moves ::
  "'l view \<Rightarrow> 'l \<Rightarrow> 'l \<Rightarrow> address \<Rightarrow> address \<Rightarrow> address \<Rightarrow> int \<Rightarrow> bool" where
  "moves V l l' tk src dst amt \<longleftrightarrow>
     0 \<le> amt \<and> amt \<le> balance V l tk src \<and>
     (\<forall>t a. balance V l' t a =
        balance V l t a
        - (if t = tk \<and> a = src then amt else 0) + (if t = tk \<and> a = dst then amt else 0))"

definition token_laws :: "'l view \<Rightarrow> 'l host \<Rightarrow> bool" where
  "token_laws V h \<longleftrightarrow>
     (\<forall>l tk src dst amt l'. tok_transfer h l tk src dst amt = Some l' \<longrightarrow>
        moves V l l' tk src dst amt \<and> allowance V l' = allowance V l) \<and>
     (\<forall>l tk spender src dst amt l'. tok_transfer_from h l tk spender src dst amt = Some l' \<longrightarrow>
        moves V l l' tk src dst amt \<and> amt \<le> allowance V l tk src spender \<and>
        allowance V l' = (allowance V l)(tk := (allowance V l tk)(src :=
          (allowance V l tk src)(spender := allowance V l tk src spender - amt)))) \<and>
     (\<forall>l tk src spender amt ex l'. tok_approve h l tk src spender amt ex = Some l' \<longrightarrow>
        balance V l' = balance V l \<and>
        allowance V l' = (allowance V l)(tk := (allowance V l tk)(src :=
          (allowance V l tk src)(spender := amt))))"

text \<open>\<open>balance\<close> reads what the ledger holds.\<close>

definition balance_law :: "'l view \<Rightarrow> 'l host \<Rightarrow> bool" where
  "balance_law V h \<longleftrightarrow> tok_balance h = balance V"

lemma token_laws_transfer:
  "token_laws V h \<Longrightarrow> tok_transfer h l tk src dst amt = Some l' \<Longrightarrow>
     moves V l l' tk src dst amt \<and> allowance V l' = allowance V l"
  by (simp add: token_laws_def)

lemma token_laws_transfer_from:
  "token_laws V h \<Longrightarrow> tok_transfer_from h l tk spender src dst amt = Some l' \<Longrightarrow>
     moves V l l' tk src dst amt \<and> amt \<le> allowance V l tk src spender \<and>
     allowance V l' = (allowance V l)(tk := (allowance V l tk)(src :=
       (allowance V l tk src)(spender := allowance V l tk src spender - amt)))"
  unfolding token_laws_def by blast

lemma token_laws_approve:
  "token_laws V h \<Longrightarrow> tok_approve h l tk src spender amt ex = Some l' \<Longrightarrow>
     balance V l' = balance V l \<and>
     allowance V l' = (allowance V l)(tk := (allowance V l tk)(src :=
       (allowance V l tk src)(spender := amt)))"
  unfolding token_laws_def by blast

lemma moves_balance:
  "moves V l l' tk src dst amt \<Longrightarrow> balance V l' t a =
     balance V l t a - (if t = tk \<and> a = src then amt else 0) + (if t = tk \<and> a = dst then amt else 0)"
  by (simp add: moves_def)

section \<open>Transactions and reachable states\<close>

text \<open>
  A contract is a set of entry points \<open>exec h op\<close>.  A failing call leaves the state alone.
  Between calls other transactions may run: \<open>drift\<close> says what they may do to the ledger.
\<close>

inductive reachable ::
  "('h \<Rightarrow> 'op \<Rightarrow> 's \<Rightarrow> ('p, 's) outcome) \<Rightarrow> ('h \<Rightarrow> bool) \<Rightarrow> ('s \<Rightarrow> 's \<Rightarrow> bool) \<Rightarrow>
   ('s \<Rightarrow> bool) \<Rightarrow> 's \<Rightarrow> bool"
  for exec legal drift init where
  start: "init s \<Longrightarrow> reachable exec legal drift init s"
| call: "reachable exec legal drift init s \<Longrightarrow> legal h \<Longrightarrow> exec h op s = Inr s' \<Longrightarrow>
     reachable exec legal drift init s'"
| other: "reachable exec legal drift init s \<Longrightarrow> drift s s' \<Longrightarrow>
     reachable exec legal drift init s'"

definition call_tx :: "('h \<Rightarrow> 'op \<Rightarrow> 's \<Rightarrow> ('p, 's) outcome) \<Rightarrow> 'h \<times> 'op \<Rightarrow> 's \<Rightarrow> 's" where
  "call_tx exec c s = (case exec (fst c) (snd c) s of Inl _ \<Rightarrow> s | Inr s' \<Rightarrow> s')"

fun run_calls :: "('h \<Rightarrow> 'op \<Rightarrow> 's \<Rightarrow> ('p, 's) outcome) \<Rightarrow> ('h \<times> 'op) list \<Rightarrow> 's \<Rightarrow> 's" where
  "run_calls exec [] s = s"
| "run_calls exec (c # cs) s = run_calls exec cs (call_tx exec c s)"

lemma run_calls_reachable:
  "reachable exec legal drift init s \<Longrightarrow> \<forall>c \<in> set cs. legal (fst c) \<Longrightarrow>
     reachable exec legal drift init (run_calls exec cs s)"
proof (induction cs arbitrary: s)
  case Nil
  then show ?case by simp
next
  case (Cons c cs)
  have "reachable exec legal drift init (call_tx exec c s)"
  proof (cases "exec (fst c) (snd c) s")
    case (Inl e)
    with Cons.prems show ?thesis by (simp add: call_tx_def)
  next
    case (Inr s')
    with Cons.prems show ?thesis by (auto simp: call_tx_def intro: reachable.call)
  qed
  with Cons show ?case by simp
qed

locale contract_machine =
  fixes exec :: "'h \<Rightarrow> 'op \<Rightarrow> 's \<Rightarrow> ('p, 's) outcome"
    and legal :: "'h \<Rightarrow> bool"
    and drift :: "'s \<Rightarrow> 's \<Rightarrow> bool"
    and init :: "'s \<Rightarrow> bool"
    and inv :: "'s \<Rightarrow> bool"
  assumes inv_init: "init s \<Longrightarrow> inv s"
    and inv_exec: "legal h \<Longrightarrow> exec h op s = Inr s' \<Longrightarrow> inv s \<Longrightarrow> inv s'"
    and inv_drift: "drift s s' \<Longrightarrow> inv s \<Longrightarrow> inv s'"
begin

lemma reachable_inv: "reachable exec legal drift init s \<Longrightarrow> inv s"
  by (induction rule: reachable.induct) (auto intro: inv_init inv_exec inv_drift)

lemma run_calls_inv: "inv s \<Longrightarrow> \<forall>c \<in> set cs. legal (fst c) \<Longrightarrow> inv (run_calls exec cs s)"
  by (induction cs arbitrary: s) (auto simp: call_tx_def inv_exec split: sum.splits)

end

section \<open>Interfaces the contracts share\<close>

text \<open>The emergency stop: what \<open>pause_contract\<close> and \<open>resume_contract\<close> promise.\<close>

locale pausable =
  fixes is_paused :: "'s \<Rightarrow> bool"
    and reason :: "'s \<Rightarrow> string"
    and pause :: "'h \<Rightarrow> address \<Rightarrow> string \<Rightarrow> 's \<Rightarrow> ('p, 's) outcome"
    and resume :: "'h \<Rightarrow> address \<Rightarrow> 's \<Rightarrow> ('p, 's) outcome"
  assumes pause_ok: "pause h a r s = Inr s' \<Longrightarrow> \<not> is_paused s \<and> is_paused s' \<and> reason s' = r"
    and resume_ok: "resume h a s = Inr s' \<Longrightarrow> is_paused s \<and> \<not> is_paused s' \<and> reason s' = []"
begin

lemma pause_twice_fails: "pause h a r s = Inr s' \<Longrightarrow> \<not> succeeds (pause h' a' r' s')"
  by (metis pause_ok succeeds_iff)

lemma resume_twice_fails: "resume h a s = Inr s' \<Longrightarrow> \<not> succeeds (resume h' a' s')"
  by (metis resume_ok succeeds_iff)

end

text \<open>A contract whose guarded entry points all refuse to run while it is paused.\<close>

locale pausable_machine = pausable is_paused reason pause resume
  for is_paused :: "'s \<Rightarrow> bool" and reason :: "'s \<Rightarrow> string"
    and pause :: "'h \<Rightarrow> address \<Rightarrow> string \<Rightarrow> 's \<Rightarrow> ('p, 's) outcome"
    and resume :: "'h \<Rightarrow> address \<Rightarrow> 's \<Rightarrow> ('p, 's) outcome" +
  fixes exec :: "'h \<Rightarrow> 'op \<Rightarrow> 's \<Rightarrow> ('p, 's) outcome"
    and guarded :: "'op \<Rightarrow> bool"
  assumes paused_blocks: "is_paused s \<Longrightarrow> guarded op \<Longrightarrow> \<not> succeeds (exec h op s)"
begin

lemma paused_call_tx: "is_paused s \<Longrightarrow> guarded (snd c) \<Longrightarrow> call_tx exec c s = s"
  using paused_blocks [of s "snd c" "fst c"]
  by (cases "exec (fst c) (snd c) s") (auto simp: call_tx_def)

lemma paused_run: "is_paused s \<Longrightarrow> \<forall>c \<in> set cs. guarded (snd c) \<Longrightarrow> run_calls exec cs s = s"
  by (induction cs) (simp_all add: paused_call_tx)

lemma pause_freezes:
  "pause h a r s = Inr s' \<Longrightarrow> \<forall>c \<in> set cs. guarded (snd c) \<Longrightarrow> run_calls exec cs s' = s'"
  using pause_ok by (auto intro: paused_run)

end

text \<open>Records with ids handed out by a counter.\<close>

locale id_store =
  fixes next_id :: "'s \<Rightarrow> u32"
    and lookup :: "'s \<Rightarrow> u32 \<Rightarrow> 'r option"
    and create :: "'a \<Rightarrow> 's \<Rightarrow> ('p, u32 \<times> 's) outcome"
  assumes create_id: "create a s = Inr (i, s') \<Longrightarrow> i = next_id s \<and> next_id s' = Suc i"
    and create_stored: "create a s = Inr (i, s') \<Longrightarrow> lookup s' i \<noteq> None"
    and create_frame: "create a s = Inr (i, s') \<Longrightarrow> j \<noteq> i \<Longrightarrow> lookup s' j = lookup s j"
begin

text \<open>Ids are dense below the counter and unused above it.\<close>

lemma create_dense:
  assumes "\<forall>j. (lookup s j \<noteq> None) \<longleftrightarrow> j < next_id s" and "create a s = Inr (i, s')"
  shows "\<forall>j. (lookup s' j \<noteq> None) \<longleftrightarrow> j < next_id s'"
proof
  fix j
  have i: "i = next_id s" "next_id s' = Suc i"
    using create_id [OF assms(2)] by simp_all
  show "(lookup s' j \<noteq> None) \<longleftrightarrow> j < next_id s'"
  proof (cases "j = i")
    case True
    then show ?thesis using create_stored [OF assms(2)] i by simp
  next
    case False
    then have "lookup s' j = lookup s j" by (rule create_frame [OF assms(2)])
    moreover have "lookup s j \<noteq> None \<longleftrightarrow> j < next_id s" using assms(1) by blast
    ultimately show ?thesis using i False by (metis less_Suc_eq)
  qed
qed

lemma create_fresh:
  assumes "\<forall>j. lookup s j \<noteq> None \<longrightarrow> j < next_id s" and "create a s = Inr (i, s')"
  shows "lookup s i = None"
  using assms create_id [OF assms(2)] by auto

lemma create_keeps:
  assumes "\<forall>j. lookup s j \<noteq> None \<longrightarrow> j < next_id s" and "create a s = Inr (i, s')"
    and "lookup s j = Some r"
  shows "lookup s' j = Some r"
proof -
  have "lookup s i = None" by (rule create_fresh [OF assms(1,2)])
  then have "j \<noteq> i" using assms(3) by auto
  then show ?thesis using create_frame [OF assms(2)] assms(3) by simp
qed

end

section \<open>A plain token ledger\<close>

text \<open>
  A concrete ledger that satisfies \<open>token_laws\<close>.  No theorem about a contract assumes it; the
  witnesses instantiate the token parameter with it.
\<close>

record plain_ledger =
  pl_bal :: "address \<Rightarrow> address \<Rightarrow> int"
  pl_allow :: "address \<Rightarrow> address \<Rightarrow> address \<Rightarrow> int"

definition plain_view :: "plain_ledger view" where
  "plain_view = \<lparr>balance = pl_bal, allowance = pl_allow\<rparr>"

definition plain_transfer ::
  "plain_ledger \<Rightarrow> address \<Rightarrow> address \<Rightarrow> address \<Rightarrow> i128 \<Rightarrow> plain_ledger option" where
  "plain_transfer l tk src dst amt =
     (if 0 \<le> amt \<and> amt \<le> pl_bal l tk src
      then Some (l\<lparr>pl_bal := \<lambda>t a. pl_bal l t a
             - (if t = tk \<and> a = src then amt else 0) + (if t = tk \<and> a = dst then amt else 0)\<rparr>)
      else None)"

definition plain_transfer_from ::
  "plain_ledger \<Rightarrow> address \<Rightarrow> address \<Rightarrow> address \<Rightarrow> address \<Rightarrow> i128 \<Rightarrow> plain_ledger option" where
  "plain_transfer_from l tk spender src dst amt =
     (if amt \<le> pl_allow l tk src spender
      then map_option
        (\<lambda>l'. l'\<lparr>pl_allow := (pl_allow l)(tk := (pl_allow l tk)(src :=
           (pl_allow l tk src)(spender := pl_allow l tk src spender - amt)))\<rparr>)
        (plain_transfer l tk src dst amt)
      else None)"

definition plain_approve ::
  "plain_ledger \<Rightarrow> address \<Rightarrow> address \<Rightarrow> address \<Rightarrow> i128 \<Rightarrow> u32 \<Rightarrow> plain_ledger option" where
  "plain_approve l tk src spender amt ex =
     (if 0 \<le> amt
      then Some (l\<lparr>pl_allow := (pl_allow l)(tk := (pl_allow l tk)(src :=
             (pl_allow l tk src)(spender := amt)))\<rparr>)
      else None)"

definition demo_host :: "u64 \<Rightarrow> u32 \<Rightarrow> address list \<Rightarrow> plain_ledger host" where
  "demo_host now seq signers =
     \<lparr>timestamp = now, sequence = seq, self_address = Contract 0,
      authorized = (\<lambda>a. a \<in> set signers),
      tok_transfer = plain_transfer, tok_transfer_from = plain_transfer_from,
      tok_approve = plain_approve, tok_balance = pl_bal, wasm_installed = (\<lambda>_. True),
      lastprice = (\<lambda>_ _ _. None), to_xdr = (\<lambda>_. []), sha256 = (\<lambda>b. b),
      min_temp_ttl = 16\<rparr>"

lemmas demo_defs = demo_host_def require_auth_def token_transfer_def token_transfer_from_def
  token_approve_def plain_transfer_def plain_transfer_from_def plain_approve_def

lemma demo_host_simps [simp]:
  "timestamp (demo_host now seq signers) = now"
  "sequence (demo_host now seq signers) = seq"
  "self_address (demo_host now seq signers) = Contract 0"
  "authorized (demo_host now seq signers) a \<longleftrightarrow> a \<in> set signers"
  "tok_transfer (demo_host now seq signers) = plain_transfer"
  "tok_transfer_from (demo_host now seq signers) = plain_transfer_from"
  "tok_approve (demo_host now seq signers) = plain_approve"
  "tok_balance (demo_host now seq signers) = pl_bal"
  by (simp_all add: demo_host_def)

lemma balance_law_demo: "balance_law plain_view (demo_host now seq signers)"
  by (simp add: balance_law_def plain_view_def)

lemma token_laws_demo: "token_laws plain_view (demo_host now seq signers)"
  unfolding token_laws_def moves_def plain_view_def
  by (auto simp: plain_transfer_def plain_transfer_from_def plain_approve_def fun_eq_iff
      split: if_splits)

end
