(* ===== verification/Escrow_Types.thy ===== *)
theory Escrow_Types
  imports Soroban
begin

text \<open>
  Data of the escrow contract (src/contracts/ahjoor-escrow/src): the stored types and
  constants of lib.rs, the storage as one record field per \<open>DataKey\<close>, the panics as an
  enumeration, and the events of events.rs with the functions that publish them.
\<close>

section \<open>Constants\<close>

definition DEADLINE_EXTENSION_PROPOSAL_WINDOW :: u64 where
  "DEADLINE_EXTENSION_PROPOSAL_WINDOW = 24 * 60 * 60"

definition MAX_EVIDENCE_ENTRIES_PER_PARTY :: u32 where
  "MAX_EVIDENCE_ENTRIES_PER_PARTY = 5"

definition DEFAULT_DISPUTE_TIMEOUT_SECONDS :: u64 where
  "DEFAULT_DISPUTE_TIMEOUT_SECONDS = 7 * 24 * 60 * 60"

definition MAX_BATCH_ESCROWS :: u32 where
  "MAX_BATCH_ESCROWS = 10"

definition MAX_PROTOCOL_FEE_BPS :: u32 where
  "MAX_PROTOCOL_FEE_BPS = 200"

lemmas escrow_consts = DEADLINE_EXTENSION_PROPOSAL_WINDOW_def MAX_EVIDENCE_ENTRIES_PER_PARTY_def
  DEFAULT_DISPUTE_TIMEOUT_SECONDS_def MAX_BATCH_ESCROWS_def MAX_PROTOCOL_FEE_BPS_def

section \<open>Stored data\<close>

datatype escrow_status =
    Active | Released | Disputed | Resolved | Refunded | PartiallyReleased | PartiallyDisputed

record escrow =
  e_id :: u32
  e_buyer :: address
  e_seller :: address
  e_arbiter :: address
  e_amount :: i128
  e_token :: address
  e_status :: escrow_status
  e_created_at :: u64
  e_deadline :: u64
  e_metadata_hash :: "bytes32 option"
  e_sellers :: "(address \<times> u32) list"
  e_auto_renew :: bool
  e_renewal_count :: u32
  e_renewals_remaining :: u32
  e_dispute_timeout_seconds :: "u64 option"
  e_buyer_inactivity_release_seconds :: u64

record evidence_submission =
  evidence_hash :: bytes32
  evidence_uri_hash :: bytes32
  submitted_at :: u64

record dispute =
  d_escrow_id :: u32
  d_reason :: string
  d_created_at :: u64
  d_resolved :: bool
  d_dispute_amount :: i128
  d_timeout_seconds :: "u64 option"

record deadline_proposal =
  proposer :: address
  new_deadline :: u64
  proposed_at :: u64

record escrow_template_config =
  tc_arbiter :: address
  tc_token :: address
  tc_deadline_duration :: u64

record escrow_template =
  t_id :: u32
  t_creator :: address
  t_config :: escrow_template_config
  t_active :: bool

record escrow_batch_config =
  b_seller :: address
  b_arbiter :: address
  b_amount :: i128
  b_token :: address
  b_deadline :: u64
  b_metadata_hash :: "bytes32 option"
  b_sellers :: "(address \<times> u32) list"
  b_auto_renew :: bool
  b_renewal_count :: u32

section \<open>Panics\<close>

datatype (plugins only: code size) escrow_panic =
    AlreadyInitialized | BatchEmpty | BatchTooLarge | AmountNotPositive | DeadlineNotInFuture
  | TokenNotAllowed | TooManySellers | AllocationsNotFull | EscrowNotFound | ZeroDisputeTimeout
  | EscrowNotActive | NotBuyerOrArbiter | NotBuyerOrSeller | MaxEvidence | OnlyBuyer
  | AutoRenewDisabled | ReleaseNotPositive | ReleaseExceedsBalance | BadDisputeAmount
  | NotDisputed | OnlyArbiter | FeeRecipientNotSet | DisputeNotFound | TimeoutNotPositive
  | FeeTooHigh | NotExpired | CannotExtendDeadline | DeadlineNotLater | NoProposal
  | ProposerCannotAccept | ProposalExpired | SameBuyer | TransferNotActive | NotInitialized
  | OnlyAdmin | VersionOverflow | MigrationDone | AlreadyPaused | NotPaused | IsPaused
  | DurationNotPositive | TemplateNotFound | TemplateDeactivated | PoolEmpty | ArbiterInPool
  | ArbiterNotInPool | NotTemplateCreator | InactivityDisabled | OnlySeller | WindowNotElapsed
  | InsufficientRenewalAllowance | RenewalDurationNotPositive

section \<open>Events\<close>

datatype (plugins only: code size) escrow_event =
    EscrowCreated u32 address address address i128 address u64
  | BatchEscrowCreated u32 u32 u32
  | EscrowReleased u32 address i128
  | PartialReleased u32 i128 i128
  | EscrowDisputed u32 address string
  | PartialDisputeRaised u32 i128 i128
  | DisputeResolved u32 bool address
  | DisputeEscalated u32 u64
  | EscrowProtocolFeePaid u32 i128 address
  | EscrowRefunded u32 address i128
  | ContractUpgraded u32 u32 address
  | DeadlineExtensionProposed u32 address u64 u64
  | DeadlineExtended u32 u64 u64
  | ContractPaused address string u64
  | ContractResumed address u64
  | TokenAllowlisted address address
  | TokenRemovedFromAllowlist address address
  | ArbiterPoolUpdated address bool
  | ArbiterAssigned u32 address
  | EvidenceSubmitted u32 address bytes32
  | EscrowAutoRenewed u32 u32 u32
  | BuyerRoleTransferred u32 address address
  | EscrowTemplateCreated u32 address
  | EscrowTemplateUpdated u32 address
  | EscrowTemplateDeactivated u32 address
  | EscrowCreatedFromTemplate u32 u32
  | EscrowMetadataUpdated u32 bytes32 address
  | MultiPartyEscrowCreated u32 u32
  | MultiPartyEscrowReleased u32 i128
  | InactivityReleaseTriggered u32 address u64

section \<open>Storage\<close>

text \<open>One field per \<open>DataKey\<close> beyond those every contract has.\<close>

record 'l escrow_state = "('l, escrow_event) contract" +
  escrow_counter :: "u32 option"
  escrows :: "u32 \<rightharpoonup> escrow"
  disputes :: "u32 \<rightharpoonup> dispute"
  deadline_proposals :: "u32 \<rightharpoonup> deadline_proposal"
  allowed_token :: "address \<rightharpoonup> bool"
  protocol_fee_bps :: "u32 option"
  fee_recipient :: "address option"
  template_counter :: "u32 option"
  templates :: "u32 \<rightharpoonup> escrow_template"
  arbiter_pool :: "address list option"
  next_arbiter_index :: "u32 option"
  arbiter_needs_replacement :: "u32 \<rightharpoonup> bool"
  escrow_metadata :: "u32 \<rightharpoonup> bytes32 \<times> u64"
  evidence :: "u32 \<times> address \<rightharpoonup> evidence_submission list"
  renewal_allowance :: "u32 \<rightharpoonup> u32"
  default_dispute_timeout :: "u64 option"
  last_buyer_action :: "u32 \<rightharpoonup> u64"

text \<open>A freshly deployed contract has no storage entries.\<close>

definition deployed_escrow :: "'l \<Rightarrow> 'l escrow_state" where
  "deployed_escrow l =
     \<lparr>ledger = l, events = [], admin = None, contract_version = None,
      migration_completed = Map.empty, paused = None, pause_reason = None,
      escrow_counter = None, escrows = Map.empty, disputes = Map.empty,
      deadline_proposals = Map.empty, allowed_token = Map.empty, protocol_fee_bps = None,
      fee_recipient = None, template_counter = None, templates = Map.empty,
      arbiter_pool = None, next_arbiter_index = None, arbiter_needs_replacement = Map.empty,
      escrow_metadata = Map.empty, evidence = Map.empty, renewal_allowance = Map.empty,
      default_dispute_timeout = None, last_buyer_action = Map.empty\<rparr>"

section \<open>Publishing events\<close>

definition emit_escrow_created ::
  "u32 \<Rightarrow> address \<Rightarrow> address \<Rightarrow> address \<Rightarrow> i128 \<Rightarrow> address \<Rightarrow> u64 \<Rightarrow>
   'l escrow_state \<Rightarrow> 'l escrow_state" where
  "emit_escrow_created escrow_id buyer seller arbiter amount token deadline =
     publish (EscrowCreated escrow_id buyer seller arbiter amount token deadline)"

definition emit_batch_escrow_created ::
  "u32 \<Rightarrow> u32 \<Rightarrow> u32 \<Rightarrow> 'l escrow_state \<Rightarrow> 'l escrow_state" where
  "emit_batch_escrow_created count first_id last_id = publish (BatchEscrowCreated count first_id last_id)"

definition emit_escrow_released :: "u32 \<Rightarrow> address \<Rightarrow> i128 \<Rightarrow> 'l escrow_state \<Rightarrow> 'l escrow_state" where
  "emit_escrow_released escrow_id seller amount = publish (EscrowReleased escrow_id seller amount)"

definition emit_partial_released :: "u32 \<Rightarrow> i128 \<Rightarrow> i128 \<Rightarrow> 'l escrow_state \<Rightarrow> 'l escrow_state" where
  "emit_partial_released escrow_id released_amount remaining_amount =
     publish (PartialReleased escrow_id released_amount remaining_amount)"

definition emit_escrow_disputed :: "u32 \<Rightarrow> address \<Rightarrow> string \<Rightarrow> 'l escrow_state \<Rightarrow> 'l escrow_state" where
  "emit_escrow_disputed escrow_id disputer reason = publish (EscrowDisputed escrow_id disputer reason)"

definition emit_partial_dispute_raised ::
  "u32 \<Rightarrow> i128 \<Rightarrow> i128 \<Rightarrow> 'l escrow_state \<Rightarrow> 'l escrow_state" where
  "emit_partial_dispute_raised escrow_id dispute_amount released_amount =
     publish (PartialDisputeRaised escrow_id dispute_amount released_amount)"

definition escrow_emit_dispute_resolved ::
  "u32 \<Rightarrow> bool \<Rightarrow> address \<Rightarrow> 'l escrow_state \<Rightarrow> 'l escrow_state" where
  "escrow_emit_dispute_resolved escrow_id release_to_seller resolved_by =
     publish (DisputeResolved escrow_id release_to_seller resolved_by)"

definition escrow_emit_dispute_escalated :: "u32 \<Rightarrow> u64 \<Rightarrow> 'l escrow_state \<Rightarrow> 'l escrow_state" where
  "escrow_emit_dispute_escalated escrow_id timeout = publish (DisputeEscalated escrow_id timeout)"

definition emit_protocol_fee_paid :: "u32 \<Rightarrow> i128 \<Rightarrow> address \<Rightarrow> 'l escrow_state \<Rightarrow> 'l escrow_state" where
  "emit_protocol_fee_paid escrow_id fee_amount recipient =
     publish (EscrowProtocolFeePaid escrow_id fee_amount recipient)"

definition emit_escrow_refunded :: "u32 \<Rightarrow> address \<Rightarrow> i128 \<Rightarrow> 'l escrow_state \<Rightarrow> 'l escrow_state" where
  "emit_escrow_refunded escrow_id buyer amount = publish (EscrowRefunded escrow_id buyer amount)"

definition escrow_emit_contract_upgraded ::
  "u32 \<Rightarrow> u32 \<Rightarrow> address \<Rightarrow> 'l escrow_state \<Rightarrow> 'l escrow_state" where
  "escrow_emit_contract_upgraded old_version new_version by_admin =
     publish (ContractUpgraded old_version new_version by_admin)"

definition emit_deadline_extension_proposed ::
  "u32 \<Rightarrow> address \<Rightarrow> u64 \<Rightarrow> u64 \<Rightarrow> 'l escrow_state \<Rightarrow> 'l escrow_state" where
  "emit_deadline_extension_proposed escrow_id who deadline at =
     publish (DeadlineExtensionProposed escrow_id who deadline at)"

definition escrow_emit_contract_paused ::
  "address \<Rightarrow> string \<Rightarrow> u64 \<Rightarrow> 'l escrow_state \<Rightarrow> 'l escrow_state" where
  "escrow_emit_contract_paused adm reason now = publish (ContractPaused adm reason now)"

definition emit_deadline_extended :: "u32 \<Rightarrow> u64 \<Rightarrow> u64 \<Rightarrow> 'l escrow_state \<Rightarrow> 'l escrow_state" where
  "emit_deadline_extended escrow_id old_deadline deadline =
     publish (DeadlineExtended escrow_id old_deadline deadline)"

definition escrow_emit_contract_resumed :: "address \<Rightarrow> u64 \<Rightarrow> 'l escrow_state \<Rightarrow> 'l escrow_state" where
  "escrow_emit_contract_resumed adm now = publish (ContractResumed adm now)"

definition emit_token_allowlisted :: "address \<Rightarrow> address \<Rightarrow> 'l escrow_state \<Rightarrow> 'l escrow_state" where
  "emit_token_allowlisted adm token = publish (TokenAllowlisted adm token)"

definition emit_token_removed_from_allowlist ::
  "address \<Rightarrow> address \<Rightarrow> 'l escrow_state \<Rightarrow> 'l escrow_state" where
  "emit_token_removed_from_allowlist adm token = publish (TokenRemovedFromAllowlist adm token)"

definition emit_escrow_template_created :: "u32 \<Rightarrow> address \<Rightarrow> 'l escrow_state \<Rightarrow> 'l escrow_state" where
  "emit_escrow_template_created template_id creator = publish (EscrowTemplateCreated template_id creator)"

definition emit_escrow_template_updated :: "u32 \<Rightarrow> address \<Rightarrow> 'l escrow_state \<Rightarrow> 'l escrow_state" where
  "emit_escrow_template_updated template_id creator = publish (EscrowTemplateUpdated template_id creator)"

definition emit_escrow_template_deactivated ::
  "u32 \<Rightarrow> address \<Rightarrow> 'l escrow_state \<Rightarrow> 'l escrow_state" where
  "emit_escrow_template_deactivated template_id creator =
     publish (EscrowTemplateDeactivated template_id creator)"

definition emit_escrow_created_from_template :: "u32 \<Rightarrow> u32 \<Rightarrow> 'l escrow_state \<Rightarrow> 'l escrow_state" where
  "emit_escrow_created_from_template escrow_id template_id =
     publish (EscrowCreatedFromTemplate escrow_id template_id)"

definition emit_arbiter_pool_updated :: "address \<Rightarrow> bool \<Rightarrow> 'l escrow_state \<Rightarrow> 'l escrow_state" where
  "emit_arbiter_pool_updated arbiter added = publish (ArbiterPoolUpdated arbiter added)"

definition emit_arbiter_assigned :: "u32 \<Rightarrow> address \<Rightarrow> 'l escrow_state \<Rightarrow> 'l escrow_state" where
  "emit_arbiter_assigned escrow_id arbiter = publish (ArbiterAssigned escrow_id arbiter)"

definition emit_evidence_submitted :: "u32 \<Rightarrow> address \<Rightarrow> bytes32 \<Rightarrow> 'l escrow_state \<Rightarrow> 'l escrow_state" where
  "emit_evidence_submitted escrow_id party hash = publish (EvidenceSubmitted escrow_id party hash)"

definition emit_escrow_auto_renewed :: "u32 \<Rightarrow> u32 \<Rightarrow> u32 \<Rightarrow> 'l escrow_state \<Rightarrow> 'l escrow_state" where
  "emit_escrow_auto_renewed old_escrow_id new_escrow_id renewals_remaining =
     publish (EscrowAutoRenewed old_escrow_id new_escrow_id renewals_remaining)"

definition emit_buyer_role_transferred ::
  "u32 \<Rightarrow> address \<Rightarrow> address \<Rightarrow> 'l escrow_state \<Rightarrow> 'l escrow_state" where
  "emit_buyer_role_transferred escrow_id old_buyer new_buyer =
     publish (BuyerRoleTransferred escrow_id old_buyer new_buyer)"

definition emit_escrow_metadata_updated ::
  "u32 \<Rightarrow> bytes32 \<Rightarrow> address \<Rightarrow> 'l escrow_state \<Rightarrow> 'l escrow_state" where
  "emit_escrow_metadata_updated escrow_id new_hash updated_by =
     publish (EscrowMetadataUpdated escrow_id new_hash updated_by)"

definition emit_multi_party_escrow_created :: "u32 \<Rightarrow> u32 \<Rightarrow> 'l escrow_state \<Rightarrow> 'l escrow_state" where
  "emit_multi_party_escrow_created escrow_id sellers_count =
     publish (MultiPartyEscrowCreated escrow_id sellers_count)"

definition emit_multi_party_escrow_released :: "u32 \<Rightarrow> i128 \<Rightarrow> 'l escrow_state \<Rightarrow> 'l escrow_state" where
  "emit_multi_party_escrow_released escrow_id total_amount =
     publish (MultiPartyEscrowReleased escrow_id total_amount)"

definition emit_inactivity_release_triggered ::
  "u32 \<Rightarrow> address \<Rightarrow> u64 \<Rightarrow> 'l escrow_state \<Rightarrow> 'l escrow_state" where
  "emit_inactivity_release_triggered escrow_id seller inactivity_seconds =
     publish (InactivityReleaseTriggered escrow_id seller inactivity_seconds)"

lemmas escrow_emit_defs = emit_escrow_created_def emit_batch_escrow_created_def
  emit_escrow_released_def emit_partial_released_def emit_escrow_disputed_def
  emit_partial_dispute_raised_def escrow_emit_dispute_resolved_def
  escrow_emit_dispute_escalated_def emit_protocol_fee_paid_def emit_escrow_refunded_def
  escrow_emit_contract_upgraded_def emit_deadline_extension_proposed_def
  escrow_emit_contract_paused_def emit_deadline_extended_def escrow_emit_contract_resumed_def
  emit_token_allowlisted_def emit_token_removed_from_allowlist_def
  emit_escrow_template_created_def emit_escrow_template_updated_def
  emit_escrow_template_deactivated_def emit_escrow_created_from_template_def
  emit_arbiter_pool_updated_def emit_arbiter_assigned_def emit_evidence_submitted_def
  emit_escrow_auto_renewed_def emit_buyer_role_transferred_def emit_escrow_metadata_updated_def
  emit_multi_party_escrow_created_def emit_multi_party_escrow_released_def
  emit_inactivity_release_triggered_def

text \<open>Publishing an event writes the event log and nothing else.\<close>

lemma publish_escrow_fields [simp]:
  "escrow_counter (publish ev st) = escrow_counter st"
  "escrows (publish ev st) = escrows st"
  "disputes (publish ev st) = disputes st"
  "deadline_proposals (publish ev st) = deadline_proposals st"
  "allowed_token (publish ev st) = allowed_token st"
  "protocol_fee_bps (publish ev st) = protocol_fee_bps st"
  "fee_recipient (publish ev st) = fee_recipient st"
  "template_counter (publish ev st) = template_counter st"
  "templates (publish ev st) = templates st"
  "arbiter_pool (publish ev st) = arbiter_pool st"
  "next_arbiter_index (publish ev st) = next_arbiter_index st"
  "arbiter_needs_replacement (publish ev st) = arbiter_needs_replacement st"
  "escrow_metadata (publish ev st) = escrow_metadata st"
  "evidence (publish ev st) = evidence st"
  "renewal_allowance (publish ev st) = renewal_allowance st"
  "default_dispute_timeout (publish ev st) = default_dispute_timeout st"
  "last_buyer_action (publish ev st) = last_buyer_action st"
  by (simp_all add: publish_def)

end
