(* ===== verification/Escrow_Admin.thy ===== *)
theory Escrow_Admin
  imports Escrow_Types
begin

text \<open>
  Administration of the escrow contract (lib.rs): the internal guards, initialisation,
  upgrade and migration, the emergency stop, the token allowlist, the protocol fee and
  dispute-timeout settings, the arbiter pool and the escrow templates.
\<close>

section \<open>Internal helpers\<close>

definition escrow_is_paused :: "'l escrow_state \<Rightarrow> bool" where
  "escrow_is_paused st = unwrap_or False (paused st)"

definition escrow_require_not_paused :: "'l escrow_state \<Rightarrow> (escrow_panic, unit) outcome" where
  "escrow_require_not_paused st =
     (if unwrap_or False (paused st) then Inl (Panic IsPaused) else Inr ())"

definition escrow_require_admin ::
  "'l host \<Rightarrow> address \<Rightarrow> 'l escrow_state \<Rightarrow> (escrow_panic, unit) outcome" where
  "escrow_require_admin h adm st =
     and_then (require_auth h adm) (\<lambda>_.
     and_then (expect NotInitialized (admin st)) (\<lambda>stored_admin.
     if stored_admin \<noteq> adm then Inl (Panic OnlyAdmin) else Inr ()))"

text \<open>The first caller of \<open>pause_contract\<close> becomes admin when none is stored.\<close>

definition require_or_bootstrap_admin ::
  "'l host \<Rightarrow> address \<Rightarrow> 'l escrow_state \<Rightarrow> (escrow_panic, 'l escrow_state) outcome" where
  "require_or_bootstrap_admin h adm st =
     and_then (require_auth h adm) (\<lambda>_.
     case admin st of
       Some stored_admin \<Rightarrow>
         if stored_admin \<noteq> adm then Inl (Panic OnlyAdmin) else Inr st
     | None \<Rightarrow> Inr (st\<lparr>admin := Some adm\<rparr>))"

definition is_open_escrow_status :: "escrow_status \<Rightarrow> bool" where
  "is_open_escrow_status s = (case s of Active \<Rightarrow> True | PartiallyReleased \<Rightarrow> True | _ \<Rightarrow> False)"

definition is_terminal_escrow_status :: "escrow_status \<Rightarrow> bool" where
  "is_terminal_escrow_status s =
     (case s of Released \<Rightarrow> True | Resolved \<Rightarrow> True | Refunded \<Rightarrow> True | _ \<Rightarrow> False)"

definition escrow_get_or_init_version :: "'l escrow_state \<Rightarrow> u32 \<times> 'l escrow_state" where
  "escrow_get_or_init_version st =
     (case contract_version st of
        Some version \<Rightarrow> (version, st)
      | None \<Rightarrow> (1, st\<lparr>contract_version := Some 1\<rparr>))"

lemma guards_Inr [ok_simps]:
  "escrow_require_not_paused st = Inr u \<longleftrightarrow> \<not> escrow_is_paused st"
  "escrow_require_admin h adm st = Inr v \<longleftrightarrow> authorized h adm \<and> admin st = Some adm"
  by (auto simp: escrow_require_not_paused_def escrow_is_paused_def escrow_require_admin_def ok_simps)

section \<open>Lifecycle of the contract\<close>

definition escrow_initialize ::
  "address \<Rightarrow> 'l escrow_state \<Rightarrow> (escrow_panic, 'l escrow_state) outcome" where
  "escrow_initialize adm st =
     (if admin st \<noteq> None then Inl (Panic AlreadyInitialized)
      else Inr (st\<lparr>admin := Some adm, contract_version := Some 1,
                   default_dispute_timeout := Some DEFAULT_DISPUTE_TIMEOUT_SECONDS\<rparr>))"

definition escrow_upgrade ::
  "'l host \<Rightarrow> address \<Rightarrow> bytes32 \<Rightarrow> 'l escrow_state \<Rightarrow> (escrow_panic, 'l escrow_state) outcome" where
  "escrow_upgrade h adm new_wasm_hash st =
     and_then (require_auth h adm) (\<lambda>_.
     and_then (expect NotInitialized (admin st)) (\<lambda>stored_admin.
     if adm \<noteq> stored_admin then Inl (Panic OnlyAdmin)
     else let (old_version, st) = escrow_get_or_init_version st in
       if \<not> wasm_installed h new_wasm_hash then Inl HostFailure
       else if \<not> old_version + 1 < 2 ^ 32 then Inl (Panic VersionOverflow)
       else let new_version = old_version + 1 in
         Inr (escrow_emit_contract_upgraded old_version new_version adm
           (st\<lparr>contract_version := Some new_version\<rparr>))))"

definition escrow_migrate ::
  "'l host \<Rightarrow> address \<Rightarrow> 'l escrow_state \<Rightarrow> (escrow_panic, 'l escrow_state) outcome" where
  "escrow_migrate h adm st =
     and_then (require_auth h adm) (\<lambda>_.
     and_then (expect NotInitialized (admin st)) (\<lambda>stored_admin.
     if adm \<noteq> stored_admin then Inl (Panic OnlyAdmin)
     else let (version, st) = escrow_get_or_init_version st in
       if unwrap_or False (migration_completed st version) then Inl (Panic MigrationDone)
       else Inr (st\<lparr>migration_completed := (migration_completed st)(version \<mapsto> True)\<rparr>)))"

definition escrow_get_version :: "'l escrow_state \<Rightarrow> u32 \<times> 'l escrow_state" where
  "escrow_get_version st = escrow_get_or_init_version st"

definition escrow_pause_contract ::
  "'l host \<Rightarrow> address \<Rightarrow> string \<Rightarrow> 'l escrow_state \<Rightarrow> (escrow_panic, 'l escrow_state) outcome" where
  "escrow_pause_contract h adm reason st =
     and_then (require_or_bootstrap_admin h adm st) (\<lambda>st.
     if escrow_is_paused st then Inl (Panic AlreadyPaused)
     else Inr (escrow_emit_contract_paused adm reason (timestamp h)
            (st\<lparr>paused := Some True, pause_reason := Some reason\<rparr>)))"

definition escrow_resume_contract ::
  "'l host \<Rightarrow> address \<Rightarrow> 'l escrow_state \<Rightarrow> (escrow_panic, 'l escrow_state) outcome" where
  "escrow_resume_contract h adm st =
     and_then (escrow_require_admin h adm st) (\<lambda>_.
     if \<not> escrow_is_paused st then Inl (Panic NotPaused)
     else Inr (escrow_emit_contract_resumed adm (timestamp h)
            (st\<lparr>paused := Some False, pause_reason := None\<rparr>)))"

definition escrow_get_pause_reason :: "'l escrow_state \<Rightarrow> string" where
  "escrow_get_pause_reason st = unwrap_or [] (pause_reason st)"

section \<open>Settings\<close>

definition update_default_dispute_timeout ::
  "'l host \<Rightarrow> address \<Rightarrow> u64 \<Rightarrow> 'l escrow_state \<Rightarrow> (escrow_panic, 'l escrow_state) outcome" where
  "update_default_dispute_timeout h adm timeout_seconds st =
     and_then (escrow_require_admin h adm st) (\<lambda>_.
     if timeout_seconds = 0 then Inl (Panic TimeoutNotPositive)
     else Inr (st\<lparr>default_dispute_timeout := Some timeout_seconds\<rparr>))"

definition get_default_dispute_timeout :: "'l escrow_state \<Rightarrow> u64" where
  "get_default_dispute_timeout st =
     unwrap_or DEFAULT_DISPUTE_TIMEOUT_SECONDS (default_dispute_timeout st)"

definition update_protocol_fee ::
  "'l host \<Rightarrow> address \<Rightarrow> u32 \<Rightarrow> address \<Rightarrow> 'l escrow_state \<Rightarrow>
   (escrow_panic, 'l escrow_state) outcome" where
  "update_protocol_fee h adm fee_bps recipient st =
     and_then (escrow_require_admin h adm st) (\<lambda>_.
     if MAX_PROTOCOL_FEE_BPS < fee_bps then Inl (Panic FeeTooHigh)
     else Inr (st\<lparr>protocol_fee_bps := Some fee_bps, fee_recipient := Some recipient\<rparr>))"

definition get_protocol_fee :: "'l escrow_state \<Rightarrow> u32 \<times> address option" where
  "get_protocol_fee st = (unwrap_or 0 (protocol_fee_bps st), fee_recipient st)"

definition add_allowed_token ::
  "'l host \<Rightarrow> address \<Rightarrow> address \<Rightarrow> 'l escrow_state \<Rightarrow> (escrow_panic, 'l escrow_state) outcome" where
  "add_allowed_token h adm token st =
     and_then (escrow_require_admin h adm st) (\<lambda>_.
     Inr (emit_token_allowlisted adm token
       (st\<lparr>allowed_token := (allowed_token st)(token \<mapsto> True)\<rparr>)))"

definition remove_allowed_token ::
  "'l host \<Rightarrow> address \<Rightarrow> address \<Rightarrow> 'l escrow_state \<Rightarrow> (escrow_panic, 'l escrow_state) outcome" where
  "remove_allowed_token h adm token st =
     and_then (escrow_require_admin h adm st) (\<lambda>_.
     Inr (emit_token_removed_from_allowlist adm token
       (st\<lparr>allowed_token := (allowed_token st)(token := None)\<rparr>)))"

section \<open>The arbiter pool\<close>

definition add_arbiter ::
  "'l host \<Rightarrow> address \<Rightarrow> address \<Rightarrow> 'l escrow_state \<Rightarrow> (escrow_panic, 'l escrow_state) outcome" where
  "add_arbiter h adm arbiter st =
     and_then (escrow_require_admin h adm st) (\<lambda>_.
     let pool = unwrap_or [] (arbiter_pool st) in
     if arbiter \<in> set pool then Inl (Panic ArbiterInPool)
     else Inr (emit_arbiter_pool_updated arbiter True
            (st\<lparr>arbiter_pool := Some (pool @ [arbiter])\<rparr>)))"

text \<open>The loop of \<open>remove_arbiter\<close> that flags the open escrows among the given ids.\<close>

fun flag_replacements :: "address \<Rightarrow> u32 list \<Rightarrow> 'l escrow_state \<Rightarrow> 'l escrow_state" where
  "flag_replacements arbiter [] st = st"
| "flag_replacements arbiter (eid # eids) st =
     flag_replacements arbiter eids
       (case escrows st eid of
          None \<Rightarrow> st
        | Some escrow \<Rightarrow>
            if e_arbiter escrow = arbiter \<and> is_open_escrow_status (e_status escrow)
            then st\<lparr>arbiter_needs_replacement := (arbiter_needs_replacement st)(eid \<mapsto> True)\<rparr>
            else st)"

definition remove_arbiter ::
  "'l host \<Rightarrow> address \<Rightarrow> address \<Rightarrow> u32 list \<Rightarrow> 'l escrow_state \<Rightarrow>
   (escrow_panic, 'l escrow_state) outcome" where
  "remove_arbiter h adm arbiter escrow_ids st =
     and_then (escrow_require_admin h adm st) (\<lambda>_.
     and_then (expect PoolEmpty (arbiter_pool st)) (\<lambda>pool.
     let new_pool = filter (\<lambda>a. a \<noteq> arbiter) pool in
     if arbiter \<notin> set pool then Inl (Panic ArbiterNotInPool)
     else
       let next_idx = unwrap_or 0 (next_arbiter_index st);
           st = (if new_pool = [] \<or> length new_pool \<le> next_idx
                 then st\<lparr>next_arbiter_index := Some 0\<rparr> else st);
           st = st\<lparr>arbiter_pool := Some new_pool\<rparr>;
           st = flag_replacements arbiter escrow_ids st
       in Inr (emit_arbiter_pool_updated arbiter False st)))"

section \<open>Escrow templates\<close>

definition create_escrow_template ::
  "'l host \<Rightarrow> address \<Rightarrow> escrow_template_config \<Rightarrow> 'l escrow_state \<Rightarrow>
   (escrow_panic, u32 \<times> 'l escrow_state) outcome" where
  "create_escrow_template h creator config st =
     and_then (require_auth h creator) (\<lambda>_.
     if \<not> unwrap_or False (allowed_token st (tc_token config)) then Inl (Panic TokenNotAllowed)
     else if tc_deadline_duration config = 0 then Inl (Panic DurationNotPositive)
     else
       let template_id = unwrap_or 0 (template_counter st) in
       and_then (add_u32 template_id 1) (\<lambda>counter.
       let template = \<lparr>t_id = template_id, t_creator = creator, t_config = config, t_active = True\<rparr>
       in Inr (template_id, emit_escrow_template_created template_id creator
            (st\<lparr>template_counter := Some counter,
                templates := (templates st)(template_id \<mapsto> template)\<rparr>))))"

definition update_escrow_template ::
  "'l host \<Rightarrow> address \<Rightarrow> u32 \<Rightarrow> escrow_template_config \<Rightarrow> 'l escrow_state \<Rightarrow>
   (escrow_panic, 'l escrow_state) outcome" where
  "update_escrow_template h creator template_id new_config st =
     and_then (require_auth h creator) (\<lambda>_.
     and_then (expect TemplateNotFound (templates st template_id)) (\<lambda>template.
     if t_creator template \<noteq> creator then Inl (Panic NotTemplateCreator)
     else if \<not> t_active template then Inl (Panic TemplateDeactivated)
     else if \<not> unwrap_or False (allowed_token st (tc_token new_config))
       then Inl (Panic TokenNotAllowed)
     else if tc_deadline_duration new_config = 0 then Inl (Panic DurationNotPositive)
     else Inr (emit_escrow_template_updated template_id creator
            (st\<lparr>templates := (templates st)(template_id \<mapsto> template\<lparr>t_config := new_config\<rparr>)\<rparr>))))"

definition deactivate_escrow_template ::
  "'l host \<Rightarrow> address \<Rightarrow> u32 \<Rightarrow> 'l escrow_state \<Rightarrow> (escrow_panic, 'l escrow_state) outcome" where
  "deactivate_escrow_template h creator template_id st =
     and_then (require_auth h creator) (\<lambda>_.
     and_then (expect TemplateNotFound (templates st template_id)) (\<lambda>template.
     if t_creator template \<noteq> creator then Inl (Panic NotTemplateCreator)
     else if \<not> t_active template then Inl (Panic TemplateDeactivated)
     else Inr (emit_escrow_template_deactivated template_id creator
            (st\<lparr>templates := (templates st)(template_id \<mapsto> template\<lparr>t_active := False\<rparr>)\<rparr>))))"

definition get_escrow_template ::
  "u32 \<Rightarrow> 'l escrow_state \<Rightarrow> (escrow_panic, escrow_template) outcome" where
  "get_escrow_template template_id st = expect TemplateNotFound (templates st template_id)"

lemmas escrow_admin_op_defs = escrow_initialize_def escrow_upgrade_def escrow_migrate_def
  escrow_pause_contract_def escrow_resume_contract_def update_default_dispute_timeout_def
  update_protocol_fee_def add_allowed_token_def remove_allowed_token_def add_arbiter_def
  remove_arbiter_def create_escrow_template_def update_escrow_template_def
  deactivate_escrow_template_def

end
