(* ===== verification/Escrow_Create.thy ===== *)
theory Escrow_Create
  imports Escrow_Admin
begin

text \<open>
  Creation of escrows (lib.rs): the validation of multi-party seller lists, the common core,
  and the five entry points built on the id counter (single, batch, with a dispute timeout,
  from a template, with an arbiter of the pool).
\<close>

section \<open>The id counter\<close>

definition get_escrow_counter :: "'l escrow_state \<Rightarrow> u32" where
  "get_escrow_counter st = unwrap_or 0 (escrow_counter st)"

definition next_escrow_id :: "'l escrow_state \<Rightarrow> (escrow_panic, u32 \<times> 'l escrow_state) outcome" where
  "next_escrow_id st =
     (let id = unwrap_or 0 (escrow_counter st) in
      and_then (add_u32 id 1) (\<lambda>counter. Inr (id, st\<lparr>escrow_counter := Some counter\<rparr>)))"

definition get_escrow :: "u32 \<Rightarrow> 'l escrow_state \<Rightarrow> (escrow_panic, escrow) outcome" where
  "get_escrow escrow_id st = expect EscrowNotFound (escrows st escrow_id)"

definition store_escrow :: "u32 \<Rightarrow> escrow \<Rightarrow> 'l escrow_state \<Rightarrow> 'l escrow_state" where
  "store_escrow escrow_id escrow st = st\<lparr>escrows := (escrows st)(escrow_id \<mapsto> escrow)\<rparr>"

lemma store_escrow_fields [simp]:
  "escrows (store_escrow i e st) = (escrows st)(i \<mapsto> e)"
  "events (store_escrow i e st) = events st"
  "ledger (store_escrow i e st) = ledger st"
  "admin (store_escrow i e st) = admin st"
  "contract_version (store_escrow i e st) = contract_version st"
  "migration_completed (store_escrow i e st) = migration_completed st"
  "paused (store_escrow i e st) = paused st"
  "pause_reason (store_escrow i e st) = pause_reason st"
  "escrow_counter (store_escrow i e st) = escrow_counter st"
  "disputes (store_escrow i e st) = disputes st"
  "deadline_proposals (store_escrow i e st) = deadline_proposals st"
  "allowed_token (store_escrow i e st) = allowed_token st"
  "protocol_fee_bps (store_escrow i e st) = protocol_fee_bps st"
  "fee_recipient (store_escrow i e st) = fee_recipient st"
  "template_counter (store_escrow i e st) = template_counter st"
  "templates (store_escrow i e st) = templates st"
  "arbiter_pool (store_escrow i e st) = arbiter_pool st"
  "next_arbiter_index (store_escrow i e st) = next_arbiter_index st"
  "arbiter_needs_replacement (store_escrow i e st) = arbiter_needs_replacement st"
  "escrow_metadata (store_escrow i e st) = escrow_metadata st"
  "evidence (store_escrow i e st) = evidence st"
  "renewal_allowance (store_escrow i e st) = renewal_allowance st"
  "default_dispute_timeout (store_escrow i e st) = default_dispute_timeout st"
  "last_buyer_action (store_escrow i e st) = last_buyer_action st"
  by (simp_all add: store_escrow_def)

text \<open>Inactivity tracking starts at creation, when it is enabled.\<close>

definition init_last_buyer_action :: "u64 \<Rightarrow> u32 \<Rightarrow> u64 \<Rightarrow> 'l escrow_state \<Rightarrow> 'l escrow_state" where
  "init_last_buyer_action inactivity_seconds escrow_id now st =
     (if 0 < inactivity_seconds
      then st\<lparr>last_buyer_action := (last_buyer_action st)(escrow_id \<mapsto> now)\<rparr>
      else st)"

text \<open>The metadata hash is also stored on its own, with a timestamp.\<close>

definition store_metadata :: "u32 \<Rightarrow> bytes32 option \<Rightarrow> u64 \<Rightarrow> 'l escrow_state \<Rightarrow> 'l escrow_state" where
  "store_metadata escrow_id metadata_hash now st =
     (case metadata_hash of
        None \<Rightarrow> st
      | Some hash \<Rightarrow> st\<lparr>escrow_metadata := (escrow_metadata st)(escrow_id \<mapsto> (hash, now))\<rparr>)"

lemma creation_notes_fields [simp]:
  "ledger (init_last_buyer_action n i t st) = ledger st"
  "ledger (store_metadata i m t st) = ledger st"
  "admin (init_last_buyer_action n i t st) = admin st"
  "admin (store_metadata i m t st) = admin st"
  "paused (init_last_buyer_action n i t st) = paused st"
  "paused (store_metadata i m t st) = paused st"
  "pause_reason (init_last_buyer_action n i t st) = pause_reason st"
  "pause_reason (store_metadata i m t st) = pause_reason st"
  "escrow_counter (init_last_buyer_action n i t st) = escrow_counter st"
  "escrow_counter (store_metadata i m t st) = escrow_counter st"
  "escrows (init_last_buyer_action n i t st) = escrows st"
  "escrows (store_metadata i m t st) = escrows st"
  "disputes (init_last_buyer_action n i t st) = disputes st"
  "disputes (store_metadata i m t st) = disputes st"
  "allowed_token (init_last_buyer_action n i t st) = allowed_token st"
  "allowed_token (store_metadata i m t st) = allowed_token st"
  "protocol_fee_bps (init_last_buyer_action n i t st) = protocol_fee_bps st"
  "protocol_fee_bps (store_metadata i m t st) = protocol_fee_bps st"
  "fee_recipient (init_last_buyer_action n i t st) = fee_recipient st"
  "fee_recipient (store_metadata i m t st) = fee_recipient st"
  "template_counter (init_last_buyer_action n i t st) = template_counter st"
  "template_counter (store_metadata i m t st) = template_counter st"
  "templates (init_last_buyer_action n i t st) = templates st"
  "templates (store_metadata i m t st) = templates st"
  "arbiter_pool (init_last_buyer_action n i t st) = arbiter_pool st"
  "arbiter_pool (store_metadata i m t st) = arbiter_pool st"
  "next_arbiter_index (init_last_buyer_action n i t st) = next_arbiter_index st"
  "next_arbiter_index (store_metadata i m t st) = next_arbiter_index st"
  "renewal_allowance (init_last_buyer_action n i t st) = renewal_allowance st"
  "renewal_allowance (store_metadata i m t st) = renewal_allowance st"
  "events (init_last_buyer_action n i t st) = events st"
  "events (store_metadata i m t st) = events st"
  "evidence (init_last_buyer_action n i t st) = evidence st"
  "evidence (store_metadata i m t st) = evidence st"
  by (simp_all add: init_last_buyer_action_def store_metadata_def split: option.splits)

lemma next_escrow_id_Inr [ok_simps]:
  "next_escrow_id st = Inr (i, st') \<longleftrightarrow>
     i = get_escrow_counter st \<and> i < 4294967295 \<and> st' = st\<lparr>escrow_counter := Some (Suc i)\<rparr>"
  by (auto simp: next_escrow_id_def get_escrow_counter_def Let_def ok_simps)

section \<open>The sellers of an escrow\<close>

text \<open>The loop that adds up the allocations of a multi-party escrow (\<open>total_bps += bps\<close>).\<close>

fun total_seller_bps :: "(address \<times> u32) list \<Rightarrow> u32 \<Rightarrow> (escrow_panic, u32) outcome" where
  "total_seller_bps [] total_bps = Inr total_bps"
| "total_seller_bps ((_, bps) # sellers) total_bps =
     and_then (add_u32 total_bps bps) (total_seller_bps sellers)"

definition resolve_sellers ::
  "address \<Rightarrow> (address \<times> u32) list \<Rightarrow> (escrow_panic, (address \<times> u32) list) outcome" where
  "resolve_sellers seller sellers =
     (if sellers = [] then Inr [(seller, 10000)]
      else if 5 < length sellers then Inl (Panic TooManySellers)
      else and_then (total_seller_bps sellers 0) (\<lambda>total_bps.
        if total_bps \<noteq> 10000 then Inl (Panic AllocationsNotFull) else Inr sellers))"

lemma total_seller_bps_Inr [ok_simps]:
  "total_seller_bps sellers b = Inr t \<longleftrightarrow>
     t = b + sum_list (map snd sellers) \<and> (sellers = [] \<or> t < 2 ^ 32)"
proof (induction sellers arbitrary: b)
  case Nil
  then show ?case by auto
next
  case (Cons s sellers)
  obtain a bps where s: "s = (a, bps)" by (cases s)
  have "total_seller_bps (s # sellers) b = Inr t \<longleftrightarrow>
      b + bps < 2 ^ 32 \<and> total_seller_bps sellers (b + bps) = Inr t"
    unfolding s by (simp add: and_then_Inr arith_u_Inr)
  also have "\<dots> \<longleftrightarrow> b + bps < 2 ^ 32 \<and> t = b + bps + sum_list (map snd sellers) \<and>
      (sellers = [] \<or> t < 2 ^ 32)"
    by (simp only: Cons.IH)
  also have "\<dots> \<longleftrightarrow> t = b + sum_list (map snd (s # sellers)) \<and> t < 2 ^ 32"
    unfolding s by (cases sellers) (simp_all, linarith+)
  finally show ?case by simp
qed

lemma resolve_sellers_Inr:
  "resolve_sellers seller sellers = Inr rs \<longleftrightarrow>
     (sellers = [] \<and> rs = [(seller, 10000)]) \<or>
     (sellers \<noteq> [] \<and> length sellers \<le> 5 \<and> sum_list (map snd sellers) = 10000 \<and> rs = sellers)"
  by (auto simp: resolve_sellers_def ok_simps)

text \<open>What a resolved seller list always satisfies.\<close>

definition full_allocation :: "(address \<times> u32) list \<Rightarrow> bool" where
  "full_allocation rs \<longleftrightarrow> rs \<noteq> [] \<and> length rs \<le> 5 \<and> sum_list (map snd rs) = 10000"

lemma resolve_sellers_full: "resolve_sellers seller sellers = Inr rs \<Longrightarrow> full_allocation rs"
  by (auto simp: resolve_sellers_Inr full_allocation_def)

section \<open>The core of every creation\<close>

definition create_escrow_core ::
  "'l host \<Rightarrow> address \<Rightarrow> address \<Rightarrow> address \<Rightarrow> i128 \<Rightarrow> address \<Rightarrow> u64 \<Rightarrow> bytes32 option \<Rightarrow>
   (address \<times> u32) list \<Rightarrow> bool \<Rightarrow> u32 \<Rightarrow> u64 \<Rightarrow> 'l escrow_state \<Rightarrow>
   (escrow_panic, u32 \<times> 'l escrow_state) outcome" where
  "create_escrow_core h buyer seller arbiter amount token deadline metadata_hash sellers
     auto_renew renewal_count buyer_inactivity_release_seconds st =
     (if amount \<le> 0 then Inl (Panic AmountNotPositive)
      else if deadline \<le> timestamp h then Inl (Panic DeadlineNotInFuture)
      else if \<not> unwrap_or False (allowed_token st token) then Inl (Panic TokenNotAllowed)
      else
        and_then (resolve_sellers seller sellers) (\<lambda>resolved_sellers.
        and_then (token_transfer h token buyer (self_address h) amount st) (\<lambda>st.
        and_then (next_escrow_id st) (\<lambda>(escrow_id, st).
        let primary_seller = fst (hd resolved_sellers);
            now = timestamp h;
            escrow = \<lparr>e_id = escrow_id, e_buyer = buyer, e_seller = primary_seller,
              e_arbiter = arbiter, e_amount = amount, e_token = token, e_status = Active,
              e_created_at = now, e_deadline = deadline, e_metadata_hash = metadata_hash,
              e_sellers = resolved_sellers, e_auto_renew = auto_renew,
              e_renewal_count = renewal_count,
              e_renewals_remaining = (if renewal_count = 0 then 0 else renewal_count),
              e_dispute_timeout_seconds = None,
              e_buyer_inactivity_release_seconds = buyer_inactivity_release_seconds\<rparr>;
            st = store_escrow escrow_id escrow st;
            st = init_last_buyer_action buyer_inactivity_release_seconds escrow_id now st;
            st = store_metadata escrow_id metadata_hash (timestamp h) st;
            st = emit_escrow_created escrow_id buyer primary_seller arbiter amount token deadline st;
            st = (if 1 < length resolved_sellers
                  then emit_multi_party_escrow_created escrow_id (length resolved_sellers) st
                  else st)
        in Inr (escrow_id, st)))))"

section \<open>Entry points\<close>

definition create_escrow ::
  "'l host \<Rightarrow> address \<Rightarrow> address \<Rightarrow> address \<Rightarrow> i128 \<Rightarrow> address \<Rightarrow> u64 \<Rightarrow> bytes32 option \<Rightarrow>
   (address \<times> u32) list \<Rightarrow> bool \<Rightarrow> u32 \<Rightarrow> u64 \<Rightarrow> 'l escrow_state \<Rightarrow>
   (escrow_panic, u32 \<times> 'l escrow_state) outcome" where
  "create_escrow h buyer seller arbiter amount token deadline metadata_hash sellers
     auto_renew renewal_count buyer_inactivity_release_seconds st =
     and_then (escrow_require_not_paused st) (\<lambda>_.
     and_then (require_auth h buyer) (\<lambda>_.
     create_escrow_core h buyer seller arbiter amount token deadline metadata_hash sellers
       auto_renew renewal_count buyer_inactivity_release_seconds st))"

text \<open>The loop of \<open>create_escrows_batch\<close>, with its three accumulators.\<close>

fun create_batch_loop ::
  "'l host \<Rightarrow> address \<Rightarrow> escrow_batch_config list \<Rightarrow> u32 list \<Rightarrow> u32 option \<Rightarrow> u32 \<Rightarrow>
   'l escrow_state \<Rightarrow> (escrow_panic, u32 list \<times> u32 option \<times> u32 \<times> 'l escrow_state) outcome" where
  "create_batch_loop h buyer [] created_ids first_id last_id st =
     Inr (created_ids, first_id, last_id, st)"
| "create_batch_loop h buyer (cfg # cfgs) created_ids first_id last_id st =
     and_then (create_escrow_core h buyer (b_seller cfg) (b_arbiter cfg) (b_amount cfg)
         (b_token cfg) (b_deadline cfg) (b_metadata_hash cfg) (b_sellers cfg)
         (b_auto_renew cfg) (b_renewal_count cfg) 0 st) (\<lambda>(escrow_id, st).
     create_batch_loop h buyer cfgs (created_ids @ [escrow_id])
       (if first_id = None then Some escrow_id else first_id) escrow_id st)"

definition create_escrows_batch ::
  "'l host \<Rightarrow> address \<Rightarrow> escrow_batch_config list \<Rightarrow> 'l escrow_state \<Rightarrow>
   (escrow_panic, u32 list \<times> 'l escrow_state) outcome" where
  "create_escrows_batch h buyer escrow_configs st =
     and_then (escrow_require_not_paused st) (\<lambda>_.
     and_then (require_auth h buyer) (\<lambda>_.
     if escrow_configs = [] then Inl (Panic BatchEmpty)
     else if MAX_BATCH_ESCROWS < length escrow_configs then Inl (Panic BatchTooLarge)
     else
       and_then (create_batch_loop h buyer escrow_configs [] None 0 st)
         (\<lambda>(created_ids, first_id, last_id, st).
       and_then (expect BatchEmpty first_id) (\<lambda>first.
       Inr (created_ids,
         emit_batch_escrow_created (length escrow_configs) first last_id st)))))"

definition create_escrow_w_timeout ::
  "'l host \<Rightarrow> address \<Rightarrow> address \<Rightarrow> address \<Rightarrow> i128 \<Rightarrow> address \<Rightarrow> u64 \<Rightarrow> bytes32 option \<Rightarrow>
   (address \<times> u32) list \<Rightarrow> u32 \<Rightarrow> u64 \<Rightarrow> 'l escrow_state \<Rightarrow>
   (escrow_panic, u32 \<times> 'l escrow_state) outcome" where
  "create_escrow_w_timeout h buyer seller arbiter amount token deadline metadata_hash sellers
     renewal_count dispute_timeout_seconds st =
     (if dispute_timeout_seconds = 0 then Inl (Panic ZeroDisputeTimeout)
      else
        let auto_renew = (0 < renewal_count) in
        and_then (create_escrow h buyer seller arbiter amount token deadline metadata_hash
            sellers auto_renew renewal_count 0 st) (\<lambda>(escrow_id, st).
        and_then (expect EscrowNotFound (escrows st escrow_id)) (\<lambda>escrow.
        Inr (escrow_id, store_escrow escrow_id
          (escrow\<lparr>e_dispute_timeout_seconds := Some dispute_timeout_seconds\<rparr>) st))))"

definition create_escrow_from_template ::
  "'l host \<Rightarrow> address \<Rightarrow> address \<Rightarrow> u32 \<Rightarrow> i128 \<Rightarrow> 'l escrow_state \<Rightarrow>
   (escrow_panic, u32 \<times> 'l escrow_state) outcome" where
  "create_escrow_from_template h buyer seller template_id amount st =
     and_then (escrow_require_not_paused st) (\<lambda>_.
     and_then (require_auth h buyer) (\<lambda>_.
     and_then (expect TemplateNotFound (templates st template_id)) (\<lambda>template.
     if \<not> t_active template then Inl (Panic TemplateDeactivated)
     else if amount \<le> 0 then Inl (Panic AmountNotPositive)
     else
       let config = t_config template in
       and_then (add_u64 (timestamp h) (tc_deadline_duration config)) (\<lambda>deadline.
       and_then (token_transfer h (tc_token config) buyer (self_address h) amount st) (\<lambda>st.
       and_then (next_escrow_id st) (\<lambda>(escrow_id, st).
       let escrow = \<lparr>e_id = escrow_id, e_buyer = buyer, e_seller = seller,
             e_arbiter = tc_arbiter config, e_amount = amount, e_token = tc_token config,
             e_status = Active, e_created_at = timestamp h, e_deadline = deadline,
             e_metadata_hash = None, e_sellers = [(seller, 10000)], e_auto_renew = False,
             e_renewal_count = 0, e_renewals_remaining = 0, e_dispute_timeout_seconds = None,
             e_buyer_inactivity_release_seconds = 0\<rparr>;
           st = store_escrow escrow_id escrow st;
           st = emit_escrow_created escrow_id buyer seller (tc_arbiter config) amount
                  (tc_token config) deadline st
       in Inr (escrow_id, emit_escrow_created_from_template escrow_id template_id st)))))))"

definition create_escrow_with_pool_arbiter ::
  "'l host \<Rightarrow> address \<Rightarrow> address \<Rightarrow> i128 \<Rightarrow> address \<Rightarrow> u64 \<Rightarrow> 'l escrow_state \<Rightarrow>
   (escrow_panic, u32 \<times> 'l escrow_state) outcome" where
  "create_escrow_with_pool_arbiter h buyer seller amount token deadline st =
     and_then (escrow_require_not_paused st) (\<lambda>_.
     and_then (require_auth h buyer) (\<lambda>_.
     if amount \<le> 0 then Inl (Panic AmountNotPositive)
     else if deadline \<le> timestamp h then Inl (Panic DeadlineNotInFuture)
     else if \<not> unwrap_or False (allowed_token st token) then Inl (Panic TokenNotAllowed)
     else
       let pool = unwrap_or [] (arbiter_pool st) in
       if pool = [] then Inl (Panic PoolEmpty)
       else
         let idx = unwrap_or 0 (next_arbiter_index st);
             arbiter = pool ! (idx mod length pool) in
         and_then (add_u32 idx 1) (\<lambda>succ_idx.
         let next_idx = succ_idx mod length pool;
             st = st\<lparr>next_arbiter_index := Some next_idx\<rparr> in
         and_then (token_transfer h token buyer (self_address h) amount st) (\<lambda>st.
         and_then (next_escrow_id st) (\<lambda>(escrow_id, st).
         let escrow = \<lparr>e_id = escrow_id, e_buyer = buyer, e_seller = seller,
               e_arbiter = arbiter, e_amount = amount, e_token = token, e_status = Active,
               e_created_at = timestamp h, e_deadline = deadline, e_metadata_hash = None,
               e_sellers = [(seller, 10000)], e_auto_renew = False, e_renewal_count = 0,
               e_renewals_remaining = 0, e_dispute_timeout_seconds = None,
               e_buyer_inactivity_release_seconds = 0\<rparr>;
             st = store_escrow escrow_id escrow st;
             st = emit_escrow_created escrow_id buyer seller arbiter amount token deadline st
         in Inr (escrow_id, emit_arbiter_assigned escrow_id arbiter st))))))"

lemmas escrow_create_op_defs = create_escrow_def create_escrow_w_timeout_def
  create_escrow_from_template_def create_escrow_with_pool_arbiter_def create_escrow_core_def

end
