(* ===== verification/Escrow_Settle.thy ===== *)
theory Escrow_Settle
  imports Escrow_Create
begin

text \<open>
  The operations on a stored escrow (lib.rs): release and its automatic renewal, partial
  release, disputes and their resolution, expiry, inactivity release, renewal settings,
  deadline extension, role transfer, metadata and evidence.
\<close>

section \<open>Helpers\<close>

definition update_last_buyer_action :: "'l host \<Rightarrow> escrow \<Rightarrow> 'l escrow_state \<Rightarrow> 'l escrow_state" where
  "update_last_buyer_action h escrow st =
     (if e_buyer_inactivity_release_seconds escrow = 0 then st
      else st\<lparr>last_buyer_action := (last_buyer_action st)(e_id escrow \<mapsto> timestamp h)\<rparr>)"

text \<open>The lines "Track buyer activity" that open several entry points.\<close>

definition track_buyer :: "'l host \<Rightarrow> address \<Rightarrow> escrow \<Rightarrow> 'l escrow_state \<Rightarrow> 'l escrow_state" where
  "track_buyer h caller escrow st =
     (if caller = e_buyer escrow then update_last_buyer_action h escrow st else st)"

lemma track_buyer_fields [simp]:
  "ledger (track_buyer h c e st) = ledger st"
  "escrows (track_buyer h c e st) = escrows st"
  "escrow_counter (track_buyer h c e st) = escrow_counter st"
  "disputes (track_buyer h c e st) = disputes st"
  "evidence (track_buyer h c e st) = evidence st"
  "events (track_buyer h c e st) = events st"
  "renewal_allowance (track_buyer h c e st) = renewal_allowance st"
  "paused (track_buyer h c e st) = paused st"
  "admin (track_buyer h c e st) = admin st"
  "protocol_fee_bps (track_buyer h c e st) = protocol_fee_bps st"
  "fee_recipient (track_buyer h c e st) = fee_recipient st"
  "arbiter_pool (track_buyer h c e st) = arbiter_pool st"
  "next_arbiter_index (track_buyer h c e st) = next_arbiter_index st"
  "allowed_token (track_buyer h c e st) = allowed_token st"
  "escrow_metadata (track_buyer h c e st) = escrow_metadata st"
  "deadline_proposals (track_buyer h c e st) = deadline_proposals st"
  by (simp_all add: track_buyer_def update_last_buyer_action_def)

text \<open>The contract paying out of its own balance.\<close>

definition pay_out ::
  "'l host \<Rightarrow> address \<Rightarrow> address \<Rightarrow> i128 \<Rightarrow> 'l escrow_state \<Rightarrow>
   (escrow_panic, 'l escrow_state) outcome" where
  "pay_out h token recipient amount st =
     token_transfer h token (self_address h) recipient amount st"

definition try_auto_renew ::
  "'l host \<Rightarrow> u32 \<Rightarrow> escrow \<Rightarrow> 'l escrow_state \<Rightarrow> (escrow_panic, 'l escrow_state) outcome" where
  "try_auto_renew h old_escrow_id source st =
     (if \<not> e_auto_renew source then Inr st
      else if e_renewal_count source \<noteq> 0 \<and> e_renewals_remaining source = 0 then Inr st
      else
        let allowance = unwrap_or 0 (renewal_allowance st old_escrow_id) in
        if allowance = 0 then Inl (Panic InsufficientRenewalAllowance)
        else
          let duration = saturating_sub (e_deadline source) (e_created_at source) in
          if duration = 0 then Inl (Panic RenewalDurationNotPositive)
          else
            and_then (token_transfer_from h (e_token source) (self_address h) (e_buyer source)
                (self_address h) (e_amount source) st) (\<lambda>st.
            and_then (next_escrow_id st) (\<lambda>(new_escrow_id, st).
            let now = timestamp h in
            and_then (if e_renewal_count source = 0 then Inr 0
                      else sub_u (e_renewals_remaining source) 1) (\<lambda>renewals_remaining.
            and_then (add_u64 now duration) (\<lambda>deadline.
            let renewed = \<lparr>e_id = new_escrow_id, e_buyer = e_buyer source,
                  e_seller = e_seller source, e_arbiter = e_arbiter source,
                  e_amount = e_amount source, e_token = e_token source, e_status = Active,
                  e_created_at = now, e_deadline = deadline,
                  e_metadata_hash = e_metadata_hash source, e_sellers = e_sellers source,
                  e_auto_renew = e_auto_renew source, e_renewal_count = e_renewal_count source,
                  e_renewals_remaining = renewals_remaining,
                  e_dispute_timeout_seconds = e_dispute_timeout_seconds source,
                  e_buyer_inactivity_release_seconds = e_buyer_inactivity_release_seconds source\<rparr>;
                st = init_last_buyer_action (e_buyer_inactivity_release_seconds source)
                       new_escrow_id now st;
                st = store_escrow new_escrow_id renewed st;
                remaining_allowance = allowance - 1;
                st = st\<lparr>renewal_allowance :=
                       (renewal_allowance st)(new_escrow_id \<mapsto> remaining_allowance)\<rparr>
            in Inr (emit_escrow_auto_renewed old_escrow_id new_escrow_id renewals_remaining st))))))"

section \<open>Release\<close>

text \<open>The loop over the sellers after the first; returns what it distributed.\<close>

fun pay_other_sellers ::
  "'l host \<Rightarrow> address \<Rightarrow> i128 \<Rightarrow> (address \<times> u32) list \<Rightarrow> i128 \<Rightarrow> 'l escrow_state \<Rightarrow>
   (escrow_panic, i128 \<times> 'l escrow_state) outcome" where
  "pay_other_sellers h token whole [] distributed st = Inr (distributed, st)"
| "pay_other_sellers h token whole ((addr, bps) # sellers) distributed st =
     and_then (mul128 whole (int bps)) (\<lambda>scaled.
     and_then (div128 scaled 10000) (\<lambda>share.
     and_then (if 0 < share then pay_out h token addr share st else Inr st) (\<lambda>st.
     and_then (add128 distributed share) (\<lambda>distributed.
     pay_other_sellers h token whole sellers distributed st))))"

definition pay_release ::
  "'l host \<Rightarrow> u32 \<Rightarrow> escrow \<Rightarrow> 'l escrow_state \<Rightarrow> (escrow_panic, 'l escrow_state) outcome" where
  "pay_release h escrow_id escrow st =
     (let total = e_amount escrow in
      if length (e_sellers escrow) \<le> 1 then
        and_then (pay_out h (e_token escrow) (e_seller escrow) total st) (\<lambda>st.
        Inr (emit_escrow_released escrow_id (e_seller escrow) total st))
      else
        and_then (pay_other_sellers h (e_token escrow) total (tl (e_sellers escrow)) 0 st)
          (\<lambda>(distributed, st).
        and_then (sub128 total distributed) (\<lambda>first_share.
        and_then (if 0 < first_share
                  then pay_out h (e_token escrow) (fst (hd (e_sellers escrow))) first_share st
                  else Inr st) (\<lambda>st.
        Inr (emit_multi_party_escrow_released escrow_id total st)))))"

definition release_escrow ::
  "'l host \<Rightarrow> address \<Rightarrow> u32 \<Rightarrow> 'l escrow_state \<Rightarrow> (escrow_panic, 'l escrow_state) outcome" where
  "release_escrow h caller escrow_id st =
     and_then (escrow_require_not_paused st) (\<lambda>_.
     and_then (require_auth h caller) (\<lambda>_.
     and_then (expect EscrowNotFound (escrows st escrow_id)) (\<lambda>escrow.
     if \<not> is_open_escrow_status (e_status escrow) then Inl (Panic EscrowNotActive)
     else if caller \<noteq> e_buyer escrow \<and> caller \<noteq> e_arbiter escrow
       then Inl (Panic NotBuyerOrArbiter)
     else
       let st = track_buyer h caller escrow st in
       and_then (pay_release h escrow_id escrow st) (\<lambda>st.
       let escrow = escrow\<lparr>e_status := Released\<rparr>;
           st = store_escrow escrow_id escrow st in
       try_auto_renew h escrow_id escrow st))))"

text \<open>Renewal does not look at the status of the escrow it renews.\<close>

lemma try_auto_renew_status [simp]:
  "try_auto_renew h i (e\<lparr>e_status := s\<rparr>) st = try_auto_renew h i e st"
  by (simp add: try_auto_renew_def cong: if_cong)

definition partial_release ::
  "'l host \<Rightarrow> address \<Rightarrow> u32 \<Rightarrow> i128 \<Rightarrow> 'l escrow_state \<Rightarrow>
   (escrow_panic, 'l escrow_state) outcome" where
  "partial_release h caller escrow_id release_amount st =
     and_then (escrow_require_not_paused st) (\<lambda>_.
     and_then (require_auth h caller) (\<lambda>_.
     and_then (expect EscrowNotFound (escrows st escrow_id)) (\<lambda>escrow.
     if \<not> is_open_escrow_status (e_status escrow) then Inl (Panic EscrowNotActive)
     else if caller \<noteq> e_buyer escrow \<and> caller \<noteq> e_arbiter escrow
       then Inl (Panic NotBuyerOrArbiter)
     else if release_amount \<le> 0 then Inl (Panic ReleaseNotPositive)
     else if e_amount escrow < release_amount then Inl (Panic ReleaseExceedsBalance)
     else
       and_then (pay_out h (e_token escrow) (e_seller escrow) release_amount st) (\<lambda>st.
       and_then (sub128 (e_amount escrow) release_amount) (\<lambda>remaining.
       let escrow = escrow\<lparr>e_amount := remaining,
             e_status := (if remaining = 0 then Released else PartiallyReleased)\<rparr>
       in Inr (emit_partial_released escrow_id release_amount remaining
            (store_escrow escrow_id escrow st)))))))"

section \<open>Disputes\<close>

definition dispute_escrow ::
  "'l host \<Rightarrow> address \<Rightarrow> u32 \<Rightarrow> string \<Rightarrow> i128 \<Rightarrow> 'l escrow_state \<Rightarrow>
   (escrow_panic, 'l escrow_state) outcome" where
  "dispute_escrow h caller escrow_id reason dispute_amount st =
     and_then (escrow_require_not_paused st) (\<lambda>_.
     and_then (require_auth h caller) (\<lambda>_.
     and_then (expect EscrowNotFound (escrows st escrow_id)) (\<lambda>escrow.
     if \<not> is_open_escrow_status (e_status escrow) then Inl (Panic EscrowNotActive)
     else if caller \<noteq> e_buyer escrow \<and> caller \<noteq> e_seller escrow
       then Inl (Panic NotBuyerOrSeller)
     else if dispute_amount \<le> 0 \<or> e_amount escrow < dispute_amount
       then Inl (Panic BadDisputeAmount)
     else
       let st = track_buyer h caller escrow st in
       and_then (sub128 (e_amount escrow) dispute_amount) (\<lambda>released_amount.
       and_then (if 0 < released_amount
                 then pay_out h (e_token escrow) (e_seller escrow) released_amount st
                 else Inr st) (\<lambda>st.
       let escrow = escrow\<lparr>e_amount := dispute_amount,
             e_status := (if 0 < released_amount then PartiallyDisputed else Disputed)\<rparr>;
           st = store_escrow escrow_id escrow st;
           dispute = \<lparr>d_escrow_id = escrow_id, d_reason = reason, d_created_at = timestamp h,
             d_resolved = False, d_dispute_amount = dispute_amount,
             d_timeout_seconds = e_dispute_timeout_seconds escrow\<rparr>;
           st = st\<lparr>disputes := (disputes st)(escrow_id \<mapsto> dispute)\<rparr>
       in Inr (if 0 < released_amount
               then emit_partial_dispute_raised escrow_id dispute_amount released_amount st
               else emit_escrow_disputed escrow_id caller reason st))))))"

definition escrow_resolve_dispute ::
  "'l host \<Rightarrow> address \<Rightarrow> u32 \<Rightarrow> bool \<Rightarrow> 'l escrow_state \<Rightarrow> (escrow_panic, 'l escrow_state) outcome" where
  "escrow_resolve_dispute h arbiter escrow_id release_to_seller st =
     and_then (escrow_require_not_paused st) (\<lambda>_.
     and_then (require_auth h arbiter) (\<lambda>_.
     and_then (expect EscrowNotFound (escrows st escrow_id)) (\<lambda>escrow.
     if e_status escrow \<noteq> Disputed \<and> e_status escrow \<noteq> PartiallyDisputed
       then Inl (Panic NotDisputed)
     else if arbiter \<noteq> e_arbiter escrow then Inl (Panic OnlyArbiter)
     else
       let fee_bps = unwrap_or 0 (protocol_fee_bps st) in
       and_then (mul128 (e_amount escrow) (int fee_bps)) (\<lambda>scaled.
       and_then (div128 scaled 10000) (\<lambda>protocol_fee.
       and_then (if 0 < protocol_fee
                 then and_then (expect FeeRecipientNotSet (fee_recipient st)) (\<lambda>recipient.
                      and_then (pay_out h (e_token escrow) recipient protocol_fee st) (\<lambda>st.
                      Inr (emit_protocol_fee_paid escrow_id protocol_fee recipient st)))
                 else Inr st) (\<lambda>st.
       and_then (sub128 (e_amount escrow) protocol_fee) (\<lambda>winner_amount.
       and_then (if release_to_seller
                 then and_then (pay_out h (e_token escrow) (e_seller escrow) winner_amount st)
                        (\<lambda>st. Inr (escrow\<lparr>e_status := Released\<rparr>, st))
                 else and_then (pay_out h (e_token escrow) (e_buyer escrow) winner_amount st)
                        (\<lambda>st. Inr (escrow\<lparr>e_status := Refunded\<rparr>, st))) (\<lambda>(escrow, st).
       let st = store_escrow escrow_id escrow st;
           st = (case disputes st escrow_id of
                   None \<Rightarrow> st
                 | Some dispute \<Rightarrow>
                     st\<lparr>disputes := (disputes st)(escrow_id \<mapsto> dispute\<lparr>d_resolved := True\<rparr>)\<rparr>)
       in Inr (escrow_emit_dispute_resolved escrow_id release_to_seller arbiter st)))))))))"

definition escrow_check_escalation ::
  "'l host \<Rightarrow> u32 \<Rightarrow> 'l escrow_state \<Rightarrow> (escrow_panic, bool \<times> 'l escrow_state) outcome" where
  "escrow_check_escalation h escrow_id st =
     and_then (expect EscrowNotFound (escrows st escrow_id)) (\<lambda>escrow.
     if e_status escrow \<noteq> Disputed \<and> e_status escrow \<noteq> PartiallyDisputed then Inr (False, st)
     else
       and_then (expect DisputeNotFound (disputes st escrow_id)) (\<lambda>dispute.
       if d_resolved dispute then Inr (False, st)
       else
         let default_timeout =
               unwrap_or DEFAULT_DISPUTE_TIMEOUT_SECONDS (default_dispute_timeout st);
             effective_timeout = unwrap_or default_timeout (d_timeout_seconds dispute) in
         and_then (sub_u (timestamp h) (d_created_at dispute)) (\<lambda>elapsed.
         if effective_timeout < elapsed
         then Inr (True, escrow_emit_dispute_escalated escrow_id effective_timeout st)
         else Inr (False, st))))"

definition escrow_get_dispute :: "u32 \<Rightarrow> 'l escrow_state \<Rightarrow> (escrow_panic, dispute) outcome" where
  "escrow_get_dispute escrow_id st = expect DisputeNotFound (disputes st escrow_id)"

section \<open>Expiry and inactivity\<close>

definition auto_release_expired ::
  "'l host \<Rightarrow> u32 \<Rightarrow> 'l escrow_state \<Rightarrow> (escrow_panic, 'l escrow_state) outcome" where
  "auto_release_expired h escrow_id st =
     and_then (escrow_require_not_paused st) (\<lambda>_.
     and_then (expect EscrowNotFound (escrows st escrow_id)) (\<lambda>escrow.
     if \<not> is_open_escrow_status (e_status escrow) then Inl (Panic EscrowNotActive)
     else if timestamp h \<le> e_deadline escrow then Inl (Panic NotExpired)
     else
       and_then (require_auth h (e_buyer escrow)) (\<lambda>_.
       and_then (pay_out h (e_token escrow) (e_buyer escrow) (e_amount escrow) st) (\<lambda>st.
       Inr (emit_escrow_refunded escrow_id (e_buyer escrow) (e_amount escrow)
         (store_escrow escrow_id (escrow\<lparr>e_status := Refunded\<rparr>) st))))))"

definition claim_inactivity_release ::
  "'l host \<Rightarrow> address \<Rightarrow> u32 \<Rightarrow> 'l escrow_state \<Rightarrow> (escrow_panic, 'l escrow_state) outcome" where
  "claim_inactivity_release h seller escrow_id st =
     and_then (escrow_require_not_paused st) (\<lambda>_.
     and_then (require_auth h seller) (\<lambda>_.
     and_then (expect EscrowNotFound (escrows st escrow_id)) (\<lambda>escrow.
     if e_buyer_inactivity_release_seconds escrow = 0 then Inl (Panic InactivityDisabled)
     else if \<not> is_open_escrow_status (e_status escrow) then Inl (Panic EscrowNotActive)
     else if seller \<noteq> e_seller escrow then Inl (Panic OnlySeller)
     else
       let last_action = unwrap_or (e_created_at escrow) (last_buyer_action st escrow_id);
           inactivity_seconds = saturating_sub (timestamp h) last_action in
       if inactivity_seconds < e_buyer_inactivity_release_seconds escrow
         then Inl (Panic WindowNotElapsed)
       else
         and_then (pay_out h (e_token escrow) (e_seller escrow) (e_amount escrow) st) (\<lambda>st.
         Inr (emit_inactivity_release_triggered escrow_id seller inactivity_seconds
           (store_escrow escrow_id (escrow\<lparr>e_status := Released\<rparr>) st))))))"

section \<open>Renewal settings\<close>

definition set_renewal_allowance ::
  "'l host \<Rightarrow> address \<Rightarrow> u32 \<Rightarrow> u32 \<Rightarrow> 'l escrow_state \<Rightarrow> (escrow_panic, 'l escrow_state) outcome" where
  "set_renewal_allowance h buyer escrow_id total_renewals st =
     and_then (escrow_require_not_paused st) (\<lambda>_.
     and_then (require_auth h buyer) (\<lambda>_.
     and_then (expect EscrowNotFound (escrows st escrow_id)) (\<lambda>escrow.
     if buyer \<noteq> e_buyer escrow then Inl (Panic OnlyBuyer)
     else if \<not> e_auto_renew escrow then Inl (Panic AutoRenewDisabled)
     else
       and_then (mul128 (e_amount escrow) (int total_renewals)) (\<lambda>total_amount.
       let expiration_ledger = saturating_add_u32 (sequence h) 100000 in
       and_then (token_approve h (e_token escrow) buyer (self_address h) total_amount
           expiration_ledger st) (\<lambda>st.
       Inr (st\<lparr>renewal_allowance := (renewal_allowance st)(escrow_id \<mapsto> total_renewals)\<rparr>))))))"

definition cancel_auto_renew ::
  "'l host \<Rightarrow> address \<Rightarrow> u32 \<Rightarrow> 'l escrow_state \<Rightarrow> (escrow_panic, 'l escrow_state) outcome" where
  "cancel_auto_renew h buyer escrow_id st =
     and_then (escrow_require_not_paused st) (\<lambda>_.
     and_then (require_auth h buyer) (\<lambda>_.
     and_then (expect EscrowNotFound (escrows st escrow_id)) (\<lambda>escrow.
     if buyer \<noteq> e_buyer escrow then Inl (Panic OnlyBuyer)
     else
       let escrow = escrow\<lparr>e_auto_renew := False, e_renewals_remaining := 0\<rparr>;
           st = store_escrow escrow_id escrow st
       in Inr (st\<lparr>renewal_allowance := (renewal_allowance st)(escrow_id := None)\<rparr>))))"

section \<open>Deadline extension\<close>

definition propose_deadline_extension ::
  "'l host \<Rightarrow> address \<Rightarrow> u32 \<Rightarrow> u64 \<Rightarrow> 'l escrow_state \<Rightarrow> (escrow_panic, 'l escrow_state) outcome" where
  "propose_deadline_extension h caller escrow_id deadline st =
     and_then (require_auth h caller) (\<lambda>_.
     and_then (expect EscrowNotFound (escrows st escrow_id)) (\<lambda>escrow.
     if caller \<noteq> e_buyer escrow \<and> caller \<noteq> e_seller escrow then Inl (Panic NotBuyerOrSeller)
     else if e_status escrow = Disputed \<or> is_terminal_escrow_status (e_status escrow)
       then Inl (Panic CannotExtendDeadline)
     else if deadline \<le> e_deadline escrow then Inl (Panic DeadlineNotLater)
     else
       let proposal = \<lparr>proposer = caller, new_deadline = deadline, proposed_at = timestamp h\<rparr>;
           st = st\<lparr>deadline_proposals := (deadline_proposals st)(escrow_id \<mapsto> proposal)\<rparr>
       in Inr (emit_deadline_extension_proposed escrow_id caller (new_deadline proposal)
            (proposed_at proposal) st)))"

text \<open>
  The code removes an expired or stale proposal before it panics; the panic rolls the removal
  back, so a failing outcome is all that is left of it.
\<close>

definition accept_deadline_extension ::
  "'l host \<Rightarrow> address \<Rightarrow> u32 \<Rightarrow> 'l escrow_state \<Rightarrow> (escrow_panic, 'l escrow_state) outcome" where
  "accept_deadline_extension h caller escrow_id st =
     and_then (require_auth h caller) (\<lambda>_.
     and_then (expect EscrowNotFound (escrows st escrow_id)) (\<lambda>escrow.
     if caller \<noteq> e_buyer escrow \<and> caller \<noteq> e_seller escrow then Inl (Panic NotBuyerOrSeller)
     else if e_status escrow = Disputed \<or> is_terminal_escrow_status (e_status escrow)
       then Inl (Panic CannotExtendDeadline)
     else
       and_then (expect NoProposal (deadline_proposals st escrow_id)) (\<lambda>proposal.
       if caller = proposer proposal then Inl (Panic ProposerCannotAccept)
       else
         and_then (add_u64 (proposed_at proposal) DEADLINE_EXTENSION_PROPOSAL_WINDOW) (\<lambda>limit.
         if limit < timestamp h then Inl (Panic ProposalExpired)
         else if new_deadline proposal \<le> e_deadline escrow then Inl (Panic DeadlineNotLater)
         else
           let old_deadline = e_deadline escrow;
               escrow = escrow\<lparr>e_deadline := new_deadline proposal\<rparr>;
               st = store_escrow escrow_id escrow st;
               st = st\<lparr>deadline_proposals := (deadline_proposals st)(escrow_id := None)\<rparr>
           in Inr (emit_deadline_extended escrow_id old_deadline (e_deadline escrow) st)))))"

section \<open>Roles, metadata and evidence\<close>

definition transfer_buyer_role ::
  "'l host \<Rightarrow> address \<Rightarrow> u32 \<Rightarrow> address \<Rightarrow> 'l escrow_state \<Rightarrow>
   (escrow_panic, 'l escrow_state) outcome" where
  "transfer_buyer_role h current_buyer escrow_id new_buyer st =
     and_then (escrow_require_not_paused st) (\<lambda>_.
     and_then (require_auth h current_buyer) (\<lambda>_.
     if current_buyer = new_buyer then Inl (Panic SameBuyer)
     else
       and_then (expect EscrowNotFound (escrows st escrow_id)) (\<lambda>escrow.
       if e_status escrow \<noteq> Active then Inl (Panic TransferNotActive)
       else if e_buyer escrow \<noteq> current_buyer then Inl (Panic OnlyBuyer)
       else
         let old_buyer = e_buyer escrow;
             st = store_escrow escrow_id (escrow\<lparr>e_buyer := new_buyer\<rparr>) st
         in Inr (emit_buyer_role_transferred escrow_id old_buyer new_buyer st))))"

definition update_metadata ::
  "'l host \<Rightarrow> address \<Rightarrow> u32 \<Rightarrow> bytes32 \<Rightarrow> 'l escrow_state \<Rightarrow>
   (escrow_panic, 'l escrow_state) outcome" where
  "update_metadata h caller escrow_id new_hash st =
     and_then (require_auth h caller) (\<lambda>_.
     and_then (expect EscrowNotFound (escrows st escrow_id)) (\<lambda>escrow.
     if caller \<noteq> e_buyer escrow \<and> caller \<noteq> e_seller escrow then Inl (Panic NotBuyerOrSeller)
     else
       let st = track_buyer h caller escrow st;
           st = store_escrow escrow_id (escrow\<lparr>e_metadata_hash := Some new_hash\<rparr>) st;
           st = st\<lparr>escrow_metadata := (escrow_metadata st)(escrow_id \<mapsto> (new_hash, timestamp h))\<rparr>
       in Inr (emit_escrow_metadata_updated escrow_id new_hash caller st)))"

definition get_metadata_hash ::
  "u32 \<Rightarrow> 'l escrow_state \<Rightarrow> (escrow_panic, bytes32 option) outcome" where
  "get_metadata_hash escrow_id st =
     and_then (expect EscrowNotFound (escrows st escrow_id)) (\<lambda>escrow. Inr (e_metadata_hash escrow))"

definition submit_evidence ::
  "'l host \<Rightarrow> address \<Rightarrow> u32 \<Rightarrow> bytes32 \<Rightarrow> bytes32 \<Rightarrow> 'l escrow_state \<Rightarrow>
   (escrow_panic, 'l escrow_state) outcome" where
  "submit_evidence h party escrow_id hash uri_hash st =
     and_then (escrow_require_not_paused st) (\<lambda>_.
     and_then (require_auth h party) (\<lambda>_.
     and_then (expect EscrowNotFound (escrows st escrow_id)) (\<lambda>escrow.
     if party \<noteq> e_buyer escrow \<and> party \<noteq> e_seller escrow then Inl (Panic NotBuyerOrSeller)
     else
       let st = track_buyer h party escrow st;
           entries = unwrap_or [] (evidence st (escrow_id, party)) in
       if MAX_EVIDENCE_ENTRIES_PER_PARTY \<le> length entries then Inl (Panic MaxEvidence)
       else
         let entry = \<lparr>evidence_hash = hash, evidence_uri_hash = uri_hash,
               submitted_at = timestamp h\<rparr>;
             st = st\<lparr>evidence := (evidence st)((escrow_id, party) \<mapsto> entries @ [entry])\<rparr>
         in Inr (emit_evidence_submitted escrow_id party hash st))))"

definition get_evidence ::
  "u32 \<Rightarrow> 'l escrow_state \<Rightarrow> (escrow_panic, (address \<times> evidence_submission list) list) outcome" where
  "get_evidence escrow_id st =
     and_then (expect EscrowNotFound (escrows st escrow_id)) (\<lambda>escrow.
     let buyer_entries = unwrap_or [] (evidence st (escrow_id, e_buyer escrow));
         seller_entries = unwrap_or [] (evidence st (escrow_id, e_seller escrow))
     in Inr ((if buyer_entries \<noteq> [] then [(e_buyer escrow, buyer_entries)] else []) @
             (if seller_entries \<noteq> [] then [(e_seller escrow, seller_entries)] else [])))"

lemmas escrow_settle_op_defs = release_escrow_def partial_release_def dispute_escrow_def
  escrow_resolve_dispute_def escrow_check_escalation_def auto_release_expired_def
  claim_inactivity_release_def set_renewal_allowance_def cancel_auto_renew_def
  propose_deadline_extension_def accept_deadline_extension_def transfer_buyer_role_def
  update_metadata_def submit_evidence_def

end
