(* ===== verification/Escrow_Machine.thy ===== *)
theory Escrow_Machine
  imports Escrow_Settle
begin

text \<open>
  The escrow contract as a machine: its state-changing entry points as one operation type,
  the well-formedness of the stored escrows and disputes, and that every entry point keeps it.
\<close>

section \<open>Entry points\<close>

datatype (plugins only: code size) escrow_op =
    OpInitialize address
  | OpCreate address address address i128 address u64 "bytes32 option" "(address \<times> u32) list"
      bool u32 u64
  | OpCreateBatch address "escrow_batch_config list"
  | OpCreateWTimeout address address address i128 address u64 "bytes32 option"
      "(address \<times> u32) list" u32 u64
  | OpCreateFromTemplate address address u32 i128
  | OpCreateWithPoolArbiter address address i128 address u64
  | OpRelease address u32
  | OpPartialRelease address u32 i128
  | OpDispute address u32 string i128
  | OpResolveDispute address u32 bool
  | OpCheckEscalation u32
  | OpAutoReleaseExpired u32
  | OpClaimInactivityRelease address u32
  | OpSetRenewalAllowance address u32 u32
  | OpCancelAutoRenew address u32
  | OpProposeDeadline address u32 u64
  | OpAcceptDeadline address u32
  | OpTransferBuyerRole address u32 address
  | OpUpdateMetadata address u32 bytes32
  | OpSubmitEvidence address u32 bytes32 bytes32
  | OpUpdateDisputeTimeout address u64
  | OpUpdateProtocolFee address u32 address
  | OpUpgrade address bytes32
  | OpMigrate address
  | OpGetVersion
  | OpPause address string
  | OpResume address
  | OpAddToken address address
  | OpRemoveToken address address
  | OpCreateTemplate address escrow_template_config
  | OpUpdateTemplate address u32 escrow_template_config
  | OpDeactivateTemplate address u32
  | OpAddArbiter address address
  | OpRemoveArbiter address address "u32 list"

fun escrow_exec ::
  "'l host \<Rightarrow> escrow_op \<Rightarrow> 'l escrow_state \<Rightarrow> (escrow_panic, 'l escrow_state) outcome" where
  "escrow_exec h (OpInitialize a) = escrow_initialize a"
| "escrow_exec h (OpCreate b s a amt tk dl mh ss ar rc bi) =
     (\<lambda>st. state_of (create_escrow h b s a amt tk dl mh ss ar rc bi st))"
| "escrow_exec h (OpCreateBatch b cfgs) = (\<lambda>st. state_of (create_escrows_batch h b cfgs st))"
| "escrow_exec h (OpCreateWTimeout b s a amt tk dl mh ss rc t) =
     (\<lambda>st. state_of (create_escrow_w_timeout h b s a amt tk dl mh ss rc t st))"
| "escrow_exec h (OpCreateFromTemplate b s tid amt) =
     (\<lambda>st. state_of (create_escrow_from_template h b s tid amt st))"
| "escrow_exec h (OpCreateWithPoolArbiter b s amt tk dl) =
     (\<lambda>st. state_of (create_escrow_with_pool_arbiter h b s amt tk dl st))"
| "escrow_exec h (OpRelease c i) = release_escrow h c i"
| "escrow_exec h (OpPartialRelease c i amt) = partial_release h c i amt"
| "escrow_exec h (OpDispute c i r amt) = dispute_escrow h c i r amt"
| "escrow_exec h (OpResolveDispute a i b) = escrow_resolve_dispute h a i b"
| "escrow_exec h (OpCheckEscalation i) = (\<lambda>st. state_of (escrow_check_escalation h i st))"
| "escrow_exec h (OpAutoReleaseExpired i) = auto_release_expired h i"
| "escrow_exec h (OpClaimInactivityRelease s i) = claim_inactivity_release h s i"
| "escrow_exec h (OpSetRenewalAllowance b i n) = set_renewal_allowance h b i n"
| "escrow_exec h (OpCancelAutoRenew b i) = cancel_auto_renew h b i"
| "escrow_exec h (OpProposeDeadline c i d) = propose_deadline_extension h c i d"
| "escrow_exec h (OpAcceptDeadline c i) = accept_deadline_extension h c i"
| "escrow_exec h (OpTransferBuyerRole c i n) = transfer_buyer_role h c i n"
| "escrow_exec h (OpUpdateMetadata c i m) = update_metadata h c i m"
| "escrow_exec h (OpSubmitEvidence p i e u) = submit_evidence h p i e u"
| "escrow_exec h (OpUpdateDisputeTimeout a t) = update_default_dispute_timeout h a t"
| "escrow_exec h (OpUpdateProtocolFee a f r) = update_protocol_fee h a f r"
| "escrow_exec h (OpUpgrade a w) = escrow_upgrade h a w"
| "escrow_exec h (OpMigrate a) = escrow_migrate h a"
| "escrow_exec h OpGetVersion = (\<lambda>st. Inr (snd (escrow_get_version st)))"
| "escrow_exec h (OpPause a r) = escrow_pause_contract h a r"
| "escrow_exec h (OpResume a) = escrow_resume_contract h a"
| "escrow_exec h (OpAddToken a t) = add_allowed_token h a t"
| "escrow_exec h (OpRemoveToken a t) = remove_allowed_token h a t"
| "escrow_exec h (OpCreateTemplate c cfg) = (\<lambda>st. state_of (create_escrow_template h c cfg st))"
| "escrow_exec h (OpUpdateTemplate c i cfg) = update_escrow_template h c i cfg"
| "escrow_exec h (OpDeactivateTemplate c i) = deactivate_escrow_template h c i"
| "escrow_exec h (OpAddArbiter a b) = add_arbiter h a b"
| "escrow_exec h (OpRemoveArbiter a b ids) = remove_arbiter h a b ids"

section \<open>Operations that leave the books alone\<close>

text \<open>
  The books are the escrows with their counter and disputes, and the token ledger.  Most
  administrative entry points change none of them.
\<close>

definition same_books :: "'l escrow_state \<Rightarrow> 'l escrow_state \<Rightarrow> bool" where
  "same_books st st' \<longleftrightarrow> escrows st' = escrows st \<and> escrow_counter st' = escrow_counter st \<and>
     disputes st' = disputes st \<and> ledger st' = ledger st"

fun bookkeeping :: "escrow_op \<Rightarrow> bool" where
  "bookkeeping (OpCreate b s a amt tk dl mh ss ar rc bi) = True"
| "bookkeeping (OpCreateBatch b cfgs) = True"
| "bookkeeping (OpCreateWTimeout b s a amt tk dl mh ss rc t) = True"
| "bookkeeping (OpCreateFromTemplate b s tid amt) = True"
| "bookkeeping (OpCreateWithPoolArbiter b s amt tk dl) = True"
| "bookkeeping (OpRelease c i) = True"
| "bookkeeping (OpPartialRelease c i amt) = True"
| "bookkeeping (OpDispute c i r amt) = True"
| "bookkeeping (OpResolveDispute a i b) = True"
| "bookkeeping (OpAutoReleaseExpired i) = True"
| "bookkeeping (OpClaimInactivityRelease s i) = True"
| "bookkeeping (OpSetRenewalAllowance b i n) = True"
| "bookkeeping (OpCancelAutoRenew b i) = True"
| "bookkeeping (OpAcceptDeadline c i) = True"
| "bookkeeping (OpTransferBuyerRole c i n) = True"
| "bookkeeping (OpUpdateMetadata c i m) = True"
| "bookkeeping _ = False"

lemma same_books_refl [simp]: "same_books st st"
  by (simp add: same_books_def)

lemma same_books_emit [simp]: "same_books st (publish ev st') \<longleftrightarrow> same_books st st'"
  by (simp add: same_books_def)

lemma flag_replacements_books [simp]: "same_books st (flag_replacements a ids st)"
proof (induction ids arbitrary: st)
  case Nil
  then show ?case by simp
next
  case (Cons i ids)
  let ?st = "case escrows st i of None \<Rightarrow> st
    | Some e \<Rightarrow> if e_arbiter e = a \<and> is_open_escrow_status (e_status e)
        then st\<lparr>arbiter_needs_replacement := (arbiter_needs_replacement st)(i \<mapsto> True)\<rparr> else st"
  have "same_books st ?st" by (auto simp: same_books_def split: option.splits)
  with Cons [of ?st] show ?case by (simp add: same_books_def)
qed

lemma flag_replacements_fields [simp]:
  "escrows (flag_replacements a ids st) = escrows st"
  "escrow_counter (flag_replacements a ids st) = escrow_counter st"
  "disputes (flag_replacements a ids st) = disputes st"
  "ledger (flag_replacements a ids st) = ledger st"
  using flag_replacements_books [of st a ids] by (simp_all add: same_books_def)

lemma remove_arbiter_books: "remove_arbiter h a b ids st = Inr st' \<Longrightarrow> same_books st st'"
  by (auto simp: remove_arbiter_def Let_def ok_simps escrow_emit_defs same_books_def
      split: if_splits)

lemma version_books [simp]: "same_books st (snd (escrow_get_or_init_version st))"
  by (simp add: escrow_get_or_init_version_def same_books_def split: option.splits)

lemma escrow_initialize_books: "escrow_initialize a st = Inr st' \<Longrightarrow> same_books st st'"
  by (auto simp: escrow_initialize_def Let_def ok_simps escrow_emit_defs same_books_def
      split: if_splits option.splits)

lemma escrow_upgrade_books: "escrow_upgrade h a w st = Inr st' \<Longrightarrow> same_books st st'"
  by (auto simp: escrow_upgrade_def escrow_get_or_init_version_def Let_def ok_simps escrow_emit_defs same_books_def
      split: if_splits option.splits)

lemma escrow_migrate_books: "escrow_migrate h a st = Inr st' \<Longrightarrow> same_books st st'"
  by (auto simp: escrow_migrate_def escrow_get_or_init_version_def Let_def ok_simps escrow_emit_defs same_books_def
      split: if_splits option.splits)

lemma escrow_pause_contract_books: "escrow_pause_contract h a r st = Inr st' \<Longrightarrow> same_books st st'"
  by (auto simp: escrow_pause_contract_def require_or_bootstrap_admin_def Let_def ok_simps escrow_emit_defs same_books_def
      split: if_splits option.splits)

lemma escrow_resume_contract_books: "escrow_resume_contract h a st = Inr st' \<Longrightarrow> same_books st st'"
  by (auto simp: escrow_resume_contract_def Let_def ok_simps escrow_emit_defs same_books_def
      split: if_splits option.splits)

lemma update_default_dispute_timeout_books: "update_default_dispute_timeout h a t st = Inr st' \<Longrightarrow> same_books st st'"
  by (auto simp: update_default_dispute_timeout_def Let_def ok_simps escrow_emit_defs same_books_def
      split: if_splits option.splits)

lemma update_protocol_fee_books: "update_protocol_fee h a f b st = Inr st' \<Longrightarrow> same_books st st'"
  by (auto simp: update_protocol_fee_def Let_def ok_simps escrow_emit_defs same_books_def
      split: if_splits option.splits)

lemma add_allowed_token_books: "add_allowed_token h a b st = Inr st' \<Longrightarrow> same_books st st'"
  by (auto simp: add_allowed_token_def Let_def ok_simps escrow_emit_defs same_books_def
      split: if_splits option.splits)

lemma remove_allowed_token_books: "remove_allowed_token h a b st = Inr st' \<Longrightarrow> same_books st st'"
  by (auto simp: remove_allowed_token_def Let_def ok_simps escrow_emit_defs same_books_def
      split: if_splits option.splits)

lemma add_arbiter_books: "add_arbiter h a b st = Inr st' \<Longrightarrow> same_books st st'"
  by (auto simp: add_arbiter_def Let_def ok_simps escrow_emit_defs same_books_def
      split: if_splits option.splits)

lemma create_escrow_template_books: "create_escrow_template h a cfg st = Inr (i, st') \<Longrightarrow> same_books st st'"
  by (auto simp: create_escrow_template_def Let_def ok_simps escrow_emit_defs same_books_def
      split: if_splits option.splits)

lemma update_escrow_template_books: "update_escrow_template h a i cfg st = Inr st' \<Longrightarrow> same_books st st'"
  by (auto simp: update_escrow_template_def Let_def ok_simps escrow_emit_defs same_books_def
      split: if_splits option.splits)

lemma deactivate_escrow_template_books: "deactivate_escrow_template h a i st = Inr st' \<Longrightarrow> same_books st st'"
  by (auto simp: deactivate_escrow_template_def Let_def ok_simps escrow_emit_defs same_books_def
      split: if_splits option.splits)

lemma escrow_check_escalation_books: "escrow_check_escalation h i st = Inr (b', st') \<Longrightarrow> same_books st st'"
  by (auto simp: escrow_check_escalation_def Let_def ok_simps escrow_emit_defs same_books_def
      split: if_splits option.splits)

lemma propose_deadline_extension_books: "propose_deadline_extension h a i d st = Inr st' \<Longrightarrow> same_books st st'"
  by (auto simp: propose_deadline_extension_def Let_def ok_simps escrow_emit_defs same_books_def
      split: if_splits option.splits)

lemma submit_evidence_books: "submit_evidence h a i e u st = Inr st' \<Longrightarrow> same_books st st'"
  by (auto simp: submit_evidence_def Let_def ok_simps escrow_emit_defs same_books_def
      split: if_splits option.splits)

lemmas setting_books = escrow_initialize_books escrow_upgrade_books escrow_migrate_books
  escrow_pause_contract_books escrow_resume_contract_books update_default_dispute_timeout_books
  update_protocol_fee_books add_allowed_token_books remove_allowed_token_books
  add_arbiter_books create_escrow_template_books update_escrow_template_books
  deactivate_escrow_template_books escrow_check_escalation_books propose_deadline_extension_books
  submit_evidence_books

lemma no_bookkeeping_books:
  "escrow_exec h op st = Inr st' \<Longrightarrow> \<not> bookkeeping op \<Longrightarrow> same_books st st'"
  by (cases op; clarsimp simp: state_of_Inr escrow_get_version_def;
      elim setting_books remove_arbiter_books)

section \<open>Well-formed books\<close>

definition holds_funds :: "escrow_status \<Rightarrow> bool" where
  "holds_funds s = (case s of Active \<Rightarrow> True | PartiallyReleased \<Rightarrow> True
     | Disputed \<Rightarrow> True | PartiallyDisputed \<Rightarrow> True | _ \<Rightarrow> False)"

definition under_dispute :: "escrow_status \<Rightarrow> bool" where
  "under_dispute s \<longleftrightarrow> s = Disputed \<or> s = PartiallyDisputed"

definition escrow_ok :: "u32 \<Rightarrow> escrow \<Rightarrow> bool" where
  "escrow_ok i e \<longleftrightarrow> e_id e = i \<and> 0 \<le> e_amount e \<and>
     (holds_funds (e_status e) \<longrightarrow> 0 < e_amount e) \<and> e_status e \<noteq> Resolved \<and>
     full_allocation (e_sellers e) \<and> e_seller e = fst (hd (e_sellers e)) \<and>
     e_renewals_remaining e \<le> e_renewal_count e"

text \<open>A disputed escrow has an open dispute over exactly the amount it still holds.\<close>

definition dispute_ok :: "u32 \<Rightarrow> escrow \<Rightarrow> dispute option \<Rightarrow> bool" where
  "dispute_ok i e d \<longleftrightarrow> (under_dispute (e_status e) \<longrightarrow>
     (\<exists>r. d = Some r \<and> d_escrow_id r = i \<and> \<not> d_resolved r \<and> d_dispute_amount r = e_amount e))"

definition escrows_wf :: "'l escrow_state \<Rightarrow> bool" where
  "escrows_wf st \<longleftrightarrow>
     (\<forall>i. escrows st i \<noteq> None \<longleftrightarrow> i < get_escrow_counter st) \<and>
     (\<forall>i e. escrows st i = Some e \<longrightarrow> escrow_ok i e \<and> dispute_ok i e (disputes st i))"

lemmas status_defs = holds_funds_def under_dispute_def is_open_escrow_status_def
  is_terminal_escrow_status_def

lemma escrows_wfD:
  assumes "escrows_wf st" and "escrows st i = Some e"
  shows "i < get_escrow_counter st" and "escrow_ok i e" and "dispute_ok i e (disputes st i)"
  using assms unfolding escrows_wf_def by (metis option.distinct(1))+

lemma escrows_wf_fresh: "escrows_wf st \<Longrightarrow> escrows st (get_escrow_counter st) = None"
  unfolding escrows_wf_def by (metis less_irrefl)

lemma same_books_wf: "same_books st st' \<Longrightarrow> escrows_wf st \<Longrightarrow> escrows_wf st'"
  by (simp add: same_books_def escrows_wf_def get_escrow_counter_def)

text \<open>Replacing a stored escrow, and adding one under the next id.\<close>

lemma escrows_wf_store:
  assumes "escrows_wf st" and "escrows st i = Some e"
    and "escrow_ok i e'" and "dispute_ok i e' (ds i)"
    and "\<forall>j. j \<noteq> i \<longrightarrow> ds j = disputes st j"
    and "escrows st' = (escrows st)(i \<mapsto> e')" and "disputes st' = ds"
    and "escrow_counter st' = escrow_counter st"
  shows "escrows_wf st'"
  using assms by (auto simp: escrows_wf_def get_escrow_counter_def)

lemma escrows_wf_add:
  assumes "escrows_wf st" and "i = get_escrow_counter st"
    and "escrow_ok i e" and "\<not> under_dispute (e_status e)"
    and "escrows st' = (escrows st)(i \<mapsto> e)" and "disputes st' = disputes st"
    and "escrow_counter st' = Some (Suc i)"
  shows "escrows_wf st'"
  using assms by (auto simp: escrows_wf_def get_escrow_counter_def dispute_ok_def)

end
