(* ===== verification/Payouts.thy ===== *)
theory Payouts
  imports Soroban
begin

text \<open>
  Payments out of a contract's own balance, shared by the contracts: sequences of transfers and
  their effect on balances, and the division of an amount into shares in basis points.
\<close>

section \<open>Sequences of payments\<close>

text \<open>A sequence of payments from the contract's own balance.\<close>

fun pay_list ::
  "'l host \<Rightarrow> address \<Rightarrow> (address \<times> i128) list \<Rightarrow> 'l \<Rightarrow> 'l option" where
  "pay_list h tk [] l = Some l"
| "pay_list h tk ((a, amt) # ps) l =
     (case tok_transfer h l tk (self_address h) a amt of
        None \<Rightarrow> None
      | Some l' \<Rightarrow> pay_list h tk ps l')"

lemma pay_list_append:
  "pay_list h tk (ps @ qs) l = (case pay_list h tk ps l of None \<Rightarrow> None | Some l' \<Rightarrow> pay_list h tk qs l')"
  by (induction ps arbitrary: l) (auto split: option.splits)

lemma pay_list_snoc:
  "pay_list h tk ps l = Some l' \<Longrightarrow> tok_transfer h l' tk (self_address h) a amt = Some l'' \<Longrightarrow>
     pay_list h tk (ps @ [(a, amt)]) l = Some l''"
  by (simp add: pay_list_append)

section \<open>What the recipients get\<close>

definition received :: "address \<Rightarrow> (address \<times> i128) list \<Rightarrow> int" where
  "received a ps = sum_list (map snd (filter (\<lambda>p. fst p = a) ps))"

lemma received_simps [simp]:
  "received a [] = 0"
  "received a ((b, amt) # ps) = (if b = a then amt else 0) + received a ps"
  by (simp_all add: received_def)

lemma received_append: "received a (ps @ qs) = received a ps + received a qs"
  by (simp add: received_def)

lemma received_none: "a \<notin> fst ` set ps \<Longrightarrow> received a ps = 0"
  by (induction ps) auto

lemma pay_list_effect:
  "token_laws V h \<Longrightarrow> pay_list h tk ps l = Some l' \<Longrightarrow>
     allowance V l' = allowance V l \<and> (\<forall>p \<in> set ps. 0 \<le> snd p) \<and>
     (\<forall>t a. balance V l' t a = balance V l t a +
        (if t = tk then received a ps - (if a = self_address h then sum_list (map snd ps) else 0)
         else 0))"
proof (induction ps arbitrary: l)
  case Nil
  then show ?case by simp
next
  case (Cons p ps)
  obtain b amt where p: "p = (b, amt)" by (cases p)
  with Cons.prems obtain l1 where l1: "tok_transfer h l tk (self_address h) b amt = Some l1"
    and rest: "pay_list h tk ps l1 = Some l'"
    by (auto split: option.splits)
  note m = token_laws_transfer [OF Cons.prems(1) l1]
  from Cons.IH [OF Cons.prems(1) rest] m show ?case
    by (auto simp: p moves_def)
qed

lemma received_nonneg: "\<forall>p \<in> set ps. 0 \<le> snd p \<Longrightarrow> 0 \<le> received a ps"
  by (auto simp: received_def intro!: sum_list_nonneg)

lemma pay_list_self:
  assumes "token_laws V h" and "pay_list h tk ps l = Some l'"
  shows "balance V l t (self_address h) - (if t = tk then sum_list (map snd ps) else 0)
    \<le> balance V l' t (self_address h)"
  using pay_list_effect [OF assms] received_nonneg [of ps "self_address h"] by auto

section \<open>Shares\<close>

text \<open>The positive shares of a list of recipients, in its order.\<close>

definition share_list :: "i128 \<Rightarrow> (address \<times> u32) list \<Rightarrow> (address \<times> i128) list" where
  "share_list whole sellers =
     filter (\<lambda>p. 0 < snd p) (map (\<lambda>(a, bps). (a, bps_share whole bps)) sellers)"

lemma share_list_Cons:
  "share_list whole ((a, n) # ss) =
     (if 0 < bps_share whole n then [(a, bps_share whole n)] else []) @ share_list whole ss"
  by (simp add: share_list_def)

lemma sum_share_list:
  "0 \<le> whole \<Longrightarrow> sum_list (map snd (share_list whole ss)) = (\<Sum>n\<leftarrow>map snd ss. bps_share whole n)"
proof (induction ss)
  case Nil
  then show ?case by (simp add: share_list_def)
next
  case (Cons s ss)
  then show ?case
    using bps_share_nonneg [of whole "snd s"]
    by (cases s) (simp add: share_list_Cons)
qed

lemma share_list_recipients: "fst ` set (share_list whole ss) \<subseteq> fst ` set ss"
  by (force simp: share_list_def)

lemma received_share_list:
  "0 \<le> whole \<Longrightarrow> received a (share_list whole ss) =
     (\<Sum>s\<leftarrow>filter (\<lambda>s. fst s = a) ss. bps_share whole (snd s))"
proof (induction ss)
  case Nil
  then show ?case by (simp add: share_list_def)
next
  case (Cons s ss)
  then show ?case
    using bps_share_nonneg [of whole "snd s"]
    by (cases s) (auto simp: share_list_Cons received_append)
qed

lemma bps_share_bound:
  assumes "0 \<le> a" and "n \<le> m"
  shows "bps_share a n * 10000 \<le> a * int m"
proof -
  have "bps_share a n * 10000 \<le> a * int n" using assms(1) by (simp add: bps_share_eq_div)
  also have "\<dots> \<le> a * int m" using assms by (intro mult_left_mono) simp_all
  finally show ?thesis .
qed

lemma bps_share_full: "0 \<le> a \<Longrightarrow> bps_share a 10000 = a"
  by (simp add: bps_share_eq_div)

text \<open>The shares of any part of the recipients fit into the amount.\<close>

lemma shares_le_amount:
  assumes "0 \<le> whole" and "sum_list ns \<le> 10000"
  shows "(\<Sum>n\<leftarrow>ns. bps_share whole n) \<le> whole"
proof -
  have "(\<Sum>n\<leftarrow>ns. bps_share whole n) * 10000 \<le> whole * int (sum_list ns)"
    by (rule sum_bps_share_le [OF assms(1)])
  also have "\<dots> \<le> whole * 10000"
    using assms by (intro mult_left_mono) simp_all
  finally show ?thesis by simp
qed

end
