(* ===== verification/Escrow_Spec.thy ===== *)
theory Escrow_Spec
  imports Escrow_Machine Payouts
begin

text \<open>
  The abstract contract of the escrow: what may happen to the books in one step, who must have
  authorised it and where the money goes.  \<open>escrow_step\<close> is the specification; the refinement
  lemmas show that every entry point is a finite sequence of such steps.
\<close>

section \<open>Lifecycle of one escrow\<close>

inductive status_step :: "escrow_status \<Rightarrow> escrow_status \<Rightarrow> bool" where
  partially_release: "is_open_escrow_status s \<Longrightarrow> status_step s PartiallyReleased"
| release: "is_open_escrow_status s \<Longrightarrow> status_step s Released"
| refund: "is_open_escrow_status s \<Longrightarrow> status_step s Refunded"
| dispute: "is_open_escrow_status s \<Longrightarrow> status_step s Disputed"
| partially_dispute: "is_open_escrow_status s \<Longrightarrow> status_step s PartiallyDisputed"
| resolve_release: "under_dispute s \<Longrightarrow> status_step s Released"
| resolve_refund: "under_dispute s \<Longrightarrow> status_step s Refunded"

inductive_simps status_step_simps: "status_step s s'"
inductive_cases status_stepE: "status_step s s'"

lemma status_step_holds_funds: "status_step s s' \<Longrightarrow> holds_funds s"
  by (cases s) (auto elim!: status_stepE simp: status_defs)

lemma terminal_final: "is_terminal_escrow_status s \<Longrightarrow> \<not> status_step s s'"
  by (cases s) (auto elim!: status_stepE simp: status_defs)

section \<open>Who may settle\<close>

text \<open>The inactivity window of an escrow has passed.\<close>

definition buyer_inactive :: "'l host \<Rightarrow> 'l escrow_state \<Rightarrow> u32 \<Rightarrow> escrow \<Rightarrow> bool" where
  "buyer_inactive h st i e \<longleftrightarrow> e_buyer_inactivity_release_seconds e \<noteq> 0 \<and>
     e_buyer_inactivity_release_seconds e
       \<le> saturating_sub (timestamp h) (unwrap_or (e_created_at e) (last_buyer_action st i))"

definition settlement_authorised ::
  "'l host \<Rightarrow> 'l escrow_state \<Rightarrow> u32 \<Rightarrow> escrow \<Rightarrow> escrow_status \<Rightarrow> bool" where
  "settlement_authorised h st i e s' \<longleftrightarrow>
     (if under_dispute (e_status e) then authorized h (e_arbiter e)
      else if s' = Refunded then authorized h (e_buyer e) \<and> e_deadline e < timestamp h
      else if under_dispute s' then authorized h (e_buyer e) \<or> authorized h (e_seller e)
      else authorized h (e_buyer e) \<or> authorized h (e_arbiter e) \<or>
        authorized h (e_seller e) \<and> buyer_inactive h st i e)"

definition entitled :: "'l escrow_state \<Rightarrow> escrow \<Rightarrow> address \<Rightarrow> bool" where
  "entitled st e a \<longleftrightarrow> a \<in> fst ` set (e_sellers e) \<or> a = e_buyer e \<or> fee_recipient st = Some a"

section \<open>Money\<close>

text \<open>The funds the contract keeps for an escrow.\<close>

definition locked :: "escrow \<Rightarrow> int" where
  "locked e = (if holds_funds (e_status e) then e_amount e else 0)"

section \<open>Steps of the specification\<close>

definition adds_escrow :: "u32 \<Rightarrow> escrow \<Rightarrow> 'l escrow_state \<Rightarrow> 'l escrow_state \<Rightarrow> bool" where
  "adds_escrow i e st st' \<longleftrightarrow> i = get_escrow_counter st \<and> i < 4294967295 \<and>
     escrow_ok i e \<and> e_status e = Active \<and>
     escrows st' = (escrows st)(i \<mapsto> e) \<and> escrow_counter st' = Some (Suc i) \<and>
     disputes st' = disputes st"

definition changes_escrow ::
  "u32 \<Rightarrow> escrow \<Rightarrow> escrow \<Rightarrow> 'l escrow_state \<Rightarrow> 'l escrow_state \<Rightarrow> bool" where
  "changes_escrow i e e' st st' \<longleftrightarrow> escrows st i = Some e \<and> escrow_ok i e' \<and>
     escrows st' = (escrows st)(i \<mapsto> e') \<and> escrow_counter st' = escrow_counter st \<and>
     dispute_ok i e' (disputes st' i) \<and> (\<forall>j. j \<noteq> i \<longrightarrow> disputes st' j = disputes st j)"

text \<open>Terms an escrow keeps for good: the token, the creation time, the sellers and the arbiter.\<close>

definition same_terms :: "escrow \<Rightarrow> escrow \<Rightarrow> bool" where
  "same_terms e e' \<longleftrightarrow> e_token e' = e_token e \<and> e_created_at e' = e_created_at e \<and>
     e_sellers e' = e_sellers e \<and> e_arbiter e' = e_arbiter e \<and>
     e_renewal_count e' = e_renewal_count e"

inductive escrow_step :: "'l host \<Rightarrow> 'l escrow_state \<Rightarrow> 'l escrow_state \<Rightarrow> bool" for h where
  settings: "same_books st st' \<Longrightarrow> escrow_step h st st'"
| fund: "adds_escrow i e st st' \<Longrightarrow> authorized h (e_buyer e) \<Longrightarrow>
     tok_transfer h (ledger st) (e_token e) (e_buyer e) (self_address h) (e_amount e)
       = Some (ledger st') \<Longrightarrow>
     escrow_step h st st'"
| renew: "adds_escrow i e st st' \<Longrightarrow>
     tok_transfer_from h (ledger st) (e_token e) (self_address h) (e_buyer e) (self_address h)
       (e_amount e) = Some (ledger st') \<Longrightarrow>
     escrow_step h st st'"
| amend: "changes_escrow i e e' st st' \<Longrightarrow> same_terms e e' \<Longrightarrow> e_status e' = e_status e \<Longrightarrow>
     e_amount e' = e_amount e \<Longrightarrow> e_deadline e \<le> e_deadline e' \<Longrightarrow> ledger st' = ledger st \<Longrightarrow>
     escrow_step h st st'"
| approve: "escrows st' = escrows st \<Longrightarrow> escrow_counter st' = escrow_counter st \<Longrightarrow>
     disputes st' = disputes st \<Longrightarrow> authorized h buyer \<Longrightarrow>
     tok_approve h (ledger st) tk buyer (self_address h) amt ex = Some (ledger st') \<Longrightarrow>
     escrow_step h st st'"
| settle: "changes_escrow i e e' st st' \<Longrightarrow> same_terms e e' \<Longrightarrow> e_deadline e' = e_deadline e \<Longrightarrow>
     status_step (e_status e) (e_status e') \<Longrightarrow>
     settlement_authorised h st i e (e_status e') \<Longrightarrow>
     pay_list h (e_token e) ps (ledger st) = Some (ledger st') \<Longrightarrow>
     sum_list (map snd ps) = locked e - locked e' \<Longrightarrow>
     \<forall>a \<in> fst ` set ps. entitled st e a \<Longrightarrow>
     e_amount e' \<le> e_amount e \<Longrightarrow>
     escrow_step h st st'"

text \<open>Every step keeps the books well formed.\<close>

lemma escrow_step_wf: "escrow_step h st st' \<Longrightarrow> escrows_wf st \<Longrightarrow> escrows_wf st'"
proof (induction rule: escrow_step.induct)
  case (settings st st')
  then show ?case by (blast intro: same_books_wf)
next
  case (fund i e st st')
  show ?case
    by (rule escrows_wf_add [of st i e])
      (use \<open>escrows_wf st\<close> \<open>adds_escrow i e st st'\<close> in
        \<open>auto simp: adds_escrow_def under_dispute_def\<close>)
next
  case (renew i e st st')
  show ?case
    by (rule escrows_wf_add [of st i e])
      (use \<open>escrows_wf st\<close> \<open>adds_escrow i e st st'\<close> in
        \<open>auto simp: adds_escrow_def under_dispute_def\<close>)
next
  case (amend i e e' st st')
  show ?case
    by (rule escrows_wf_store [of st i e e' "disputes st'" st'])
      (use \<open>escrows_wf st\<close> \<open>changes_escrow i e e' st st'\<close> in \<open>simp_all add: changes_escrow_def\<close>)
next
  case (approve st' st buyer tk amt ex)
  then show ?case by (simp add: escrows_wf_def get_escrow_counter_def)
next
  case (settle i e e' st st' ps)
  show ?case
    by (rule escrows_wf_store [of st i e e' "disputes st'" st'])
      (use \<open>escrows_wf st\<close> \<open>changes_escrow i e e' st st'\<close> in \<open>simp_all add: changes_escrow_def\<close>)
qed

lemma escrow_steps_wf: "(escrow_step h)\<^sup>*\<^sup>* st st' \<Longrightarrow> escrows_wf st \<Longrightarrow> escrows_wf st'"
  by (induction rule: rtranclp_induct) (auto intro: escrow_step_wf)

end
