(* ===== verification/Escrow_Refine.thy ===== *)
theory Escrow_Refine
  imports Escrow_Spec
begin

text \<open>
  The refinement: every successful entry point of the contract is a finite sequence of steps of
  \<open>escrow_step\<close>.  One lemma per operation gives its effect on the books; the summary at the end
  covers the machine.
\<close>

section \<open>Creation\<close>

lemma full_allocation_single [simp]: "full_allocation [(s, 10000)]"
  by (simp add: full_allocation_def)

lemma create_escrow_core_adds:
  assumes "create_escrow_core h b s a amt tk dl mh ss ar rc bi st = Inr (i, st')"
  shows "\<exists>e. adds_escrow i e st st' \<and> e_buyer e = b \<and> e_token e = tk \<and> e_amount e = amt \<and>
     tok_transfer h (ledger st) tk b (self_address h) amt = Some (ledger st')"
proof -
  obtain rs where "resolve_sellers s ss = Inr rs"
    using assms by (auto simp: create_escrow_core_def ok_simps)
  moreover from this have "full_allocation rs" by (rule resolve_sellers_full)
  ultimately show ?thesis
    using assms
    by (intro exI [of _ "the (escrows st' i)"],
        clarsimp simp: create_escrow_core_def Let_def ok_simps)
      (simp add: adds_escrow_def escrow_emit_defs escrow_ok_def get_escrow_counter_def status_defs)
qed

lemma create_escrow_from_template_adds:
  assumes "create_escrow_from_template h b s t amt st = Inr (i, st')"
  shows "authorized h b \<and> (\<exists>e. adds_escrow i e st st' \<and> e_buyer e = b \<and> e_amount e = amt \<and>
     tok_transfer h (ledger st) (e_token e) b (self_address h) amt = Some (ledger st'))"
    (is "_ \<and> ?rest")
proof (rule conjI)
  show "authorized h b" using assms by (simp add: create_escrow_from_template_def ok_simps)
next
  show "?rest"
    using assms
    by (intro exI [of _ "the (escrows st' i)"],
        clarsimp simp: create_escrow_from_template_def Let_def ok_simps)
      (simp add: adds_escrow_def escrow_emit_defs escrow_ok_def get_escrow_counter_def status_defs)
qed

lemma create_escrow_with_pool_arbiter_adds:
  assumes "create_escrow_with_pool_arbiter h b s amt tk dl st = Inr (i, st')"
  shows "authorized h b \<and> (\<exists>e. adds_escrow i e st st' \<and> e_buyer e = b \<and> e_token e = tk \<and>
     e_amount e = amt \<and> tok_transfer h (ledger st) tk b (self_address h) amt = Some (ledger st'))"
    (is "_ \<and> ?rest")
proof (rule conjI)
  show "authorized h b" using assms by (simp add: create_escrow_with_pool_arbiter_def ok_simps)
next
  show "?rest"
    using assms
    by (intro exI [of _ "the (escrows st' i)"],
        clarsimp simp: create_escrow_with_pool_arbiter_def Let_def ok_simps)
      (simp add: adds_escrow_def escrow_emit_defs escrow_ok_def get_escrow_counter_def status_defs)
qed

lemma create_escrow_core_step:
  "create_escrow_core h b s a amt tk dl mh ss ar rc bi st = Inr (i, st') \<Longrightarrow> authorized h b \<Longrightarrow>
     escrow_step h st st'"
  by (drule create_escrow_core_adds) (auto intro: escrow_step.fund)

lemma create_escrow_step:
  "create_escrow h b s a amt tk dl mh ss ar rc bi st = Inr (i, st') \<Longrightarrow> escrow_step h st st'"
  by (auto simp: create_escrow_def ok_simps intro: create_escrow_core_step)

lemma create_escrow_from_template_step:
  "create_escrow_from_template h b s t amt st = Inr (i, st') \<Longrightarrow> escrow_step h st st'"
  by (drule create_escrow_from_template_adds) (auto intro: escrow_step.fund)

lemma create_escrow_with_pool_arbiter_step:
  "create_escrow_with_pool_arbiter h b s amt tk dl st = Inr (i, st') \<Longrightarrow> escrow_step h st st'"
  by (drule create_escrow_with_pool_arbiter_adds) (auto intro: escrow_step.fund)

lemma create_batch_loop_steps:
  "create_batch_loop h b cfgs ids fst_id lst_id st = Inr (ids', fst_id', lst_id', st') \<Longrightarrow>
     authorized h b \<Longrightarrow> (escrow_step h)\<^sup>*\<^sup>* st st'"
proof (induction cfgs arbitrary: ids fst_id lst_id st)
  case Nil
  then show ?case by simp
next
  case (Cons cfg cfgs)
  then obtain i st1 where "escrow_step h st st1"
    and "create_batch_loop h b cfgs (ids @ [i]) (if fst_id = None then Some i else fst_id) i st1
      = Inr (ids', fst_id', lst_id', st')"
    by (auto simp: ok_simps dest: create_escrow_core_step)
  with Cons.IH Cons.prems(2) show ?case by (meson converse_rtranclp_into_rtranclp)
qed

lemma create_escrows_batch_steps:
  assumes "create_escrows_batch h b cfgs st = Inr (ids, st')"
  shows "(escrow_step h)\<^sup>*\<^sup>* st st'"
proof -
  obtain f l st1 where "create_batch_loop h b cfgs [] None 0 st = Inr (ids, f, l, st1)"
    and "authorized h b" and "same_books st1 st'"
    using assms
    by (auto simp: create_escrows_batch_def ok_simps escrow_emit_defs)
  then show ?thesis
    by (meson create_batch_loop_steps escrow_step.settings rtranclp.rtrancl_into_rtrancl)
qed

lemma create_escrow_w_timeout_steps:
  assumes "create_escrow_w_timeout h b s a amt tk dl mh ss rc t st = Inr (i, st')"
    and "escrows_wf st"
  shows "(escrow_step h)\<^sup>*\<^sup>* st st'"
proof -
  obtain st1 e where c: "create_escrow h b s a amt tk dl mh ss (0 < rc) rc 0 st = Inr (i, st1)"
    and e: "escrows st1 i = Some e"
    and st': "st' = store_escrow i (e\<lparr>e_dispute_timeout_seconds := Some t\<rparr>) st1"
    using assms(1) by (auto simp: create_escrow_w_timeout_def Let_def ok_simps)
  have s1: "escrow_step h st st1" by (rule create_escrow_step [OF c])
  note wf = escrows_wfD [OF escrow_step_wf [OF s1 assms(2)] e]
  have "escrow_step h st1 st'"
    by (rule escrow_step.amend [of i e "e\<lparr>e_dispute_timeout_seconds := Some t\<rparr>"])
      (use wf e in \<open>simp_all add: st' changes_escrow_def same_terms_def escrow_ok_def dispute_ok_def\<close>)
  with s1 show ?thesis by simp
qed

section \<open>Release\<close>

text \<open>The payments of a multi-party release, in the order the code makes them.\<close>

definition release_payments :: "escrow \<Rightarrow> (address \<times> i128) list" where
  "release_payments e =
     (if length (e_sellers e) \<le> 1 then [(e_seller e, e_amount e)]
      else
        let others = share_list (e_amount e) (tl (e_sellers e));
            first_share = e_amount e - sum_list (map snd others)
        in others @ (if 0 < first_share then [(fst (hd (e_sellers e)), first_share)] else []))"

lemma pay_other_sellers_Inr:
  assumes "pay_other_sellers h tk whole ss d st = Inr (d', st')" and "0 \<le> whole"
  shows "pay_list h tk (share_list whole ss) (ledger st) = Some (ledger st') \<and>
    d' = d + (\<Sum>n\<leftarrow>map snd ss. bps_share whole n) \<and> st' = st\<lparr>ledger := ledger st'\<rparr>"
  using assms(1)
proof (induction ss arbitrary: d st)
  case Nil
  then show ?case by (simp add: share_list_def)
next
  case (Cons s ss)
  obtain a n where s: "s = (a, n)" by (cases s)
  from Cons.prems obtain st1 where st1: "(if 0 < bps_share whole n
        then pay_out h tk a (bps_share whole n) st else Inr st) = Inr st1"
    and rest: "pay_other_sellers h tk whole ss (d + bps_share whole n) st1 = Inr (d', st')"
    unfolding s pay_other_sellers.simps and_then_Inr arith128_Inr bps_share_def by blast
  show ?case
    using Cons.IH [OF rest] st1
    by (cases "0 < bps_share whole n") (auto simp: s share_list_Cons pay_out_def ok_simps)
qed

lemma sum_release_payments:
  assumes "escrow_ok i e"
  shows "sum_list (map snd (release_payments e)) = e_amount e"
proof (cases "length (e_sellers e) \<le> 1")
  case True
  then show ?thesis by (simp add: release_payments_def)
next
  case False
  then obtain s ss where ss: "e_sellers e = s # ss" by (cases "e_sellers e") auto
  have amt: "0 \<le> e_amount e" and full: "snd s + sum_list (map snd ss) = 10000"
    using assms ss by (simp_all add: escrow_ok_def full_allocation_def)
  have "(\<Sum>n\<leftarrow>map snd ss. bps_share (e_amount e) n) \<le> e_amount e"
    by (rule shares_le_amount [OF amt]) (use full in simp)
  with False ss amt show ?thesis by (simp add: release_payments_def Let_def sum_share_list)
qed

lemma pay_release_Inr:
  assumes "pay_release h i e st = Inr st'" and "0 \<le> e_amount e"
  shows "\<exists>l ev. pay_list h (e_token e) (release_payments e) (ledger st) = Some l \<and>
    st' = publish ev (st\<lparr>ledger := l\<rparr>)"
proof (cases "length (e_sellers e) \<le> 1")
  case True
  then show ?thesis
    using assms(1)
    by (auto simp: pay_release_def release_payments_def pay_out_def Let_def ok_simps escrow_emit_defs)
next
  case False
  let ?others = "share_list (e_amount e) (tl (e_sellers e))"
  let ?first = "e_amount e - sum_list (map snd ?others)"
  obtain d st1 st2 where p: "pay_other_sellers h (e_token e) (e_amount e) (tl (e_sellers e)) 0 st = Inr (d, st1)"
    and f: "(if 0 < e_amount e - d then pay_out h (e_token e) (fst (hd (e_sellers e))) (e_amount e - d) st1
        else Inr st1) = Inr st2"
    and st': "st' = emit_multi_party_escrow_released i (e_amount e) st2"
    using assms(1) False
    by (clarsimp simp: pay_release_def Let_def ok_simps)
  obtain l where l: "pay_list h (e_token e) ?others (ledger st) = Some l"
    and d: "sum_list (map snd ?others) = d" and st1: "st1 = st\<lparr>ledger := l\<rparr>"
    using pay_other_sellers_Inr [OF p assms(2)] assms(2) by (auto simp: sum_share_list)
  show ?thesis
  proof (cases "0 < e_amount e - d")
    case True
    then obtain l' where "tok_transfer h l (e_token e) (self_address h) (fst (hd (e_sellers e)))
        (e_amount e - d) = Some l'" and "st2 = st\<lparr>ledger := l'\<rparr>"
      using f by (auto simp: pay_out_def ok_simps st1)
    with True False l show ?thesis
      by (auto simp: st' release_payments_def Let_def pay_list_append d escrow_emit_defs)
  next
    case no_rest: False
    with False f l show ?thesis
      by (auto simp: st' st1 release_payments_def Let_def d escrow_emit_defs)
  qed
qed

lemma release_payments_recipients:
  assumes "escrow_ok i e"
  shows "fst ` set (release_payments e) \<subseteq> fst ` set (e_sellers e)"
proof -
  have "e_sellers e \<noteq> []" and "e_seller e = fst (hd (e_sellers e))"
    using assms by (simp_all add: escrow_ok_def full_allocation_def)
  moreover from this have "fst ` set (tl (e_sellers e)) \<subseteq> fst ` set (e_sellers e)"
    and "fst (hd (e_sellers e)) \<in> fst ` set (e_sellers e)"
    by (auto dest: list.set_sel(2))
  ultimately show ?thesis
    using subset_trans [OF share_list_recipients [of "e_amount e" "tl (e_sellers e)"]]
    by (auto simp: release_payments_def Let_def image_subset_iff simp del: image_iff)
qed

text \<open>The escrow a renewal opens: the same terms, from now, one renewal fewer.\<close>

definition renewed_escrow :: "'l host \<Rightarrow> u32 \<Rightarrow> escrow \<Rightarrow> escrow" where
  "renewed_escrow h k e = e\<lparr>e_id := k, e_status := Active, e_created_at := timestamp h,
     e_deadline := timestamp h + (e_deadline e - e_created_at e),
     e_renewals_remaining := e_renewals_remaining e - (if e_renewal_count e = 0 then 0 else 1)\<rparr>"

definition renews :: "escrow \<Rightarrow> bool" where
  "renews e \<longleftrightarrow> e_auto_renew e \<and> (e_renewal_count e = 0 \<or> 0 < e_renewals_remaining e)"

text \<open>Renewal does nothing, or opens the next escrow with the buyer's pre-approved money.\<close>

lemma try_auto_renew_Inr:
  assumes "try_auto_renew h i e st = Inr st'"
    and "e_renewal_count e = 0 \<longrightarrow> e_renewals_remaining e = 0"
  shows "\<not> renews e \<and> st' = st \<or>
    renews e \<and> (\<exists>n l. let k = get_escrow_counter st; e' = renewed_escrow h k e in
      renewal_allowance st i = Some (Suc n) \<and> e_created_at e < e_deadline e \<and> k < 4294967295 \<and>
      tok_transfer_from h (ledger st) (e_token e) (self_address h) (e_buyer e) (self_address h)
        (e_amount e) = Some l \<and>
      st' = publish (EscrowAutoRenewed i k (e_renewals_remaining e'))
        ((store_escrow k e' (init_last_buyer_action (e_buyer_inactivity_release_seconds e) k
            (timestamp h) (st\<lparr>ledger := l, escrow_counter := Some (Suc k)\<rparr>)))
          \<lparr>renewal_allowance := (renewal_allowance st)(k \<mapsto> n)\<rparr>))"
proof (cases "renews e")
  case False
  then have "st' = st"
    using assms(1) by (cases "e_auto_renew e") (simp_all add: renews_def try_auto_renew_def)
  with False show ?thesis by simp
next
  case True
  then have auto_renew: "e_auto_renew e" by (simp add: renews_def)
  have allow: "\<exists>n. renewal_allowance st i = Some (Suc n)" if "0 < unwrap_or 0 (renewal_allowance st i)"
    using that by (cases "renewal_allowance st i") (auto dest: gr0_implies_Suc)
  show ?thesis
  proof (cases "e_renewal_count e = 0")
    case c: True
    show ?thesis
      using assms auto_renew c True allow
      by (cases e, clarsimp simp: try_auto_renew_def Let_def ok_simps escrow_emit_defs
            saturating_sub_def get_escrow_counter_def)
        (simp add: renewed_escrow_def)
  next
    case c: False
    then have "0 < e_renewals_remaining e" using True by (simp add: renews_def)
    then show ?thesis
      using assms auto_renew c True allow
      by (cases e, clarsimp simp: try_auto_renew_def Let_def ok_simps escrow_emit_defs
            saturating_sub_def get_escrow_counter_def)
        (simp add: renewed_escrow_def)
  qed
qed

lemma renewed_escrow_ok: "escrow_ok i e \<Longrightarrow> 0 < e_amount e \<Longrightarrow> escrow_ok k (renewed_escrow h k e)"
  by (auto simp: escrow_ok_def renewed_escrow_def)

lemma try_auto_renew_cases:
  assumes "try_auto_renew h i e st = Inr st'" and "escrow_ok i e" and "0 < e_amount e"
  shows "st' = st \<or> (\<exists>e'. adds_escrow (get_escrow_counter st) e' st st' \<and>
     e_buyer e' = e_buyer e \<and> e_token e' = e_token e \<and> e_amount e' = e_amount e \<and>
     tok_transfer_from h (ledger st) (e_token e) (self_address h) (e_buyer e) (self_address h)
       (e_amount e) = Some (ledger st'))"
proof -
  have "e_renewal_count e = 0 \<longrightarrow> e_renewals_remaining e = 0"
    using assms(2) by (simp add: escrow_ok_def)
  from try_auto_renew_Inr [OF assms(1) this] show ?thesis
    using renewed_escrow_ok [OF assms(2,3), of "get_escrow_counter st" h]
    by (auto simp: Let_def adds_escrow_def renewed_escrow_def get_escrow_counter_def)
qed

lemma try_auto_renew_step:
  assumes "try_auto_renew h i e st = Inr st'" and "escrow_ok i e" and "0 < e_amount e"
  shows "(escrow_step h)\<^sup>*\<^sup>* st st'"
  using try_auto_renew_cases [OF assms] by (metis escrow_step.renew r_into_rtranclp rtranclp.rtrancl_refl)

text \<open>The release itself, without the renewal.\<close>

lemma release_escrow_settles:
  assumes "release_escrow h c i st = Inr st'" and "escrows_wf st"
  shows "\<exists>e st1. escrows st i = Some e \<and> is_open_escrow_status (e_status e) \<and>
     authorized h c \<and> (c = e_buyer e \<or> c = e_arbiter e) \<and>
     changes_escrow i e (e\<lparr>e_status := Released\<rparr>) st st1 \<and> disputes st1 = disputes st \<and>
     renewal_allowance st1 = renewal_allowance st \<and>
     pay_list h (e_token e) (release_payments e) (ledger st) = Some (ledger st1) \<and>
     try_auto_renew h i e st1 = Inr st'"
proof -
  obtain e st0 where e: "escrows st i = Some e" and c: "authorized h c" "c = e_buyer e \<or> c = e_arbiter e"
    and o: "is_open_escrow_status (e_status e)"
    and p: "pay_release h i e (track_buyer h c e st) = Inr st0"
    and r: "try_auto_renew h i e (store_escrow i (e\<lparr>e_status := Released\<rparr>) st0) = Inr st'"
    using assms(1) by (clarsimp simp: release_escrow_def Let_def ok_simps)
  note wf = escrows_wfD [OF assms(2) e]
  obtain l ev where "pay_list h (e_token e) (release_payments e) (ledger st) = Some l"
    and "st0 = publish ev ((track_buyer h c e st)\<lparr>ledger := l\<rparr>)"
    using pay_release_Inr [OF p] wf(2) by (auto simp: escrow_ok_def)
  with e c o r wf show ?thesis
    by (intro exI [of _ e] exI [of _ "store_escrow i (e\<lparr>e_status := Released\<rparr>) st0"])
      (auto simp: changes_escrow_def escrow_ok_def dispute_ok_def status_defs)
qed

lemma release_escrow_steps:
  assumes "release_escrow h c i st = Inr st'" and "escrows_wf st"
  shows "(escrow_step h)\<^sup>*\<^sup>* st st'"
proof -
  obtain e st1 where e: "escrows st i = Some e" and o: "is_open_escrow_status (e_status e)"
    and a: "authorized h c" "c = e_buyer e \<or> c = e_arbiter e"
    and ch: "changes_escrow i e (e\<lparr>e_status := Released\<rparr>) st st1"
    and p: "pay_list h (e_token e) (release_payments e) (ledger st) = Some (ledger st1)"
    and r: "try_auto_renew h i e st1 = Inr st'"
    using release_escrow_settles [OF assms] by blast
  note wf = escrows_wfD [OF assms(2) e]
  have open_facts: "\<not> under_dispute (e_status e)" "holds_funds (e_status e)"
    using o by (auto simp: status_defs split: escrow_status.splits)
  have "escrow_step h st st1"
    by (rule escrow_step.settle [OF ch, of h "release_payments e"])
      (use a o open_facts p wf(2) sum_release_payments [OF wf(2)] release_payments_recipients [OF wf(2)] in
        \<open>auto simp: same_terms_def settlement_authorised_def under_dispute_def locked_def
          holds_funds_def entitled_def intro: status_step.release\<close>)
  moreover have "(escrow_step h)\<^sup>*\<^sup>* st1 st'"
    by (rule try_auto_renew_step [OF r wf(2)]) (use wf(2) open_facts in \<open>simp add: escrow_ok_def\<close>)
  ultimately show ?thesis by simp
qed

section \<open>Partial release, disputes and their resolution\<close>

lemma escrow_ok_seller: "escrow_ok i e \<Longrightarrow> e_seller e \<in> fst ` set (e_sellers e)"
  by (auto simp: escrow_ok_def full_allocation_def)

lemma open_status: "is_open_escrow_status s \<Longrightarrow> \<not> under_dispute s \<and> holds_funds s"
  by (cases s) (simp_all add: status_defs)

lemma disputed_status: "under_dispute s \<Longrightarrow> \<not> is_open_escrow_status s \<and> holds_funds s"
  by (cases s) (simp_all add: status_defs)

lemma partial_release_step:
  assumes "partial_release h c i amt st = Inr st'" and "escrows_wf st"
  shows "escrow_step h st st'"
proof -
  obtain e where e: "escrows st i = Some e" and o: "is_open_escrow_status (e_status e)"
    using assms(1) by (clarsimp simp: partial_release_def ok_simps)
  note wf = escrows_wfD [OF assms(2) e]
  let ?e = "e\<lparr>e_amount := e_amount e - amt,
    e_status := if e_amount e - amt = 0 then Released else PartiallyReleased\<rparr>"
  have facts: "authorized h c" "c = e_buyer e \<or> c = e_arbiter e" "0 < amt" "amt \<le> e_amount e"
    "tok_transfer h (ledger st) (e_token e) (self_address h) (e_seller e) amt = Some (ledger st')"
    "escrows st' = (escrows st)(i \<mapsto> ?e)" "escrow_counter st' = escrow_counter st"
    "disputes st' = disputes st"
    using assms(1) e
    by (auto simp: partial_release_def Let_def ok_simps pay_out_def escrow_emit_defs)
  have ch: "changes_escrow i e ?e st st'"
    using facts wf e by (auto simp: changes_escrow_def escrow_ok_def dispute_ok_def status_defs)
  show ?thesis
    by (rule escrow_step.settle [OF ch, of h "[(e_seller e, amt)]"])
      (use facts open_status [OF o] o escrow_ok_seller [OF wf(2)] in
        \<open>auto simp: same_terms_def settlement_authorised_def entitled_def locked_def status_defs
          intro: status_step.intros\<close>)
qed

lemma dispute_escrow_step:
  assumes "dispute_escrow h c i r amt st = Inr st'" and "escrows_wf st"
  shows "escrow_step h st st'"
proof -
  obtain e where e: "escrows st i = Some e" and o: "is_open_escrow_status (e_status e)"
    using assms(1) by (clarsimp simp: dispute_escrow_def ok_simps)
  note wf = escrows_wfD [OF assms(2) e]
  let ?rest = "e_amount e - amt"
  let ?e = "e\<lparr>e_amount := amt, e_status := if 0 < ?rest then PartiallyDisputed else Disputed\<rparr>"
  let ?d = "\<lparr>d_escrow_id = i, d_reason = r, d_created_at = timestamp h, d_resolved = False,
    d_dispute_amount = amt, d_timeout_seconds = e_dispute_timeout_seconds e\<rparr>"
  let ?ps = "if 0 < ?rest then [(e_seller e, ?rest)] else []"
  have facts: "authorized h c" "c = e_buyer e \<or> c = e_seller e" "0 < amt" "amt \<le> e_amount e"
    "pay_list h (e_token e) ?ps (ledger st) = Some (ledger st')"
    "escrows st' = (escrows st)(i \<mapsto> ?e)" "escrow_counter st' = escrow_counter st"
    "disputes st' = (disputes st)(i \<mapsto> ?d)"
    using assms(1) e
    by (auto simp: dispute_escrow_def Let_def ok_simps pay_out_def escrow_emit_defs)
  have ch: "changes_escrow i e ?e st st'"
    using facts wf e by (auto simp: changes_escrow_def escrow_ok_def dispute_ok_def status_defs)
  show ?thesis
    by (rule escrow_step.settle [OF ch _ _ _ _ facts(5)])
      (use facts(1-4) open_status [OF o] o escrow_ok_seller [OF wf(2)] in
        \<open>auto simp: same_terms_def settlement_authorised_def entitled_def locked_def status_defs
          intro: status_step.intros\<close>)
qed

text \<open>The payments of a resolution: the protocol fee, if there is one, then the winner.\<close>

definition resolution_payments ::
  "'l escrow_state \<Rightarrow> escrow \<Rightarrow> bool \<Rightarrow> (address \<times> i128) list" where
  "resolution_payments st e release_to_seller =
     (let fee = bps_share (e_amount e) (unwrap_or 0 (protocol_fee_bps st));
          winner = (if release_to_seller then e_seller e else e_buyer e)
      in (if 0 < fee then [(the (fee_recipient st), fee)] else []) @ [(winner, e_amount e - fee)])"

lemma escrow_resolve_dispute_parts:
  assumes "escrow_resolve_dispute h a i b st = Inr st'"
  obtains e fee st1 st2 where "escrows st i = Some e" and "under_dispute (e_status e)"
    and "authorized h a" and "a = e_arbiter e"
    and "fee = bps_share (e_amount e) (unwrap_or 0 (protocol_fee_bps st))"
    and "(if 0 < fee then and_then (expect FeeRecipientNotSet (fee_recipient st)) (\<lambda>recipient.
                      and_then (pay_out h (e_token e) recipient fee st) (\<lambda>st.
                      Inr (emit_protocol_fee_paid i fee recipient st)))
                 else Inr st) = Inr st1"
    and "pay_out h (e_token e) (if b then e_seller e else e_buyer e) (e_amount e - fee) st1 = Inr st2"
    and "st' = escrow_emit_dispute_resolved i b a
       (case disputes st2 i of
          None \<Rightarrow> store_escrow i (e\<lparr>e_status := if b then Released else Refunded\<rparr>) st2
        | Some d \<Rightarrow> store_escrow i (e\<lparr>e_status := if b then Released else Refunded\<rparr>) st2
            \<lparr>disputes := (disputes st2)(i \<mapsto> d\<lparr>d_resolved := True\<rparr>)\<rparr>)"
proof -
  obtain e where e: "escrows st i = Some e" and s: "under_dispute (e_status e)"
    and a: "authorized h a" "a = e_arbiter e"
    using assms(1) by (auto simp: escrow_resolve_dispute_def Let_def ok_simps under_dispute_def)
  show ?thesis
    using assms(1) e s a that [of e "bps_share (e_amount e) (unwrap_or 0 (protocol_fee_bps st))"]
    unfolding under_dispute_def bps_share_def
    by (cases b) (auto simp: escrow_resolve_dispute_def Let_def and_then_Inr arith128_Inr expect_Inr
        cong: option.case_cong)
qed

lemma escrow_resolve_dispute_Inr:
  assumes "escrow_resolve_dispute h a i b st = Inr st'" and "escrows_wf st"
  shows "\<exists>e. escrows st i = Some e \<and> under_dispute (e_status e) \<and> authorized h a \<and>
    a = e_arbiter e \<and> pay_list h (e_token e) (resolution_payments st e b) (ledger st) = Some (ledger st') \<and>
    (0 < bps_share (e_amount e) (unwrap_or 0 (protocol_fee_bps st)) \<longrightarrow> fee_recipient st \<noteq> None) \<and>
    changes_escrow i e (e\<lparr>e_status := if b then Released else Refunded\<rparr>) st st'"
proof -
  obtain e fee st1 st2 where e: "escrows st i = Some e" and s: "under_dispute (e_status e)"
    and a: "authorized h a" "a = e_arbiter e"
    and fee: "fee = bps_share (e_amount e) (unwrap_or 0 (protocol_fee_bps st))"
    and f: "(if 0 < fee then and_then (expect FeeRecipientNotSet (fee_recipient st)) (\<lambda>recipient.
                      and_then (pay_out h (e_token e) recipient fee st) (\<lambda>st.
                      Inr (emit_protocol_fee_paid i fee recipient st)))
                 else Inr st) = Inr st1"
    and w: "pay_out h (e_token e) (if b then e_seller e else e_buyer e) (e_amount e - fee) st1 = Inr st2"
    and st': "st' = escrow_emit_dispute_resolved i b a
       (case disputes st2 i of
          None \<Rightarrow> store_escrow i (e\<lparr>e_status := if b then Released else Refunded\<rparr>) st2
        | Some d \<Rightarrow> store_escrow i (e\<lparr>e_status := if b then Released else Refunded\<rparr>) st2
            \<lparr>disputes := (disputes st2)(i \<mapsto> d\<lparr>d_resolved := True\<rparr>)\<rparr>)"
    by (rule escrow_resolve_dispute_parts [OF assms(1)])
  note wf = escrows_wfD [OF assms(2) e]
  let ?fee = fee
  let ?e = "e\<lparr>e_status := if b then Released else Refunded\<rparr>"
  have st1: "escrows st1 = escrows st" "escrow_counter st1 = escrow_counter st"
    "disputes st1 = disputes st"
    "(if 0 < ?fee then \<exists>r. fee_recipient st = Some r \<and>
        tok_transfer h (ledger st) (e_token e) (self_address h) r ?fee = Some (ledger st1)
      else ledger st1 = ledger st)"
    using f by (auto simp: ok_simps pay_out_def escrow_emit_defs split: if_splits)
  have st2: "escrows st2 = escrows st" "escrow_counter st2 = escrow_counter st"
    "disputes st2 = disputes st"
    "tok_transfer h (ledger st1) (e_token e) (self_address h) (if b then e_seller e else e_buyer e)
       (e_amount e - ?fee) = Some (ledger st2)"
    using w st1 by (auto simp: ok_simps pay_out_def)
  have "changes_escrow i e ?e st st'"
    using wf e st2 s
    by (auto simp: st' changes_escrow_def escrow_ok_def dispute_ok_def status_defs
        escrow_emit_defs split: option.splits)
  moreover have "pay_list h (e_token e) (resolution_payments st e b) (ledger st) = Some (ledger st')"
    using st1(4) st2(4) by (auto simp: st' resolution_payments_def Let_def escrow_emit_defs fee
        split: option.splits if_splits)
  ultimately show ?thesis using e s a st1(4) by (auto simp: fee split: if_splits)
qed

lemma escrow_resolve_dispute_step:
  assumes "escrow_resolve_dispute h a i b st = Inr st'" and "escrows_wf st"
  shows "escrow_step h st st'"
proof -
  obtain e where e: "escrows st i = Some e" and s: "under_dispute (e_status e)"
    and a: "authorized h a" "a = e_arbiter e"
    and p: "pay_list h (e_token e) (resolution_payments st e b) (ledger st) = Some (ledger st')"
    and r: "0 < bps_share (e_amount e) (unwrap_or 0 (protocol_fee_bps st)) \<Longrightarrow> fee_recipient st \<noteq> None"
    and ch: "changes_escrow i e (e\<lparr>e_status := if b then Released else Refunded\<rparr>) st st'"
    using escrow_resolve_dispute_Inr [OF assms] by blast
  note wf = escrows_wfD [OF assms(2) e]
  have "0 \<le> bps_share (e_amount e) (unwrap_or 0 (protocol_fee_bps st))"
    using wf(2) by (simp add: escrow_ok_def bps_share_nonneg)
  then have "sum_list (map snd (resolution_payments st e b)) = e_amount e"
    by (simp add: resolution_payments_def Let_def)
  moreover have "\<forall>x \<in> fst ` set (resolution_payments st e b). entitled st e x"
    using r escrow_ok_seller [OF wf(2)]
    by (auto simp: resolution_payments_def Let_def entitled_def)
  ultimately show ?thesis
    by (intro escrow_step.settle [OF ch _ _ _ _ p])
      (use a s disputed_status [OF s] in
        \<open>auto simp: same_terms_def settlement_authorised_def locked_def holds_funds_def
          intro: status_step.intros\<close>)
qed

section \<open>Expiry and inactivity\<close>

lemma auto_release_expired_step:
  assumes "auto_release_expired h i st = Inr st'" and "escrows_wf st"
  shows "escrow_step h st st'"
proof -
  obtain e where e: "escrows st i = Some e" and o: "is_open_escrow_status (e_status e)"
    using assms(1) by (auto simp: auto_release_expired_def ok_simps)
  note wf = escrows_wfD [OF assms(2) e]
  let ?e = "e\<lparr>e_status := Refunded\<rparr>"
  have facts: "authorized h (e_buyer e)" "e_deadline e < timestamp h"
    "pay_list h (e_token e) [(e_buyer e, e_amount e)] (ledger st) = Some (ledger st')"
    "escrows st' = (escrows st)(i \<mapsto> ?e)" "escrow_counter st' = escrow_counter st"
    "disputes st' = disputes st"
    using assms(1) e
    by (auto simp: auto_release_expired_def Let_def ok_simps pay_out_def escrow_emit_defs)
  have ch: "changes_escrow i e ?e st st'"
    using facts wf e by (auto simp: changes_escrow_def escrow_ok_def dispute_ok_def status_defs)
  show ?thesis
    by (rule escrow_step.settle [OF ch _ _ _ _ facts(3)])
      (use facts(1,2) open_status [OF o] o in
        \<open>auto simp: same_terms_def settlement_authorised_def entitled_def locked_def status_defs
          intro: status_step.intros\<close>)
qed

lemma claim_inactivity_release_step:
  assumes "claim_inactivity_release h s i st = Inr st'" and "escrows_wf st"
  shows "escrow_step h st st'"
proof -
  obtain e where e: "escrows st i = Some e" and o: "is_open_escrow_status (e_status e)"
    using assms(1) by (auto simp: claim_inactivity_release_def ok_simps)
  note wf = escrows_wfD [OF assms(2) e]
  let ?e = "e\<lparr>e_status := Released\<rparr>"
  have facts: "authorized h (e_seller e)" "buyer_inactive h st i e"
    "pay_list h (e_token e) [(e_seller e, e_amount e)] (ledger st) = Some (ledger st')"
    "escrows st' = (escrows st)(i \<mapsto> ?e)" "escrow_counter st' = escrow_counter st"
    "disputes st' = disputes st"
    using assms(1) e
    by (auto simp: claim_inactivity_release_def Let_def ok_simps pay_out_def escrow_emit_defs
        buyer_inactive_def)
  have ch: "changes_escrow i e ?e st st'"
    using facts wf e by (auto simp: changes_escrow_def escrow_ok_def dispute_ok_def status_defs)
  show ?thesis
    by (rule escrow_step.settle [OF ch _ _ _ _ facts(3)])
      (use facts(1,2) open_status [OF o] o escrow_ok_seller [OF wf(2)] in
        \<open>auto simp: same_terms_def settlement_authorised_def entitled_def locked_def status_defs
          intro: status_step.intros\<close>)
qed

section \<open>Amendments\<close>

text \<open>An amendment replaces one escrow and keeps its money, its status and its terms.\<close>

lemma amend_step:
  assumes "escrows_wf st" and "escrows st i = Some e"
    and "escrows st' = (escrows st)(i \<mapsto> e')" and "escrow_counter st' = escrow_counter st"
    and "disputes st' = disputes st" and "ledger st' = ledger st"
    and "same_terms e e'" and "e_status e' = e_status e" and "e_amount e' = e_amount e"
    and "e_deadline e \<le> e_deadline e'" and "e_id e' = e_id e" and "e_seller e' = e_seller e"
    and "e_renewals_remaining e' \<le> e_renewals_remaining e"
  shows "escrow_step h st st'"
proof -
  note wf = escrows_wfD [OF assms(1,2)]
  have "changes_escrow i e e' st st'"
    using assms wf by (auto simp: changes_escrow_def escrow_ok_def dispute_ok_def same_terms_def)
  then show ?thesis using assms by (auto intro: escrow_step.amend)
qed

lemma set_renewal_allowance_step:
  "set_renewal_allowance h b i n st = Inr st' \<Longrightarrow> escrow_step h st st'"
  by (clarsimp simp: set_renewal_allowance_def Let_def ok_simps) (rule escrow_step.approve; simp)

lemma cancel_auto_renew_step:
  assumes "cancel_auto_renew h b i st = Inr st'" and "escrows_wf st"
  shows "escrow_step h st st'"
  using assms(1)
  by (clarsimp simp: cancel_auto_renew_def Let_def ok_simps)
    (rule amend_step [OF assms(2), where e' = "the (escrows st' i)"], assumption, simp_all add: same_terms_def)

lemma accept_deadline_extension_step:
  assumes "accept_deadline_extension h c i st = Inr st'" and "escrows_wf st"
  shows "escrow_step h st st'"
  using assms(1)
  by (clarsimp simp: accept_deadline_extension_def Let_def ok_simps)
    (rule amend_step [OF assms(2), where e' = "the (escrows st' i)"], assumption, simp_all add: same_terms_def escrow_emit_defs)

lemma transfer_buyer_role_step:
  assumes "transfer_buyer_role h c i n st = Inr st'" and "escrows_wf st"
  shows "escrow_step h st st'"
  using assms(1)
  by (clarsimp simp: transfer_buyer_role_def Let_def ok_simps)
    (rule amend_step [OF assms(2), where e' = "the (escrows st' i)"], assumption, simp_all add: same_terms_def escrow_emit_defs)

lemma update_metadata_step:
  assumes "update_metadata h c i m st = Inr st'" and "escrows_wf st"
  shows "escrow_step h st st'"
  using assms(1)
  by (clarsimp simp: update_metadata_def Let_def ok_simps)
    (rule amend_step [OF assms(2), where e' = "the (escrows st' i)"], assumption, simp_all add: same_terms_def escrow_emit_defs)

section \<open>Every entry point refines the specification\<close>

lemmas single_steps = create_escrow_step create_escrow_from_template_step
  create_escrow_with_pool_arbiter_step set_renewal_allowance_step

lemmas wf_steps = partial_release_step dispute_escrow_step escrow_resolve_dispute_step
  auto_release_expired_step claim_inactivity_release_step cancel_auto_renew_step
  accept_deadline_extension_step transfer_buyer_role_step update_metadata_step

lemmas many_steps = create_escrows_batch_steps create_escrow_w_timeout_steps release_escrow_steps

lemma escrow_step_steps: "escrow_step h st st' \<Longrightarrow> (escrow_step h)\<^sup>*\<^sup>* st st'"
  by (rule r_into_rtranclp)

lemma escrow_exec_refines:
  assumes "escrow_exec h op st = Inr st'" and "escrows_wf st"
  shows "(escrow_step h)\<^sup>*\<^sup>* st st'"
proof (cases "bookkeeping op")
  case False
  then have "escrow_step h st st'"
    using no_bookkeeping_books [OF assms(1)] by (blast intro: escrow_step.settings)
  then show ?thesis by simp
next
  case True
  then show ?thesis
    using assms
    by (cases op; clarsimp simp: state_of_Inr;
        elim many_steps single_steps [THEN escrow_step_steps] wf_steps [THEN escrow_step_steps])
qed

lemma escrow_exec_wf: "escrow_exec h op st = Inr st' \<Longrightarrow> escrows_wf st \<Longrightarrow> escrows_wf st'"
  by (blast dest: escrow_exec_refines intro: escrow_steps_wf)

end
