(* ===== verification/Escrow_Solvency.thy ===== *)
theory Escrow_Solvency
  imports Escrow_Refine
begin

text \<open>
  The money of the escrow contract: in every reachable state the contract's balance of each
  token covers what it owes to the escrows that still hold funds.  The token contract, the
  other transactions of the ledger and the environment are parameters; \<open>token_laws\<close> and
  \<open>escrow_drift\<close> say what is relied on.
\<close>

section \<open>What the contract owes\<close>

definition owed :: "address \<Rightarrow> escrow option \<Rightarrow> int" where
  "owed tk e = (case e of None \<Rightarrow> 0 | Some e \<Rightarrow> if e_token e = tk then locked e else 0)"

definition liability :: "'l escrow_state \<Rightarrow> address \<Rightarrow> int" where
  "liability st tk = (\<Sum>k<get_escrow_counter st. owed tk (escrows st k))"

definition surplus :: "'l view \<Rightarrow> address \<Rightarrow> 'l escrow_state \<Rightarrow> address \<Rightarrow> int" where
  "surplus V self st tk = balance V (ledger st) tk self - liability st tk"

lemma owed_simps [simp]:
  "owed tk None = 0"
  "owed tk (Some e) = (if e_token e = tk then locked e else 0)"
  by (simp_all add: owed_def)

lemma liability_add:
  "adds_escrow i e st st' \<Longrightarrow>
     liability st' tk = liability st tk + (if e_token e = tk then e_amount e else 0)"
  by (simp add: adds_escrow_def liability_def get_escrow_counter_def locked_def holds_funds_def
      sum_fun_upd_fresh [where f = "owed tk"] del: fun_upd_apply sum.lessThan_Suc)

lemma liability_change:
  assumes "changes_escrow i e e' st st'" and "escrows_wf st" and "same_terms e e'"
  shows "liability st' tk = liability st tk - (if e_token e = tk then locked e - locked e' else 0)"
proof -
  have "i < get_escrow_counter st" and "escrows st i = Some e"
    using assms by (auto simp: changes_escrow_def escrows_wf_def)
  then show ?thesis
    using assms
    by (simp add: changes_escrow_def liability_def get_escrow_counter_def same_terms_def
        sum_fun_upd [where f = "owed tk"] del: fun_upd_apply)
qed

section \<open>Steps never eat into the surplus\<close>

definition escrow_legal :: "'l view \<Rightarrow> address \<Rightarrow> 'l host \<Rightarrow> bool" where
  "escrow_legal V self h \<longleftrightarrow> token_laws V h \<and> self_address h = self \<and> \<not> authorized h self"

text \<open>The contract has approved nobody to spend on its own behalf to itself.\<close>

definition no_self_allowance :: "'l view \<Rightarrow> address \<Rightarrow> 'l \<Rightarrow> bool" where
  "no_self_allowance V self l \<longleftrightarrow> (\<forall>tk. allowance V l tk self self \<le> 0)"

lemma escrow_step_surplus:
  assumes "escrow_step h st st'" and "escrow_legal V self h" and "escrows_wf st"
    and "no_self_allowance V self (ledger st)"
  shows "no_self_allowance V self (ledger st') \<and> (\<forall>tk. surplus V self st tk \<le> surplus V self st' tk)"
  using assms
proof (induction rule: escrow_step.induct)
  case (settings st st')
  then show ?case by (simp add: same_books_def surplus_def liability_def get_escrow_counter_def)
next
  case (fund i e st st')
  have "moves V (ledger st) (ledger st') (e_token e) (e_buyer e) self (e_amount e)"
    and "allowance V (ledger st') = allowance V (ledger st)" and "e_buyer e \<noteq> self"
    using fund token_laws_transfer [OF _ fund(3)] by (auto simp: escrow_legal_def)
  with fund show ?case
    by (simp add: surplus_def liability_add moves_balance no_self_allowance_def)
next
  case (renew i e st st')
  have m: "moves V (ledger st) (ledger st') (e_token e) (e_buyer e) self (e_amount e)"
    and le: "e_amount e \<le> allowance V (ledger st) (e_token e) (e_buyer e) self"
    and al: "allowance V (ledger st') = (allowance V (ledger st))(e_token e :=
      (allowance V (ledger st) (e_token e))(e_buyer e :=
        (allowance V (ledger st) (e_token e) (e_buyer e))(self :=
           allowance V (ledger st) (e_token e) (e_buyer e) self - e_amount e)))"
    using token_laws_transfer_from [OF _ renew(2), of V] renew.prems by (auto simp: escrow_legal_def)
  have "0 < e_amount e"
    using renew(1) by (simp add: adds_escrow_def escrow_ok_def holds_funds_def)
  then have "e_buyer e \<noteq> self"
    using le renew.prems(3) unfolding no_self_allowance_def by (metis less_le_not_le order_trans)
  with renew m al show ?case
    by (auto simp: surplus_def liability_add moves_balance no_self_allowance_def)
next
  case (amend i e e' st st')
  then have "locked e' = locked e" by (simp add: locked_def)
  with amend show ?case by (simp add: surplus_def liability_change)
next
  case (approve st' st buyer tk amt ex)
  have "buyer \<noteq> self" using approve by (auto simp: escrow_legal_def)
  with approve show ?case
    using token_laws_approve [OF _ approve(5), of V]
    by (auto simp: escrow_legal_def surplus_def liability_def get_escrow_counter_def
        no_self_allowance_def)
next
  case (settle i e e' st st' ps)
  then have laws: "token_laws V h" and self: "self_address h = self"
    by (simp_all add: escrow_legal_def)
  have "allowance V (ledger st') = allowance V (ledger st)"
    using pay_list_effect [OF laws settle(6)] by blast
  moreover have "surplus V self st tk \<le> surplus V self st' tk" for tk
    using settle pay_list_self [OF laws settle(6), of tk, unfolded self]
    by (simp add: surplus_def liability_change split: if_splits)
  ultimately show ?case using settle.prems by (simp add: no_self_allowance_def)
qed

lemma escrow_steps_surplus:
  "(escrow_step h)\<^sup>*\<^sup>* st st' \<Longrightarrow> escrow_legal V self h \<Longrightarrow> escrows_wf st \<Longrightarrow>
     no_self_allowance V self (ledger st) \<Longrightarrow>
     no_self_allowance V self (ledger st') \<and> (\<forall>tk. surplus V self st tk \<le> surplus V self st' tk)"
proof (induction rule: rtranclp_induct)
  case base
  then show ?case by simp
next
  case (step st1 st2)
  then show ?case
    using escrow_step_surplus [OF step(2) step.prems(1) escrow_steps_wf [OF step(1) step.prems(2)]]
    by (meson order_trans)
qed

section \<open>The machine and its invariant\<close>

definition solvent :: "'l view \<Rightarrow> address \<Rightarrow> 'l escrow_state \<Rightarrow> bool" where
  "solvent V self st \<longleftrightarrow> (\<forall>tk. liability st tk \<le> balance V (ledger st) tk self)"

definition escrow_inv :: "'l view \<Rightarrow> address \<Rightarrow> 'l escrow_state \<Rightarrow> bool" where
  "escrow_inv V self st \<longleftrightarrow>
     escrows_wf st \<and> solvent V self st \<and> no_self_allowance V self (ledger st)"

text \<open>
  What other transactions do between two calls: the token ledger changes, but nobody takes
  from the contract's balance or grants an allowance in its name.
\<close>

definition escrow_drift :: "'l view \<Rightarrow> address \<Rightarrow> 'l escrow_state \<Rightarrow> 'l escrow_state \<Rightarrow> bool" where
  "escrow_drift V self st st' \<longleftrightarrow> st' = st\<lparr>ledger := ledger st'\<rparr> \<and>
     (\<forall>tk. balance V (ledger st) tk self \<le> balance V (ledger st') tk self) \<and>
     (\<forall>tk. allowance V (ledger st') tk self self \<le> allowance V (ledger st) tk self self)"

definition escrow_init :: "'l view \<Rightarrow> address \<Rightarrow> 'l escrow_state \<Rightarrow> bool" where
  "escrow_init V self st \<longleftrightarrow> st = deployed_escrow (ledger st) \<and>
     (\<forall>tk. 0 \<le> balance V (ledger st) tk self) \<and> no_self_allowance V self (ledger st)"

definition escrow_reachable :: "'l view \<Rightarrow> address \<Rightarrow> 'l escrow_state \<Rightarrow> bool" where
  "escrow_reachable V self =
     reachable escrow_exec (escrow_legal V self) (escrow_drift V self) (escrow_init V self)"

lemma solvent_surplus: "solvent V self st \<longleftrightarrow> (\<forall>tk. 0 \<le> surplus V self st tk)"
  by (simp add: solvent_def surplus_def)

lemma deployed_escrow_wf [simp]: "escrows_wf (deployed_escrow l)"
  by (simp add: escrows_wf_def deployed_escrow_def get_escrow_counter_def)

lemma escrow_inv_init: "escrow_init V self st \<Longrightarrow> escrow_inv V self st"
  unfolding escrow_init_def escrow_inv_def solvent_def liability_def
  by (metis deployed_escrow_wf deployed_escrow_def escrow_state.select_convs(1)
      get_escrow_counter_def lessThan_0 sum.empty unwrap_or_simps(1))

lemma escrow_inv_exec:
  assumes "escrow_legal V self h" and "escrow_exec h op st = Inr st'" and "escrow_inv V self st"
  shows "escrow_inv V self st'"
proof -
  have "escrows_wf st" and "no_self_allowance V self (ledger st)"
    using assms(3) by (simp_all add: escrow_inv_def)
  note steps = escrow_exec_refines [OF assms(2) this(1)]
  show ?thesis
    using assms(3) escrow_steps_surplus [OF steps assms(1)] escrow_steps_wf [OF steps]
    unfolding escrow_inv_def solvent_surplus by (meson order_trans)
qed

lemma escrow_inv_drift:
  assumes "escrow_drift V self st st'" and "escrow_inv V self st"
  shows "escrow_inv V self st'"
proof -
  obtain l where st': "st' = st\<lparr>ledger := l\<rparr>"
    and le: "\<forall>tk. balance V (ledger st) tk self \<le> balance V l tk self"
      "\<forall>tk. allowance V l tk self self \<le> allowance V (ledger st) tk self self"
    using assms(1) unfolding escrow_drift_def by metis
  have "escrows_wf st'" and "\<forall>tk. liability st' tk = liability st tk"
    using assms(2)
    by (simp_all add: st' escrow_inv_def escrows_wf_def liability_def get_escrow_counter_def)
  then show ?thesis
    using assms(2) le
    by (simp add: escrow_inv_def solvent_def no_self_allowance_def st') (meson order_trans)
qed

interpretation escrow_contract: contract_machine escrow_exec "escrow_legal V self"
  "escrow_drift V self" "escrow_init V self" "escrow_inv V self"
  for V :: "'l view" and self
  by unfold_locales (fact escrow_inv_init escrow_inv_exec escrow_inv_drift)+

lemma escrow_reachable_inv: "escrow_reachable V self st \<Longrightarrow> escrow_inv V self st"
  unfolding escrow_reachable_def by (rule escrow_contract.reachable_inv)

end
