(* ===== verification/Escrow_Interfaces.thy ===== *)
theory Escrow_Interfaces
  imports Escrow_Solvency
begin

text \<open>
  The escrow contract as an instance of the interfaces of Soroban.thy: its emergency stop, and
  its two families of records with counter ids (escrows and templates).
\<close>

section \<open>The emergency stop\<close>

text \<open>The entry points that call \<open>require_not_paused\<close>.\<close>

fun escrow_guarded :: "escrow_op \<Rightarrow> bool" where
  "escrow_guarded (OpCreate b s a amt tk dl mh ss ar rc bi) = True"
| "escrow_guarded (OpCreateBatch b cfgs) = True"
| "escrow_guarded (OpCreateWTimeout b s a amt tk dl mh ss rc t) = True"
| "escrow_guarded (OpCreateFromTemplate b s tid amt) = True"
| "escrow_guarded (OpCreateWithPoolArbiter b s amt tk dl) = True"
| "escrow_guarded (OpRelease c i) = True"
| "escrow_guarded (OpPartialRelease c i amt) = True"
| "escrow_guarded (OpDispute c i r amt) = True"
| "escrow_guarded (OpResolveDispute a i b) = True"
| "escrow_guarded (OpAutoReleaseExpired i) = True"
| "escrow_guarded (OpClaimInactivityRelease s i) = True"
| "escrow_guarded (OpSetRenewalAllowance b i n) = True"
| "escrow_guarded (OpCancelAutoRenew b i) = True"
| "escrow_guarded (OpTransferBuyerRole c i n) = True"
| "escrow_guarded (OpSubmitEvidence p i e u) = True"
| "escrow_guarded _ = False"

lemma escrow_paused_blocks:
  "escrow_is_paused st \<Longrightarrow> escrow_guarded op \<Longrightarrow> \<not> succeeds (escrow_exec h op st)"
  by (cases op)
    (simp_all add: succeeds_iff state_of_Inr escrow_create_op_defs(1-4) create_escrows_batch_def
      escrow_settle_op_defs ok_simps Let_def)

interpretation escrow_stop: pausable_machine escrow_is_paused escrow_get_pause_reason
  escrow_pause_contract escrow_resume_contract escrow_exec escrow_guarded
proof unfold_locales
  fix h :: "'l host" and a r and s s' :: "'l escrow_state"
  show "escrow_pause_contract h a r s = Inr s' \<Longrightarrow>
      \<not> escrow_is_paused s \<and> escrow_is_paused s' \<and> escrow_get_pause_reason s' = r"
    by (auto simp: escrow_pause_contract_def require_or_bootstrap_admin_def ok_simps
        escrow_is_paused_def escrow_get_pause_reason_def escrow_emit_defs split: option.splits)
  show "escrow_resume_contract h a s = Inr s' \<Longrightarrow>
      escrow_is_paused s \<and> \<not> escrow_is_paused s' \<and> escrow_get_pause_reason s' = []"
    by (auto simp: escrow_resume_contract_def ok_simps escrow_is_paused_def
        escrow_get_pause_reason_def escrow_emit_defs)
  show "escrow_is_paused s \<Longrightarrow> escrow_guarded op \<Longrightarrow> \<not> succeeds (escrow_exec h op s)" for op
    by (rule escrow_paused_blocks)
qed

section \<open>Ids\<close>

type_synonym creation_args =
  "address \<times> address \<times> address \<times> i128 \<times> address \<times> u64 \<times> bytes32 option \<times>
   (address \<times> u32) list \<times> bool \<times> u32 \<times> u64"

definition create_core_args ::
  "'l host \<times> creation_args \<Rightarrow> 'l escrow_state \<Rightarrow> (escrow_panic, u32 \<times> 'l escrow_state) outcome" where
  "create_core_args = (\<lambda>(h, b, s, a, amt, tk, dl, mh, ss, ar, rc, bi).
     create_escrow_core h b s a amt tk dl mh ss ar rc bi)"

interpretation escrow_ids: id_store get_escrow_counter escrows create_core_args
proof unfold_locales
  fix x and s s' :: "'l escrow_state" and i
  assume "create_core_args x s = Inr (i, s')"
  then obtain e where "adds_escrow i e s s'"
    by (cases x) (auto simp: create_core_args_def dest: create_escrow_core_adds)
  then show "i = get_escrow_counter s \<and> get_escrow_counter s' = Suc i"
    and "escrows s' i \<noteq> None" and "\<And>j. j \<noteq> i \<Longrightarrow> escrows s' j = escrows s j"
    by (auto simp: adds_escrow_def get_escrow_counter_def)
qed

definition pool_args ::
  "'l host \<times> address \<times> address \<times> i128 \<times> address \<times> u64 \<Rightarrow> 'l escrow_state \<Rightarrow>
   (escrow_panic, u32 \<times> 'l escrow_state) outcome" where
  "pool_args = (\<lambda>(h, b, s, amt, tk, dl). create_escrow_with_pool_arbiter h b s amt tk dl)"

interpretation pool_ids: id_store get_escrow_counter escrows pool_args
proof unfold_locales
  fix x and s s' :: "'l escrow_state" and i
  assume "pool_args x s = Inr (i, s')"
  then obtain e where "adds_escrow i e s s'"
    by (cases x) (auto simp: pool_args_def dest: create_escrow_with_pool_arbiter_adds)
  then show "i = get_escrow_counter s \<and> get_escrow_counter s' = Suc i"
    and "escrows s' i \<noteq> None" and "\<And>j. j \<noteq> i \<Longrightarrow> escrows s' j = escrows s j"
    by (auto simp: adds_escrow_def get_escrow_counter_def)
qed

definition get_template_counter :: "'l escrow_state \<Rightarrow> u32" where
  "get_template_counter st = unwrap_or 0 (template_counter st)"

definition template_args ::
  "'l host \<times> address \<times> escrow_template_config \<Rightarrow> 'l escrow_state \<Rightarrow>
   (escrow_panic, u32 \<times> 'l escrow_state) outcome" where
  "template_args = (\<lambda>(h, c, cfg). create_escrow_template h c cfg)"

interpretation template_ids: id_store get_template_counter templates template_args
  by unfold_locales
    (auto simp: template_args_def create_escrow_template_def get_template_counter_def Let_def
      ok_simps escrow_emit_defs)

end
