(* ===== verification/Escrow_Settings.thy ===== *)
theory Escrow_Settings
  imports Escrow_Interfaces
begin

text \<open>
  What an entry point leaves alone.  A component \<open>f\<close> of the storage that the bookkeeping
  updates do not touch is kept by every entry point that has no business with it; the settings
  (admin, emergency stop, fee, allowlist, arbiter pool, default dispute timeout) and the
  evidence are two such components.
\<close>

section \<open>Components untouched by bookkeeping\<close>

locale escrow_frame =
  fixes f :: "'l escrow_state \<Rightarrow> 'v"
  assumes frame [simp]:
    "f (publish ev st) = f st"
    "f (st\<lparr>escrows := es\<rparr>) = f st"
    "f (st\<lparr>ledger := l\<rparr>) = f st"
    "f (st\<lparr>escrow_counter := c\<rparr>) = f st"
    "f (st\<lparr>next_arbiter_index := n\<rparr>) = f st"
    "f (st\<lparr>disputes := d\<rparr>) = f st"
    "f (st\<lparr>renewal_allowance := r\<rparr>) = f st"
    "f (st\<lparr>deadline_proposals := p\<rparr>) = f st"
    "f (st\<lparr>escrow_metadata := m\<rparr>) = f st"
    "f (st\<lparr>template_counter := c\<rparr>) = f st"
    "f (st\<lparr>templates := ts\<rparr>) = f st"
    "f (st\<lparr>contract_version := c\<rparr>) = f st"
    "f (st\<lparr>migration_completed := mc\<rparr>) = f st"
    "f (st\<lparr>last_buyer_action := lb\<rparr>) = f st"
begin

lemma frame_helpers [simp]:
  "f (store_escrow i e st) = f st"
  "f (init_last_buyer_action w i t st) = f st"
  "f (store_metadata i mh t st) = f st"
  "f (track_buyer h who e st) = f st"
  "f (snd (escrow_get_or_init_version st)) = f st"
  by (simp_all add: store_escrow_def init_last_buyer_action_def store_metadata_def
      track_buyer_def update_last_buyer_action_def escrow_get_or_init_version_def
      split: option.splits)

lemma create_escrow_core_frame:
  "create_escrow_core h b s a amt tk dl mh ss ar rc bi st = Inr (i, st') \<Longrightarrow> f st' = f st"
  by (clarsimp simp: create_escrow_core_def Let_def ok_simps) (simp add: escrow_emit_defs)

lemma create_escrow_frame:
  "create_escrow h b s a amt tk dl mh ss ar rc bi st = Inr (i, st') \<Longrightarrow> f st' = f st"
  by (auto simp: create_escrow_def ok_simps dest: create_escrow_core_frame)

lemma create_batch_loop_frame:
  "create_batch_loop h b cfgs ids fi li st = Inr (ids', fi', li', st') \<Longrightarrow> f st' = f st"
proof (induction cfgs arbitrary: ids fi li st)
  case Nil
  then show ?case by simp
next
  case (Cons cfg cfgs)
  then obtain i st1 where "f st1 = f st"
    and "create_batch_loop h b cfgs (ids @ [i]) (if fi = None then Some i else fi) i st1
      = Inr (ids', fi', li', st')"
    by (auto simp: ok_simps dest: create_escrow_core_frame)
  with Cons.IH show ?case by fastforce
qed

lemma create_frames:
  "create_escrows_batch h b cfgs st = Inr (ids, st') \<Longrightarrow> f st' = f st"
  "create_escrow_w_timeout h b s a amt tk dl mh ss rc t st = Inr (i, st') \<Longrightarrow> f st' = f st"
  by (auto simp: create_escrows_batch_def create_escrow_w_timeout_def Let_def ok_simps
      escrow_emit_defs dest: create_batch_loop_frame create_escrow_frame)

lemma create_escrow_from_template_frame:
  "create_escrow_from_template h b s t amt st = Inr (i, st') \<Longrightarrow> f st' = f st"
  by (clarsimp simp: create_escrow_from_template_def Let_def ok_simps) (simp add: escrow_emit_defs)

lemma create_escrow_with_pool_arbiter_frame:
  "create_escrow_with_pool_arbiter h b s amt tk dl st = Inr (i, st') \<Longrightarrow> f st' = f st"
  by (clarsimp simp: create_escrow_with_pool_arbiter_def Let_def ok_simps)
    (simp add: escrow_emit_defs)

lemma try_auto_renew_frame:
  assumes "try_auto_renew h i e st = Inr st'" and "escrow_ok i e"
  shows "f st' = f st"
proof -
  have "e_renewal_count e = 0 \<longrightarrow> e_renewals_remaining e = 0"
    using assms(2) by (simp add: escrow_ok_def)
  from try_auto_renew_Inr [OF assms(1) this] show ?thesis by (auto simp: Let_def)
qed

lemma release_escrow_frame:
  assumes "release_escrow h c i st = Inr st'" and "escrows_wf st"
  shows "f st' = f st"
proof -
  obtain e st0 where e: "escrows st i = Some e" and p: "pay_release h i e (track_buyer h c e st) = Inr st0"
    and r: "try_auto_renew h i e (store_escrow i (e\<lparr>e_status := Released\<rparr>) st0) = Inr st'"
    using assms(1) by (clarsimp simp: release_escrow_def Let_def ok_simps)
  have "f (store_escrow i (e\<lparr>e_status := Released\<rparr>) st0) = f st"
    using pay_release_Inr [OF p] escrows_wfD(2) [OF assms(2) e] by (auto simp: escrow_ok_def)
  with try_auto_renew_frame [OF r escrows_wfD(2) [OF assms(2) e]] show ?thesis by simp
qed

lemma user_frames:
  "partial_release h c i amt st = Inr st' \<Longrightarrow> f st' = f st"
  "dispute_escrow h c i r amt st = Inr st' \<Longrightarrow> f st' = f st"
  "auto_release_expired h i st = Inr st' \<Longrightarrow> f st' = f st"
  "claim_inactivity_release h c i st = Inr st' \<Longrightarrow> f st' = f st"
  "set_renewal_allowance h c i n st = Inr st' \<Longrightarrow> f st' = f st"
  "cancel_auto_renew h c i st = Inr st' \<Longrightarrow> f st' = f st"
  "propose_deadline_extension h c i d st = Inr st' \<Longrightarrow> f st' = f st"
  "accept_deadline_extension h c i st = Inr st' \<Longrightarrow> f st' = f st"
  "transfer_buyer_role h c i nb st = Inr st' \<Longrightarrow> f st' = f st"
  "update_metadata h c i m st = Inr st' \<Longrightarrow> f st' = f st"
  "escrow_check_escalation h i st = Inr (b, st') \<Longrightarrow> f st' = f st"
  "create_escrow_template h c cfg st = Inr (i, st') \<Longrightarrow> f st' = f st"
  "update_escrow_template h c i cfg st = Inr st' \<Longrightarrow> f st' = f st"
  "deactivate_escrow_template h c i st = Inr st' \<Longrightarrow> f st' = f st"
  by (auto simp: escrow_settle_op_defs escrow_admin_op_defs Let_def ok_simps pay_out_def
      escrow_emit_defs split: if_splits)

lemma escrow_resolve_dispute_frame:
  "escrow_resolve_dispute h a i b st = Inr st' \<Longrightarrow> f st' = f st"
  by (erule escrow_resolve_dispute_parts)
    (auto simp: ok_simps pay_out_def escrow_emit_defs split: if_splits option.splits)

lemma version_frames:
  "escrow_upgrade h a w st = Inr st' \<Longrightarrow> f st' = f st"
  "escrow_migrate h a st = Inr st' \<Longrightarrow> f st' = f st"
  by (auto simp: escrow_upgrade_def escrow_migrate_def escrow_get_or_init_version_def Let_def
      ok_simps escrow_emit_defs split: if_splits option.splits)

lemmas op_frames = create_escrow_frame create_frames create_escrow_from_template_frame
  create_escrow_with_pool_arbiter_frame release_escrow_frame user_frames
  escrow_resolve_dispute_frame version_frames

end

section \<open>Settings\<close>

text \<open>The entry points of an administrator.\<close>

fun administrative :: "escrow_op \<Rightarrow> bool" where
  "administrative (OpInitialize a) = True"
| "administrative (OpUpdateDisputeTimeout a t) = True"
| "administrative (OpUpdateProtocolFee a f r) = True"
| "administrative (OpPause a r) = True"
| "administrative (OpResume a) = True"
| "administrative (OpAddToken a t) = True"
| "administrative (OpRemoveToken a t) = True"
| "administrative (OpAddArbiter a b) = True"
| "administrative (OpRemoveArbiter a b ids) = True"
| "administrative _ = False"

text \<open>A component that evidence does not touch either: only administration can change it.\<close>

locale escrow_setting = escrow_frame f for f :: "'l escrow_state \<Rightarrow> 'v" +
  assumes evidence_frame [simp]: "f (st\<lparr>evidence := ev'\<rparr>) = f st"
begin

lemma submit_evidence_frame: "submit_evidence h c i e u st = Inr st' \<Longrightarrow> f st' = f st"
  by (auto simp: submit_evidence_def Let_def ok_simps escrow_emit_defs)

lemma user_ops_keep:
  assumes "escrow_exec h op st = Inr st'" and "escrows_wf st" and "\<not> administrative op"
  shows "f st' = f st"
  using assms
  by (cases op; clarsimp simp: state_of_Inr escrow_get_version_def;
      elim op_frames submit_evidence_frame)

end

definition escrow_settings ::
  "'l escrow_state \<Rightarrow> address option \<times> bool option \<times> string option \<times> u32 option \<times>
     address option \<times> (address \<Rightarrow> bool option) \<times> address list option \<times> u64 option" where
  "escrow_settings st = (admin st, paused st, pause_reason st, protocol_fee_bps st,
     fee_recipient st, allowed_token st, arbiter_pool st, default_dispute_timeout st)"

interpretation settings_frame: escrow_setting escrow_settings
  by unfold_locales (simp_all add: escrow_settings_def)

section \<open>Evidence\<close>

text \<open>A component that administration does not touch: only evidence can change it.\<close>

locale escrow_record = escrow_frame f for f :: "'l escrow_state \<Rightarrow> 'v" +
  assumes admin_frame [simp]:
    "f (st\<lparr>admin := a\<rparr>) = f st"
    "f (st\<lparr>paused := p'\<rparr>) = f st"
    "f (st\<lparr>pause_reason := r'\<rparr>) = f st"
    "f (st\<lparr>protocol_fee_bps := n\<rparr>) = f st"
    "f (st\<lparr>fee_recipient := a\<rparr>) = f st"
    "f (st\<lparr>allowed_token := al\<rparr>) = f st"
    "f (st\<lparr>arbiter_pool := ap\<rparr>) = f st"
    "f (st\<lparr>arbiter_needs_replacement := nr\<rparr>) = f st"
    "f (st\<lparr>default_dispute_timeout := dt\<rparr>) = f st"
begin

lemma flag_replacements_frame [simp]: "f (flag_replacements a ids st) = f st"
  by (induction ids arbitrary: st) (auto split: option.splits)

lemma admin_op_frames:
  "escrow_initialize a st = Inr st' \<Longrightarrow> f st' = f st"
  "escrow_pause_contract h a r st = Inr st' \<Longrightarrow> f st' = f st"
  "escrow_resume_contract h a st = Inr st' \<Longrightarrow> f st' = f st"
  "update_default_dispute_timeout h a t st = Inr st' \<Longrightarrow> f st' = f st"
  "update_protocol_fee h a n rcp st = Inr st' \<Longrightarrow> f st' = f st"
  "add_allowed_token h a tk st = Inr st' \<Longrightarrow> f st' = f st"
  "remove_allowed_token h a tk st = Inr st' \<Longrightarrow> f st' = f st"
  "add_arbiter h a b st = Inr st' \<Longrightarrow> f st' = f st"
  "remove_arbiter h a b ids st = Inr st' \<Longrightarrow> f st' = f st"
  by (auto simp: escrow_admin_op_defs require_or_bootstrap_admin_def Let_def ok_simps
      escrow_emit_defs split: if_splits option.splits)

lemma other_ops_keep:
  assumes "escrow_exec h op st = Inr st'" and "escrows_wf st"
    and "\<forall>p i e u. op \<noteq> OpSubmitEvidence p i e u"
  shows "f st' = f st"
  using assms
  by (cases op; clarsimp simp: state_of_Inr escrow_get_version_def;
      elim op_frames admin_op_frames)

end

interpretation evidence_frame: escrow_record evidence
  by unfold_locales simp_all

section \<open>The fee cap\<close>

definition fee_capped :: "'l escrow_state \<Rightarrow> bool" where
  "fee_capped st \<longleftrightarrow> unwrap_or 0 (protocol_fee_bps st) \<le> MAX_PROTOCOL_FEE_BPS"

lemma flag_replacements_fee [simp]:
  "protocol_fee_bps (flag_replacements a ids st) = protocol_fee_bps st"
  by (induction ids arbitrary: st) (auto split: option.splits)

lemma administrative_fee_capped:
  "escrow_exec h op st = Inr st' \<Longrightarrow> administrative op \<Longrightarrow> fee_capped st \<Longrightarrow> fee_capped st'"
  by (cases op)
    (auto simp: escrow_admin_op_defs require_or_bootstrap_admin_def Let_def ok_simps
      escrow_emit_defs fee_capped_def split: if_splits option.splits)

lemma escrow_exec_fee_capped:
  assumes "escrow_exec h op st = Inr st'" and "escrows_wf st" and "fee_capped st"
  shows "fee_capped st'"
proof (cases "administrative op")
  case True
  then show ?thesis using assms by (blast intro: administrative_fee_capped)
next
  case False
  then show ?thesis
    using settings_frame.user_ops_keep [OF assms(1,2)] assms(3)
    by (simp add: escrow_settings_def fee_capped_def)
qed

interpretation escrow_fees: contract_machine escrow_exec "escrow_legal V self"
  "escrow_drift V self" "escrow_init V self" "\<lambda>st. escrows_wf st \<and> fee_capped st"
  for V :: "'l view" and self
proof unfold_locales
  fix s s' :: "'l escrow_state"
  show "escrow_init V self s \<Longrightarrow> escrows_wf s \<and> fee_capped s"
    unfolding escrow_init_def
    by (metis MAX_PROTOCOL_FEE_BPS_def deployed_escrow_def deployed_escrow_wf
        escrow_state.select_convs(6) fee_capped_def le0 unwrap_or_simps(1))
  show "escrow_drift V self s s' \<Longrightarrow> escrows_wf s \<and> fee_capped s \<Longrightarrow> escrows_wf s' \<and> fee_capped s'"
    unfolding escrow_drift_def
    by (elim conjE, erule ssubst) (simp add: escrows_wf_def fee_capped_def get_escrow_counter_def)
qed (blast intro: escrow_exec_wf escrow_exec_fee_capped)

lemma escrow_reachable_fee_capped: "escrow_reachable V self st \<Longrightarrow> fee_capped st"
  unfolding escrow_reachable_def by (drule escrow_fees.reachable_inv) simp

end
