(* ===== verification/Escrow_Demo.thy ===== *)
theory Escrow_Demo
  imports Escrow_Interfaces
begin

text \<open>
  A small concrete history of the escrow contract.  The witnesses of the properties apply them
  to its states; nothing else depends on it.
\<close>

definition demo_token :: address where "demo_token = Contract 9"
definition demo_admin :: address where "demo_admin = Account 1"
definition demo_buyer :: address where "demo_buyer = Account 2"
definition demo_seller :: address where "demo_seller = Account 3"
definition demo_arbiter :: address where "demo_arbiter = Account 4"
definition demo_seller2 :: address where "demo_seller2 = Account 5"

lemmas demo_address_defs = demo_token_def demo_admin_def demo_buyer_def demo_seller_def
  demo_arbiter_def demo_seller2_def

definition demo_ledger :: plain_ledger where
  "demo_ledger = \<lparr>pl_bal = (\<lambda>t a. if a = demo_buyer then 1000 else 0), pl_allow = (\<lambda>_ _ _. 0)\<rparr>"

text \<open>Anybody but the contract itself may sign.\<close>

definition everyone :: "address list" where
  "everyone = [demo_admin, demo_buyer, demo_seller, demo_arbiter, demo_seller2]"

definition demo_escrow0 :: "plain_ledger escrow_state" where
  "demo_escrow0 = deployed_escrow demo_ledger"

definition demo_at :: "u64 \<Rightarrow> plain_ledger host" where
  "demo_at now = demo_host now 1 everyone"

definition demo_setup :: "(plain_ledger host \<times> escrow_op) list" where
  "demo_setup =
     [(demo_at 1, OpInitialize demo_admin),
      (demo_at 2, OpAddToken demo_admin demo_token),
      (demo_at 3, OpUpdateProtocolFee demo_admin 150 demo_admin),
      (demo_at 4, OpCreate demo_buyer demo_seller demo_arbiter 101 demo_token 1000 None
         [(demo_seller, 5000), (demo_seller2, 5000)] False 0 100)]"

definition demo_escrow :: "plain_ledger escrow_state" where
  "demo_escrow = run_calls escrow_exec demo_setup demo_escrow0"

lemma demo_legal: "escrow_legal plain_view (Contract 0) (demo_at now)"
  by (simp add: escrow_legal_def demo_at_def token_laws_demo everyone_def demo_address_defs)

lemma demo_init: "escrow_init plain_view (Contract 0) demo_escrow0"
  by (simp add: escrow_init_def demo_escrow0_def deployed_escrow_def plain_view_def demo_ledger_def
      no_self_allowance_def demo_address_defs)

lemma demo_reachable:
  "set (map fst cs) \<subseteq> range demo_at \<Longrightarrow>
     escrow_reachable plain_view (Contract 0) (run_calls escrow_exec cs demo_escrow0)"
  unfolding escrow_reachable_def
  by (rule run_calls_reachable) (auto simp: demo_legal intro: reachable.start demo_init)

lemma demo_escrow_reachable: "escrow_reachable plain_view (Contract 0) demo_escrow"
  unfolding demo_escrow_def by (rule demo_reachable) (simp add: demo_setup_def)

lemma demo_escrow_wf: "escrows_wf demo_escrow"
  using escrow_reachable_inv [OF demo_escrow_reachable] by (simp add: escrow_inv_def)

lemmas escrow_eval = call_tx_def state_of_def escrow_admin_op_defs escrow_create_op_defs
  escrow_settle_op_defs Let_def arith_defs demo_defs demo_address_defs escrow_consts
  escrow_require_admin_def escrow_require_not_paused_def escrow_is_paused_def store_escrow_def
  publish_def escrow_emit_defs next_escrow_id_def resolve_sellers_def init_last_buyer_action_def
  store_metadata_def pay_out_def pay_release_def track_buyer_def update_last_buyer_action_def
  try_auto_renew_def is_open_escrow_status_def everyone_def demo_at_def

definition demo_e0 :: escrow where
  "demo_e0 = \<lparr>e_id = 0, e_buyer = demo_buyer, e_seller = demo_seller, e_arbiter = demo_arbiter,
     e_amount = 101, e_token = demo_token, e_status = Active, e_created_at = 4,
     e_deadline = 1000, e_metadata_hash = None,
     e_sellers = [(demo_seller, 5000), (demo_seller2, 5000)], e_auto_renew = False,
     e_renewal_count = 0, e_renewals_remaining = 0, e_dispute_timeout_seconds = None,
     e_buyer_inactivity_release_seconds = 100\<rparr>"

lemmas demo_eval = escrow_eval demo_setup_def demo_escrow0_def deployed_escrow_def demo_ledger_def

lemma demo_escrow_fields:
  "escrow_counter demo_escrow = Some 1" "escrows demo_escrow 0 = Some demo_e0"
  "paused demo_escrow = None" "protocol_fee_bps demo_escrow = Some 150"
  "admin demo_escrow = Some demo_admin"
  "liability demo_escrow demo_token = 101"
  by (simp_all add: demo_escrow_def demo_eval demo_e0_def liability_def get_escrow_counter_def
    locked_def status_defs)

text \<open>The same history with a dispute over the whole escrow.\<close>

definition demo_disputed :: "plain_ledger escrow_state" where
  "demo_disputed = run_calls escrow_exec
     (demo_setup @ [(demo_at 10, OpDispute demo_buyer 0 ''late'' 101)]) demo_escrow0"

lemma demo_disputed_reachable: "escrow_reachable plain_view (Contract 0) demo_disputed"
  unfolding demo_disputed_def by (rule demo_reachable) (simp add: demo_setup_def)

lemma demo_disputed_wf: "escrows_wf demo_disputed"
  using escrow_reachable_inv [OF demo_disputed_reachable] by (simp add: escrow_inv_def)

lemma demo_disputed_fields:
  "escrows demo_disputed 0 = Some (demo_e0\<lparr>e_status := Disputed\<rparr>)"
  "disputes demo_disputed 0 = Some \<lparr>d_escrow_id = 0, d_reason = ''late'', d_created_at = 10,
     d_resolved = False, d_dispute_amount = 101, d_timeout_seconds = None\<rparr>"
  "protocol_fee_bps demo_disputed = Some 150" "fee_recipient demo_disputed = Some demo_admin"
  by (simp_all add: demo_disputed_def demo_eval demo_e0_def)

end
