(* ===== verification/Escrow_Money.thy ===== *)
theory Escrow_Money
  imports Escrow_Settings Escrow_Demo
begin

text \<open>
  Money properties of the escrow contract: solvency, the refinement of the specification, the
  exact split of a multi-party release, and the split of a dispute and of its resolution.
\<close>

section \<open>Solvency\<close>

text \<open>
  C1. In every reachable state, for every token, what the contract owes to the escrows that still
  hold funds is not negative and is covered by the contract's own balance, whatever sequence of
  entry points (with any callers and arguments) and of foreign transactions led there.
\<close>

theorem escrow_always_solvent:
  assumes "escrow_reachable V self st"
  shows "0 \<le> liability st tk \<and> liability st tk \<le> balance V (ledger st) tk self"
proof
  have inv: "escrows_wf st" "solvent V self st"
    using escrow_reachable_inv [OF assms] by (simp_all add: escrow_inv_def)
  have "0 \<le> owed tk (escrows st k)" for k
    using escrows_wfD(2) [OF inv(1), of k]
    by (cases "escrows st k") (auto simp: escrow_ok_def locked_def)
  then show "0 \<le> liability st tk" by (simp add: liability_def sum_nonneg)
  show "liability st tk \<le> balance V (ledger st) tk self" using inv(2) by (simp add: solvent_def)
qed

lemma escrow_always_solvent_witness:
  "liability demo_escrow demo_token = 101 \<and>
   liability demo_escrow demo_token \<le> balance plain_view (ledger demo_escrow) demo_token (Contract 0)"
  using escrow_always_solvent [OF demo_escrow_reachable, of demo_token]
  by (simp add: demo_escrow_fields)

text \<open>
  C2. Refinement: whatever entry point succeeds on well-formed books, its effect is a finite
  sequence of steps of the specification \<open>escrow_step\<close>: settings, funding by an authorised buyer,
  renewal with pre-approved money, amendments that keep money and terms, approvals, and
  authorised settlements that pay exactly what they unlock to entitled recipients; and the books
  stay well formed.
\<close>

theorem escrow_refines_spec:
  assumes "escrow_exec h op st = Inr st'" and "escrows_wf st"
  shows "(escrow_step h)\<^sup>*\<^sup>* st st' \<and> escrows_wf st'"
  using escrow_exec_refines [OF assms] escrow_exec_wf [OF assms] ..

lemma escrow_refines_spec_witness:
  "(escrow_step (demo_at 5))\<^sup>*\<^sup>* demo_escrow
      (call_tx escrow_exec (demo_at 5, OpRelease demo_buyer 0) demo_escrow) \<and>
   escrow_exec (demo_at 5) (OpRelease demo_buyer 0) demo_escrow \<noteq> Inr demo_escrow"
proof -
  obtain st' where ok: "escrow_exec (demo_at 5) (OpRelease demo_buyer 0) demo_escrow = Inr st'"
    and "map_option e_status (escrows st' 0) = Some Released"
    by (simp add: demo_escrow_def demo_eval)
  moreover have "map_option e_status (escrows demo_escrow 0) = Some Active"
    by (simp add: demo_escrow_fields demo_e0_def)
  ultimately show ?thesis
    using escrow_refines_spec [OF ok demo_escrow_wf] by (auto simp: call_tx_def)
qed

section \<open>The split of a release\<close>

text \<open>The reference: each seller's share rounded down, the remainder to the primary seller.\<close>

definition dust :: "escrow \<Rightarrow> i128" where
  "dust e = e_amount e - (\<Sum>n\<leftarrow>map snd (e_sellers e). bps_share (e_amount e) n)"

definition seller_share :: "escrow \<Rightarrow> address \<Rightarrow> i128" where
  "seller_share e a =
     (\<Sum>s\<leftarrow>filter (\<lambda>s. fst s = a) (e_sellers e). bps_share (e_amount e) (snd s)) +
     (if a = e_seller e then dust e else 0)"

lemma received_release_payments:
  assumes "escrow_ok i e"
  shows "received a (release_payments e) = seller_share e a"
proof -
  obtain s ss where ss: "e_sellers e = s # ss" and p: "e_seller e = fst s"
    using assms by (cases "e_sellers e") (auto simp: escrow_ok_def full_allocation_def)
  have amt: "0 \<le> e_amount e" using assms by (simp add: escrow_ok_def)
  show ?thesis
  proof (cases "ss = []")
    case True
    then have "snd s = 10000" using assms ss by (simp add: escrow_ok_def full_allocation_def)
    with True ss p amt show ?thesis
      by (simp add: release_payments_def seller_share_def dust_def bps_share_full)
  next
    case False
    have "sum_list (map snd ss) \<le> 10000"
      using assms ss by (simp add: escrow_ok_def full_allocation_def)
    then have "(\<Sum>n\<leftarrow>map snd ss. bps_share (e_amount e) n) \<le> e_amount e"
      by (rule shares_le_amount [OF amt])
    with False ss p show ?thesis
      by (auto simp: release_payments_def Let_def received_append received_share_list [OF amt]
          seller_share_def dust_def sum_share_list [OF amt])
  qed
qed

lemma dust_bounds:
  assumes "escrow_ok i e"
  shows "0 \<le> dust e \<and> dust e < int (length (e_sellers e))"
proof -
  have amt: "0 \<le> e_amount e" and full: "sum_list (map snd (e_sellers e)) = 10000"
    and len: "0 < length (e_sellers e)"
    using assms by (simp_all add: escrow_ok_def full_allocation_def)
  have "e_amount e * int (sum_list (map snd (e_sellers e))) - 9999 * int (length (map snd (e_sellers e)))
      \<le> (\<Sum>n\<leftarrow>map snd (e_sellers e). bps_share (e_amount e) n) * 10000"
    by (rule sum_bps_share_ge [OF amt])
  then have "10000 * dust e \<le> 9999 * int (length (e_sellers e))"
    unfolding full by (simp add: dust_def algebra_simps)
  moreover have "0 \<le> dust e"
    using shares_le_amount [OF amt, of "map snd (e_sellers e)"] full by (simp add: dust_def)
  ultimately show ?thesis using len by linarith
qed

text \<open>
  C3. A release without renewal moves exactly the escrowed amount out of the contract and gives
  every seller its share rounded down, the primary seller also the rounding remainder, which is
  less than one unit per seller; no other balance changes.
\<close>

theorem release_pays_exact_shares:
  assumes "token_laws V h" and "escrows_wf st" and "escrows st i = Some e" and "\<not> renews e"
    and "release_escrow h c i st = Inr st'"
  shows "balance V (ledger st') t a = balance V (ledger st) t a +
      (if t = e_token e then seller_share e a - (if a = self_address h then e_amount e else 0) else 0)
    \<and> 0 \<le> dust e \<and> dust e < int (length (e_sellers e))"
proof -
  note ok = escrows_wfD(2) [OF assms(2,3)]
  obtain st1 where p: "pay_list h (e_token e) (release_payments e) (ledger st) = Some (ledger st1)"
    and r: "try_auto_renew h i e st1 = Inr st'"
    using release_escrow_settles [OF assms(5,2)] assms(3) by auto
  have "e_renewal_count e = 0 \<longrightarrow> e_renewals_remaining e = 0"
    using ok by (simp add: escrow_ok_def)
  with try_auto_renew_Inr [OF r] assms(4) have "st' = st1" by blast
  then show ?thesis
    using pay_list_effect [OF assms(1) p] dust_bounds [OF ok]
    by (simp add: received_release_payments [OF ok] sum_release_payments [OF ok])
qed

lemma release_pays_exact_shares_witness:
  "\<exists>st'. release_escrow (demo_at 5) demo_buyer 0 demo_escrow = Inr st' \<and>
     balance plain_view (ledger st') demo_token demo_seller
       = balance plain_view (ledger demo_escrow) demo_token demo_seller + seller_share demo_e0 demo_seller \<and>
     seller_share demo_e0 demo_seller = 51 \<and> dust demo_e0 = 1"
proof -
  obtain st' where ok: "release_escrow (demo_at 5) demo_buyer 0 demo_escrow = Inr st'"
    by (simp add: demo_escrow_def demo_eval)
  have "token_laws plain_view (demo_at 5)" by (simp add: demo_at_def token_laws_demo)
  moreover have "\<not> renews demo_e0" by (simp add: renews_def demo_e0_def)
  ultimately show ?thesis
    using release_pays_exact_shares [OF _ demo_escrow_wf demo_escrow_fields(2) _ ok,
        of plain_view demo_token demo_seller] ok
    by (simp add: demo_e0_def seller_share_def dust_def bps_share_def demo_at_def demo_address_defs)
qed

section \<open>Disputes\<close>

text \<open>
  C4. Raising a dispute over part of an escrow pays the undisputed part to the seller, keeps
  exactly the disputed part in the escrow, and opens one unresolved dispute over that amount; the
  two parts add up to the escrowed amount and no other balance changes.
\<close>

theorem dispute_splits_amount:
  assumes "token_laws V h" and "escrows st i = Some e"
    and "dispute_escrow h c i r amt st = Inr st'"
  shows "0 < amt \<and> amt \<le> e_amount e \<and>
    escrows st' i = Some (e\<lparr>e_amount := amt,
      e_status := if amt = e_amount e then Disputed else PartiallyDisputed\<rparr>) \<and>
    disputes st' i = Some \<lparr>d_escrow_id = i, d_reason = r, d_created_at = timestamp h,
      d_resolved = False, d_dispute_amount = amt, d_timeout_seconds = e_dispute_timeout_seconds e\<rparr> \<and>
    balance V (ledger st') t a = balance V (ledger st) t a +
      (if t = e_token e then (if a = e_seller e then e_amount e - amt else 0)
         - (if a = self_address h then e_amount e - amt else 0) else 0)"
proof -
  have facts: "0 < amt" "amt \<le> e_amount e"
    "escrows st' i = Some (e\<lparr>e_amount := amt,
      e_status := if 0 < e_amount e - amt then PartiallyDisputed else Disputed\<rparr>)"
    "disputes st' i = Some \<lparr>d_escrow_id = i, d_reason = r, d_created_at = timestamp h,
      d_resolved = False, d_dispute_amount = amt, d_timeout_seconds = e_dispute_timeout_seconds e\<rparr>"
    "pay_list h (e_token e) (if 0 < e_amount e - amt then [(e_seller e, e_amount e - amt)] else [])
       (ledger st) = Some (ledger st')"
    using assms(2,3)
    by (auto simp: dispute_escrow_def Let_def ok_simps pay_out_def escrow_emit_defs)
  then show ?thesis
    using pay_list_effect [OF assms(1) facts(5)]
    by (cases "amt = e_amount e") auto
qed

lemma dispute_splits_amount_witness:
  "\<exists>st'. dispute_escrow (demo_at 5) demo_seller 0 ''late'' 60 demo_escrow = Inr st' \<and>
     map_option e_amount (escrows st' 0) = Some 60 \<and>
     balance plain_view (ledger st') demo_token demo_seller
       = balance plain_view (ledger demo_escrow) demo_token demo_seller + 41"
proof -
  obtain st' where ok: "dispute_escrow (demo_at 5) demo_seller 0 ''late'' 60 demo_escrow = Inr st'"
    by (simp add: demo_escrow_def demo_eval)
  have "token_laws plain_view (demo_at 5)" by (simp add: demo_at_def token_laws_demo)
  from dispute_splits_amount [OF this demo_escrow_fields(2) ok, of demo_token demo_seller] ok
  show ?thesis by (simp add: demo_e0_def demo_at_def demo_address_defs)
qed

lemma escrow_resolve_dispute_resolved:
  assumes "escrow_resolve_dispute h x i b st = Inr st'" and "escrows st i = Some e"
    and "dispute_ok i e (disputes st i)"
  shows "\<exists>d. disputes st' i = Some d \<and> d_resolved d"
  using assms(2,3)
  by (rule_tac escrow_resolve_dispute_parts [OF assms(1)])
    (auto simp: dispute_ok_def ok_simps pay_out_def escrow_emit_defs split: if_splits)

text \<open>
  C5. Resolving a dispute in a reachable state pays the protocol fee, at most two percent of the
  disputed amount, to the fee recipient and all the rest to the side the arbiter chose; the escrow
  becomes Released or Refunded, the dispute is marked resolved, and no other balance changes.
\<close>

theorem resolution_pays_winner_and_fee:
  assumes "escrow_reachable V self st" and "escrow_legal V self h" and "escrows st i = Some e"
    and "escrow_resolve_dispute h x i b st = Inr st'"
    and "fee = bps_share (e_amount e) (unwrap_or 0 (protocol_fee_bps st))"
  shows "0 \<le> fee \<and> fee * 10000 \<le> 200 * e_amount e \<and> x = e_arbiter e \<and>
    escrows st' i = Some (e\<lparr>e_status := if b then Released else Refunded\<rparr>) \<and>
    (\<exists>d. disputes st' i = Some d \<and> d_resolved d) \<and>
    balance V (ledger st') t a = balance V (ledger st) t a +
      (if t = e_token e
       then (if fee_recipient st = Some a then fee else 0)
          + (if a = (if b then e_seller e else e_buyer e) then e_amount e - fee else 0)
          - (if a = self then e_amount e else 0)
       else 0)"
proof -
  have wf: "escrows_wf st" and cap: "unwrap_or 0 (protocol_fee_bps st) \<le> 200"
    using escrow_reachable_inv [OF assms(1)] escrow_reachable_fee_capped [OF assms(1)]
    by (simp_all add: escrow_inv_def fee_capped_def MAX_PROTOCOL_FEE_BPS_def)
  have laws: "token_laws V h" and self: "self_address h = self"
    using assms(2) by (simp_all add: escrow_legal_def)
  note ok = escrows_wfD [OF wf assms(3)]
  have p: "pay_list h (e_token e) (resolution_payments st e b) (ledger st) = Some (ledger st')"
    and r: "0 < fee \<longrightarrow> fee_recipient st \<noteq> None" and x: "x = e_arbiter e"
    and s: "under_dispute (e_status e)"
    and ch: "changes_escrow i e (e\<lparr>e_status := if b then Released else Refunded\<rparr>) st st'"
    using escrow_resolve_dispute_Inr [OF assms(4) wf] assms(3,5) by auto
  have amt: "0 \<le> e_amount e" using ok(2) by (simp add: escrow_ok_def)
  then have fee: "0 \<le> fee" by (simp add: assms(5) bps_share_nonneg)
  have "fee * 10000 \<le> e_amount e * int (unwrap_or 0 (protocol_fee_bps st))"
    using amt by (simp add: assms(5) bps_share_eq_div)
  also have "\<dots> \<le> e_amount e * 200" using amt cap by (intro mult_left_mono) simp_all
  finally have le: "fee * 10000 \<le> 200 * e_amount e" by simp
  have sums: "sum_list (map snd (resolution_payments st e b)) = e_amount e"
    and rec: "received a (resolution_payments st e b) = (if fee_recipient st = Some a then fee else 0)
       + (if a = (if b then e_seller e else e_buyer e) then e_amount e - fee else 0)"
    using fee r by (auto simp: resolution_payments_def Let_def assms(5) [symmetric] received_append)
  have "\<exists>d. disputes st' i = Some d \<and> d_resolved d"
    by (rule escrow_resolve_dispute_resolved [OF assms(4,3) ok(3)])
  then show ?thesis
    using fee le x ch pay_list_effect [OF laws p] sums rec
    by (simp add: changes_escrow_def self)
qed

lemma resolution_pays_winner_and_fee_witness:
  "\<exists>st'. escrow_resolve_dispute (demo_at 20) demo_arbiter 0 False demo_disputed = Inr st' \<and>
     map_option e_status (escrows st' 0) = Some Refunded \<and>
     balance plain_view (ledger st') demo_token demo_buyer
       = balance plain_view (ledger demo_disputed) demo_token demo_buyer + 100"
proof -
  obtain st' where ok: "escrow_resolve_dispute (demo_at 20) demo_arbiter 0 False demo_disputed = Inr st'"
    by (simp add: demo_disputed_def demo_eval)
  have "1 = bps_share (e_amount (demo_e0\<lparr>e_status := Disputed\<rparr>))
      (unwrap_or 0 (protocol_fee_bps demo_disputed))"
    by (simp add: demo_disputed_fields demo_e0_def bps_share_def)
  from resolution_pays_winner_and_fee [OF demo_disputed_reachable demo_legal
      demo_disputed_fields(1) ok this, of demo_token demo_buyer] ok
  show ?thesis by (simp add: demo_e0_def demo_disputed_fields demo_address_defs)
qed

end
