(* ===== verification/Escrow_Safety.thy ===== *)
theory Escrow_Safety
  imports Escrow_Settings Escrow_Demo
begin

text \<open>
  Safety of the escrow contract over calls and histories: what may happen to a stored escrow and
  on whose authority, finality of terminal escrows, administration, and the emergency stop.
\<close>

section \<open>What a call does to one escrow\<close>

definition escrow_evolves :: "'l host \<Rightarrow> 'l escrow_state \<Rightarrow> u32 \<Rightarrow> escrow \<Rightarrow> escrow \<Rightarrow> bool" where
  "escrow_evolves h st i e e' \<longleftrightarrow>
     same_terms e e' \<and> e_deadline e \<le> e_deadline e' \<and> e_amount e' \<le> e_amount e \<and>
     (e_status e' = e_status e \<and> e_amount e' = e_amount e \<or>
      status_step (e_status e) (e_status e') \<and> settlement_authorised h st i e (e_status e'))"

lemma escrow_evolves_refl [simp]: "escrow_evolves h st i e e"
  by (simp add: escrow_evolves_def same_terms_def)

definition keeps_escrows :: "'l escrow_state \<Rightarrow> 'l escrow_state \<Rightarrow> bool" where
  "keeps_escrows st st' \<longleftrightarrow> (\<forall>i e. escrows st i = Some e \<longrightarrow> escrows st' i = Some e)"

lemma keeps_escrows_trans:
  "keeps_escrows st st1 \<Longrightarrow> keeps_escrows st1 st' \<Longrightarrow> keeps_escrows st st'"
  by (simp add: keeps_escrows_def)

lemma adds_escrow_keeps: "adds_escrow i e st st' \<Longrightarrow> escrows_wf st \<Longrightarrow> keeps_escrows st st'"
  using escrows_wf_fresh [of st] by (auto simp: adds_escrow_def keeps_escrows_def)

lemma escrow_step_evolves:
  assumes "escrow_step h st st'" and "escrows_wf st" and "escrows st i = Some e"
  shows "\<exists>e'. escrows st' i = Some e' \<and> escrow_evolves h st i e e'"
  using assms
proof (induction rule: escrow_step.induct)
  case (settings st st')
  then show ?case by (auto simp: same_books_def)
next
  case (fund j e' st st')
  then show ?case using adds_escrow_keeps [OF fund(1)] by (auto simp: keeps_escrows_def)
next
  case (renew j e' st st')
  then show ?case using adds_escrow_keeps [OF renew(1)] by (auto simp: keeps_escrows_def)
next
  case (amend j f f' st st')
  then show ?case
    by (cases "i = j") (auto simp: changes_escrow_def escrow_evolves_def same_terms_def)
next
  case (approve st' st buyer tk amt ex)
  then show ?case by auto
next
  case (settle j f f' st st' ps)
  then show ?case
    by (cases "i = j") (auto simp: changes_escrow_def escrow_evolves_def same_terms_def)
qed

lemma create_escrow_core_keeps:
  "create_escrow_core h b s a amt tk dl mh ss ar rc bi st = Inr (i, st') \<Longrightarrow> escrows_wf st \<Longrightarrow>
     keeps_escrows st st'"
  by (drule create_escrow_core_adds) (blast intro: adds_escrow_keeps)

lemma create_batch_loop_keeps:
  "create_batch_loop h b cfgs ids fi li st = Inr (ids', fi', li', st') \<Longrightarrow> authorized h b \<Longrightarrow>
     escrows_wf st \<Longrightarrow> keeps_escrows st st'"
proof (induction cfgs arbitrary: ids fi li st)
  case Nil
  then show ?case by (simp add: keeps_escrows_def)
next
  case (Cons cfg cfgs)
  then obtain i st1 where c: "create_escrow_core h b (b_seller cfg) (b_arbiter cfg) (b_amount cfg)
      (b_token cfg) (b_deadline cfg) (b_metadata_hash cfg) (b_sellers cfg) (b_auto_renew cfg)
      (b_renewal_count cfg) 0 st = Inr (i, st1)"
    and rest: "create_batch_loop h b cfgs (ids @ [i]) (if fi = None then Some i else fi) i st1
      = Inr (ids', fi', li', st')"
    by (auto simp: ok_simps)
  have "keeps_escrows st st1" and "escrow_step h st st1"
    using create_escrow_core_keeps [OF c] create_escrow_core_step [OF c] Cons.prems by blast+
  moreover from this Cons.prems have "escrows_wf st1" by (blast intro: escrow_step_wf)
  ultimately show ?case using Cons.IH [OF rest] Cons.prems(2) by (blast intro: keeps_escrows_trans)
qed

lemma create_batch_keeps:
  "create_escrows_batch h b cfgs st = Inr (ids, st') \<Longrightarrow> escrows_wf st \<Longrightarrow> keeps_escrows st st'"
  by (auto simp: create_escrows_batch_def ok_simps escrow_emit_defs keeps_escrows_def
      dest: create_batch_loop_keeps)

lemma create_escrow_w_timeout_keeps:
  assumes "create_escrow_w_timeout h b s a amt tk dl mh ss rc t st = Inr (i, st')"
    and "escrows_wf st"
  shows "keeps_escrows st st'"
proof -
  obtain st1 e where c: "create_escrow h b s a amt tk dl mh ss (0 < rc) rc 0 st = Inr (i, st1)"
    and e: "escrows st1 i = Some e"
    and st': "st' = store_escrow i (e\<lparr>e_dispute_timeout_seconds := Some t\<rparr>) st1"
    using assms(1) by (auto simp: create_escrow_w_timeout_def Let_def ok_simps)
  then obtain e' where "adds_escrow i e' st st1"
    by (auto simp: create_escrow_def ok_simps dest: create_escrow_core_adds)
  then show ?thesis
    using adds_escrow_keeps [OF _ assms(2)] escrows_wf_fresh [OF assms(2)]
    by (fastforce simp: st' keeps_escrows_def adds_escrow_def)
qed

lemma release_escrow_evolves:
  assumes "release_escrow h c i st = Inr st'" and "escrows_wf st" and "escrows st j = Some e"
  shows "\<exists>e'. escrows st' j = Some e' \<and> escrow_evolves h st j e e'"
proof -
  obtain f st1 where f: "escrows st i = Some f" and o: "is_open_escrow_status (e_status f)"
    and a: "authorized h c" "c = e_buyer f \<or> c = e_arbiter f"
    and ch: "changes_escrow i f (f\<lparr>e_status := Released\<rparr>) st st1" and d: "disputes st1 = disputes st"
    and r: "try_auto_renew h i f st1 = Inr st'"
    using release_escrow_settles [OF assms(1,2)] by blast
  note ok = escrows_wfD(2) [OF assms(2) f]
  have "escrows_wf st1"
    by (rule escrows_wf_store [of st i f "f\<lparr>e_status := Released\<rparr>" "disputes st"])
      (use assms(2) f ch d in \<open>auto simp: changes_escrow_def\<close>)
  then have "keeps_escrows st1 st'"
    using try_auto_renew_cases [OF r ok] ok open_status [OF o]
    by (auto simp: escrow_ok_def keeps_escrows_def dest: adds_escrow_keeps)
  moreover have "escrow_evolves h st i f (f\<lparr>e_status := Released\<rparr>)"
    using a o open_status [OF o]
    by (auto simp: escrow_evolves_def same_terms_def settlement_authorised_def under_dispute_def
        intro: status_step.release)
  ultimately show ?thesis
    using ch assms(3) by (cases "j = i") (auto simp: changes_escrow_def keeps_escrows_def)
qed

lemma escrow_exec_evolves:
  assumes "escrow_exec h op st = Inr st'" and "escrows_wf st" and "escrows st i = Some e"
  shows "\<exists>e'. escrows st' i = Some e' \<and> escrow_evolves h st i e e'"
proof (cases "bookkeeping op")
  case False
  then have "same_books st st'" by (rule no_bookkeeping_books [OF assms(1)])
  then show ?thesis using assms(3) by (simp add: same_books_def)
next
  case True
  note kept = create_batch_keeps create_escrow_w_timeout_keeps
  have "keeps_escrows st st' \<Longrightarrow> ?thesis"
    using assms(3) by (auto simp: keeps_escrows_def)
  moreover have "escrow_step h st st' \<Longrightarrow> ?thesis"
    using escrow_step_evolves [OF _ assms(2,3)] by blast
  ultimately show ?thesis
    using True assms(1,2) release_escrow_evolves [OF _ assms(2,3)]
    by (cases op; clarsimp simp: state_of_Inr;
        blast dest: kept single_steps wf_steps)
qed

text \<open>
  C6. Authority: a call never deletes an escrow, never changes its token, sellers, arbiter or
  creation time, never brings its deadline forward and never adds to its amount; and if it changes
  its status or its amount then along the lifecycle and with the authority of the right party: the
  arbiter once there is a dispute, the buyer after the deadline for a refund, buyer or seller to
  dispute, and otherwise the buyer, the arbiter, or the seller of an inactive buyer.
\<close>

theorem settlement_needs_authority:
  assumes "escrow_exec h op st = Inr st'" and "escrows_wf st" and "escrows st i = Some e"
  shows "\<exists>e'. escrows st' i = Some e' \<and> same_terms e e' \<and>
    e_deadline e \<le> e_deadline e' \<and> e_amount e' \<le> e_amount e \<and>
    (e_status e' = e_status e \<and> e_amount e' = e_amount e \<or>
     status_step (e_status e) (e_status e') \<and>
       settlement_authorised h st i e (e_status e'))"
  using escrow_exec_evolves [OF assms] by (simp add: escrow_evolves_def)

lemma settlement_needs_authority_witness:
  "\<exists>st' e'. escrow_exec (demo_at 5) (OpPartialRelease demo_buyer 0 40) demo_escrow = Inr st' \<and>
     escrows st' 0 = Some e' \<and> same_terms demo_e0 e' \<and> e_amount e' = 61 \<and>
     settlement_authorised (demo_at 5) demo_escrow 0 demo_e0 (e_status e')"
proof -
  obtain st' where ok: "escrow_exec (demo_at 5) (OpPartialRelease demo_buyer 0 40) demo_escrow = Inr st'"
    and "map_option e_amount (escrows st' 0) = Some 61"
    by (simp add: demo_escrow_def demo_eval)
  then show ?thesis
    using settlement_needs_authority [OF ok demo_escrow_wf demo_escrow_fields(2)]
    by (auto simp: demo_e0_def)
qed

section \<open>Finality\<close>

definition same_outcome :: "escrow \<Rightarrow> escrow \<Rightarrow> bool" where
  "same_outcome e e' \<longleftrightarrow> e_status e' = e_status e \<and> e_amount e' = e_amount e \<and> same_terms e e'"

lemma call_tx_wf: "escrows_wf st \<Longrightarrow> escrows_wf (call_tx escrow_exec c st)"
  by (cases "escrow_exec (fst c) (snd c) st") (auto simp: call_tx_def intro: escrow_exec_wf)

lemma call_tx_final:
  assumes "escrows_wf st" and "escrows st i = Some e" and "is_terminal_escrow_status (e_status e)"
  shows "\<exists>e'. escrows (call_tx escrow_exec c st) i = Some e' \<and> same_outcome e e'"
proof (cases "escrow_exec (fst c) (snd c) st")
  case (Inl x)
  then show ?thesis using assms by (simp add: call_tx_def same_outcome_def same_terms_def)
next
  case (Inr st')
  then show ?thesis
    using escrow_exec_evolves [OF Inr assms(1,2)] terminal_final [OF assms(3)]
    by (auto simp: call_tx_def escrow_evolves_def same_outcome_def)
qed

text \<open>
  C7. Finality: once an escrow is Released, Refunded or Resolved, no history of calls, by anyone
  and with any arguments, changes its status, its amount or its terms, or removes it.
\<close>

theorem terminal_escrow_is_final:
  assumes "escrows_wf st" and "escrows st i = Some e" and "is_terminal_escrow_status (e_status e)"
  shows "\<exists>e'. escrows (run_calls escrow_exec cs st) i = Some e' \<and> same_outcome e e'"
  using assms
proof (induction cs arbitrary: st e)
  case Nil
  then show ?case by (simp add: same_outcome_def same_terms_def)
next
  case (Cons c cs)
  obtain e1 where e1: "escrows (call_tx escrow_exec c st) i = Some e1" "same_outcome e e1"
    using call_tx_final [OF Cons.prems] by blast
  then have "is_terminal_escrow_status (e_status e1)"
    using Cons.prems(3) by (simp add: same_outcome_def)
  from Cons.IH [OF call_tx_wf [OF Cons.prems(1)] e1(1) this] e1(2) show ?case
    by (auto simp: same_outcome_def same_terms_def)
qed

lemma terminal_escrow_is_final_witness:
  "\<exists>e'. escrows (run_calls escrow_exec
        [(demo_at 6, OpRelease demo_buyer 0), (demo_at 7, OpDispute demo_seller 0 ''again'' 101)]
        (run_calls escrow_exec [(demo_at 5, OpRelease demo_buyer 0)] demo_escrow)) 0 = Some e' \<and>
     e_status e' = Released"
proof -
  let ?st = "run_calls escrow_exec [(demo_at 5, OpRelease demo_buyer 0)] demo_escrow"
  have "escrows ?st 0 = Some (demo_e0\<lparr>e_status := Released\<rparr>)"
    by (simp add: demo_escrow_def demo_eval demo_e0_def)
  moreover have "escrows_wf ?st" by (simp add: call_tx_wf demo_escrow_wf)
  ultimately show ?thesis
    using terminal_escrow_is_final [of ?st 0]
    by (fastforce simp: same_outcome_def is_terminal_escrow_status_def)
qed

section \<open>Deadlines\<close>

definition deadlines_kept :: "'l escrow_state \<Rightarrow> 'l escrow_state \<Rightarrow> bool" where
  "deadlines_kept st st' \<longleftrightarrow> (\<forall>i e. escrows st i = Some e \<longrightarrow>
     (\<exists>e'. escrows st' i = Some e' \<and> e_deadline e' = e_deadline e))"

lemma keeps_deadlines: "keeps_escrows st st' \<Longrightarrow> deadlines_kept st st'"
  by (auto simp: keeps_escrows_def deadlines_kept_def)

lemma keeps_deadlines_trans:
  "deadlines_kept st st1 \<Longrightarrow> keeps_escrows st1 st' \<Longrightarrow> deadlines_kept st st'"
  unfolding deadlines_kept_def keeps_escrows_def by blast

lemma same_books_deadlines: "same_books st st' \<Longrightarrow> deadlines_kept st st'"
  by (auto simp: same_books_def deadlines_kept_def)

lemma create_single_deadlines:
  "create_escrow h b s a amt tk dl mh ss ar rc bi st = Inr (i, st') \<Longrightarrow> escrows_wf st \<Longrightarrow>
     deadlines_kept st st'"
  "create_escrow_from_template h b s t amt st = Inr (i, st') \<Longrightarrow> escrows_wf st \<Longrightarrow>
     deadlines_kept st st'"
  "create_escrow_with_pool_arbiter h b s amt tk dl st = Inr (i, st') \<Longrightarrow> escrows_wf st \<Longrightarrow>
     deadlines_kept st st'"
  by (auto simp: create_escrow_def ok_simps intro!: keeps_deadlines
      dest: create_escrow_core_keeps create_escrow_from_template_adds
        create_escrow_with_pool_arbiter_adds adds_escrow_keeps)

lemma release_escrow_deadlines:
  assumes "release_escrow h c i st = Inr st'" and "escrows_wf st"
  shows "deadlines_kept st st'"
proof -
  obtain f st1 where f: "escrows st i = Some f" and o: "is_open_escrow_status (e_status f)"
    and ch: "changes_escrow i f (f\<lparr>e_status := Released\<rparr>) st st1" and d: "disputes st1 = disputes st"
    and r: "try_auto_renew h i f st1 = Inr st'"
    using release_escrow_settles [OF assms] by blast
  note ok = escrows_wfD(2) [OF assms(2) f]
  have "escrows_wf st1"
    by (rule escrows_wf_store [of st i f "f\<lparr>e_status := Released\<rparr>" "disputes st"])
      (use assms(2) f ch d in \<open>auto simp: changes_escrow_def\<close>)
  then have "keeps_escrows st1 st'"
    using try_auto_renew_cases [OF r ok] ok open_status [OF o]
    by (auto simp: escrow_ok_def keeps_escrows_def dest: adds_escrow_keeps)
  moreover have "deadlines_kept st st1"
    using ch by (auto simp: deadlines_kept_def changes_escrow_def)
  ultimately show ?thesis by (rule keeps_deadlines_trans [rotated])
qed

lemma user_deadlines:
  "partial_release h c i amt st = Inr st' \<Longrightarrow> deadlines_kept st st'"
  "dispute_escrow h c i r amt st = Inr st' \<Longrightarrow> deadlines_kept st st'"
  "auto_release_expired h i st = Inr st' \<Longrightarrow> deadlines_kept st st'"
  "claim_inactivity_release h c i st = Inr st' \<Longrightarrow> deadlines_kept st st'"
  "set_renewal_allowance h c i n st = Inr st' \<Longrightarrow> deadlines_kept st st'"
  "cancel_auto_renew h c i st = Inr st' \<Longrightarrow> deadlines_kept st st'"
  "transfer_buyer_role h c i nb st = Inr st' \<Longrightarrow> deadlines_kept st st'"
  "update_metadata h c i m st = Inr st' \<Longrightarrow> deadlines_kept st st'"
  by (auto simp: escrow_settle_op_defs Let_def ok_simps pay_out_def escrow_emit_defs
      deadlines_kept_def split: if_splits)

lemma escrow_resolve_dispute_deadlines:
  "escrow_resolve_dispute h a i b st = Inr st' \<Longrightarrow> escrows_wf st \<Longrightarrow> deadlines_kept st st'"
  by (drule (1) escrow_resolve_dispute_Inr) (auto simp: deadlines_kept_def changes_escrow_def)

lemma other_ops_keep_deadlines:
  assumes "escrow_exec h op st = Inr st'" and "escrows_wf st" and "\<forall>c i. op \<noteq> OpAcceptDeadline c i"
  shows "deadlines_kept st st'"
proof (cases "bookkeeping op")
  case False
  then show ?thesis by (rule same_books_deadlines [OF no_bookkeeping_books [OF assms(1)]])
next
  case True
  then show ?thesis
    using assms
    by (cases op; clarsimp simp: state_of_Inr;
        elim create_single_deadlines release_escrow_deadlines user_deadlines
          escrow_resolve_dispute_deadlines create_batch_keeps [THEN keeps_deadlines]
          create_escrow_w_timeout_keeps [THEN keeps_deadlines])
qed

text \<open>
  C8. A deadline moves only by \<open>accept_deadline_extension\<close>: to a later time that somebody else
  proposed no more than 24 hours before, accepted under the authority of the buyer or the seller,
  and not while the escrow is disputed or terminal.
\<close>

theorem deadline_moves_by_agreement:
  assumes "escrow_exec h op st = Inr st'" and "escrows_wf st"
    and "escrows st i = Some e" and "escrows st' i = Some e'" and "e_deadline e' \<noteq> e_deadline e"
  shows "\<exists>c p. op = OpAcceptDeadline c i \<and> authorized h c \<and> (c = e_buyer e \<or> c = e_seller e) \<and>
    deadline_proposals st i = Some p \<and> c \<noteq> proposer p \<and>
    timestamp h \<le> proposed_at p + 86400 \<and> e_deadline e < new_deadline p \<and>
    e' = e\<lparr>e_deadline := new_deadline p\<rparr> \<and>
    e_status e \<noteq> Disputed \<and> \<not> is_terminal_escrow_status (e_status e)"
proof -
  have "\<exists>c j. op = OpAcceptDeadline c j"
    using other_ops_keep_deadlines [OF assms(1,2)] assms(3-5) unfolding deadlines_kept_def
    by (metis option.inject)
  then obtain c j where op: "op = OpAcceptDeadline c j" by blast
  with assms(1) have acc: "accept_deadline_extension h c j st = Inr st'" by simp
  then have "j = i"
    using assms(3-5)
    by (auto simp: accept_deadline_extension_def Let_def ok_simps escrow_emit_defs split: if_splits)
  with op acc assms(3-5) show ?thesis
    by (auto simp: accept_deadline_extension_def Let_def ok_simps escrow_emit_defs
        DEADLINE_EXTENSION_PROPOSAL_WINDOW_def)
qed

lemma deadline_moves_by_agreement_witness:
  "\<exists>st' e'. escrow_exec (demo_at 9) (OpAcceptDeadline demo_buyer 0)
       (call_tx escrow_exec (demo_at 5, OpProposeDeadline demo_seller 0 2000) demo_escrow) = Inr st' \<and>
     escrows st' 0 = Some e' \<and> e' = demo_e0\<lparr>e_deadline := 2000\<rparr>"
proof -
  let ?st = "call_tx escrow_exec (demo_at 5, OpProposeDeadline demo_seller 0 2000) demo_escrow"
  obtain st' e' where ok: "escrow_exec (demo_at 9) (OpAcceptDeadline demo_buyer 0) ?st = Inr st'"
    and e': "escrows st' 0 = Some e'" "e_deadline e' \<noteq> e_deadline demo_e0"
    and p: "map_option new_deadline (deadline_proposals ?st 0) = Some 2000"
    and e: "escrows ?st 0 = Some demo_e0"
    by (simp add: demo_escrow_def demo_eval demo_e0_def is_terminal_escrow_status_def)
  show ?thesis
    using deadline_moves_by_agreement [OF ok call_tx_wf [OF demo_escrow_wf] e e'] ok e'(1) p by auto
qed

section \<open>Administration\<close>

lemma admin_flag_replacements [simp]: "admin (flag_replacements a ids st) = admin st"
  by (induction ids arbitrary: st) (auto split: option.splits)

text \<open>
  C9. Only the stored administrator changes the settings (admin, emergency stop, fee and its
  recipient, allowlist, arbiter pool, default dispute timeout), and nobody replaces the
  administrator; without one, the settings change only by \<open>initialize\<close> or by the first pause.
\<close>

theorem settings_need_admin:
  assumes "escrow_exec h op st = Inr st'" and "escrows_wf st"
    and "escrow_settings st' \<noteq> escrow_settings st"
  shows "case admin st of
      Some a \<Rightarrow> authorized h a \<and> admin st' = Some a
    | None \<Rightarrow> \<exists>a. op = OpInitialize a \<or> (\<exists>r. op = OpPause a r \<and> authorized h a)"
proof -
  have "administrative op"
    using settings_frame.user_ops_keep [OF assms(1,2)] assms(3) by blast
  then show ?thesis
    using assms(1)
    by (cases op)
      (auto simp: escrow_admin_op_defs require_or_bootstrap_admin_def Let_def ok_simps
        escrow_emit_defs split: if_splits option.splits)
qed

lemma settings_need_admin_witness:
  "\<exists>st'. escrow_exec (demo_at 5) (OpUpdateProtocolFee demo_admin 20 demo_seller) demo_escrow = Inr st' \<and>
     authorized (demo_at 5) demo_admin \<and> admin st' = Some demo_admin"
proof -
  obtain st' where ok: "escrow_exec (demo_at 5) (OpUpdateProtocolFee demo_admin 20 demo_seller) demo_escrow = Inr st'"
    and "protocol_fee_bps st' = Some 20"
    by (simp add: demo_escrow_def demo_eval)
  then have "escrow_settings st' \<noteq> escrow_settings demo_escrow"
    by (simp add: escrow_settings_def demo_escrow_fields)
  from settings_need_admin [OF ok demo_escrow_wf this] ok show ?thesis
    by (simp add: demo_escrow_fields)
qed

end
