(* ===== verification/Escrow_Issuance.thy ===== *)
theory Escrow_Issuance
  imports Escrow_Safety
begin

text \<open>
  Properties of creation: the atomic batch with contiguous ids, and the round-robin appointment
  of arbiters from the pool.
\<close>

section \<open>Batches\<close>

text \<open>The money a batch asks for in one token.\<close>

definition batch_amount :: "address \<Rightarrow> escrow_batch_config list \<Rightarrow> i128" where
  "batch_amount tk cfgs = sum_list (map b_amount (filter (\<lambda>c. b_token c = tk) cfgs))"

lemma batch_amount_simps [simp]:
  "batch_amount tk [] = 0"
  "batch_amount tk (c # cs) = (if b_token c = tk then b_amount c else 0) + batch_amount tk cs"
  by (simp_all add: batch_amount_def)

definition escrow_for :: "address \<Rightarrow> escrow_batch_config \<Rightarrow> escrow \<Rightarrow> bool" where
  "escrow_for b c e \<longleftrightarrow> e_buyer e = b \<and> e_token e = b_token c \<and> e_amount e = b_amount c \<and>
     e_status e = Active"

lemma create_batch_loop_result:
  assumes "create_batch_loop h b cfgs ids fi li st = Inr (ids', fi', li', st')"
    and "authorized h b" and "escrows_wf st" and "token_laws V h" and "b \<noteq> self_address h"
  shows "ids' = ids @ [get_escrow_counter st..<get_escrow_counter st + length cfgs] \<and>
    get_escrow_counter st' = get_escrow_counter st + length cfgs \<and>
    (\<forall>k < length cfgs. \<exists>e. escrows st' (get_escrow_counter st + k) = Some e \<and>
       escrow_for b (cfgs ! k) e) \<and>
    (\<forall>t. balance V (ledger st') t (self_address h)
       = balance V (ledger st) t (self_address h) + batch_amount t cfgs \<and>
      balance V (ledger st') t b = balance V (ledger st) t b - batch_amount t cfgs)"
  using assms
proof (induction cfgs arbitrary: ids fi li st)
  case Nil
  then show ?case by simp
next
  case (Cons cfg cfgs)
  let ?n = "get_escrow_counter st"
  obtain i st1 where c: "create_escrow_core h b (b_seller cfg) (b_arbiter cfg) (b_amount cfg)
      (b_token cfg) (b_deadline cfg) (b_metadata_hash cfg) (b_sellers cfg) (b_auto_renew cfg)
      (b_renewal_count cfg) 0 st = Inr (i, st1)"
    and rest: "create_batch_loop h b cfgs (ids @ [i]) (if fi = None then Some i else fi) i st1
      = Inr (ids', fi', li', st')"
    using Cons.prems(1) by (auto simp: ok_simps)
  obtain e where e: "adds_escrow i e st st1" "e_buyer e = b" "e_token e = b_token cfg"
      "e_amount e = b_amount cfg"
    and t: "tok_transfer h (ledger st) (b_token cfg) b (self_address h) (b_amount cfg) = Some (ledger st1)"
    using create_escrow_core_adds [OF c] by auto
  then have i: "i = ?n" "get_escrow_counter st1 = Suc ?n" "escrows st1 ?n = Some e" "e_status e = Active"
    by (auto simp: adds_escrow_def get_escrow_counter_def)
  have wf1: "escrows_wf st1"
    using escrow_step_wf [OF create_escrow_core_step [OF c Cons.prems(2)] Cons.prems(3)] .
  note m = token_laws_transfer [OF Cons.prems(4) t, THEN conjunct1]
  note IH = Cons.IH [OF rest Cons.prems(2) wf1 Cons.prems(4,5)]
  have "escrows st' ?n = Some e"
    using create_batch_loop_keeps [OF rest Cons.prems(2) wf1] i(3) by (simp add: keeps_escrows_def)
  then have "\<forall>k < length (cfg # cfgs). \<exists>e. escrows st' (?n + k) = Some e \<and>
      escrow_for b ((cfg # cfgs) ! k) e"
    using IH e i by (auto simp: less_Suc_eq_0_disj escrow_for_def)
  moreover have "ids' = ids @ [?n..<?n + length (cfg # cfgs)]"
    using IH i by (simp add: upt_conv_Cons del: upt_Suc)
  ultimately show ?case
    using IH i Cons.prems(5) by (simp add: moves_balance [OF m])
qed

text \<open>
  C11. A batch of one to ten creations succeeds as a whole: its ids are the next consecutive ids in
  order, each of its requests has an active escrow of the buyer with the requested token and
  amount, no earlier escrow changes, and for every token the buyer pays and the contract receives
  exactly the sum of the requested amounts.
\<close>

theorem batch_creates_consecutive_escrows:
  assumes "create_escrows_batch h b cfgs st = Inr (ids, st')" and "escrows_wf st"
    and "token_laws V h" and "b \<noteq> self_address h"
  shows "0 < length cfgs \<and> length cfgs \<le> 10 \<and>
    ids = [get_escrow_counter st..<get_escrow_counter st + length cfgs] \<and>
    (\<forall>k < length cfgs. \<exists>e. escrows st' (ids ! k) = Some e \<and> escrow_for b (cfgs ! k) e) \<and>
    keeps_escrows st st' \<and>
    balance V (ledger st') t (self_address h)
      = balance V (ledger st) t (self_address h) + batch_amount t cfgs \<and>
    balance V (ledger st') t b = balance V (ledger st) t b - batch_amount t cfgs"
proof -
  obtain fi li st1 where loop: "create_batch_loop h b cfgs [] None 0 st = Inr (ids, fi, li, st1)"
    and a: "authorized h b" and len: "cfgs \<noteq> []" "length cfgs \<le> 10"
    and same: "escrows st' = escrows st1" "ledger st' = ledger st1"
    using assms(1)
    by (auto simp: create_escrows_batch_def ok_simps escrow_emit_defs MAX_BATCH_ESCROWS_def)
  show ?thesis
    using create_batch_loop_result [OF loop a assms(2-4)] create_batch_keeps [OF assms(1,2)] len
    by (simp add: same)
qed

definition demo_request :: "i128 \<Rightarrow> escrow_batch_config" where
  "demo_request amt = \<lparr>b_seller = demo_seller, b_arbiter = demo_arbiter, b_amount = amt,
     b_token = demo_token, b_deadline = 500, b_metadata_hash = None, b_sellers = [],
     b_auto_renew = False, b_renewal_count = 0\<rparr>"

lemma batch_creates_consecutive_escrows_witness:
  "\<exists>st'. create_escrows_batch (demo_at 5) demo_buyer [demo_request 7, demo_request 8] demo_escrow
       = Inr ([1, 2], st') \<and>
     balance plain_view (ledger st') demo_token (Contract 0)
       = balance plain_view (ledger demo_escrow) demo_token (Contract 0) + 15"
proof -
  obtain ids st' where ok: "create_escrows_batch (demo_at 5) demo_buyer
      [demo_request 7, demo_request 8] demo_escrow = Inr (ids, st')"
    by (simp add: demo_escrow_def demo_eval create_escrows_batch_def demo_request_def)
  have "token_laws plain_view (demo_at 5)" and "demo_buyer \<noteq> self_address (demo_at 5)"
    by (simp_all add: demo_at_def token_laws_demo demo_address_defs)
  from batch_creates_consecutive_escrows [OF ok demo_escrow_wf this, of demo_token] ok show ?thesis
    by (simp add: get_escrow_counter_def demo_escrow_fields demo_request_def demo_at_def
        upt_conv_Cons)
qed

section \<open>Arbiters in turn\<close>

text \<open>A sequence of creations with an arbiter of the pool, and the arbiters they appoint.\<close>

fun appoint :: "'l host \<Rightarrow> (address \<times> address \<times> i128 \<times> address \<times> u64) list \<Rightarrow> 'l escrow_state \<Rightarrow>
    (escrow_panic, address list \<times> 'l escrow_state) outcome" where
  "appoint h [] st = Inr ([], st)"
| "appoint h ((b, s, amt, tk, dl) # rs) st =
     and_then (create_escrow_with_pool_arbiter h b s amt tk dl st) (\<lambda>(i, st).
     and_then (get_escrow i st) (\<lambda>e.
     and_then (appoint h rs st) (\<lambda>(as, st). Inr (e_arbiter e # as, st))))"

lemma create_escrow_with_pool_arbiter_turn:
  assumes "create_escrow_with_pool_arbiter h b s amt tk dl st = Inr (i, st')"
    and "arbiter_pool st = Some pool"
  shows "pool \<noteq> [] \<and> arbiter_pool st' = Some pool \<and>
    map_option e_arbiter (escrows st' i)
      = Some (pool ! (unwrap_or 0 (next_arbiter_index st) mod length pool)) \<and>
    next_arbiter_index st' = Some (Suc (unwrap_or 0 (next_arbiter_index st)) mod length pool)"
  using assms
  by (clarsimp simp: create_escrow_with_pool_arbiter_def Let_def ok_simps)
    (simp add: escrow_emit_defs)

text \<open>
  C12. Round robin: successive creations with a pool arbiter appoint the arbiters of the pool in
  turn, starting from the stored position and wrapping around, so that no arbiter is skipped.
\<close>

theorem pool_arbiters_in_turn:
  assumes "appoint h rs st = Inr (as, st')" and "arbiter_pool st = Some pool" and "pool \<noteq> []"
  shows "as = map (\<lambda>j. pool ! ((unwrap_or 0 (next_arbiter_index st) + j) mod length pool)) [0..<length rs]"
  using assms
proof (induction rs arbitrary: st as)
  case Nil
  then show ?case by simp
next
  case (Cons r rs)
  obtain b s amt tk dl where r: "r = (b, s, amt, tk, dl)" by (cases r)
  obtain i st1 e as1 where c: "create_escrow_with_pool_arbiter h b s amt tk dl st = Inr (i, st1)"
    and e: "escrows st1 i = Some e" and rest: "appoint h rs st1 = Inr (as1, st')"
    and as: "as = e_arbiter e # as1"
    using Cons.prems(1) by (auto simp: r ok_simps get_escrow_def)
  note turn = create_escrow_with_pool_arbiter_turn [OF c Cons.prems(2)]
  have "as1 = map (\<lambda>j. pool ! ((unwrap_or 0 (next_arbiter_index st1) + j) mod length pool)) [0..<length rs]"
    by (rule Cons.IH [OF rest]) (use turn in simp_all)
  moreover have "(Suc k mod length pool + j) mod length pool = (k + Suc j) mod length pool" for k j
    by (simp add: mod_simps)
  ultimately show ?case
    using turn e unfolding as by (simp add: upt_conv_Cons map_Suc_upt [symmetric] del: upt_Suc)
qed

definition demo_pool :: "plain_ledger escrow_state" where
  "demo_pool = run_calls escrow_exec
     [(demo_at 5, OpAddArbiter demo_admin demo_arbiter), (demo_at 5, OpAddArbiter demo_admin demo_seller2)]
     demo_escrow"

lemma pool_arbiters_in_turn_witness:
  "\<exists>st'. appoint (demo_at 6) (replicate 3 (demo_buyer, demo_seller, 10, demo_token, 400)) demo_pool
     = Inr ([demo_arbiter, demo_seller2, demo_arbiter], st')"
proof -
  obtain as st' where ok: "appoint (demo_at 6)
      (replicate 3 (demo_buyer, demo_seller, 10, demo_token, 400)) demo_pool = Inr (as, st')"
    by (simp add: demo_pool_def demo_escrow_def demo_eval get_escrow_def numeral_3_eq_3)
  have "arbiter_pool demo_pool = Some [demo_arbiter, demo_seller2]"
    and "next_arbiter_index demo_pool = None"
    by (simp_all add: demo_pool_def demo_escrow_def demo_eval)
  with pool_arbiters_in_turn [OF ok] ok show ?thesis
    by (simp add: upt_conv_Cons numeral_3_eq_3)
qed

end
