(* ===== verification/Escrow_Parties.thy ===== *)
theory Escrow_Parties
  imports Escrow_Safety Escrow_Money
begin

text \<open>
  Properties of what the parties of an escrow may do: evidence, automatic renewal and the
  escalation of disputes.
\<close>

section \<open>Evidence\<close>

definition evidence_of :: "'l escrow_state \<Rightarrow> u32 \<times> address \<Rightarrow> evidence_submission list" where
  "evidence_of st k = unwrap_or [] (evidence st k)"

definition evidence_bounded :: "'l escrow_state \<Rightarrow> bool" where
  "evidence_bounded st \<longleftrightarrow> (\<forall>k. length (evidence_of st k) \<le> 5)"

definition evidence_grows :: "'l escrow_state \<Rightarrow> 'l escrow_state \<Rightarrow> bool" where
  "evidence_grows st st' \<longleftrightarrow> (\<forall>k. \<exists>es. evidence_of st' k = evidence_of st k @ es)"

lemma submit_evidence_grows:
  assumes "submit_evidence h p i ev u st = Inr st'" and "evidence_bounded st"
  shows "evidence_bounded st' \<and> evidence_grows st st'"
proof -
  have "length (evidence_of st (i, p)) < 5"
    and st': "evidence st' = (evidence st)((i, p) \<mapsto> evidence_of st (i, p) @
       [\<lparr>evidence_hash = ev, evidence_uri_hash = u, submitted_at = timestamp h\<rparr>])"
    using assms(1)
    by (auto simp: submit_evidence_def Let_def ok_simps escrow_emit_defs evidence_of_def
        MAX_EVIDENCE_ENTRIES_PER_PARTY_def)
  then show ?thesis
    using assms(2) by (auto simp: evidence_bounded_def evidence_grows_def evidence_of_def)
qed

lemma call_tx_evidence:
  assumes "escrows_wf st" and "evidence_bounded st"
  shows "evidence_bounded (call_tx escrow_exec c st) \<and> evidence_grows st (call_tx escrow_exec c st)"
proof (cases "escrow_exec (fst c) (snd c) st")
  case (Inl e)
  then show ?thesis using assms by (simp add: call_tx_def evidence_grows_def)
next
  case (Inr st')
  show ?thesis
  proof (cases "\<exists>p i ev u. snd c = OpSubmitEvidence p i ev u")
    case True
    then show ?thesis using Inr assms(2) by (auto simp: call_tx_def dest: submit_evidence_grows)
  next
    case False
    then have "evidence st' = evidence st"
      by (intro evidence_frame.other_ops_keep [OF Inr assms(1)]) blast
    then show ?thesis
      using Inr assms(2)
      by (simp add: call_tx_def evidence_bounded_def evidence_grows_def evidence_of_def)
  qed
qed

text \<open>
  C13. Evidence is append-only and bounded: whatever calls are made, no submission is ever removed,
  altered or reordered, and no party has more than five per escrow.
\<close>

theorem evidence_append_only:
  assumes "escrows_wf st" and "evidence_bounded st"
  shows "evidence_bounded (run_calls escrow_exec cs st) \<and>
    evidence_grows st (run_calls escrow_exec cs st)"
  using assms
proof (induction cs arbitrary: st)
  case Nil
  then show ?case by (simp add: evidence_grows_def)
next
  case (Cons c cs)
  then have "evidence_bounded (call_tx escrow_exec c st)" "evidence_grows st (call_tx escrow_exec c st)"
    "escrows_wf (call_tx escrow_exec c st)"
    using call_tx_evidence call_tx_wf by blast+
  with Cons.IH [of "call_tx escrow_exec c st"] show ?case
    unfolding evidence_grows_def by (metis append.assoc run_calls.simps(2))
qed

lemma evidence_append_only_witness:
  "evidence_bounded (run_calls escrow_exec
      (replicate 6 (demo_at 5, OpSubmitEvidence demo_buyer 0 [1] [2])) demo_escrow) \<and>
   evidence_of (run_calls escrow_exec [(demo_at 5, OpSubmitEvidence demo_buyer 0 [1] [2])] demo_escrow)
     (0, demo_buyer) \<noteq> []"
proof -
  have "evidence_bounded demo_escrow"
    by (simp add: evidence_bounded_def evidence_of_def demo_escrow_def demo_eval)
  moreover have "evidence_of (run_calls escrow_exec
      [(demo_at 5, OpSubmitEvidence demo_buyer 0 [1] [2])] demo_escrow) (0, demo_buyer) \<noteq> []"
    by (simp add: demo_escrow_def demo_eval evidence_of_def)
  ultimately show ?thesis using evidence_append_only [OF demo_escrow_wf] by blast
qed

section \<open>Automatic renewal\<close>

text \<open>
  C14. Releasing an escrow that renews opens exactly one more escrow under the next id: the same
  parties, shares, token and amount for the same duration from now, with one renewal fewer unless
  the count is unlimited, and the number of renewals the buyer pre-approved goes down by one and is
  carried over to it.  The sellers receive their shares (and the primary seller the dust), the
  buyer alone pays for the new escrow, exactly its amount and out of the token allowance it gave
  the contract, which falls by as much; no other balance and no other allowance changes.  The
  liability of the contract does not change, nor - unless the contract is itself a seller or the
  buyer - does its balance: what goes out to the sellers comes in from the buyer.
\<close>

theorem release_renews_once:
  assumes "token_laws V h" and "escrows_wf st" and "escrows st i = Some e" and "renews e"
    and "release_escrow h c i st = Inr st'" and "k = get_escrow_counter st"
  shows "escrows st' i = Some (e\<lparr>e_status := Released\<rparr>) \<and>
    escrows st' k = Some (renewed_escrow h k e) \<and> get_escrow_counter st' = Suc k \<and>
    (\<exists>n. renewal_allowance st i = Some (Suc n) \<and> renewal_allowance st' k = Some n) \<and>
    (\<forall>t a. balance V (ledger st') t a = balance V (ledger st) t a +
       (if t = e_token e then seller_share e a - (if a = e_buyer e then e_amount e else 0) else 0)) \<and>
    e_amount e \<le> allowance V (ledger st) (e_token e) (e_buyer e) (self_address h) \<and>
    (\<forall>t a s. allowance V (ledger st') t a s = allowance V (ledger st) t a s -
       (if t = e_token e \<and> a = e_buyer e \<and> s = self_address h then e_amount e else 0)) \<and>
    (\<forall>t. liability st' t = liability st t) \<and>
    (self_address h \<notin> fst ` set (e_sellers e) \<and> e_buyer e \<noteq> self_address h \<longrightarrow>
       (\<forall>t. balance V (ledger st') t (self_address h) = balance V (ledger st) t (self_address h)))"
proof -
  let ?e = "e\<lparr>e_status := Released\<rparr>"
  note ok = escrows_wfD(2) [OF assms(2,3)]
  obtain st1 where ch: "changes_escrow i e ?e st st1" and o: "is_open_escrow_status (e_status e)"
    and p: "pay_list h (e_token e) (release_payments e) (ledger st) = Some (ledger st1)"
    and r: "try_auto_renew h i e st1 = Inr st'"
    and al: "renewal_allowance st1 = renewal_allowance st"
    using release_escrow_settles [OF assms(5,2)] assms(3) by force
  have k: "get_escrow_counter st1 = k"
    using ch by (simp add: changes_escrow_def get_escrow_counter_def assms(6))
  have active: "e_status (renewed_escrow h k e) = Active" by (simp add: renewed_escrow_def)
  have pos: "0 < e_amount e" using ok open_status [OF o] by (simp add: escrow_ok_def)
  have "e_renewal_count e = 0 \<longrightarrow> e_renewals_remaining e = 0"
    using ok by (simp add: escrow_ok_def)
  then obtain n where n: "renewal_allowance st1 i = Some (Suc n)" "renewal_allowance st' k = Some n"
    and t: "tok_transfer_from h (ledger st1) (e_token e) (self_address h) (e_buyer e) (self_address h)
        (e_amount e) = Some (ledger st')"
    and add: "adds_escrow k (renewed_escrow h k e) st1 st'"
    using try_auto_renew_Inr [OF r] assms(4) renewed_escrow_ok [OF ok pos, of k h] active
    by (auto simp: Let_def k adds_escrow_def)
  note paid = pay_list_effect [OF assms(1) p] and pulled = token_laws_transfer_from [OF assms(1) t]
  have bal: "balance V (ledger st') t a = balance V (ledger st) t a +
      (if t = e_token e then seller_share e a - (if a = e_buyer e then e_amount e else 0) else 0)"
    for t a
    using paid pulled
    by (auto simp: moves_balance sum_release_payments [OF ok] received_release_payments [OF ok])
  have alw: "e_amount e \<le> allowance V (ledger st) (e_token e) (e_buyer e) (self_address h)"
    "allowance V (ledger st') t a s = allowance V (ledger st) t a s -
      (if t = e_token e \<and> a = e_buyer e \<and> s = self_address h then e_amount e else 0)" for t a s
    using paid pulled by auto
  have "seller_share e (self_address h) = 0" if "self_address h \<notin> fst ` set (e_sellers e)"
  proof -
    have "self_address h \<notin> fst ` set (release_payments e)"
      using release_payments_recipients [OF ok] that by blast
    then show ?thesis by (simp add: received_none flip: received_release_payments [OF ok])
  qed
  then have own: "balance V (ledger st') t (self_address h) = balance V (ledger st) t (self_address h)"
    if "self_address h \<notin> fst ` set (e_sellers e) \<and> e_buyer e \<noteq> self_address h" for t
    using that bal by auto
  have liab: "liability st' t = liability st t" for t
    using liability_add [OF add, of t] liability_change [OF ch assms(2), of t] open_status [OF o]
    by (simp add: renewed_escrow_def same_terms_def locked_def holds_funds_def)
  have "i \<noteq> k" and "escrows st1 i = Some ?e"
    using ch escrows_wfD(1) [OF assms(2,3)] by (auto simp: changes_escrow_def assms(6))
  then have "escrows st' i = Some ?e \<and> escrows st' k = Some (renewed_escrow h k e) \<and>
      get_escrow_counter st' = Suc k \<and>
      (\<exists>n. renewal_allowance st i = Some (Suc n) \<and> renewal_allowance st' k = Some n)"
    using add n al by (simp add: adds_escrow_def get_escrow_counter_def)
  then show ?thesis using bal alw liab own by blast
qed

definition demo_renewing :: "plain_ledger escrow_state" where
  "demo_renewing = run_calls escrow_exec
     [(demo_at 5, OpCreateWTimeout demo_buyer demo_seller demo_arbiter 50 demo_token 900 None [] 2 60),
      (demo_at 6, OpSetRenewalAllowance demo_buyer 1 2)] demo_escrow"

lemma release_renews_once_witness:
  "\<exists>st'. release_escrow (demo_at 9) demo_buyer 1 demo_renewing = Inr st' \<and>
     map_option e_deadline (escrows st' 2) = Some 904 \<and> renewal_allowance st' 2 = Some 1 \<and>
     map_option e_renewals_remaining (escrows st' 2) = Some 1 \<and>
     balance plain_view (ledger st') demo_token demo_buyer
       = balance plain_view (ledger demo_renewing) demo_token demo_buyer - 50"
proof -
  obtain st' e where ok: "release_escrow (demo_at 9) demo_buyer 1 demo_renewing = Inr st'"
    and e: "escrows demo_renewing 1 = Some e" and re: "renews e"
    and f: "e_sellers e = [(demo_seller, 10000)]" "e_buyer e = demo_buyer" "e_deadline e = 900"
      "e_created_at e = 5" "e_renewal_count e = 2" "e_renewals_remaining e = 2" "e_amount e = 50"
      "e_token e = demo_token" "e_seller e = demo_seller"
    and k: "get_escrow_counter demo_renewing = 2" "renewal_allowance demo_renewing 1 = Some 2"
    by (simp add: demo_renewing_def demo_escrow_def demo_eval renews_def get_escrow_counter_def
        saturating_sub_def)
  have "token_laws plain_view (demo_at 9)" by (simp add: demo_at_def token_laws_demo)
  moreover have "escrows_wf demo_renewing"
    by (simp add: demo_renewing_def call_tx_wf demo_escrow_wf)
  moreover have "seller_share e demo_buyer = 0"
    by (simp add: seller_share_def f demo_address_defs)
  ultimately show ?thesis
    using release_renews_once [OF _ _ e re ok k(1) [symmetric]] ok k f
    by (auto simp: renewed_escrow_def demo_at_def)
qed

section \<open>Escalation\<close>

text \<open>
  C16. In every reachable state the escalation check of a disputed escrow cannot miss its dispute:
  as long as the clock has not gone back behind the dispute it returns, changes nothing but the
  event log, and answers whether more than the timeout (the escrow's own, else the default) has
  passed since the dispute was raised.
\<close>

theorem escalation_is_decided:
  assumes "escrow_reachable V self st" and "escrows st i = Some e" and "under_dispute (e_status e)"
    and "\<forall>d. disputes st i = Some d \<longrightarrow> d_created_at d \<le> timestamp h"
  shows "\<exists>d st'. disputes st i = Some d \<and> d_dispute_amount d = e_amount e \<and>
    escrow_check_escalation h i st =
      Inr (unwrap_or (get_default_dispute_timeout st) (d_timeout_seconds d)
             < timestamp h - d_created_at d, st') \<and>
    same_books st st' \<and> escrow_settings st' = escrow_settings st"
proof -
  have "dispute_ok i e (disputes st i)"
    using escrow_reachable_inv [OF assms(1)] escrows_wfD(3) assms(2) by (auto simp: escrow_inv_def)
  then obtain d where d: "disputes st i = Some d" "\<not> d_resolved d" "d_dispute_amount d = e_amount e"
    using assms(3) by (auto simp: dispute_ok_def)
  let ?late = "unwrap_or (get_default_dispute_timeout st) (d_timeout_seconds d)
             < timestamp h - d_created_at d"
  have s: "\<not> (e_status e \<noteq> Disputed \<and> e_status e \<noteq> PartiallyDisputed)"
    using assms(3) by (auto simp: under_dispute_def)
  have "\<exists>st'. escrow_check_escalation h i st = Inr (?late, st')"
    using d assms(2,4) s
    by (cases ?late) (simp_all add: escrow_check_escalation_def Let_def sub_u_def
        get_default_dispute_timeout_def)
  then obtain st' where ok: "escrow_check_escalation h i st = Inr (?late, st')" by blast
  then show ?thesis
    using d escrow_check_escalation_books [OF ok] settings_frame.user_frames(11) [OF ok] by blast
qed

lemma demo_disputed_timeout: "default_dispute_timeout demo_disputed = Some 604800"
  by (simp add: demo_disputed_def demo_eval)

lemma escalation_is_decided_witness:
  "\<exists>st'. escrow_check_escalation (demo_at 604811) 0 demo_disputed = Inr (True, st')"
proof -
  have "under_dispute (e_status (demo_e0\<lparr>e_status := Disputed\<rparr>))" by (simp add: under_dispute_def)
  from escalation_is_decided [OF demo_disputed_reachable demo_disputed_fields(1) this,
      of "demo_at 604811"]
  show ?thesis
    by (simp add: demo_disputed_fields demo_at_def get_default_dispute_timeout_def demo_disputed_timeout)
      blast
qed

end
