(* ===== verification/Payments_Types.thy ===== *)
theory Payments_Types
  imports Soroban
begin

text \<open>
  Data of the payments contract (src/contracts/ahjoor-payments/src): the stored types and
  constants of lib.rs, the storage as one record field per \<open>DataKey\<close>, the panics as an
  enumeration, and the events of events.rs with the functions that publish them.
\<close>

section \<open>Constants\<close>

definition MAX_REFERENCE_LEN :: u32 where "MAX_REFERENCE_LEN = 64"
definition MAX_METADATA_KEYS :: u32 where "MAX_METADATA_KEYS = 5"
definition MAX_METADATA_KEY_LEN :: u32 where "MAX_METADATA_KEY_LEN = 32"
definition TEMP_LIFETIME_THRESHOLD :: u32 where "TEMP_LIFETIME_THRESHOLD = 10000"
definition TEMP_BUMP_AMOUNT :: u32 where "TEMP_BUMP_AMOUNT = 15000"
definition DEFAULT_MAX_BATCH_SIZE :: u32 where "DEFAULT_MAX_BATCH_SIZE = 20"
definition MAX_SETTLEMENT_BATCH_SIZE :: u32 where "MAX_SETTLEMENT_BATCH_SIZE = 50"
definition SETTLEMENT_FEE_BPS :: i128 where "SETTLEMENT_FEE_BPS = 0"
definition DEFAULT_DISPUTE_TIMEOUT :: u64 where "DEFAULT_DISPUTE_TIMEOUT = 7 * 24 * 60 * 60"
definition DEFAULT_RATE_LIMIT_MAX_PAYMENTS :: u32 where
  "DEFAULT_RATE_LIMIT_MAX_PAYMENTS = 4294967295"
definition DEFAULT_RATE_LIMIT_WINDOW_SIZE_LEDGERS :: u32 where
  "DEFAULT_RATE_LIMIT_WINDOW_SIZE_LEDGERS = 1"
definition ORACLE_PRICE_PRECISION :: i128 where "ORACLE_PRICE_PRECISION = 10000000"
definition LEDGER_BUCKET_SIZE :: u32 where "LEDGER_BUCKET_SIZE = 120960"
definition MAX_FEE_BPS :: u32 where "MAX_FEE_BPS = 500"
definition DEFAULT_FEE_BPS :: u32 where "DEFAULT_FEE_BPS = 0"
definition IDEMPOTENCY_KEY_LIFETIME_THRESHOLD :: u32 where
  "IDEMPOTENCY_KEY_LIFETIME_THRESHOLD = 10000"
definition IDEMPOTENCY_KEY_BUMP_AMOUNT :: u32 where "IDEMPOTENCY_KEY_BUMP_AMOUNT = 17280"
definition DEFAULT_PAYMENT_TIMEOUT :: u64 where "DEFAULT_PAYMENT_TIMEOUT = 7 * 24 * 60 * 60"

lemmas payments_consts = MAX_REFERENCE_LEN_def MAX_METADATA_KEYS_def MAX_METADATA_KEY_LEN_def
  TEMP_LIFETIME_THRESHOLD_def TEMP_BUMP_AMOUNT_def DEFAULT_MAX_BATCH_SIZE_def
  MAX_SETTLEMENT_BATCH_SIZE_def SETTLEMENT_FEE_BPS_def DEFAULT_DISPUTE_TIMEOUT_def
  DEFAULT_RATE_LIMIT_MAX_PAYMENTS_def DEFAULT_RATE_LIMIT_WINDOW_SIZE_LEDGERS_def
  ORACLE_PRICE_PRECISION_def LEDGER_BUCKET_SIZE_def MAX_FEE_BPS_def DEFAULT_FEE_BPS_def
  IDEMPOTENCY_KEY_LIFETIME_THRESHOLD_def IDEMPOTENCY_KEY_BUMP_AMOUNT_def
  DEFAULT_PAYMENT_TIMEOUT_def

section \<open>Stored data\<close>

datatype payment_status =
    Pending | Completed | PaymentRefunded | PaymentDisputed | PaymentExpired | ScheduledPending

record split_recipient =
  sr_recipient :: address
  sr_bps :: u32

record split_transfer =
  st_recipient :: address
  st_bps :: u32
  st_amount :: i128

record fee_tier =
  ft_min_volume :: i128
  ft_fee_bps :: u32

text \<open>A \<open>Map<String, String>\<close> is the list of its entries in key order.\<close>

type_synonym metadata_map = "(string \<times> string) list"

record payment =
  p_id :: u32
  p_customer :: address
  p_merchant :: address
  p_amount :: i128
  p_token :: address
  p_status :: payment_status
  p_created_at :: u64
  p_expires_at :: u64
  p_refunded_amount :: i128
  p_reference :: "string option"
  p_metadata :: "metadata_map option"
  p_split_recipients :: "split_recipient list option"
  p_execute_after :: u64

record payment_request =
  rq_merchant :: address
  rq_amount :: i128
  rq_token :: address
  rq_reference :: "string option"
  rq_metadata :: "metadata_map option"

record global_stats =
  total_payments_created :: u32
  total_payments_completed :: u32
  total_payments_refunded :: u32
  total_payments_expired :: u32
  total_volume_completed :: "address \<rightharpoonup> i128"
  total_volume_refunded :: "address \<rightharpoonup> i128"

record merchant_stats =
  payments_created :: u32
  payments_completed :: u32
  payments_refunded :: u32
  volume_completed :: "address \<rightharpoonup> i128"

record payment_dispute =
  pd_payment_id :: u32
  pd_reason :: string
  pd_created_at :: u64
  pd_resolved :: bool

record subscription =
  s_id :: u32
  s_subscriber :: address
  s_merchant :: address
  s_amount :: i128
  s_token :: address
  s_interval_seconds :: u64
  s_last_charged_at :: u64
  s_max_charges :: u32
  s_charges_count :: u32
  s_active :: bool

record rate_limit_config =
  max_payments :: u32
  window_size_ledgers :: u32

record customer_rate_limit =
  rl_count :: u32
  window_start_ledger :: u32

section \<open>Panics\<close>

datatype (plugins only: code size) payments_panic =
    PaymentsAlreadyInitialized | FeeAboveMaximum | PaymentAmountNotPositive | PaymentBatchEmpty
  | BatchAboveMaximum | PaymentsNotInitialized | PaymentNotFound | NotPaymentCustomer
  | NotScheduled | ReadyToExecute | PaymentsOnlyAdmin | SettlementEmpty | SettlementTooLarge
  | NotCompleted | WrongMerchant | MixedTokens | AlreadySettled | SettlementOverflow
  | SettlementFeeExceedsAmount | NotPending | PaymentNotDisputed | PaymentDisputeNotFound
  | OracleAgeNotPositive | SlippageAboveMaximum | OracleNotConfigured | PriceUnavailable
  | PriceStale | PriceInvalid | TokenAmountZero | SlippageExceeded | BatchSizeZero
  | DisputeTimeoutZero | FeeRecipientNotConfigured | MaxPaymentsZero | WindowSizeZero
  | NoAdminProposed | PaymentsVersionOverflow | PaymentsMigrationDone | ReceiptNotFound
  | PaymentTimeoutZero | NoExpiry | NotYetExpired | RefundNotPositive | NotRefundable
  | RefundExceedsBalance | SubscriptionAmountNotPositive | IntervalZero | SubscriptionNotFound
  | SubscriptionInactive | MaxChargesReached | IntervalNotElapsed | NotSubscriptionParty
  | PaymentsAlreadyPaused | PaymentsNotPaused | PaymentsPaused | BeforeSchedule | Expired
  | SplitsEmpty | SplitBpsZero | SplitBpsOverflow | SplitsNotFull | TierFeeTooHigh
  | TierVolumeNegative | TiersNotAscending | RateLimitExceeded | MerchantNotApproved
  | ReferenceTooLong | TooManyMetadataKeys | MetadataKeyTooLong | MetadataValueTooLong

section \<open>Events\<close>

datatype (plugins only: code size) payments_event =
    PaymentReceiptIssued u32 bytes32
  | FeeCollected u32 i128 address address
  | PaymentSplitCompleted u32 "split_transfer list"
  | PaymentScheduled u32 u64
  | ScheduledPaymentExecuted u32
  | MerchantTierUpdated address u32 i128
  | MultiTokenPaymentCreated u32 address address i128 address i128 i128
  | PaymentCreated u32 address address i128 address
  | BatchPaymentCreated address u32 i128
  | PaymentStatusChanged u32 payment_status payment_status
  | PaymentCompletedEvent u32 address i128 u64
  | PaymentExpiredEvent u32 address i128 u64
  | PaymentPartialRefund u32 address i128 i128
  | SubscriptionCharged u32 address address i128 u64
  | SubscriptionCancelled u32 address
  | BatchSettlementProcessed address i128 i128 u32
  | PaymentDisputedEvent u32 address string
  | PaymentDisputeResolved u32 bool address
  | PaymentDisputeEscalated u32 u64
  | AdminTransferProposed address address
  | AdminTransferred address address
  | PaymentsUpgraded u32 u32 address
  | PaymentsPausedEvent address string u64
  | PaymentsResumedEvent address u64

section \<open>Storage\<close>

text \<open>One field per \<open>DataKey\<close> beyond those every contract has; the last two are temporary.\<close>

record 'l payments_state = "('l, payments_event) contract" +
  payment_counter :: "u32 option"
  max_batch_size :: "u32 option"
  dispute_timeout :: "u64 option"
  oracle_address :: "address option"
  usdc_token :: "address option"
  max_oracle_age :: "u64 option"
  proposed_admin :: "address option"
  payment_timeout :: "u64 option"
  merchant_open_mode :: "bool option"
  subscription_counter :: "u32 option"
  rate_limits :: "rate_limit_config option"
  fee_bps :: "u32 option"
  pay_fee_recipient :: "address option"
  fee_tiers :: "fee_tier list option"
  payments :: "u32 \<rightharpoonup> payment"
  customer_payments :: "address \<rightharpoonup> u32 list"
  settled :: "u32 \<rightharpoonup> bool"
  customer_limits :: "address \<rightharpoonup> customer_rate_limit"
  merchant_approved :: "address \<rightharpoonup> bool"
  subscriptions :: "u32 \<rightharpoonup> subscription"
  merchant_reference :: "address \<times> u32 \<rightharpoonup> u32 list"
  payment_receipt :: "u32 \<rightharpoonup> bytes32"
  global_statistics :: "global_stats option"
  merchant_statistics :: "address \<rightharpoonup> merchant_stats"
  volume_bucket :: "address \<times> u32 \<rightharpoonup> i128"
  merchant_volume_bucket :: "address \<times> u32 \<rightharpoonup> i128"
  merchant_current_tier_bps :: "address \<rightharpoonup> u32"
  payment_disputes :: "(u32, payment_dispute) temporary"
  idempotency_keys :: "(bytes32, u32) temporary"

text \<open>A freshly deployed contract has no storage entries.\<close>

definition deployed_payments :: "'l \<Rightarrow> 'l payments_state" where
  "deployed_payments l =
     \<lparr>ledger = l, events = [], admin = None, contract_version = None,
      migration_completed = Map.empty, paused = None, pause_reason = None,
      payment_counter = None, max_batch_size = None, dispute_timeout = None,
      oracle_address = None, usdc_token = None, max_oracle_age = None, proposed_admin = None,
      payment_timeout = None, merchant_open_mode = None, subscription_counter = None,
      rate_limits = None, fee_bps = None, pay_fee_recipient = None, fee_tiers = None,
      payments = Map.empty, customer_payments = Map.empty, settled = Map.empty,
      customer_limits = Map.empty, merchant_approved = Map.empty, subscriptions = Map.empty,
      merchant_reference = Map.empty, payment_receipt = Map.empty, global_statistics = None,
      merchant_statistics = Map.empty, volume_bucket = Map.empty,
      merchant_volume_bucket = Map.empty, merchant_current_tier_bps = Map.empty,
      payment_disputes = Map.empty, idempotency_keys = Map.empty\<rparr>"

section \<open>Publishing events\<close>

definition emit_payment_created ::
  "u32 \<Rightarrow> address \<Rightarrow> address \<Rightarrow> i128 \<Rightarrow> address \<Rightarrow> 'l payments_state \<Rightarrow> 'l payments_state" where
  "emit_payment_created payment_id customer merchant amount token =
     publish (PaymentCreated payment_id customer merchant amount token)"

definition emit_batch_payment_created ::
  "address \<Rightarrow> u32 \<Rightarrow> i128 \<Rightarrow> 'l payments_state \<Rightarrow> 'l payments_state" where
  "emit_batch_payment_created customer payment_count total_amount =
     publish (BatchPaymentCreated customer payment_count total_amount)"

definition emit_payment_status_changed ::
  "u32 \<Rightarrow> payment_status \<Rightarrow> payment_status \<Rightarrow> 'l payments_state \<Rightarrow> 'l payments_state" where
  "emit_payment_status_changed payment_id old_status new_status =
     publish (PaymentStatusChanged payment_id old_status new_status)"

definition emit_payment_completed ::
  "u32 \<Rightarrow> address \<Rightarrow> i128 \<Rightarrow> u64 \<Rightarrow> 'l payments_state \<Rightarrow> 'l payments_state" where
  "emit_payment_completed payment_id merchant amount completed_at =
     publish (PaymentCompletedEvent payment_id merchant amount completed_at)"

definition emit_payment_expired ::
  "u32 \<Rightarrow> address \<Rightarrow> i128 \<Rightarrow> u64 \<Rightarrow> 'l payments_state \<Rightarrow> 'l payments_state" where
  "emit_payment_expired payment_id customer amount expired_at =
     publish (PaymentExpiredEvent payment_id customer amount expired_at)"

definition emit_payment_partial_refund ::
  "u32 \<Rightarrow> address \<Rightarrow> i128 \<Rightarrow> i128 \<Rightarrow> 'l payments_state \<Rightarrow> 'l payments_state" where
  "emit_payment_partial_refund payment_id customer refund_amount remaining =
     publish (PaymentPartialRefund payment_id customer refund_amount remaining)"

definition emit_subscription_charged ::
  "u32 \<Rightarrow> address \<Rightarrow> address \<Rightarrow> i128 \<Rightarrow> u64 \<Rightarrow> 'l payments_state \<Rightarrow> 'l payments_state" where
  "emit_subscription_charged subscription_id subscriber merchant amount charged_at =
     publish (SubscriptionCharged subscription_id subscriber merchant amount charged_at)"

definition emit_subscription_cancelled ::
  "u32 \<Rightarrow> address \<Rightarrow> 'l payments_state \<Rightarrow> 'l payments_state" where
  "emit_subscription_cancelled subscription_id cancelled_by =
     publish (SubscriptionCancelled subscription_id cancelled_by)"

definition emit_batch_settlement_processed ::
  "address \<Rightarrow> i128 \<Rightarrow> i128 \<Rightarrow> u32 \<Rightarrow> 'l payments_state \<Rightarrow> 'l payments_state" where
  "emit_batch_settlement_processed merchant total_amount fee_collected payment_count =
     publish (BatchSettlementProcessed merchant total_amount fee_collected payment_count)"

definition emit_payment_disputed ::
  "u32 \<Rightarrow> address \<Rightarrow> string \<Rightarrow> 'l payments_state \<Rightarrow> 'l payments_state" where
  "emit_payment_disputed payment_id customer reason =
     publish (PaymentDisputedEvent payment_id customer reason)"

definition payments_emit_dispute_resolved ::
  "u32 \<Rightarrow> bool \<Rightarrow> address \<Rightarrow> 'l payments_state \<Rightarrow> 'l payments_state" where
  "payments_emit_dispute_resolved payment_id release_to_merchant resolved_by =
     publish (PaymentDisputeResolved payment_id release_to_merchant resolved_by)"

definition payments_emit_dispute_escalated ::
  "u32 \<Rightarrow> u64 \<Rightarrow> 'l payments_state \<Rightarrow> 'l payments_state" where
  "payments_emit_dispute_escalated payment_id elapsed_seconds =
     publish (PaymentDisputeEscalated payment_id elapsed_seconds)"

definition emit_admin_transfer_proposed ::
  "address \<Rightarrow> address \<Rightarrow> 'l payments_state \<Rightarrow> 'l payments_state" where
  "emit_admin_transfer_proposed current_admin new_admin =
     publish (AdminTransferProposed current_admin new_admin)"

definition emit_admin_transferred ::
  "address \<Rightarrow> address \<Rightarrow> 'l payments_state \<Rightarrow> 'l payments_state" where
  "emit_admin_transferred old_admin new_admin =
     publish (AdminTransferred old_admin new_admin)"

definition payments_emit_contract_upgraded ::
  "u32 \<Rightarrow> u32 \<Rightarrow> address \<Rightarrow> 'l payments_state \<Rightarrow> 'l payments_state" where
  "payments_emit_contract_upgraded old_version new_version by_admin =
     publish (PaymentsUpgraded old_version new_version by_admin)"

definition payments_emit_contract_paused ::
  "address \<Rightarrow> string \<Rightarrow> u64 \<Rightarrow> 'l payments_state \<Rightarrow> 'l payments_state" where
  "payments_emit_contract_paused adm reason now =
     publish (PaymentsPausedEvent adm reason now)"

definition payments_emit_contract_resumed ::
  "address \<Rightarrow> u64 \<Rightarrow> 'l payments_state \<Rightarrow> 'l payments_state" where
  "payments_emit_contract_resumed adm now =
     publish (PaymentsResumedEvent adm now)"

definition emit_payment_receipt_issued ::
  "u32 \<Rightarrow> bytes32 \<Rightarrow> 'l payments_state \<Rightarrow> 'l payments_state" where
  "emit_payment_receipt_issued payment_id receipt_hash =
     publish (PaymentReceiptIssued payment_id receipt_hash)"

definition emit_fee_collected ::
  "u32 \<Rightarrow> i128 \<Rightarrow> address \<Rightarrow> address \<Rightarrow> 'l payments_state \<Rightarrow> 'l payments_state" where
  "emit_fee_collected payment_id fee_amount recipient token =
     publish (FeeCollected payment_id fee_amount recipient token)"

definition emit_payment_split_completed ::
  "u32 \<Rightarrow> split_transfer list \<Rightarrow> 'l payments_state \<Rightarrow> 'l payments_state" where
  "emit_payment_split_completed payment_id splits =
     publish (PaymentSplitCompleted payment_id splits)"

definition emit_payment_scheduled ::
  "u32 \<Rightarrow> u64 \<Rightarrow> 'l payments_state \<Rightarrow> 'l payments_state" where
  "emit_payment_scheduled payment_id execute_after =
     publish (PaymentScheduled payment_id execute_after)"

definition emit_scheduled_payment_executed ::
  "u32 \<Rightarrow> 'l payments_state \<Rightarrow> 'l payments_state" where
  "emit_scheduled_payment_executed payment_id =
     publish (ScheduledPaymentExecuted payment_id)"

definition emit_merchant_tier_updated ::
  "address \<Rightarrow> u32 \<Rightarrow> i128 \<Rightarrow> 'l payments_state \<Rightarrow> 'l payments_state" where
  "emit_merchant_tier_updated merchant new_tier_bps volume =
     publish (MerchantTierUpdated merchant new_tier_bps volume)"

definition emit_multi_token_payment_created ::
  "u32 \<Rightarrow> address \<Rightarrow> address \<Rightarrow> i128 \<Rightarrow> address \<Rightarrow> i128 \<Rightarrow> i128 \<Rightarrow> 'l payments_state \<Rightarrow> 'l payments_state" where
  "emit_multi_token_payment_created payment_id customer merchant amount_usdc payment_token token_amount oracle_price =
     publish (MultiTokenPaymentCreated payment_id customer merchant amount_usdc payment_token token_amount oracle_price)"

lemmas payments_emit_defs = emit_payment_created_def emit_batch_payment_created_def
  emit_payment_status_changed_def emit_payment_completed_def emit_payment_expired_def
  emit_payment_partial_refund_def emit_subscription_charged_def
  emit_subscription_cancelled_def emit_batch_settlement_processed_def
  emit_payment_disputed_def payments_emit_dispute_resolved_def
  payments_emit_dispute_escalated_def emit_admin_transfer_proposed_def
  emit_admin_transferred_def payments_emit_contract_upgraded_def
  payments_emit_contract_paused_def payments_emit_contract_resumed_def
  emit_payment_receipt_issued_def emit_fee_collected_def
  emit_payment_split_completed_def emit_payment_scheduled_def
  emit_scheduled_payment_executed_def emit_merchant_tier_updated_def
  emit_multi_token_payment_created_def

text \<open>Publishing an event writes the event log and nothing else.\<close>

lemma publish_payments_fields [simp]:
  "payment_counter (publish ev st) = payment_counter st"
  "max_batch_size (publish ev st) = max_batch_size st"
  "dispute_timeout (publish ev st) = dispute_timeout st"
  "oracle_address (publish ev st) = oracle_address st"
  "usdc_token (publish ev st) = usdc_token st"
  "max_oracle_age (publish ev st) = max_oracle_age st"
  "proposed_admin (publish ev st) = proposed_admin st"
  "payment_timeout (publish ev st) = payment_timeout st"
  "merchant_open_mode (publish ev st) = merchant_open_mode st"
  "subscription_counter (publish ev st) = subscription_counter st"
  "rate_limits (publish ev st) = rate_limits st"
  "fee_bps (publish ev st) = fee_bps st"
  "pay_fee_recipient (publish ev st) = pay_fee_recipient st"
  "fee_tiers (publish ev st) = fee_tiers st"
  "payments (publish ev st) = payments st"
  "customer_payments (publish ev st) = customer_payments st"
  "settled (publish ev st) = settled st"
  "customer_limits (publish ev st) = customer_limits st"
  "merchant_approved (publish ev st) = merchant_approved st"
  "subscriptions (publish ev st) = subscriptions st"
  "merchant_reference (publish ev st) = merchant_reference st"
  "payment_receipt (publish ev st) = payment_receipt st"
  "global_statistics (publish ev st) = global_statistics st"
  "merchant_statistics (publish ev st) = merchant_statistics st"
  "volume_bucket (publish ev st) = volume_bucket st"
  "merchant_volume_bucket (publish ev st) = merchant_volume_bucket st"
  "merchant_current_tier_bps (publish ev st) = merchant_current_tier_bps st"
  "payment_disputes (publish ev st) = payment_disputes st"
  "idempotency_keys (publish ev st) = idempotency_keys st"
  by (simp_all add: publish_def)

end
