(* ===== verification/Payments_Admin.thy ===== *)
theory Payments_Admin
  imports Payments_Types
begin

text \<open>
  Administration of the payments contract (lib.rs): guards, initialisation, upgrade and
  migration, the emergency stop, the two-step transfer of the admin role, fees and fee tiers,
  limits and timeouts, the merchant allowlist, the oracle settings, and the statistics helpers.
\<close>

section \<open>Guards\<close>

definition payments_is_paused :: "'l payments_state \<Rightarrow> bool" where
  "payments_is_paused st = unwrap_or False (paused st)"

definition payments_require_not_paused :: "'l payments_state \<Rightarrow> (payments_panic, unit) outcome" where
  "payments_require_not_paused st =
     (if unwrap_or False (paused st) then Inl (Panic PaymentsPaused) else Inr ())"

text \<open>The given admin signs and is the stored one.\<close>

definition payments_require_admin ::
  "'l host \<Rightarrow> address \<Rightarrow> 'l payments_state \<Rightarrow> (payments_panic, unit) outcome" where
  "payments_require_admin h adm st =
     and_then (require_auth h adm) (\<lambda>_.
     and_then (expect PaymentsNotInitialized (admin st)) (\<lambda>stored_admin.
     if stored_admin \<noteq> adm then Inl (Panic PaymentsOnlyAdmin) else Inr ()))"

text \<open>The stored admin signs: the opening lines of the entry points that take no admin.\<close>

definition stored_admin_auth ::
  "'l host \<Rightarrow> 'l payments_state \<Rightarrow> (payments_panic, address) outcome" where
  "stored_admin_auth h st =
     and_then (expect PaymentsNotInitialized (admin st)) (\<lambda>adm.
     and_then (require_auth h adm) (\<lambda>_. Inr adm))"

lemma payments_guards_Inr [ok_simps]:
  "payments_require_not_paused st = Inr u \<longleftrightarrow> \<not> payments_is_paused st"
  "payments_require_admin h adm st = Inr v \<longleftrightarrow> authorized h adm \<and> admin st = Some adm"
  "stored_admin_auth h st = Inr adm \<longleftrightarrow> admin st = Some adm \<and> authorized h adm"
  by (auto simp: payments_require_not_paused_def payments_is_paused_def
      payments_require_admin_def stored_admin_auth_def ok_simps)

definition payments_get_or_init_version :: "'l payments_state \<Rightarrow> u32 \<times> 'l payments_state" where
  "payments_get_or_init_version st =
     (case contract_version st of
        Some version \<Rightarrow> (version, st)
      | None \<Rightarrow> (1, st\<lparr>contract_version := Some 1\<rparr>))"

section \<open>Lifecycle of the contract\<close>

definition payments_initialize ::
  "address \<Rightarrow> address \<Rightarrow> u32 \<Rightarrow> 'l payments_state \<Rightarrow> (payments_panic, 'l payments_state) outcome" where
  "payments_initialize adm recipient bps st =
     (if admin st \<noteq> None then Inl (Panic PaymentsAlreadyInitialized)
      else if MAX_FEE_BPS < bps then Inl (Panic FeeAboveMaximum)
      else Inr (st\<lparr>admin := Some adm, payment_counter := Some 0,
        max_batch_size := Some DEFAULT_MAX_BATCH_SIZE,
        dispute_timeout := Some DEFAULT_DISPUTE_TIMEOUT,
        rate_limits := Some \<lparr>max_payments = DEFAULT_RATE_LIMIT_MAX_PAYMENTS,
          window_size_ledgers = DEFAULT_RATE_LIMIT_WINDOW_SIZE_LEDGERS\<rparr>,
        contract_version := Some 1, paused := Some False, fee_bps := Some bps,
        pay_fee_recipient := Some recipient, fee_tiers := Some []\<rparr>))"

definition payments_upgrade ::
  "'l host \<Rightarrow> address \<Rightarrow> bytes32 \<Rightarrow> 'l payments_state \<Rightarrow> (payments_panic, 'l payments_state) outcome" where
  "payments_upgrade h adm new_wasm_hash st =
     and_then (payments_require_admin h adm st) (\<lambda>_.
     let (old_version, st) = payments_get_or_init_version st in
     if \<not> wasm_installed h new_wasm_hash then Inl HostFailure
     else if \<not> old_version + 1 < 2 ^ 32 then Inl (Panic PaymentsVersionOverflow)
     else let new_version = old_version + 1 in
       Inr (payments_emit_contract_upgraded old_version new_version adm
         (st\<lparr>contract_version := Some new_version\<rparr>)))"

definition payments_migrate ::
  "'l host \<Rightarrow> address \<Rightarrow> 'l payments_state \<Rightarrow> (payments_panic, 'l payments_state) outcome" where
  "payments_migrate h adm st =
     and_then (payments_require_admin h adm st) (\<lambda>_.
     let (version, st) = payments_get_or_init_version st in
     if unwrap_or False (migration_completed st version) then Inl (Panic PaymentsMigrationDone)
     else Inr (st\<lparr>migration_completed := (migration_completed st)(version \<mapsto> True)\<rparr>))"

definition payments_get_version :: "'l payments_state \<Rightarrow> u32 \<times> 'l payments_state" where
  "payments_get_version st = payments_get_or_init_version st"

definition payments_pause_contract ::
  "'l host \<Rightarrow> address \<Rightarrow> string \<Rightarrow> 'l payments_state \<Rightarrow> (payments_panic, 'l payments_state) outcome" where
  "payments_pause_contract h adm reason st =
     and_then (payments_require_admin h adm st) (\<lambda>_.
     if payments_is_paused st then Inl (Panic PaymentsAlreadyPaused)
     else Inr (payments_emit_contract_paused adm reason (timestamp h)
            (st\<lparr>paused := Some True, pause_reason := Some reason\<rparr>)))"

definition payments_resume_contract ::
  "'l host \<Rightarrow> address \<Rightarrow> 'l payments_state \<Rightarrow> (payments_panic, 'l payments_state) outcome" where
  "payments_resume_contract h adm st =
     and_then (payments_require_admin h adm st) (\<lambda>_.
     if \<not> payments_is_paused st then Inl (Panic PaymentsNotPaused)
     else Inr (payments_emit_contract_resumed adm (timestamp h)
            (st\<lparr>paused := Some False, pause_reason := None\<rparr>)))"

definition payments_get_pause_reason :: "'l payments_state \<Rightarrow> string" where
  "payments_get_pause_reason st = unwrap_or [] (pause_reason st)"

section \<open>The admin role\<close>

definition propose_admin_transfer ::
  "'l host \<Rightarrow> address \<Rightarrow> 'l payments_state \<Rightarrow> (payments_panic, 'l payments_state) outcome" where
  "propose_admin_transfer h new_admin st =
     and_then (payments_require_not_paused st) (\<lambda>_.
     and_then (stored_admin_auth h st) (\<lambda>adm.
     Inr (emit_admin_transfer_proposed adm new_admin (st\<lparr>proposed_admin := Some new_admin\<rparr>))))"

definition accept_admin_role ::
  "'l host \<Rightarrow> 'l payments_state \<Rightarrow> (payments_panic, 'l payments_state) outcome" where
  "accept_admin_role h st =
     and_then (payments_require_not_paused st) (\<lambda>_.
     and_then (expect NoAdminProposed (proposed_admin st)) (\<lambda>new_admin.
     and_then (require_auth h new_admin) (\<lambda>_.
     and_then (expect PaymentsNotInitialized (admin st)) (\<lambda>old_admin.
     Inr (emit_admin_transferred old_admin new_admin
       (st\<lparr>admin := Some new_admin, proposed_admin := None\<rparr>))))))"

definition get_admin :: "'l payments_state \<Rightarrow> (payments_panic, address) outcome" where
  "get_admin st = expect PaymentsNotInitialized (admin st)"

definition get_proposed_admin :: "'l payments_state \<Rightarrow> address option" where
  "get_proposed_admin st = proposed_admin st"

section \<open>Fees\<close>

definition update_fee ::
  "'l host \<Rightarrow> address \<Rightarrow> u32 \<Rightarrow> 'l payments_state \<Rightarrow> (payments_panic, 'l payments_state) outcome" where
  "update_fee h adm new_fee_bps st =
     and_then (payments_require_not_paused st) (\<lambda>_.
     and_then (payments_require_admin h adm st) (\<lambda>_.
     if MAX_FEE_BPS < new_fee_bps then Inl (Panic FeeAboveMaximum)
     else Inr (st\<lparr>fee_bps := Some new_fee_bps\<rparr>)))"

definition update_fee_recipient ::
  "'l host \<Rightarrow> address \<Rightarrow> address \<Rightarrow> 'l payments_state \<Rightarrow> (payments_panic, 'l payments_state) outcome" where
  "update_fee_recipient h adm recipient st =
     and_then (payments_require_not_paused st) (\<lambda>_.
     and_then (payments_require_admin h adm st) (\<lambda>_.
     Inr (st\<lparr>pay_fee_recipient := Some recipient\<rparr>)))"

definition get_fee_bps :: "'l payments_state \<Rightarrow> u32" where
  "get_fee_bps st = unwrap_or DEFAULT_FEE_BPS (fee_bps st)"

definition get_fee_recipient :: "'l payments_state \<Rightarrow> (payments_panic, address) outcome" where
  "get_fee_recipient st = expect FeeRecipientNotConfigured (pay_fee_recipient st)"

text \<open>The loop of \<open>validate_fee_tiers\<close> with its \<open>last_min_volume\<close>.\<close>

fun validate_fee_tiers_from :: "i128 \<Rightarrow> fee_tier list \<Rightarrow> (payments_panic, unit) outcome" where
  "validate_fee_tiers_from last_min_volume [] = Inr ()"
| "validate_fee_tiers_from last_min_volume (tier # tiers) =
     (if MAX_FEE_BPS < ft_fee_bps tier then Inl (Panic TierFeeTooHigh)
      else if ft_min_volume tier < 0 then Inl (Panic TierVolumeNegative)
      else if ft_min_volume tier \<le> last_min_volume then Inl (Panic TiersNotAscending)
      else validate_fee_tiers_from (ft_min_volume tier) tiers)"

definition validate_fee_tiers :: "fee_tier list \<Rightarrow> (payments_panic, unit) outcome" where
  "validate_fee_tiers tiers = validate_fee_tiers_from (- 1) tiers"

definition update_fee_tiers ::
  "'l host \<Rightarrow> address \<Rightarrow> fee_tier list \<Rightarrow> 'l payments_state \<Rightarrow> (payments_panic, 'l payments_state) outcome" where
  "update_fee_tiers h adm tiers st =
     and_then (payments_require_not_paused st) (\<lambda>_.
     and_then (payments_require_admin h adm st) (\<lambda>_.
     and_then (validate_fee_tiers tiers) (\<lambda>_.
     Inr (st\<lparr>fee_tiers := Some tiers\<rparr>))))"

definition get_fee_tiers :: "'l payments_state \<Rightarrow> fee_tier list" where
  "get_fee_tiers st = unwrap_or [] (fee_tiers st)"

text \<open>The loop of \<open>fee_bps_for_volume\<close>: the last tier the volume reaches.\<close>

fun select_tier :: "i128 \<Rightarrow> u32 \<Rightarrow> fee_tier list \<Rightarrow> u32" where
  "select_tier volume selected [] = selected"
| "select_tier volume selected (tier # tiers) =
     select_tier volume (if ft_min_volume tier \<le> volume then ft_fee_bps tier else selected) tiers"

definition fee_bps_for_volume :: "i128 \<Rightarrow> 'l payments_state \<Rightarrow> u32" where
  "fee_bps_for_volume volume st =
     (let default_fee = unwrap_or DEFAULT_FEE_BPS (fee_bps st);
          tiers = unwrap_or [] (fee_tiers st)
      in select_tier volume default_fee tiers)"

text \<open>The last four weekly buckets of a merchant; the loop body runs for \<open>i = 0, 1, 2, 3\<close>.\<close>

fun sum_buckets ::
  "u32 list \<Rightarrow> u32 \<Rightarrow> address \<Rightarrow> i128 \<Rightarrow> 'l payments_state \<Rightarrow> (payments_panic, i128) outcome" where
  "sum_buckets [] current_bucket merchant total_volume st = Inr total_volume"
| "sum_buckets (i # is) current_bucket merchant total_volume st =
     (let bucket = saturating_sub current_bucket i;
          bucket_total = unwrap_or 0 (merchant_volume_bucket st (merchant, bucket)) in
      and_then (add128 total_volume bucket_total) (\<lambda>total_volume.
      sum_buckets is current_bucket merchant total_volume st))"

definition rolling_merchant_volume ::
  "'l host \<Rightarrow> address \<Rightarrow> 'l payments_state \<Rightarrow> (payments_panic, i128) outcome" where
  "rolling_merchant_volume h merchant st =
     (let current_bucket = sequence h div LEDGER_BUCKET_SIZE
      in sum_buckets [0, 1, 2, 3] current_bucket merchant 0 st)"

definition get_merchant_fee_tier ::
  "'l host \<Rightarrow> address \<Rightarrow> 'l payments_state \<Rightarrow> (payments_panic, u32) outcome" where
  "get_merchant_fee_tier h merchant st =
     and_then (rolling_merchant_volume h merchant st) (\<lambda>volume.
     Inr (fee_bps_for_volume volume st))"

section \<open>Limits and timeouts\<close>

definition set_max_batch_size ::
  "'l host \<Rightarrow> u32 \<Rightarrow> 'l payments_state \<Rightarrow> (payments_panic, 'l payments_state) outcome" where
  "set_max_batch_size h new_size st =
     and_then (payments_require_not_paused st) (\<lambda>_.
     and_then (stored_admin_auth h st) (\<lambda>_.
     if new_size = 0 then Inl (Panic BatchSizeZero)
     else Inr (st\<lparr>max_batch_size := Some new_size\<rparr>)))"

definition set_dispute_timeout ::
  "'l host \<Rightarrow> u64 \<Rightarrow> 'l payments_state \<Rightarrow> (payments_panic, 'l payments_state) outcome" where
  "set_dispute_timeout h timeout st =
     and_then (payments_require_not_paused st) (\<lambda>_.
     and_then (stored_admin_auth h st) (\<lambda>_.
     if timeout = 0 then Inl (Panic DisputeTimeoutZero)
     else Inr (st\<lparr>dispute_timeout := Some timeout\<rparr>)))"

definition set_payment_timeout ::
  "'l host \<Rightarrow> u64 \<Rightarrow> 'l payments_state \<Rightarrow> (payments_panic, 'l payments_state) outcome" where
  "set_payment_timeout h timeout_seconds st =
     and_then (payments_require_not_paused st) (\<lambda>_.
     and_then (stored_admin_auth h st) (\<lambda>_.
     if timeout_seconds = 0 then Inl (Panic PaymentTimeoutZero)
     else Inr (st\<lparr>payment_timeout := Some timeout_seconds\<rparr>)))"

definition get_payment_timeout :: "'l payments_state \<Rightarrow> u64" where
  "get_payment_timeout st = unwrap_or DEFAULT_PAYMENT_TIMEOUT (payment_timeout st)"

definition get_max_batch_size :: "'l payments_state \<Rightarrow> u32" where
  "get_max_batch_size st = unwrap_or DEFAULT_MAX_BATCH_SIZE (max_batch_size st)"

definition get_dispute_timeout :: "'l payments_state \<Rightarrow> u64" where
  "get_dispute_timeout st = unwrap_or DEFAULT_DISPUTE_TIMEOUT (dispute_timeout st)"

definition update_rate_limit_config ::
  "'l host \<Rightarrow> address \<Rightarrow> u32 \<Rightarrow> u32 \<Rightarrow> 'l payments_state \<Rightarrow> (payments_panic, 'l payments_state) outcome" where
  "update_rate_limit_config h adm max_count window st =
     and_then (payments_require_not_paused st) (\<lambda>_.
     and_then (payments_require_admin h adm st) (\<lambda>_.
     if max_count = 0 then Inl (Panic MaxPaymentsZero)
     else if window = 0 then Inl (Panic WindowSizeZero)
     else Inr (st\<lparr>rate_limits :=
            Some \<lparr>max_payments = max_count, window_size_ledgers = window\<rparr>\<rparr>)))"

definition get_rate_limit_config_internal :: "'l payments_state \<Rightarrow> rate_limit_config" where
  "get_rate_limit_config_internal st =
     unwrap_or \<lparr>max_payments = DEFAULT_RATE_LIMIT_MAX_PAYMENTS,
       window_size_ledgers = DEFAULT_RATE_LIMIT_WINDOW_SIZE_LEDGERS\<rparr> (rate_limits st)"

definition get_rate_limit_config :: "'l payments_state \<Rightarrow> rate_limit_config" where
  "get_rate_limit_config st = get_rate_limit_config_internal st"

definition enforce_rate_limit ::
  "'l host \<Rightarrow> address \<Rightarrow> u32 \<Rightarrow> 'l payments_state \<Rightarrow> (payments_panic, 'l payments_state) outcome" where
  "enforce_rate_limit h customer requested_payments st =
     (if requested_payments = 0 then Inr st
      else
        let cfg = get_rate_limit_config_internal st;
            current_ledger = sequence h;
            state = unwrap_or \<lparr>rl_count = 0, window_start_ledger = current_ledger\<rparr>
              (customer_limits st customer);
            state = (if window_size_ledgers cfg
                        \<le> saturating_sub current_ledger (window_start_ledger state)
                     then state\<lparr>rl_count := 0, window_start_ledger := current_ledger\<rparr> else state);
            new_count = saturating_add_u32 (rl_count state) requested_payments in
        if max_payments cfg < new_count then Inl (Panic RateLimitExceeded)
        else Inr (st\<lparr>customer_limits :=
               (customer_limits st)(customer \<mapsto> state\<lparr>rl_count := new_count\<rparr>)\<rparr>))"

section \<open>The merchant allowlist and the oracle\<close>

definition approve_merchant ::
  "'l host \<Rightarrow> address \<Rightarrow> 'l payments_state \<Rightarrow> (payments_panic, 'l payments_state) outcome" where
  "approve_merchant h merchant st =
     and_then (payments_require_not_paused st) (\<lambda>_.
     and_then (stored_admin_auth h st) (\<lambda>_.
     Inr (st\<lparr>merchant_approved := (merchant_approved st)(merchant \<mapsto> True)\<rparr>)))"

definition revoke_merchant ::
  "'l host \<Rightarrow> address \<Rightarrow> 'l payments_state \<Rightarrow> (payments_panic, 'l payments_state) outcome" where
  "revoke_merchant h merchant st =
     and_then (payments_require_not_paused st) (\<lambda>_.
     and_then (stored_admin_auth h st) (\<lambda>_.
     Inr (st\<lparr>merchant_approved := (merchant_approved st)(merchant \<mapsto> False)\<rparr>)))"

definition is_merchant_approved :: "address \<Rightarrow> 'l payments_state \<Rightarrow> bool" where
  "is_merchant_approved merchant st = unwrap_or False (merchant_approved st merchant)"

definition set_merchant_open_mode ::
  "'l host \<Rightarrow> bool \<Rightarrow> 'l payments_state \<Rightarrow> (payments_panic, 'l payments_state) outcome" where
  "set_merchant_open_mode h is_open st =
     and_then (payments_require_not_paused st) (\<lambda>_.
     and_then (stored_admin_auth h st) (\<lambda>_.
     Inr (st\<lparr>merchant_open_mode := Some is_open\<rparr>)))"

definition is_merchant_open_mode :: "'l payments_state \<Rightarrow> bool" where
  "is_merchant_open_mode st = unwrap_or True (merchant_open_mode st)"

definition require_merchant_approved ::
  "address \<Rightarrow> 'l payments_state \<Rightarrow> (payments_panic, unit) outcome" where
  "require_merchant_approved merchant st =
     (let open_mode = unwrap_or True (merchant_open_mode st) in
      if open_mode then Inr ()
      else if \<not> unwrap_or False (merchant_approved st merchant) then Inl (Panic MerchantNotApproved)
      else Inr ())"

definition set_oracle ::
  "'l host \<Rightarrow> address \<Rightarrow> address \<Rightarrow> u64 \<Rightarrow> 'l payments_state \<Rightarrow> (payments_panic, 'l payments_state) outcome" where
  "set_oracle h oracle usdc max_age st =
     and_then (payments_require_not_paused st) (\<lambda>_.
     and_then (stored_admin_auth h st) (\<lambda>_.
     if max_age = 0 then Inl (Panic OracleAgeNotPositive)
     else Inr (st\<lparr>oracle_address := Some oracle, usdc_token := Some usdc,
            max_oracle_age := Some max_age\<rparr>)))"

definition get_oracle_address :: "'l payments_state \<Rightarrow> (payments_panic, address) outcome" where
  "get_oracle_address st = expect OracleNotConfigured (oracle_address st)"

definition get_usdc_token :: "'l payments_state \<Rightarrow> (payments_panic, address) outcome" where
  "get_usdc_token st = expect OracleNotConfigured (usdc_token st)"

definition get_max_oracle_age :: "'l payments_state \<Rightarrow> (payments_panic, u64) outcome" where
  "get_max_oracle_age st = expect OracleNotConfigured (max_oracle_age st)"

section \<open>Statistics\<close>

definition load_global_stats :: "'l payments_state \<Rightarrow> global_stats" where
  "load_global_stats st =
     unwrap_or \<lparr>total_payments_created = 0, total_payments_completed = 0,
       total_payments_refunded = 0, total_payments_expired = 0,
       total_volume_completed = Map.empty, total_volume_refunded = Map.empty\<rparr>
       (global_statistics st)"

definition save_global_stats :: "global_stats \<Rightarrow> 'l payments_state \<Rightarrow> 'l payments_state" where
  "save_global_stats stats st = st\<lparr>global_statistics := Some stats\<rparr>"

definition load_merchant_stats :: "address \<Rightarrow> 'l payments_state \<Rightarrow> merchant_stats" where
  "load_merchant_stats merchant st =
     unwrap_or \<lparr>payments_created = 0, payments_completed = 0, payments_refunded = 0,
       volume_completed = Map.empty\<rparr> (merchant_statistics st merchant)"

definition save_merchant_stats ::
  "address \<Rightarrow> merchant_stats \<Rightarrow> 'l payments_state \<Rightarrow> 'l payments_state" where
  "save_merchant_stats merchant stats st =
     st\<lparr>merchant_statistics := (merchant_statistics st)(merchant \<mapsto> stats)\<rparr>"

definition get_stats :: "'l payments_state \<Rightarrow> global_stats" where
  "get_stats st = load_global_stats st"

definition get_merchant_stats :: "address \<Rightarrow> 'l payments_state \<Rightarrow> merchant_stats" where
  "get_merchant_stats merchant st = load_merchant_stats merchant st"

definition inc_global_created :: "'l payments_state \<Rightarrow> (payments_panic, 'l payments_state) outcome" where
  "inc_global_created st =
     (let s = load_global_stats st in
      and_then (add_u32 (total_payments_created s) 1) (\<lambda>n.
      Inr (save_global_stats (s\<lparr>total_payments_created := n\<rparr>) st)))"

definition inc_global_completed ::
  "address \<Rightarrow> i128 \<Rightarrow> 'l payments_state \<Rightarrow> (payments_panic, 'l payments_state) outcome" where
  "inc_global_completed token amount st =
     (let s = load_global_stats st in
      and_then (add_u32 (total_payments_completed s) 1) (\<lambda>n.
      let prev = unwrap_or 0 (total_volume_completed s token) in
      and_then (add128 prev amount) (\<lambda>v.
      Inr (save_global_stats (s\<lparr>total_payments_completed := n,
        total_volume_completed := (total_volume_completed s)(token \<mapsto> v)\<rparr>) st))))"

definition inc_global_refunded ::
  "address \<Rightarrow> i128 \<Rightarrow> 'l payments_state \<Rightarrow> (payments_panic, 'l payments_state) outcome" where
  "inc_global_refunded token amount st =
     (let s = load_global_stats st in
      and_then (add_u32 (total_payments_refunded s) 1) (\<lambda>n.
      let prev = unwrap_or 0 (total_volume_refunded s token) in
      and_then (add128 prev amount) (\<lambda>v.
      Inr (save_global_stats (s\<lparr>total_payments_refunded := n,
        total_volume_refunded := (total_volume_refunded s)(token \<mapsto> v)\<rparr>) st))))"

definition inc_global_expired :: "'l payments_state \<Rightarrow> (payments_panic, 'l payments_state) outcome" where
  "inc_global_expired st =
     (let s = load_global_stats st in
      and_then (add_u32 (total_payments_expired s) 1) (\<lambda>n.
      Inr (save_global_stats (s\<lparr>total_payments_expired := n\<rparr>) st)))"

definition inc_merchant_created ::
  "address \<Rightarrow> 'l payments_state \<Rightarrow> (payments_panic, 'l payments_state) outcome" where
  "inc_merchant_created merchant st =
     (let s = load_merchant_stats merchant st in
      and_then (add_u32 (payments_created s) 1) (\<lambda>n.
      Inr (save_merchant_stats merchant (s\<lparr>payments_created := n\<rparr>) st)))"

definition inc_merchant_completed ::
  "address \<Rightarrow> address \<Rightarrow> i128 \<Rightarrow> 'l payments_state \<Rightarrow> (payments_panic, 'l payments_state) outcome" where
  "inc_merchant_completed merchant token amount st =
     (let s = load_merchant_stats merchant st in
      and_then (add_u32 (payments_completed s) 1) (\<lambda>n.
      let prev = unwrap_or 0 (volume_completed s token) in
      and_then (add128 prev amount) (\<lambda>v.
      Inr (save_merchant_stats merchant (s\<lparr>payments_completed := n,
        volume_completed := (volume_completed s)(token \<mapsto> v)\<rparr>) st))))"

definition inc_merchant_refunded ::
  "address \<Rightarrow> address \<Rightarrow> i128 \<Rightarrow> 'l payments_state \<Rightarrow> (payments_panic, 'l payments_state) outcome" where
  "inc_merchant_refunded merchant token amount st =
     (let s = load_merchant_stats merchant st in
      and_then (add_u32 (payments_refunded s) 1) (\<lambda>n.
      Inr (save_merchant_stats merchant (s\<lparr>payments_refunded := n\<rparr>) st)))"

definition inc_volume_bucket ::
  "'l host \<Rightarrow> address \<Rightarrow> i128 \<Rightarrow> 'l payments_state \<Rightarrow> (payments_panic, 'l payments_state) outcome" where
  "inc_volume_bucket h token amount st =
     (let bucket = sequence h div LEDGER_BUCKET_SIZE;
          prev = unwrap_or 0 (volume_bucket st (token, bucket)) in
      and_then (add128 prev amount) (\<lambda>v.
      Inr (st\<lparr>volume_bucket := (volume_bucket st)((token, bucket) \<mapsto> v)\<rparr>)))"

definition inc_merchant_volume_bucket ::
  "'l host \<Rightarrow> address \<Rightarrow> i128 \<Rightarrow> 'l payments_state \<Rightarrow> (payments_panic, 'l payments_state) outcome" where
  "inc_merchant_volume_bucket h merchant amount st =
     (let bucket = sequence h div LEDGER_BUCKET_SIZE;
          prev = unwrap_or 0 (merchant_volume_bucket st (merchant, bucket)) in
      and_then (add128 prev amount) (\<lambda>v.
      Inr (st\<lparr>merchant_volume_bucket := (merchant_volume_bucket st)((merchant, bucket) \<mapsto> v)\<rparr>)))"

definition get_weekly_volume :: "'l host \<Rightarrow> address \<Rightarrow> 'l payments_state \<Rightarrow> i128" where
  "get_weekly_volume h token st =
     (let bucket = sequence h div LEDGER_BUCKET_SIZE
      in unwrap_or 0 (volume_bucket st (token, bucket)))"

end
