(* ===== verification/Payments_Create.thy ===== *)
theory Payments_Create
  imports Payments_Admin
begin

text \<open>
  Creation of payments (lib.rs): validation of references, metadata and splits, the id counter
  and the indexes, the receipt hash, and the creating entry points (single, with options, batch,
  multi-token, subscription).
\<close>

section \<open>Ids and indexes\<close>

definition next_payment_id :: "'l payments_state \<Rightarrow> (payments_panic, u32 \<times> 'l payments_state) outcome" where
  "next_payment_id st =
     (let id = unwrap_or 0 (payment_counter st) in
      and_then (add_u32 id 1) (\<lambda>counter. Inr (id, st\<lparr>payment_counter := Some counter\<rparr>)))"

definition get_payment_counter :: "'l payments_state \<Rightarrow> u32" where
  "get_payment_counter st = unwrap_or 0 (payment_counter st)"

definition get_payment :: "u32 \<Rightarrow> 'l payments_state \<Rightarrow> (payments_panic, payment) outcome" where
  "get_payment payment_id st = expect PaymentNotFound (payments st payment_id)"

definition store_payment :: "u32 \<Rightarrow> payment \<Rightarrow> 'l payments_state \<Rightarrow> 'l payments_state" where
  "store_payment payment_id payment st = st\<lparr>payments := (payments st)(payment_id \<mapsto> payment)\<rparr>"

definition add_customer_payment :: "address \<Rightarrow> u32 \<Rightarrow> 'l payments_state \<Rightarrow> 'l payments_state" where
  "add_customer_payment customer payment_id st =
     (let ids = unwrap_or [] (customer_payments st customer)
      in st\<lparr>customer_payments := (customer_payments st)(customer \<mapsto> ids @ [payment_id])\<rparr>)"

definition get_customer_payments :: "address \<Rightarrow> 'l payments_state \<Rightarrow> u32 list" where
  "get_customer_payments customer st = unwrap_or [] (customer_payments st customer)"

text \<open>The reference hash wraps at 32 bits.\<close>

definition reference_hash :: "string \<Rightarrow> u32" where
  "reference_hash reference =
     unat (foldl (\<lambda>h b. h * 16777619 + of_char b) (2166136261 :: 32 word) reference)"

definition index_payment_by_reference ::
  "address \<Rightarrow> string \<Rightarrow> u32 \<Rightarrow> 'l payments_state \<Rightarrow> 'l payments_state" where
  "index_payment_by_reference merchant reference payment_id st =
     (let key = (merchant, reference_hash reference);
          ids = unwrap_or [] (merchant_reference st key)
      in st\<lparr>merchant_reference := (merchant_reference st)(key \<mapsto> ids @ [payment_id])\<rparr>)"

definition get_payments_by_reference :: "address \<Rightarrow> string \<Rightarrow> 'l payments_state \<Rightarrow> u32 list" where
  "get_payments_by_reference merchant reference st =
     unwrap_or [] (merchant_reference st (merchant, reference_hash reference))"

definition store_idempotency_key ::
  "'l host \<Rightarrow> bytes32 \<Rightarrow> u32 \<Rightarrow> 'l payments_state \<Rightarrow> 'l payments_state" where
  "store_idempotency_key h key payment_id st =
     st\<lparr>idempotency_keys := temp_extend_ttl h key IDEMPOTENCY_KEY_LIFETIME_THRESHOLD
          IDEMPOTENCY_KEY_BUMP_AMOUNT (temp_set h key payment_id (idempotency_keys st))\<rparr>"

section \<open>Validation\<close>

definition validate_reference :: "string option \<Rightarrow> (payments_panic, unit) outcome" where
  "validate_reference reference = (case reference of
      None \<Rightarrow> Inr ()
    | Some r \<Rightarrow> if MAX_REFERENCE_LEN < length r then Inl (Panic ReferenceTooLong) else Inr ())"

fun validate_metadata_entries :: "metadata_map \<Rightarrow> (payments_panic, unit) outcome" where
  "validate_metadata_entries [] = Inr ()"
| "validate_metadata_entries ((k, v) # entries) =
     (if MAX_METADATA_KEY_LEN < length k then Inl (Panic MetadataKeyTooLong)
      else if MAX_METADATA_KEY_LEN < length v then Inl (Panic MetadataValueTooLong)
      else validate_metadata_entries entries)"

definition validate_metadata :: "metadata_map option \<Rightarrow> (payments_panic, unit) outcome" where
  "validate_metadata metadata = (case metadata of
      None \<Rightarrow> Inr ()
    | Some m \<Rightarrow> if MAX_METADATA_KEYS < length m then Inl (Panic TooManyMetadataKeys)
        else validate_metadata_entries m)"

fun total_split_bps :: "split_recipient list \<Rightarrow> u32 \<Rightarrow> (payments_panic, u32) outcome" where
  "total_split_bps [] total_bps = Inr total_bps"
| "total_split_bps (split # splits) total_bps =
     (if sr_bps split = 0 then Inl (Panic SplitBpsZero)
      else if \<not> total_bps + sr_bps split < 2 ^ 32 then Inl (Panic SplitBpsOverflow)
      else total_split_bps splits (total_bps + sr_bps split))"

definition validate_split_recipients ::
  "split_recipient list option \<Rightarrow> (payments_panic, unit) outcome" where
  "validate_split_recipients split_recipients = (case split_recipients of
      None \<Rightarrow> Inr ()
    | Some splits \<Rightarrow>
        if splits = [] then Inl (Panic SplitsEmpty)
        else and_then (total_split_bps splits 0) (\<lambda>total_bps.
          if total_bps \<noteq> 10000 then Inl (Panic SplitsNotFull) else Inr ()))"

section \<open>Receipts\<close>

text \<open>\<open>to_be_bytes\<close> of an integer of \<open>w\<close> bytes, in two's complement.\<close>

definition be_bytes :: "nat \<Rightarrow> int \<Rightarrow> 8 word list" where
  "be_bytes w x = map (\<lambda>k. word_of_int (x div 256 ^ (w - 1 - k))) [0..<w]"

definition receipt_preimage ::
  "'l host \<Rightarrow> u32 \<Rightarrow> address \<Rightarrow> address \<Rightarrow> i128 \<Rightarrow> address \<Rightarrow> u64 \<Rightarrow> 8 word list" where
  "receipt_preimage h payment_id customer merchant amount token completed_at =
     be_bytes 4 (int payment_id) @ to_xdr h customer @ to_xdr h merchant @ be_bytes 16 amount @
     to_xdr h token @ be_bytes 8 (int completed_at)"

definition compute_receipt_hash ::
  "'l host \<Rightarrow> u32 \<Rightarrow> address \<Rightarrow> address \<Rightarrow> i128 \<Rightarrow> address \<Rightarrow> u64 \<Rightarrow> bytes32" where
  "compute_receipt_hash h payment_id customer merchant amount token completed_at =
     sha256 h (receipt_preimage h payment_id customer merchant amount token completed_at)"

definition get_payment_receipt :: "u32 \<Rightarrow> 'l payments_state \<Rightarrow> (payments_panic, bytes32) outcome" where
  "get_payment_receipt payment_id st = expect ReceiptNotFound (payment_receipt st payment_id)"

definition verify_payment :: "u32 \<Rightarrow> bytes32 \<Rightarrow> 'l payments_state \<Rightarrow> bool" where
  "verify_payment payment_id expected_hash st =
     (case payment_receipt st payment_id of None \<Rightarrow> False | Some stored \<Rightarrow> stored = expected_hash)"

section \<open>Creating payments\<close>

definition create_payment_with_options ::
  "'l host \<Rightarrow> address \<Rightarrow> address \<Rightarrow> i128 \<Rightarrow> address \<Rightarrow> string option \<Rightarrow> metadata_map option \<Rightarrow>
   split_recipient list option \<Rightarrow> u64 option \<Rightarrow> bytes32 option \<Rightarrow> 'l payments_state \<Rightarrow>
   (payments_panic, u32 \<times> 'l payments_state) outcome" where
  "create_payment_with_options h customer merchant amount token reference metadata
     split_recipients execute_after idempotency_key st =
     and_then (payments_require_not_paused st) (\<lambda>_.
     and_then (require_auth h customer) (\<lambda>_.
     case (case idempotency_key of
             None \<Rightarrow> None
           | Some key \<Rightarrow> temp_get h key (idempotency_keys st)) of
       Some existing_payment_id \<Rightarrow> Inr (existing_payment_id, st)
     | None \<Rightarrow>
         and_then (enforce_rate_limit h customer 1 st) (\<lambda>st.
         if amount \<le> 0 then Inl (Panic PaymentAmountNotPositive)
         else
           and_then (validate_reference reference) (\<lambda>_.
           and_then (validate_metadata metadata) (\<lambda>_.
           and_then (validate_split_recipients split_recipients) (\<lambda>_.
           and_then (require_merchant_approved merchant st) (\<lambda>_.
           and_then (token_transfer h token customer (self_address h) amount st) (\<lambda>st.
           let timeout = unwrap_or DEFAULT_PAYMENT_TIMEOUT (payment_timeout st);
               now = timestamp h;
               execute_after_ts = unwrap_or 0 execute_after;
               status = (if now < execute_after_ts then ScheduledPending else Pending) in
           and_then (next_payment_id st) (\<lambda>(payment_id, st).
           and_then (add_u64 now timeout) (\<lambda>expires_at.
           let payment = \<lparr>p_id = payment_id, p_customer = customer, p_merchant = merchant,
                 p_amount = amount, p_token = token, p_status = status, p_created_at = now,
                 p_expires_at = expires_at, p_refunded_amount = 0, p_reference = reference,
                 p_metadata = metadata, p_split_recipients = split_recipients,
                 p_execute_after = execute_after_ts\<rparr>;
               st = store_payment payment_id payment st;
               st = add_customer_payment customer payment_id st;
               st = (case reference of
                       None \<Rightarrow> st
                     | Some r \<Rightarrow> index_payment_by_reference merchant r payment_id st);
               st = (case idempotency_key of
                       None \<Rightarrow> st
                     | Some key \<Rightarrow> store_idempotency_key h key payment_id st) in
           and_then (inc_global_created st) (\<lambda>st.
           and_then (inc_merchant_created merchant st) (\<lambda>st.
           let st = emit_payment_created payment_id customer merchant amount token st;
               st = (if now < execute_after_ts
                     then emit_payment_scheduled payment_id execute_after_ts st else st)
           in Inr (payment_id, st)))))))))))))"

definition create_payment ::
  "'l host \<Rightarrow> address \<Rightarrow> address \<Rightarrow> i128 \<Rightarrow> address \<Rightarrow> string option \<Rightarrow> metadata_map option \<Rightarrow>
   bytes32 option \<Rightarrow> 'l payments_state \<Rightarrow> (payments_panic, u32 \<times> 'l payments_state) outcome" where
  "create_payment h customer merchant amount token reference metadata idempotency_key =
     create_payment_with_options h customer merchant amount token reference metadata None None
       idempotency_key"

text \<open>The loop of \<open>create_payments_batch\<close>, with its two accumulators.\<close>

fun create_payments_loop ::
  "'l host \<Rightarrow> address \<Rightarrow> u64 \<Rightarrow> payment_request list \<Rightarrow> u32 list \<Rightarrow> i128 \<Rightarrow> 'l payments_state \<Rightarrow>
   (payments_panic, u32 list \<times> i128 \<times> 'l payments_state) outcome" where
  "create_payments_loop h customer timeout [] payment_ids total_amount st =
     Inr (payment_ids, total_amount, st)"
| "create_payments_loop h customer timeout (request # requests) payment_ids total_amount st =
     (if rq_amount request \<le> 0 then Inl (Panic PaymentAmountNotPositive)
      else
        and_then (validate_reference (rq_reference request)) (\<lambda>_.
        and_then (validate_metadata (rq_metadata request)) (\<lambda>_.
        and_then (require_merchant_approved (rq_merchant request) st) (\<lambda>_.
        and_then (token_transfer h (rq_token request) customer (self_address h)
            (rq_amount request) st) (\<lambda>st.
        and_then (next_payment_id st) (\<lambda>(payment_id, st).
        and_then (add_u64 (timestamp h) timeout) (\<lambda>expires_at.
        let payment = \<lparr>p_id = payment_id, p_customer = customer,
              p_merchant = rq_merchant request, p_amount = rq_amount request,
              p_token = rq_token request, p_status = Pending, p_created_at = timestamp h,
              p_expires_at = expires_at, p_refunded_amount = 0,
              p_reference = rq_reference request, p_metadata = rq_metadata request,
              p_split_recipients = None, p_execute_after = 0\<rparr>;
            st = store_payment payment_id payment st;
            st = add_customer_payment customer payment_id st;
            st = (case rq_reference request of
                    None \<Rightarrow> st
                  | Some r \<Rightarrow> index_payment_by_reference (rq_merchant request) r payment_id st) in
        and_then (inc_global_created st) (\<lambda>st.
        and_then (inc_merchant_created (rq_merchant request) st) (\<lambda>st.
        let st = emit_payment_created payment_id customer (rq_merchant request)
              (rq_amount request) (rq_token request) st in
        and_then (add128 total_amount (rq_amount request)) (\<lambda>total_amount.
        create_payments_loop h customer timeout requests (payment_ids @ [payment_id])
          total_amount st))))))))))"

definition create_payments_batch ::
  "'l host \<Rightarrow> address \<Rightarrow> payment_request list \<Rightarrow> 'l payments_state \<Rightarrow>
   (payments_panic, u32 list \<times> 'l payments_state) outcome" where
  "create_payments_batch h customer requests st =
     and_then (payments_require_not_paused st) (\<lambda>_.
     and_then (require_auth h customer) (\<lambda>_.
     let batch_len = length requests in
     if batch_len = 0 then Inl (Panic PaymentBatchEmpty)
     else
       and_then (enforce_rate_limit h customer batch_len st) (\<lambda>st.
       if unwrap_or DEFAULT_MAX_BATCH_SIZE (max_batch_size st) < batch_len
         then Inl (Panic BatchAboveMaximum)
       else
         let timeout = unwrap_or DEFAULT_PAYMENT_TIMEOUT (payment_timeout st) in
         and_then (create_payments_loop h customer timeout requests [] 0 st)
           (\<lambda>(payment_ids, total_amount, st).
         Inr (payment_ids, emit_batch_payment_created customer batch_len total_amount st)))))"

section \<open>Multi-token payments\<close>

text \<open>
  The tail that the two branches of \<open>create_payment_multi_token\<close> share: the record of a plain
  pending payment under the next id.
\<close>

definition record_plain_payment ::
  "'l host \<Rightarrow> address \<Rightarrow> address \<Rightarrow> i128 \<Rightarrow> address \<Rightarrow> 'l payments_state \<Rightarrow>
   (payments_panic, u32 \<times> 'l payments_state) outcome" where
  "record_plain_payment h customer merchant amount token st =
     (let timeout = unwrap_or DEFAULT_PAYMENT_TIMEOUT (payment_timeout st);
          now = timestamp h in
      and_then (next_payment_id st) (\<lambda>(payment_id, st).
      and_then (add_u64 now timeout) (\<lambda>expires_at.
      let payment = \<lparr>p_id = payment_id, p_customer = customer, p_merchant = merchant,
            p_amount = amount, p_token = token, p_status = Pending, p_created_at = now,
            p_expires_at = expires_at, p_refunded_amount = 0, p_reference = None,
            p_metadata = None, p_split_recipients = None, p_execute_after = 0\<rparr>;
          st = store_payment payment_id payment st
      in Inr (payment_id, add_customer_payment customer payment_id st))))"

text \<open>The conversion: the token amount for the USDC amount, within the slippage tolerance.\<close>

definition required_token_amount_for :: "i128 \<Rightarrow> i128 \<Rightarrow> u32 \<Rightarrow> (payments_panic, i128) outcome" where
  "required_token_amount_for amount_usdc price slippage_bps =
     and_then (mul128 amount_usdc ORACLE_PRICE_PRECISION) (\<lambda>scaled.
     and_then (div128 scaled price) (\<lambda>required_token_amount.
     if required_token_amount \<le> 0 then Inl (Panic TokenAmountZero)
     else
       and_then (mul128 required_token_amount price) (\<lambda>value.
       and_then (div128 value ORACLE_PRICE_PRECISION) (\<lambda>effective_usdc.
       and_then (if amount_usdc \<le> effective_usdc then sub128 effective_usdc amount_usdc
                 else sub128 amount_usdc effective_usdc) (\<lambda>deviation.
       and_then (mul128 deviation 10000) (\<lambda>scaled_deviation.
       and_then (div128 scaled_deviation amount_usdc) (\<lambda>deviation_bps.
       if int slippage_bps < deviation_bps then Inl (Panic SlippageExceeded)
       else Inr required_token_amount)))))))"

definition create_payment_multi_token ::
  "'l host \<Rightarrow> address \<Rightarrow> address \<Rightarrow> i128 \<Rightarrow> address \<Rightarrow> u32 \<Rightarrow> 'l payments_state \<Rightarrow>
   (payments_panic, u32 \<times> 'l payments_state) outcome" where
  "create_payment_multi_token h customer merchant amount_usdc payment_token slippage_bps st =
     and_then (payments_require_not_paused st) (\<lambda>_.
     if amount_usdc \<le> 0 then Inl (Panic PaymentAmountNotPositive)
     else if 10000 < slippage_bps then Inl (Panic SlippageAboveMaximum)
     else
       and_then (expect OracleNotConfigured (usdc_token st)) (\<lambda>usdc.
       if payment_token = usdc then
         and_then (require_auth h customer) (\<lambda>_.
         and_then (enforce_rate_limit h customer 1 st) (\<lambda>st.
         and_then (require_merchant_approved merchant st) (\<lambda>_.
         and_then (token_transfer h payment_token customer (self_address h) amount_usdc st) (\<lambda>st.
         and_then (record_plain_payment h customer merchant amount_usdc payment_token st)
           (\<lambda>(payment_id, st).
         Inr (payment_id,
           emit_payment_created payment_id customer merchant amount_usdc payment_token st))))))
       else
         and_then (require_auth h customer) (\<lambda>_.
         and_then (enforce_rate_limit h customer 1 st) (\<lambda>st.
         and_then (expect OracleNotConfigured (oracle_address st)) (\<lambda>oracle_addr.
         and_then (expect OracleNotConfigured (max_oracle_age st)) (\<lambda>max_age.
         and_then (expect PriceUnavailable (lastprice h oracle_addr payment_token usdc))
           (\<lambda>(price, price_timestamp).
         let age = saturating_sub (timestamp h) price_timestamp in
         if max_age < age then Inl (Panic PriceStale)
         else if price \<le> 0 then Inl (Panic PriceInvalid)
         else
           and_then (required_token_amount_for amount_usdc price slippage_bps)
             (\<lambda>required_token_amount.
           and_then (token_transfer h payment_token customer (self_address h)
               required_token_amount st) (\<lambda>st.
           and_then (record_plain_payment h customer merchant amount_usdc usdc st)
             (\<lambda>(payment_id, st).
           Inr (payment_id, emit_multi_token_payment_created payment_id customer merchant
             amount_usdc payment_token required_token_amount price st)))))))))))"

section \<open>Subscriptions\<close>

definition create_subscription ::
  "'l host \<Rightarrow> address \<Rightarrow> address \<Rightarrow> i128 \<Rightarrow> address \<Rightarrow> u64 \<Rightarrow> u32 \<Rightarrow> 'l payments_state \<Rightarrow>
   (payments_panic, u32 \<times> 'l payments_state) outcome" where
  "create_subscription h subscriber merchant amount token interval_seconds max_charges st =
     and_then (payments_require_not_paused st) (\<lambda>_.
     and_then (require_auth h subscriber) (\<lambda>_.
     if amount \<le> 0 then Inl (Panic SubscriptionAmountNotPositive)
     else if interval_seconds = 0 then Inl (Panic IntervalZero)
     else
       and_then (require_merchant_approved merchant st) (\<lambda>_.
       let sub_id = unwrap_or 0 (subscription_counter st) in
       and_then (add_u32 sub_id 1) (\<lambda>counter.
       let sub = \<lparr>s_id = sub_id, s_subscriber = subscriber, s_merchant = merchant,
             s_amount = amount, s_token = token, s_interval_seconds = interval_seconds,
             s_last_charged_at = 0, s_max_charges = max_charges, s_charges_count = 0,
             s_active = True\<rparr>
       in Inr (sub_id, st\<lparr>subscription_counter := Some counter,
            subscriptions := (subscriptions st)(sub_id \<mapsto> sub)\<rparr>)))))"

definition charge_subscription ::
  "'l host \<Rightarrow> u32 \<Rightarrow> 'l payments_state \<Rightarrow> (payments_panic, 'l payments_state) outcome" where
  "charge_subscription h subscription_id st =
     and_then (payments_require_not_paused st) (\<lambda>_.
     and_then (expect SubscriptionNotFound (subscriptions st subscription_id)) (\<lambda>sub.
     if \<not> s_active sub then Inl (Panic SubscriptionInactive)
     else if 0 < s_max_charges sub \<and> s_max_charges sub \<le> s_charges_count sub
       then Inl (Panic MaxChargesReached)
     else
       let now = timestamp h in
       and_then (if 0 < s_last_charged_at sub
                 then and_then (add_u64 (s_last_charged_at sub) (s_interval_seconds sub))
                   (\<lambda>due. if now < due then Inl (Panic IntervalNotElapsed) else Inr ())
                 else Inr ()) (\<lambda>_.
       and_then (token_transfer h (s_token sub) (s_subscriber sub) (self_address h)
           (s_amount sub) st) (\<lambda>st.
       and_then (token_transfer h (s_token sub) (self_address h) (s_merchant sub)
           (s_amount sub) st) (\<lambda>st.
       and_then (add_u32 (s_charges_count sub) 1) (\<lambda>charges.
       let sub = sub\<lparr>s_last_charged_at := now, s_charges_count := charges\<rparr>;
           st = st\<lparr>subscriptions := (subscriptions st)(subscription_id \<mapsto> sub)\<rparr>
       in Inr (emit_subscription_charged subscription_id (s_subscriber sub) (s_merchant sub)
            (s_amount sub) now st)))))))"

definition cancel_subscription ::
  "'l host \<Rightarrow> address \<Rightarrow> u32 \<Rightarrow> 'l payments_state \<Rightarrow> (payments_panic, 'l payments_state) outcome" where
  "cancel_subscription h caller subscription_id st =
     and_then (payments_require_not_paused st) (\<lambda>_.
     and_then (require_auth h caller) (\<lambda>_.
     and_then (expect SubscriptionNotFound (subscriptions st subscription_id)) (\<lambda>sub.
     if caller \<noteq> s_subscriber sub \<and> caller \<noteq> s_merchant sub then Inl (Panic NotSubscriptionParty)
     else Inr (emit_subscription_cancelled subscription_id caller
            (st\<lparr>subscriptions := (subscriptions st)(subscription_id \<mapsto> sub\<lparr>s_active := False\<rparr>)\<rparr>)))))"

definition get_subscription :: "u32 \<Rightarrow> 'l payments_state \<Rightarrow> (payments_panic, subscription) outcome" where
  "get_subscription subscription_id st = expect SubscriptionNotFound (subscriptions st subscription_id)"

end
