(* ===== verification/Payments_Settle.thy ===== *)
theory Payments_Settle
  imports Payments_Create
begin

text \<open>
  The operations on a stored payment (lib.rs): completion with fee and splits, scheduled
  execution and cancellation, merchant settlement, disputes, expiry and partial refunds.
\<close>

section \<open>Helpers\<close>

definition pay_from_contract ::
  "'l host \<Rightarrow> address \<Rightarrow> address \<Rightarrow> i128 \<Rightarrow> 'l payments_state \<Rightarrow>
   (payments_panic, 'l payments_state) outcome" where
  "pay_from_contract h token recipient amount st =
     token_transfer h token (self_address h) recipient amount st"

definition mark_settled :: "u32 \<Rightarrow> bool \<Rightarrow> 'l payments_state \<Rightarrow> 'l payments_state" where
  "mark_settled payment_id value st = st\<lparr>settled := (settled st)(payment_id \<mapsto> value)\<rparr>"

definition is_settled :: "u32 \<Rightarrow> 'l payments_state \<Rightarrow> bool" where
  "is_settled payment_id st = unwrap_or False (settled st payment_id)"

section \<open>Completion\<close>

text \<open>The loop over the split recipients; returns the splits made and what they distributed.\<close>

fun pay_splits ::
  "'l host \<Rightarrow> address \<Rightarrow> i128 \<Rightarrow> split_recipient list \<Rightarrow> split_transfer list \<Rightarrow> i128 \<Rightarrow>
   'l payments_state \<Rightarrow> (payments_panic, split_transfer list \<times> i128 \<times> 'l payments_state) outcome" where
  "pay_splits h token net_amount [] split_events distributed st =
     Inr (split_events, distributed, st)"
| "pay_splits h token net_amount (split # splits) split_events distributed st =
     and_then (mul128 net_amount (int (sr_bps split))) (\<lambda>scaled.
     and_then (div128 scaled 10000) (\<lambda>share.
     and_then (if 0 < share then pay_from_contract h token (sr_recipient split) share st
               else Inr st) (\<lambda>st.
     and_then (add128 distributed share) (\<lambda>distributed.
     pay_splits h token net_amount splits
       (split_events @ [\<lparr>st_recipient = sr_recipient split, st_bps = sr_bps split,
          st_amount = share\<rparr>]) distributed st))))"

definition distribute_net_payment ::
  "'l host \<Rightarrow> payment \<Rightarrow> i128 \<Rightarrow> 'l payments_state \<Rightarrow>
   (payments_panic, split_transfer list \<times> 'l payments_state) outcome" where
  "distribute_net_payment h payment net_amount st =
     (case p_split_recipients payment of
        None \<Rightarrow>
          and_then (pay_from_contract h (p_token payment) (p_merchant payment) net_amount st)
            (\<lambda>st. Inr ([], st))
      | Some splits \<Rightarrow>
          if splits = [] then
            and_then (pay_from_contract h (p_token payment) (p_merchant payment) net_amount st)
              (\<lambda>st. Inr ([], st))
          else
            and_then (pay_splits h (p_token payment) net_amount splits [] 0 st)
              (\<lambda>(split_events, distributed, st).
            and_then (sub128 net_amount distributed) (\<lambda>dust_to_merchant.
            and_then (if 0 < dust_to_merchant
                      then pay_from_contract h (p_token payment) (p_merchant payment)
                             dust_to_merchant st
                      else Inr st) (\<lambda>st.
            Inr (split_events, st)))))"

text \<open>The guards of \<open>complete_payment_internal\<close>.\<close>

definition completion_guard :: "'l host \<Rightarrow> payment \<Rightarrow> bool \<Rightarrow> (payments_panic, unit) outcome" where
  "completion_guard h payment scheduled_only =
     and_then
       (if scheduled_only then
          if p_status payment \<noteq> ScheduledPending then Inl (Panic NotScheduled)
          else if timestamp h < p_execute_after payment then Inl (Panic BeforeSchedule)
          else Inr ()
        else if p_status payment \<noteq> Pending then Inl (Panic NotPending)
        else Inr ()) (\<lambda>_.
     if 0 < p_expires_at payment \<and> p_expires_at payment \<le> timestamp h then Inl (Panic Expired)
     else Inr ())"

text \<open>Its tail: the merchant's cached tier follows the rolling volume.\<close>

definition refresh_merchant_tier ::
  "'l host \<Rightarrow> address \<Rightarrow> 'l payments_state \<Rightarrow> (payments_panic, 'l payments_state) outcome" where
  "refresh_merchant_tier h merchant st =
     and_then (rolling_merchant_volume h merchant st) (\<lambda>rolling_after.
     let new_tier_bps = fee_bps_for_volume rolling_after st;
         old_tier_bps = unwrap_or (get_fee_bps st) (merchant_current_tier_bps st merchant) in
     if old_tier_bps \<noteq> new_tier_bps
     then Inr (emit_merchant_tier_updated merchant new_tier_bps rolling_after
       (st\<lparr>merchant_current_tier_bps :=
             (merchant_current_tier_bps st)(merchant \<mapsto> new_tier_bps)\<rparr>))
     else Inr st)"

definition complete_payment_internal ::
  "'l host \<Rightarrow> u32 \<Rightarrow> bool \<Rightarrow> 'l payments_state \<Rightarrow> (payments_panic, 'l payments_state) outcome" where
  "complete_payment_internal h payment_id scheduled_only st =
     and_then (expect PaymentNotFound (payments st payment_id)) (\<lambda>payment.
     and_then (completion_guard h payment scheduled_only) (\<lambda>_.
     and_then (rolling_merchant_volume h (p_merchant payment) st) (\<lambda>rolling_before.
     and_then (add128 rolling_before (p_amount payment)) (\<lambda>projected_volume.
     let applied_fee_bps = fee_bps_for_volume projected_volume st in
     and_then (mul128 (p_amount payment) (int applied_fee_bps)) (\<lambda>scaled.
     and_then (div128 scaled 10000) (\<lambda>fee_amount.
     and_then (sub128 (p_amount payment) fee_amount) (\<lambda>net_amount.
     and_then (expect FeeRecipientNotConfigured (pay_fee_recipient st)) (\<lambda>recipient.
     and_then
       (if 0 < fee_amount
        then and_then (pay_from_contract h (p_token payment) recipient fee_amount st) (\<lambda>st.
          Inr (emit_fee_collected payment_id fee_amount recipient (p_token payment) st))
        else Inr st) (\<lambda>st.
     and_then (distribute_net_payment h payment net_amount st) (\<lambda>(split_transfers, st).
     let st = (if split_transfers \<noteq> []
               then emit_payment_split_completed payment_id split_transfers st else st);
         old_status = p_status payment;
         payment = payment\<lparr>p_status := Completed, p_amount := net_amount\<rparr>;
         completed_at = timestamp h;
         st = store_payment payment_id payment st;
         st = mark_settled payment_id True st;
         receipt_hash = compute_receipt_hash h payment_id (p_customer payment)
           (p_merchant payment) net_amount (p_token payment) completed_at;
         st = st\<lparr>payment_receipt := (payment_receipt st)(payment_id \<mapsto> receipt_hash)\<rparr> in
     and_then (inc_global_completed (p_token payment) net_amount st) (\<lambda>st.
     and_then (inc_merchant_completed (p_merchant payment) (p_token payment) net_amount st) (\<lambda>st.
     and_then (inc_volume_bucket h (p_token payment) net_amount st) (\<lambda>st.
     and_then (add128 (p_amount payment) fee_amount) (\<lambda>gross.
     and_then (inc_merchant_volume_bucket h (p_merchant payment) gross st) (\<lambda>st.
     and_then (refresh_merchant_tier h (p_merchant payment) st) (\<lambda>st.
     let st = emit_payment_completed payment_id (p_merchant payment) net_amount completed_at st;
         st = emit_payment_status_changed payment_id old_status Completed st
     in Inr (emit_payment_receipt_issued payment_id receipt_hash st)))))))))))))))))"

definition complete_payment ::
  "'l host \<Rightarrow> u32 \<Rightarrow> 'l payments_state \<Rightarrow> (payments_panic, 'l payments_state) outcome" where
  "complete_payment h payment_id st =
     and_then (payments_require_not_paused st) (\<lambda>_.
     and_then (stored_admin_auth h st) (\<lambda>_.
     complete_payment_internal h payment_id False st))"

definition execute_scheduled_payment ::
  "'l host \<Rightarrow> u32 \<Rightarrow> 'l payments_state \<Rightarrow> (payments_panic, 'l payments_state) outcome" where
  "execute_scheduled_payment h payment_id st =
     and_then (payments_require_not_paused st) (\<lambda>_.
     and_then (complete_payment_internal h payment_id True st) (\<lambda>st.
     Inr (emit_scheduled_payment_executed payment_id st)))"

definition cancel_scheduled_payment ::
  "'l host \<Rightarrow> address \<Rightarrow> u32 \<Rightarrow> 'l payments_state \<Rightarrow> (payments_panic, 'l payments_state) outcome" where
  "cancel_scheduled_payment h customer payment_id st =
     and_then (payments_require_not_paused st) (\<lambda>_.
     and_then (require_auth h customer) (\<lambda>_.
     and_then (expect PaymentNotFound (payments st payment_id)) (\<lambda>payment.
     if p_customer payment \<noteq> customer then Inl (Panic NotPaymentCustomer)
     else if p_status payment \<noteq> ScheduledPending then Inl (Panic NotScheduled)
     else if p_execute_after payment \<le> timestamp h then Inl (Panic ReadyToExecute)
     else
       and_then (pay_from_contract h (p_token payment) (p_customer payment) (p_amount payment) st)
         (\<lambda>st.
       let old_status = p_status payment;
           payment = payment\<lparr>p_status := PaymentRefunded\<rparr>;
           st = store_payment payment_id payment st in
       and_then (inc_global_refunded (p_token payment) (p_amount payment) st) (\<lambda>st.
       and_then (inc_merchant_refunded (p_merchant payment) (p_token payment) (p_amount payment) st)
         (\<lambda>st.
       Inr (emit_payment_status_changed payment_id old_status PaymentRefunded st)))))))"

section \<open>Merchant settlement\<close>

text \<open>The validating loop of \<open>settle_merchant_payments\<close>; returns the total.\<close>

fun settlement_total ::
  "address \<Rightarrow> address \<Rightarrow> u32 list \<Rightarrow> i128 \<Rightarrow> 'l payments_state \<Rightarrow> (payments_panic, i128) outcome" where
  "settlement_total merchant settlement_token [] total_amount st = Inr total_amount"
| "settlement_total merchant settlement_token (payment_id # ids) total_amount st =
     and_then (expect PaymentNotFound (payments st payment_id)) (\<lambda>payment.
     if p_status payment \<noteq> Completed then Inl (Panic NotCompleted)
     else if p_merchant payment \<noteq> merchant then Inl (Panic WrongMerchant)
     else if p_token payment \<noteq> settlement_token then Inl (Panic MixedTokens)
     else if unwrap_or False (settled st payment_id) then Inl (Panic AlreadySettled)
     else if \<not> i128_ok (total_amount + p_amount payment) then Inl (Panic SettlementOverflow)
     else settlement_total merchant settlement_token ids (total_amount + p_amount payment) st)"

fun mark_all_settled :: "u32 list \<Rightarrow> 'l payments_state \<Rightarrow> 'l payments_state" where
  "mark_all_settled [] st = st"
| "mark_all_settled (payment_id # ids) st = mark_all_settled ids (mark_settled payment_id True st)"

definition settle_merchant_payments ::
  "'l host \<Rightarrow> address \<Rightarrow> address \<Rightarrow> u32 list \<Rightarrow> 'l payments_state \<Rightarrow>
   (payments_panic, 'l payments_state) outcome" where
  "settle_merchant_payments h adm merchant payment_ids st =
     and_then (payments_require_not_paused st) (\<lambda>_.
     and_then (payments_require_admin h adm st) (\<lambda>_.
     let batch_size = length payment_ids in
     if batch_size = 0 then Inl (Panic SettlementEmpty)
     else if MAX_SETTLEMENT_BATCH_SIZE < batch_size then Inl (Panic SettlementTooLarge)
     else
       and_then (expect PaymentNotFound (payments st (hd payment_ids))) (\<lambda>first_payment.
       let settlement_token = p_token first_payment in
       and_then (settlement_total merchant settlement_token payment_ids 0 st) (\<lambda>total_amount.
       and_then (mul128 total_amount SETTLEMENT_FEE_BPS) (\<lambda>scaled.
       and_then (div128 scaled 10000) (\<lambda>fee_collected.
       if \<not> i128_ok (total_amount - fee_collected) then Inl (Panic SettlementFeeExceedsAmount)
       else
         let net_amount = total_amount - fee_collected in
         and_then (pay_from_contract h settlement_token merchant net_amount st) (\<lambda>st.
         Inr (emit_batch_settlement_processed merchant total_amount fee_collected batch_size
           (mark_all_settled payment_ids st))))))))) "

section \<open>Disputes\<close>

definition dispute_payment ::
  "'l host \<Rightarrow> address \<Rightarrow> u32 \<Rightarrow> string \<Rightarrow> 'l payments_state \<Rightarrow>
   (payments_panic, 'l payments_state) outcome" where
  "dispute_payment h customer payment_id reason st =
     and_then (payments_require_not_paused st) (\<lambda>_.
     and_then (require_auth h customer) (\<lambda>_.
     and_then (expect PaymentNotFound (payments st payment_id)) (\<lambda>payment.
     if p_customer payment \<noteq> customer then Inl (Panic NotPaymentCustomer)
     else if p_status payment \<noteq> Pending then Inl (Panic NotPending)
     else
       let old_status = p_status payment;
           st = store_payment payment_id (payment\<lparr>p_status := PaymentDisputed\<rparr>) st;
           dispute = \<lparr>pd_payment_id = payment_id, pd_reason = reason,
             pd_created_at = timestamp h, pd_resolved = False\<rparr>;
           st = st\<lparr>payment_disputes := temp_extend_ttl h payment_id TEMP_LIFETIME_THRESHOLD
             TEMP_BUMP_AMOUNT (temp_set h payment_id dispute (payment_disputes st))\<rparr>;
           st = emit_payment_disputed payment_id customer reason st
       in Inr (emit_payment_status_changed payment_id old_status PaymentDisputed st))))"

definition payments_resolve_dispute ::
  "'l host \<Rightarrow> u32 \<Rightarrow> bool \<Rightarrow> 'l payments_state \<Rightarrow> (payments_panic, 'l payments_state) outcome" where
  "payments_resolve_dispute h payment_id release_to_merchant st =
     and_then (payments_require_not_paused st) (\<lambda>_.
     and_then (stored_admin_auth h st) (\<lambda>adm.
     and_then (expect PaymentNotFound (payments st payment_id)) (\<lambda>payment.
     if p_status payment \<noteq> PaymentDisputed then Inl (Panic PaymentNotDisputed)
     else
       let old_status = p_status payment in
       and_then
         (if release_to_merchant
          then Inr (payment\<lparr>p_status := Completed\<rparr>, mark_settled payment_id False st)
          else and_then (pay_from_contract h (p_token payment) (p_customer payment)
                   (p_amount payment) st) (\<lambda>st.
               Inr (payment\<lparr>p_status := PaymentRefunded\<rparr>, st))) (\<lambda>(payment, st).
       let st = store_payment payment_id payment st;
           st = (case temp_get h payment_id (payment_disputes st) of
                   None \<Rightarrow> st
                 | Some dispute \<Rightarrow>
                     st\<lparr>payment_disputes := temp_set h payment_id (dispute\<lparr>pd_resolved := True\<rparr>)
                          (payment_disputes st)\<rparr>) in
       and_then
         (if release_to_merchant then Inr st
          else and_then (inc_global_refunded (p_token payment) (p_amount payment) st) (\<lambda>st.
               inc_merchant_refunded (p_merchant payment) (p_token payment) (p_amount payment) st))
         (\<lambda>st.
       let st = payments_emit_dispute_resolved payment_id release_to_merchant adm st
       in Inr (emit_payment_status_changed payment_id old_status (p_status payment) st))))))"

definition payments_check_escalation ::
  "'l host \<Rightarrow> u32 \<Rightarrow> 'l payments_state \<Rightarrow> (payments_panic, bool \<times> 'l payments_state) outcome" where
  "payments_check_escalation h payment_id st =
     and_then (expect PaymentNotFound (payments st payment_id)) (\<lambda>payment.
     if p_status payment \<noteq> PaymentDisputed then Inr (False, st)
     else
       and_then (expect PaymentDisputeNotFound (temp_get h payment_id (payment_disputes st)))
         (\<lambda>dispute.
       if pd_resolved dispute then Inr (False, st)
       else
         let timeout = unwrap_or DEFAULT_DISPUTE_TIMEOUT (dispute_timeout st) in
         and_then (sub_u (timestamp h) (pd_created_at dispute)) (\<lambda>elapsed.
         if timeout < elapsed
         then Inr (True, payments_emit_dispute_escalated payment_id elapsed st)
         else Inr (False, st))))"

definition is_disputed :: "u32 \<Rightarrow> 'l payments_state \<Rightarrow> (payments_panic, bool) outcome" where
  "is_disputed payment_id st =
     and_then (expect PaymentNotFound (payments st payment_id)) (\<lambda>payment.
     Inr (p_status payment = PaymentDisputed))"

definition payments_get_dispute ::
  "'l host \<Rightarrow> u32 \<Rightarrow> 'l payments_state \<Rightarrow> (payments_panic, payment_dispute) outcome" where
  "payments_get_dispute h payment_id st =
     expect PaymentDisputeNotFound (temp_get h payment_id (payment_disputes st))"

section \<open>Expiry and partial refunds\<close>

definition expire_payment ::
  "'l host \<Rightarrow> u32 \<Rightarrow> 'l payments_state \<Rightarrow> (payments_panic, 'l payments_state) outcome" where
  "expire_payment h payment_id st =
     and_then (payments_require_not_paused st) (\<lambda>_.
     and_then (expect PaymentNotFound (payments st payment_id)) (\<lambda>payment.
     if p_status payment \<noteq> Pending then Inl (Panic NotPending)
     else if p_expires_at payment = 0 then Inl (Panic NoExpiry)
     else if timestamp h < p_expires_at payment then Inl (Panic NotYetExpired)
     else
       and_then (pay_from_contract h (p_token payment) (p_customer payment) (p_amount payment) st)
         (\<lambda>st.
       let old_status = p_status payment;
           payment = payment\<lparr>p_status := PaymentExpired\<rparr>;
           st = store_payment payment_id payment st in
       and_then (inc_global_expired st) (\<lambda>st.
       let st = emit_payment_expired payment_id (p_customer payment) (p_amount payment)
             (timestamp h) st
       in Inr (emit_payment_status_changed payment_id old_status PaymentExpired st)))))"

definition partial_refund ::
  "'l host \<Rightarrow> u32 \<Rightarrow> i128 \<Rightarrow> 'l payments_state \<Rightarrow> (payments_panic, 'l payments_state) outcome" where
  "partial_refund h payment_id refund_amount st =
     and_then (payments_require_not_paused st) (\<lambda>_.
     and_then (stored_admin_auth h st) (\<lambda>_.
     if refund_amount \<le> 0 then Inl (Panic RefundNotPositive)
     else
       and_then (expect PaymentNotFound (payments st payment_id)) (\<lambda>payment.
       if p_status payment \<noteq> PaymentDisputed \<and> p_status payment \<noteq> Pending
         then Inl (Panic NotRefundable)
       else
         and_then (sub128 (p_amount payment) (p_refunded_amount payment)) (\<lambda>remaining.
         if remaining < refund_amount then Inl (Panic RefundExceedsBalance)
         else
           and_then (pay_from_contract h (p_token payment) (p_customer payment) refund_amount st)
             (\<lambda>st.
           and_then (add128 (p_refunded_amount payment) refund_amount) (\<lambda>refunded.
           let payment = payment\<lparr>p_refunded_amount := refunded,
                 p_status := (if p_amount payment \<le> refunded then PaymentRefunded
                              else p_status payment)\<rparr> in
           and_then (inc_global_refunded (p_token payment) refund_amount st) (\<lambda>st.
           and_then (inc_merchant_refunded (p_merchant payment) (p_token payment) refund_amount st)
             (\<lambda>st.
           and_then (sub128 (p_amount payment) (p_refunded_amount payment)) (\<lambda>remaining.
           let st = emit_payment_partial_refund payment_id (p_customer payment) refund_amount
                 remaining st
           in Inr (store_payment payment_id payment st)))))))))) "

end
