(* ===== verification/Payments_Machine.thy ===== *)
theory Payments_Machine
  imports Payments_Settle Payouts
begin

text \<open>
  The payments contract as a machine: its state-changing entry points as one operation type, and
  the effect of each of them on the books (the payments, their settlement marks and counter, the
  subscriptions and the token ledger).
\<close>

section \<open>Entry points\<close>

datatype (plugins only: code size) payments_op =
    PayInitialize address address u32
  | PayCreate address address i128 address "string option" "metadata_map option"
      "split_recipient list option" "u64 option" "bytes32 option"
  | PayCreateBatch address "payment_request list"
  | PayCreateMultiToken address address i128 address u32
  | PayComplete u32
  | PayExecuteScheduled u32
  | PayCancelScheduled address u32
  | PaySettle address address "u32 list"
  | PayDispute address u32 string
  | PayResolveDispute u32 bool
  | PayCheckEscalation u32
  | PayExpire u32
  | PayPartialRefund u32 i128
  | PayCreateSubscription address address i128 address u64 u32
  | PayCharge u32
  | PayCancelSubscription address u32
  | PaySetOracle address address u64
  | PaySetMaxBatch u32
  | PaySetDisputeTimeout u64
  | PaySetPaymentTimeout u64
  | PayUpdateFee address u32
  | PayUpdateFeeRecipient address address
  | PayUpdateFeeTiers address "fee_tier list"
  | PayUpdateRateLimit address u32 u32
  | PayProposeAdmin address
  | PayAcceptAdmin
  | PayApproveMerchant address
  | PayRevokeMerchant address
  | PaySetOpenMode bool
  | PayUpgrade address bytes32
  | PayMigrate address
  | PayGetVersion
  | PayPause address string
  | PayResume address

fun payments_exec ::
  "'l host \<Rightarrow> payments_op \<Rightarrow> 'l payments_state \<Rightarrow> (payments_panic, 'l payments_state) outcome" where
  "payments_exec h (PayInitialize a r n) = payments_initialize a r n"
| "payments_exec h (PayCreate c m amt tk r md sr ea ik) =
     (\<lambda>st. state_of (create_payment_with_options h c m amt tk r md sr ea ik st))"
| "payments_exec h (PayCreateBatch c rs) = (\<lambda>st. state_of (create_payments_batch h c rs st))"
| "payments_exec h (PayCreateMultiToken c m amt tk n) =
     (\<lambda>st. state_of (create_payment_multi_token h c m amt tk n st))"
| "payments_exec h (PayComplete i) = complete_payment h i"
| "payments_exec h (PayExecuteScheduled i) = execute_scheduled_payment h i"
| "payments_exec h (PayCancelScheduled c i) = cancel_scheduled_payment h c i"
| "payments_exec h (PaySettle a m ids) = settle_merchant_payments h a m ids"
| "payments_exec h (PayDispute c i r) = dispute_payment h c i r"
| "payments_exec h (PayResolveDispute i b) = payments_resolve_dispute h i b"
| "payments_exec h (PayCheckEscalation i) = (\<lambda>st. state_of (payments_check_escalation h i st))"
| "payments_exec h (PayExpire i) = expire_payment h i"
| "payments_exec h (PayPartialRefund i amt) = partial_refund h i amt"
| "payments_exec h (PayCreateSubscription s m amt tk n k) =
     (\<lambda>st. state_of (create_subscription h s m amt tk n k st))"
| "payments_exec h (PayCharge i) = charge_subscription h i"
| "payments_exec h (PayCancelSubscription c i) = cancel_subscription h c i"
| "payments_exec h (PaySetOracle o' u a) = set_oracle h o' u a"
| "payments_exec h (PaySetMaxBatch n) = set_max_batch_size h n"
| "payments_exec h (PaySetDisputeTimeout t) = set_dispute_timeout h t"
| "payments_exec h (PaySetPaymentTimeout t) = set_payment_timeout h t"
| "payments_exec h (PayUpdateFee a n) = update_fee h a n"
| "payments_exec h (PayUpdateFeeRecipient a r) = update_fee_recipient h a r"
| "payments_exec h (PayUpdateFeeTiers a ts) = update_fee_tiers h a ts"
| "payments_exec h (PayUpdateRateLimit a n w) = update_rate_limit_config h a n w"
| "payments_exec h (PayProposeAdmin a) = propose_admin_transfer h a"
| "payments_exec h PayAcceptAdmin = accept_admin_role h"
| "payments_exec h (PayApproveMerchant m) = approve_merchant h m"
| "payments_exec h (PayRevokeMerchant m) = revoke_merchant h m"
| "payments_exec h (PaySetOpenMode b) = set_merchant_open_mode h b"
| "payments_exec h (PayUpgrade a w) = payments_upgrade h a w"
| "payments_exec h (PayMigrate a) = payments_migrate h a"
| "payments_exec h PayGetVersion = (\<lambda>st. Inr (snd (payments_get_version st)))"
| "payments_exec h (PayPause a r) = payments_pause_contract h a r"
| "payments_exec h (PayResume a) = payments_resume_contract h a"

section \<open>Updates that are not about the books\<close>

text \<open>Statistics, limits and indexes each write one field.\<close>

lemma stats_updates:
  "inc_global_created st = Inr st' \<Longrightarrow> \<exists>g. st' = st\<lparr>global_statistics := g\<rparr>"
  "inc_global_completed tk amt st = Inr st' \<Longrightarrow> \<exists>g. st' = st\<lparr>global_statistics := g\<rparr>"
  "inc_global_refunded tk amt st = Inr st' \<Longrightarrow> \<exists>g. st' = st\<lparr>global_statistics := g\<rparr>"
  "inc_global_expired st = Inr st' \<Longrightarrow> \<exists>g. st' = st\<lparr>global_statistics := g\<rparr>"
  "inc_merchant_created m st = Inr st' \<Longrightarrow> \<exists>g. st' = st\<lparr>merchant_statistics := g\<rparr>"
  "inc_merchant_completed m tk amt st = Inr st' \<Longrightarrow> \<exists>g. st' = st\<lparr>merchant_statistics := g\<rparr>"
  "inc_merchant_refunded m tk amt st = Inr st' \<Longrightarrow> \<exists>g. st' = st\<lparr>merchant_statistics := g\<rparr>"
  "inc_volume_bucket h tk amt st = Inr st' \<Longrightarrow> \<exists>g. st' = st\<lparr>volume_bucket := g\<rparr>"
  "inc_merchant_volume_bucket h m amt st = Inr st' \<Longrightarrow> \<exists>g. st' = st\<lparr>merchant_volume_bucket := g\<rparr>"
  "enforce_rate_limit h c n st = Inr st' \<Longrightarrow> \<exists>g. st' = st\<lparr>customer_limits := g\<rparr>"
  by (auto simp: inc_global_created_def inc_global_completed_def inc_global_refunded_def
      inc_global_expired_def inc_merchant_created_def inc_merchant_completed_def
      inc_merchant_refunded_def inc_volume_bucket_def inc_merchant_volume_bucket_def
      enforce_rate_limit_def save_global_stats_def save_merchant_stats_def Let_def ok_simps
      split: if_splits intro: exI [of _ "customer_limits st"])

lemmas note_updates = stats_updates [THEN exE]

lemma store_payment_fields [simp]:
  "payments (store_payment i p st) = (payments st)(i \<mapsto> p)"
  "payment_counter (store_payment i p st) = payment_counter st"
  "settled (store_payment i p st) = settled st"
  "subscriptions (store_payment i p st) = subscriptions st"
  "ledger (store_payment i p st) = ledger st"
  "payment_disputes (store_payment i p st) = payment_disputes st"
  by (simp_all add: store_payment_def)

lemma index_fields [simp]:
  "payments (add_customer_payment c i st) = payments st"
  "payment_counter (add_customer_payment c i st) = payment_counter st"
  "settled (add_customer_payment c i st) = settled st"
  "subscriptions (add_customer_payment c i st) = subscriptions st"
  "ledger (add_customer_payment c i st) = ledger st"
  "payments (index_payment_by_reference m r i st) = payments st"
  "payment_counter (index_payment_by_reference m r i st) = payment_counter st"
  "settled (index_payment_by_reference m r i st) = settled st"
  "subscriptions (index_payment_by_reference m r i st) = subscriptions st"
  "ledger (index_payment_by_reference m r i st) = ledger st"
  "payments (store_idempotency_key h k i st) = payments st"
  "payment_counter (store_idempotency_key h k i st) = payment_counter st"
  "settled (store_idempotency_key h k i st) = settled st"
  "subscriptions (store_idempotency_key h k i st) = subscriptions st"
  "ledger (store_idempotency_key h k i st) = ledger st"
  by (simp_all add: add_customer_payment_def index_payment_by_reference_def
      store_idempotency_key_def Let_def)

lemma mark_settled_fields [simp]:
  "payments (mark_settled i b st) = payments st"
  "payment_counter (mark_settled i b st) = payment_counter st"
  "settled (mark_settled i b st) = (settled st)(i \<mapsto> b)"
  "subscriptions (mark_settled i b st) = subscriptions st"
  "ledger (mark_settled i b st) = ledger st"
  "payment_disputes (mark_settled i b st) = payment_disputes st"
  by (simp_all add: mark_settled_def)

lemma next_payment_id_Inr [ok_simps]:
  "next_payment_id st = Inr (i, st') \<longleftrightarrow>
     i = get_payment_counter st \<and> i < 4294967295 \<and> st' = st\<lparr>payment_counter := Some (Suc i)\<rparr>"
  by (auto simp: next_payment_id_def get_payment_counter_def Let_def ok_simps)

lemma pay_from_contract_Inr [ok_simps]:
  "pay_from_contract h tk a amt st = Inr st' \<longleftrightarrow>
     (\<exists>l. tok_transfer h (ledger st) tk (self_address h) a amt = Some l \<and> st' = st\<lparr>ledger := l\<rparr>)"
  by (simp add: pay_from_contract_def ok_simps)

section \<open>The books\<close>

definition same_payment_books :: "'l payments_state \<Rightarrow> 'l payments_state \<Rightarrow> bool" where
  "same_payment_books st st' \<longleftrightarrow> payments st' = payments st \<and>
     payment_counter st' = payment_counter st \<and> settled st' = settled st \<and>
     subscriptions st' = subscriptions st \<and> ledger st' = ledger st"

definition splits_ok :: "split_recipient list option \<Rightarrow> bool" where
  "splits_ok ss = (case ss of None \<Rightarrow> True
     | Some splits \<Rightarrow> splits \<noteq> [] \<and> sum_list (map sr_bps splits) = 10000)"

definition pending_status :: "payment_status \<Rightarrow> bool" where
  "pending_status s = (case s of Pending \<Rightarrow> True | ScheduledPending \<Rightarrow> True
     | PaymentDisputed \<Rightarrow> True | _ \<Rightarrow> False)"

definition final_status :: "payment_status \<Rightarrow> bool" where
  "final_status s = (case s of Completed \<Rightarrow> True | PaymentRefunded \<Rightarrow> True
     | PaymentExpired \<Rightarrow> True | _ \<Rightarrow> False)"

definition payment_ok :: "u32 \<Rightarrow> payment \<Rightarrow> bool" where
  "payment_ok i p \<longleftrightarrow> p_id p = i \<and> 0 \<le> p_refunded_amount p \<and> 0 \<le> p_amount p \<and>
     (pending_status (p_status p) \<longrightarrow> p_refunded_amount p < p_amount p) \<and>
     splits_ok (p_split_recipients p)"

text \<open>
  What the contract still holds for a payment: what was not refunded while it is pending, and the
  amount of a payment that a resolution completed until it is settled.
\<close>

definition held :: "bool \<Rightarrow> payment \<Rightarrow> i128" where
  "held is_paid p =
     (if pending_status (p_status p) \<or> p_status p = Completed \<and> \<not> is_paid
      then p_amount p - p_refunded_amount p else 0)"

definition payments_wf :: "'l payments_state \<Rightarrow> bool" where
  "payments_wf st \<longleftrightarrow>
     (\<forall>i. payments st i \<noteq> None \<longleftrightarrow> i < get_payment_counter st) \<and>
     (\<forall>i p. payments st i = Some p \<longrightarrow> payment_ok i p \<and> 0 \<le> held (is_settled i st) p) \<and>
     (\<forall>i. is_settled i st \<longrightarrow> (\<exists>p. payments st i = Some p \<and> p_status p = Completed))"

definition adds_payment :: "u32 \<Rightarrow> payment \<Rightarrow> 'l payments_state \<Rightarrow> 'l payments_state \<Rightarrow> bool" where
  "adds_payment i p st st' \<longleftrightarrow> i = get_payment_counter st \<and> payment_ok i p \<and>
     (p_status p = Pending \<or> p_status p = ScheduledPending) \<and> p_refunded_amount p = 0 \<and>
     payments st' = (payments st)(i \<mapsto> p) \<and> payment_counter st' = Some (Suc i) \<and>
     settled st' = settled st \<and> subscriptions st' = subscriptions st"

definition changes_payment ::
  "u32 \<Rightarrow> payment \<Rightarrow> payment \<Rightarrow> 'l payments_state \<Rightarrow> 'l payments_state \<Rightarrow> bool" where
  "changes_payment i p p' st st' \<longleftrightarrow> payments st i = Some p \<and>
     payments st' = (payments st)(i \<mapsto> p') \<and> payment_counter st' = payment_counter st \<and>
     subscriptions st' = subscriptions st"

lemma total_split_bps_Inr:
  "total_split_bps splits b = Inr t \<Longrightarrow> t = b + sum_list (map sr_bps splits)"
  by (induction splits b rule: total_split_bps.induct) (auto split: if_splits)

lemma validate_split_recipients_Inr: "validate_split_recipients ss = Inr u \<Longrightarrow> splits_ok ss"
  by (auto simp: validate_split_recipients_def splits_ok_def and_then_Inr
      dest!: total_split_bps_Inr split: option.splits if_splits)

lemmas pstatus_defs = pending_status_def final_status_def

section \<open>Effects of creation\<close>

lemma create_payment_effect:
  assumes "create_payment_with_options h c m amt tk r md sr ea ik st = Inr (i, st')"
  shows "authorized h c \<and>
    (st' = st \<and> (\<exists>key. ik = Some key \<and> temp_get h key (idempotency_keys st) = Some i) \<or>
     (\<exists>p. adds_payment i p st st' \<and> p_customer p = c \<and> p_merchant p = m \<and> p_token p = tk \<and>
        p_amount p = amt \<and> p_split_recipients p = sr \<and>
        tok_transfer h (ledger st) tk c (self_address h) amt = Some (ledger st')))"
proof (cases "case ik of None \<Rightarrow> None | Some key \<Rightarrow> temp_get h key (idempotency_keys st)")
  case (Some j)
  then show ?thesis
    using assms by (auto simp: create_payment_with_options_def ok_simps split: option.splits)
next
  case None
  have "\<exists>p. adds_payment i p st st' \<and> p_customer p = c \<and> p_merchant p = m \<and> p_token p = tk \<and>
        p_amount p = amt \<and> p_split_recipients p = sr \<and>
        tok_transfer h (ledger st) tk c (self_address h) amt = Some (ledger st')"
    using assms None
    by (intro exI [of _ "the (payments st' i)"],
        clarsimp simp: create_payment_with_options_def Let_def ok_simps elim!: note_updates
          dest!: validate_split_recipients_Inr)
      (simp add: adds_payment_def payment_ok_def pstatus_defs payments_emit_defs
        get_payment_counter_def split: option.splits)
  moreover have "authorized h c"
    using assms by (simp add: create_payment_with_options_def ok_simps)
  ultimately show ?thesis by blast
qed

end
