(* ===== verification/Payments_Spec.thy ===== *)
theory Payments_Spec
  imports Payments_Machine
begin

text \<open>
  The abstract contract of the payments: the lifecycle of a payment, who may move it and where
  its money goes, and the steps an entry point is made of.
\<close>

section \<open>Lifecycle and authority\<close>

inductive payment_status_step :: "payment_status \<Rightarrow> payment_status \<Rightarrow> bool" where
  complete: "payment_status_step Pending Completed"
| execute: "payment_status_step ScheduledPending Completed"
| cancel: "payment_status_step ScheduledPending PaymentRefunded"
| dispute: "payment_status_step Pending PaymentDisputed"
| expire: "payment_status_step Pending PaymentExpired"
| resolve_release: "payment_status_step PaymentDisputed Completed"
| resolve_refund: "payment_status_step PaymentDisputed PaymentRefunded"
| refund: "payment_status_step Pending PaymentRefunded"

inductive_simps payment_status_step_simps: "payment_status_step s s'"
inductive_cases payment_status_stepE: "payment_status_step s s'"

lemma final_status_stays: "final_status s \<Longrightarrow> \<not> payment_status_step s s'"
  by (auto elim!: payment_status_stepE simp: final_status_def)

definition admin_signs :: "'l host \<Rightarrow> 'l payments_state \<Rightarrow> bool" where
  "admin_signs h st \<longleftrightarrow> (\<exists>a. admin st = Some a \<and> authorized h a)"

definition payment_authority ::
  "'l host \<Rightarrow> 'l payments_state \<Rightarrow> payment \<Rightarrow> payment_status \<Rightarrow> bool" where
  "payment_authority h st p s' \<longleftrightarrow>
     (if p_status p = ScheduledPending then
        if s' = Completed then p_execute_after p \<le> timestamp h
        else authorized h (p_customer p) \<and> timestamp h < p_execute_after p
      else if p_status p = Pending \<and> s' = PaymentDisputed then authorized h (p_customer p)
      else if p_status p = Pending \<and> s' = PaymentExpired then p_expires_at p \<le> timestamp h
      else admin_signs h st)"

definition same_payment_terms :: "payment \<Rightarrow> payment \<Rightarrow> bool" where
  "same_payment_terms p p' \<longleftrightarrow> p_id p' = p_id p \<and> p_customer p' = p_customer p \<and>
     p_merchant p' = p_merchant p \<and> p_token p' = p_token p \<and>
     p_created_at p' = p_created_at p \<and> p_expires_at p' = p_expires_at p \<and>
     p_split_recipients p' = p_split_recipients p \<and> p_execute_after p' = p_execute_after p"

definition payment_recipient :: "'l payments_state \<Rightarrow> payment \<Rightarrow> address \<Rightarrow> bool" where
  "payment_recipient st p a \<longleftrightarrow> a = p_customer p \<or> a = p_merchant p \<or>
     pay_fee_recipient st = Some a \<or>
     (\<exists>ss. p_split_recipients p = Some ss \<and> a \<in> sr_recipient ` set ss)"

section \<open>Steps of the specification\<close>

text \<open>
  An \<^emph>\<open>exact\<close> step pays out what the books say the contract holds.  Three of the code's calls are
  not exact: ending a payment that was partly refunded pays its whole amount, a settlement can
  name a payment twice, and a converted payment is booked in another token than was received.
\<close>

inductive payments_step ::
  "'l host \<Rightarrow> bool \<Rightarrow> 'l payments_state \<Rightarrow> 'l payments_state \<Rightarrow> bool" for h exact where
  bookkeep: "same_payment_books st st' \<Longrightarrow> payments_step h exact st st'"
| receive: "adds_payment i p st st' \<Longrightarrow> authorized h (p_customer p) \<Longrightarrow>
     tok_transfer h (ledger st) (p_token p) (p_customer p) (self_address h) (p_amount p)
       = Some (ledger st') \<Longrightarrow>
     payments_step h exact st st'"
| convert: "adds_payment i p st st' \<Longrightarrow> authorized h (p_customer p) \<Longrightarrow> usdc_token st = Some (p_token p) \<Longrightarrow>
     tk \<noteq> p_token p \<Longrightarrow> \<not> exact \<Longrightarrow>
     tok_transfer h (ledger st) tk (p_customer p) (self_address h) amt = Some (ledger st') \<Longrightarrow>
     payments_step h exact st st'"
| move: "changes_payment i p p' st st' \<Longrightarrow> payment_ok i p' \<Longrightarrow> same_payment_terms p p' \<Longrightarrow>
     p_status p' = p_status p \<and> admin_signs h st \<or>
       payment_status_step (p_status p) (p_status p') \<and> payment_authority h st p (p_status p') \<Longrightarrow>
     p_amount p' \<le> p_amount p \<Longrightarrow> pending_status (p_status p) \<Longrightarrow>
     settled st' = (settled st)(i := s') \<Longrightarrow>
     (unwrap_or False s' \<longrightarrow> p_status p' = Completed) \<Longrightarrow>
     0 \<le> held (unwrap_or False s') p' \<Longrightarrow>
     pay_list h (p_token p) ps (ledger st) = Some (ledger st') \<Longrightarrow>
     (exact \<longrightarrow> sum_list (map snd ps) = held False p - held (unwrap_or False s') p') \<Longrightarrow>
     \<forall>a \<in> fst ` set ps. payment_recipient st p a \<Longrightarrow>
     payments_step h exact st st'"
| settle: "payments st' = payments st \<Longrightarrow> payment_counter st' = payment_counter st \<Longrightarrow>
     subscriptions st' = subscriptions st \<Longrightarrow> admin_signs h st \<Longrightarrow>
     \<forall>i \<in> set ids. \<exists>p. payments st i = Some p \<and> p_status p = Completed \<and>
       p_merchant p = merchant \<and> p_token p = tk \<and> \<not> is_settled i st \<Longrightarrow>
     (exact \<longrightarrow> distinct ids \<and> (\<forall>i \<in> set ids. p_refunded_amount (the (payments st i)) = 0)) \<Longrightarrow>
     settled st' = (\<lambda>i. if i \<in> set ids then Some True else settled st i) \<Longrightarrow>
     tok_transfer h (ledger st) tk (self_address h) merchant
       (\<Sum>i\<leftarrow>ids. p_amount (the (payments st i))) = Some (ledger st') \<Longrightarrow>
     payments_step h exact st st'"
| subscribe: "payments st' = payments st \<Longrightarrow> payment_counter st' = payment_counter st \<Longrightarrow>
     settled st' = settled st \<Longrightarrow> ledger st' = ledger st \<Longrightarrow>
     subscriptions st' = (subscriptions st)(i \<mapsto> s) \<Longrightarrow>
     authorized h (s_subscriber s) \<or>
       (\<exists>s0. subscriptions st i = Some s0 \<and> s_subscriber s0 = s_subscriber s) \<Longrightarrow>
     payments_step h exact st st'"
| charge: "payments st' = payments st \<Longrightarrow> payment_counter st' = payment_counter st \<Longrightarrow>
     settled st' = settled st \<Longrightarrow> subscriptions st i = Some s \<Longrightarrow>
     subscriptions st' = (subscriptions st)(i \<mapsto> s') \<Longrightarrow> s_subscriber s' = s_subscriber s \<Longrightarrow>
     tok_transfer h (ledger st) (s_token s) (s_subscriber s) (self_address h) (s_amount s) = Some l \<Longrightarrow>
     tok_transfer h l (s_token s) (self_address h) (s_merchant s) (s_amount s) = Some (ledger st') \<Longrightarrow>
     payments_step h exact st st'"

text \<open>The calls whose steps are exact.\<close>

definition unrefunded :: "u32 \<Rightarrow> 'l payments_state \<Rightarrow> bool" where
  "unrefunded i st \<longleftrightarrow> (case payments st i of None \<Rightarrow> True | Some p \<Rightarrow> p_refunded_amount p = 0)"

fun exact_call :: "payments_op \<Rightarrow> 'l payments_state \<Rightarrow> bool" where
  "exact_call (PayCreateMultiToken c m amt tk n) st = (usdc_token st = Some tk)"
| "exact_call (PayComplete i) st = unrefunded i st"
| "exact_call (PayExecuteScheduled i) st = unrefunded i st"
| "exact_call (PayCancelScheduled c i) st = unrefunded i st"
| "exact_call (PayExpire i) st = unrefunded i st"
| "exact_call (PayResolveDispute i b) st = (b \<or> unrefunded i st)"
| "exact_call (PaySettle a m ids) st = (distinct ids \<and> list_all (\<lambda>i. unrefunded i st) ids)"
| "exact_call _ st = True"

lemma unrefundedD: "unrefunded i st \<Longrightarrow> payments st i = Some p \<Longrightarrow> p_refunded_amount p = 0"
  by (simp add: unrefunded_def)

section \<open>Steps keep the books well formed\<close>

lemma payments_wfD:
  assumes "payments_wf st" and "payments st i = Some p"
  shows "i < get_payment_counter st" and "payment_ok i p"
    and "is_settled i st \<Longrightarrow> p_status p = Completed" and "0 \<le> held (is_settled i st) p"
proof -
  show "i < get_payment_counter st" and "payment_ok i p" and "0 \<le> held (is_settled i st) p"
    using assms unfolding payments_wf_def by (metis option.distinct(1))+
  show "p_status p = Completed" if "is_settled i st"
    using assms that unfolding payments_wf_def by force
qed

lemma payments_wf_fresh: "payments_wf st \<Longrightarrow> payments st (get_payment_counter st) = None"
  unfolding payments_wf_def by (metis less_irrefl)

lemma held_simps:
  "payment_ok i p \<Longrightarrow> pending_status (p_status p) \<Longrightarrow> 0 \<le> held b p"
  "p_status p = Completed \<Longrightarrow> held True p = 0"
  by (auto simp: held_def payment_ok_def pending_status_def)

lemma adds_payment_wf: "adds_payment i p st st' \<Longrightarrow> payments_wf st \<Longrightarrow> payments_wf st'"
proof -
  assume a: "adds_payment i p st st'" and wf: "payments_wf st"
  have "\<not> is_settled i st"
    using payments_wf_fresh [OF wf] wf a unfolding payments_wf_def adds_payment_def
    by (metis option.distinct(1))
  then show ?thesis
    using a wf held_simps(1) [of i p False]
    by (auto simp: adds_payment_def payments_wf_def get_payment_counter_def is_settled_def
        pending_status_def)
qed

lemma payments_step_wf: "payments_step h x st st' \<Longrightarrow> payments_wf st \<Longrightarrow> payments_wf st'"
proof (induction rule: payments_step.induct)
  case (bookkeep st st')
  then show ?case
    by (simp add: same_payment_books_def payments_wf_def get_payment_counter_def is_settled_def)
next
  case (receive i p st st')
  then show ?case by (blast intro: adds_payment_wf)
next
  case (convert i p st st' tk amt)
  then show ?case by (blast intro: adds_payment_wf)
next
  case (move i p p' st st' s' ps)
  then show ?case
    by (auto simp: changes_payment_def payments_wf_def get_payment_counter_def is_settled_def)
next
  case (settle st' st ids merchant tk)
  then have new: "is_settled i st' \<longleftrightarrow> i \<in> set ids \<or> is_settled i st" for i
    by (simp add: is_settled_def)
  have "is_settled i st' \<longrightarrow> (\<exists>p. payments st i = Some p \<and> p_status p = Completed)" for i
    using settle(5) settle.prems unfolding new payments_wf_def by blast
  moreover have "0 \<le> held (is_settled i st') p" if "payments st i = Some p" for i p
  proof (cases "i \<in> set ids")
    case True
    then have "p_status p = Completed" using settle(5) that by fastforce
    with True show ?thesis by (simp add: new held_simps)
  next
    case False
    then show ?thesis using payments_wfD(4) [OF settle.prems that] by (simp add: new)
  qed
  ultimately show ?case
    using settle.prems settle(1,2) by (simp add: payments_wf_def get_payment_counter_def)
next
  case (subscribe st' st i s)
  then show ?case by (simp add: payments_wf_def get_payment_counter_def is_settled_def)
next
  case (charge st' st i s s' l)
  then show ?case by (simp add: payments_wf_def get_payment_counter_def is_settled_def)
qed

lemma payments_steps_wf: "(payments_step h x)\<^sup>*\<^sup>* st st' \<Longrightarrow> payments_wf st \<Longrightarrow> payments_wf st'"
  by (induction rule: rtranclp_induct) (auto intro: payments_step_wf)

end
