(* ===== verification/Payments_Refine.thy ===== *)
theory Payments_Refine
  imports Payments_Spec
begin

text \<open>
  The refinement: every successful entry point of the payments contract is a finite sequence of
  steps of \<open>payments_step\<close>.
\<close>

section \<open>Creation\<close>

lemma create_payment_step:
  "create_payment_with_options h c m amt tk r md sr ea ik st = Inr (i, st') \<Longrightarrow>
     (payments_step h x)\<^sup>*\<^sup>* st st'"
  by (drule create_payment_effect) (auto intro: payments_step.receive)

lemma create_payments_loop_adds:
  assumes "create_payments_loop h c tmo (r # rs) ids tot st = Inr res"
  shows "\<exists>i st1 tot1. create_payments_loop h c tmo rs (ids @ [i]) tot1 st1 = Inr res \<and>
    adds_payment i (the (payments st1 i)) st st1 \<and> p_customer (the (payments st1 i)) = c \<and>
    p_token (the (payments st1 i)) = rq_token r \<and> p_amount (the (payments st1 i)) = rq_amount r \<and>
    tok_transfer h (ledger st) (rq_token r) c (self_address h) (rq_amount r) = Some (ledger st1)"
  using assms
  apply (clarsimp simp: Let_def ok_simps elim!: note_updates)
  apply (rule exI, rule exI, rule conjI, rule exI, assumption)
  apply (simp add: adds_payment_def payment_ok_def pstatus_defs payments_emit_defs splits_ok_def
      get_payment_counter_def split: option.splits)
  done

lemma create_payments_loop_steps:
  "create_payments_loop h c tmo rs ids tot st = Inr (ids', tot', st') \<Longrightarrow> authorized h c \<Longrightarrow>
     (payments_step h x)\<^sup>*\<^sup>* st st'"
proof (induction rs arbitrary: ids tot st)
  case Nil
  then show ?case by simp
next
  case (Cons r rs)
  obtain i st1 tot1 where rest: "create_payments_loop h c tmo rs (ids @ [i]) tot1 st1 = Inr (ids', tot', st')"
    and add: "adds_payment i (the (payments st1 i)) st st1"
    and p: "p_customer (the (payments st1 i)) = c" "p_token (the (payments st1 i)) = rq_token r"
      "p_amount (the (payments st1 i)) = rq_amount r"
    and t: "tok_transfer h (ledger st) (rq_token r) c (self_address h) (rq_amount r) = Some (ledger st1)"
    using create_payments_loop_adds [OF Cons.prems(1)] by blast
  have "payments_step h x st st1"
    by (rule payments_step.receive [OF add]) (use p t Cons.prems(2) in simp_all)
  from this Cons.IH [OF rest Cons.prems(2)] show ?case by (rule converse_rtranclp_into_rtranclp)
qed

lemma create_payments_batch_steps:
  assumes "create_payments_batch h c rs st = Inr (ids, st')"
  shows "(payments_step h x)\<^sup>*\<^sup>* st st'"
proof -
  obtain st1 st2 tmo tot where e: "enforce_rate_limit h c (length rs) st = Inr st1"
    and l: "create_payments_loop h c tmo rs [] 0 st1 = Inr (ids, tot, st2)"
    and a: "authorized h c" and s: "same_payment_books st2 st'"
    using assms
    by (auto simp: create_payments_batch_def Let_def ok_simps payments_emit_defs
        same_payment_books_def)
  from e have "same_payment_books st st1"
    by (auto simp: same_payment_books_def elim!: note_updates)
  then show ?thesis
    using create_payments_loop_steps [OF l a] s
    by (meson payments_step.bookkeep rtranclp.rtrancl_into_rtrancl converse_rtranclp_into_rtranclp)
qed

lemma record_plain_payment_effect:
  assumes "record_plain_payment h c m amt tk st = Inr (i, st')" and "0 < amt"
  shows "\<exists>p. adds_payment i p st st' \<and> p_customer p = c \<and> p_token p = tk \<and> p_amount p = amt \<and>
    p_status p = Pending \<and> ledger st' = ledger st"
  using assms
  by (intro exI [of _ "the (payments st' i)"],
      clarsimp simp: record_plain_payment_def Let_def ok_simps)
    (simp add: adds_payment_def payment_ok_def pstatus_defs splits_ok_def get_payment_counter_def)

lemma create_payment_multi_token_step:
  assumes "create_payment_multi_token h c m amt tk n st = Inr (i, st')"
    and exact: "x \<longrightarrow> usdc_token st = Some tk"
  shows "(payments_step h x)\<^sup>*\<^sup>* st st'"
proof -
  obtain usdc where u: "usdc_token st = Some usdc" and amt: "0 < amt"
    using assms(1) by (auto simp: create_payment_multi_token_def ok_simps)
  show ?thesis
  proof (cases "tk = usdc")
    case True
    obtain st1 l st2 where a: "authorized h c" and e: "enforce_rate_limit h c 1 st = Inr st1"
      and t: "tok_transfer h (ledger st1) tk c (self_address h) amt = Some l"
      and r: "record_plain_payment h c m amt tk (st1\<lparr>ledger := l\<rparr>) = Inr (i, st2)"
      and st': "st' = emit_payment_created i c m amt tk st2"
      using assms(1) u True by (auto simp: create_payment_multi_token_def ok_simps)
    obtain p where p: "adds_payment i p (st1\<lparr>ledger := l\<rparr>) st2" "p_customer p = c" "p_token p = tk"
      "p_amount p = amt" "ledger st2 = l"
      using record_plain_payment_effect [OF r amt] by auto
    have "payments_step h x st st'"
      by (rule payments_step.receive [of i p])
        (use p a t e st' in \<open>auto simp: adds_payment_def get_payment_counter_def
            payments_emit_defs elim!: note_updates\<close>)
    then show ?thesis by simp
  next
    case False
    obtain st1 l st2 req price where a: "authorized h c" and e: "enforce_rate_limit h c 1 st = Inr st1"
      and t: "tok_transfer h (ledger st1) tk c (self_address h) req = Some l"
      and r: "record_plain_payment h c m amt usdc (st1\<lparr>ledger := l\<rparr>) = Inr (i, st2)"
      and st': "st' = emit_multi_token_payment_created i c m amt tk req price st2"
      using assms(1) u False by (auto simp: create_payment_multi_token_def Let_def ok_simps)
    obtain p where p: "adds_payment i p (st1\<lparr>ledger := l\<rparr>) st2" "p_customer p = c" "p_token p = usdc"
      "ledger st2 = l"
      using record_plain_payment_effect [OF r amt] by auto
    have "payments_step h x st st'"
      by (rule payments_step.convert [of i p st st' h tk x req])
        (use p a t e st' u False exact in \<open>auto simp: adds_payment_def get_payment_counter_def
            payments_emit_defs elim!: note_updates\<close>)
    then show ?thesis by simp
  qed
qed

section \<open>Subscriptions\<close>

lemma create_subscription_step:
  "create_subscription h s m amt tk n k st = Inr (i, st') \<Longrightarrow> payments_step h x st st'"
  by (clarsimp simp: create_subscription_def Let_def ok_simps)
    (rule payments_step.subscribe, (simp add: payments_emit_defs)+)

lemma cancel_subscription_step:
  "cancel_subscription h c i st = Inr st' \<Longrightarrow> payments_step h x st st'"
  by (clarsimp simp: cancel_subscription_def Let_def ok_simps)
    (rule payments_step.subscribe, (simp add: payments_emit_defs)+)

lemma charge_subscription_effect:
  assumes "charge_subscription h i st = Inr st'"
  shows "\<exists>s l. subscriptions st i = Some s \<and> s_active s \<and>
    (s_max_charges s = 0 \<or> s_charges_count s < s_max_charges s) \<and>
    (s_last_charged_at s = 0 \<or> s_last_charged_at s + s_interval_seconds s \<le> timestamp h) \<and>
    subscriptions st' = (subscriptions st)(i \<mapsto> s\<lparr>s_last_charged_at := timestamp h,
      s_charges_count := Suc (s_charges_count s)\<rparr>) \<and>
    tok_transfer h (ledger st) (s_token s) (s_subscriber s) (self_address h) (s_amount s) = Some l \<and>
    tok_transfer h l (s_token s) (self_address h) (s_merchant s) (s_amount s) = Some (ledger st') \<and>
    payments st' = payments st \<and> payment_counter st' = payment_counter st \<and> settled st' = settled st"
proof -
  obtain s where s: "subscriptions st i = Some s"
    using assms by (auto simp: charge_subscription_def ok_simps)
  have due: "s_last_charged_at s = 0 \<or> s_last_charged_at s + s_interval_seconds s \<le> timestamp h"
    using assms s by (auto simp: charge_subscription_def Let_def ok_simps not_less split: if_splits)
  show ?thesis
    using assms s due
    by (clarsimp simp: charge_subscription_def Let_def ok_simps)
      (simp add: payments_emit_defs not_le)
qed

lemma charge_subscription_step:
  "charge_subscription h i st = Inr st' \<Longrightarrow> payments_step h x st st'"
  by (drule charge_subscription_effect) (auto intro: payments_step.charge)

section \<open>Completion\<close>

definition split_pairs :: "split_recipient list \<Rightarrow> (address \<times> u32) list" where
  "split_pairs ss = map (\<lambda>s. (sr_recipient s, sr_bps s)) ss"

text \<open>The payments that distribute a net amount, in the order the code makes them.\<close>

definition net_payments :: "payment \<Rightarrow> i128 \<Rightarrow> (address \<times> i128) list" where
  "net_payments p net = (case p_split_recipients p of
      None \<Rightarrow> [(p_merchant p, net)]
    | Some ss \<Rightarrow>
        if ss = [] then [(p_merchant p, net)]
        else
          let splits = share_list net (split_pairs ss);
              dust = net - sum_list (map snd splits)
          in splits @ (if 0 < dust then [(p_merchant p, dust)] else []))"

definition completion_payments :: "address \<Rightarrow> payment \<Rightarrow> i128 \<Rightarrow> (address \<times> i128) list" where
  "completion_payments recipient p fee =
     (if 0 < fee then [(recipient, fee)] else []) @ net_payments p (p_amount p - fee)"

lemma pay_splits_Inr:
  assumes "pay_splits h tk net ss evs d st = Inr (evs', d', st')" and "0 \<le> net"
  shows "pay_list h tk (share_list net (split_pairs ss)) (ledger st) = Some (ledger st') \<and>
    d' = d + (\<Sum>n\<leftarrow>map snd (split_pairs ss). bps_share net n) \<and> st' = st\<lparr>ledger := ledger st'\<rparr>"
  using assms(1)
proof (induction ss arbitrary: evs d st)
  case Nil
  then show ?case by (simp add: share_list_def split_pairs_def)
next
  case (Cons s ss)
  let ?n = "sr_bps s"
  let ?evs = "evs @ [\<lparr>st_recipient = sr_recipient s, st_bps = ?n, st_amount = bps_share net ?n\<rparr>]"
  from Cons.prems obtain st1 where st1: "(if 0 < bps_share net ?n
        then pay_from_contract h tk (sr_recipient s) (bps_share net ?n) st else Inr st) = Inr st1"
    and rest: "pay_splits h tk net ss ?evs (d + bps_share net ?n) st1 = Inr (evs', d', st')"
    unfolding pay_splits.simps and_then_Inr arith128_Inr bps_share_def by blast
  show ?case
    using Cons.IH [OF rest] st1
    by (cases "0 < bps_share net ?n") (auto simp: split_pairs_def share_list_Cons ok_simps)
qed

lemma distribute_net_payment_Inr:
  assumes "distribute_net_payment h p net st = Inr (evs, st')" and "0 \<le> net"
  shows "pay_list h (p_token p) (net_payments p net) (ledger st) = Some (ledger st') \<and>
    st' = st\<lparr>ledger := ledger st'\<rparr>"
proof (cases "p_split_recipients p = None \<or> p_split_recipients p = Some []")
  case True
  then show ?thesis
    using assms(1) by (auto simp: distribute_net_payment_def net_payments_def ok_simps)
next
  case False
  then obtain ss where ss: "p_split_recipients p = Some ss" "ss \<noteq> []" by auto
  let ?splits = "share_list net (split_pairs ss)"
  obtain d st1 where p: "pay_splits h (p_token p) net ss [] 0 st = Inr (evs, d, st1)"
    and r: "(if 0 < net - d then pay_from_contract h (p_token p) (p_merchant p) (net - d) st1
        else Inr st1) = Inr st'"
    using assms(1) ss by (clarsimp simp: distribute_net_payment_def ok_simps)
  obtain l where l: "pay_list h (p_token p) ?splits (ledger st) = Some l"
    and d: "sum_list (map snd ?splits) = d" and st1: "st1 = st\<lparr>ledger := l\<rparr>"
    using pay_splits_Inr [OF p assms(2)] assms(2) by (auto simp: sum_share_list)
  show ?thesis
    using r ss l
    by (cases "0 < net - d")
      (auto simp: st1 net_payments_def Let_def d pay_list_append ok_simps split: option.splits)
qed

lemma sum_net_payments:
  assumes "splits_ok (p_split_recipients p)" and "0 \<le> net"
  shows "sum_list (map snd (net_payments p net)) = net"
proof (cases "p_split_recipients p")
  case None
  then show ?thesis by (simp add: net_payments_def)
next
  case (Some ss)
  have "sum_list (map snd (split_pairs ss)) = 10000"
    using assms(1) Some by (simp add: splits_ok_def split_pairs_def comp_def)
  then have "(\<Sum>n\<leftarrow>map snd (split_pairs ss). bps_share net n) \<le> net"
    by (intro shares_le_amount [OF assms(2)]) simp
  with Some assms(2) show ?thesis
    by (simp add: net_payments_def Let_def sum_share_list)
qed

lemma net_payments_recipients:
  "x \<in> fst ` set (net_payments p net) \<Longrightarrow> payment_recipient st p x"
  using share_list_recipients [of net "split_pairs (the (p_split_recipients p))"]
  by (fastforce simp: net_payments_def Let_def payment_recipient_def split_pairs_def
      split: option.splits if_splits)

text \<open>Fees stay below the maximum, so nothing more than the amount is ever paid.\<close>

definition fees_ok :: "'l payments_state \<Rightarrow> bool" where
  "fees_ok st \<longleftrightarrow> get_fee_bps st \<le> MAX_FEE_BPS \<and>
     (\<forall>t \<in> set (get_fee_tiers st). ft_fee_bps t \<le> MAX_FEE_BPS)"

lemma select_tier_le:
  "n \<le> m \<Longrightarrow> \<forall>t \<in> set ts. ft_fee_bps t \<le> m \<Longrightarrow> select_tier v n ts \<le> m"
  by (induction v n ts rule: select_tier.induct) auto

lemma fee_bps_for_volume_le: "fees_ok st \<Longrightarrow> fee_bps_for_volume v st \<le> 500"
  unfolding fees_ok_def fee_bps_for_volume_def get_fee_bps_def get_fee_tiers_def Let_def
  by (rule select_tier_le) (simp_all add: MAX_FEE_BPS_def)

lemma refresh_merchant_tier_update:
  assumes "refresh_merchant_tier h m st = Inr st'"
  shows "\<exists>g evs. st' = st\<lparr>merchant_current_tier_bps := g, events := evs\<rparr>"
proof -
  have "st' = st \<or> (\<exists>g evs. st' = st\<lparr>merchant_current_tier_bps := g, events := evs\<rparr>)"
    using assms
    by (auto simp: refresh_merchant_tier_def Let_def ok_simps publish_def payments_emit_defs
        split: if_splits)
  moreover have "st = st\<lparr>merchant_current_tier_bps := merchant_current_tier_bps st,
      events := events st\<rparr>" by simp
  ultimately show ?thesis by blast
qed

lemma emit_splits_fields [simp]:
  "payments (if b then emit_payment_split_completed i ss st else st) = payments st"
  "payment_counter (if b then emit_payment_split_completed i ss st else st) = payment_counter st"
  "settled (if b then emit_payment_split_completed i ss st else st) = settled st"
  "subscriptions (if b then emit_payment_split_completed i ss st else st) = subscriptions st"
  "ledger (if b then emit_payment_split_completed i ss st else st) = ledger st"
  "payment_receipt (if b then emit_payment_split_completed i ss st else st) = payment_receipt st"
  by (simp_all add: payments_emit_defs)

lemma completion_guard_Inr [ok_simps]:
  "completion_guard h p b = Inr u \<longleftrightarrow>
     p_status p = (if b then ScheduledPending else Pending) \<and>
     (b \<longrightarrow> p_execute_after p \<le> timestamp h) \<and>
     (p_expires_at p = 0 \<or> timestamp h < p_expires_at p)"
  by (auto simp: completion_guard_def ok_simps)

lemma fee_payment_Inr:
  assumes "(if 0 < fee then and_then (pay_from_contract h tk r fee st)
      (\<lambda>st. Inr (emit_fee_collected i fee r tk st)) else Inr st) = Inr st1"
  shows "pay_list h tk (if 0 < fee then [(r, fee)] else []) (ledger st) = Some (ledger st1) \<and>
    payments st1 = payments st \<and> payment_counter st1 = payment_counter st \<and>
    settled st1 = settled st \<and> subscriptions st1 = subscriptions st"
  using assms
  by (cases "0 < fee") (auto simp: ok_simps payments_emit_defs)

lemma net_nonneg:
  "payments_wf st \<Longrightarrow> fees_ok st \<Longrightarrow> payments st i = Some p \<Longrightarrow>
     0 \<le> p_amount p - bps_share (p_amount p) (fee_bps_for_volume v st)"
  using bps_share_le [of "p_amount p" "fee_bps_for_volume v st"] fee_bps_for_volume_le [of st v]
    payments_wfD(2) [of st i p]
  by (simp add: payment_ok_def)

lemma distribute_net_payment_effect:
  assumes "distribute_net_payment h p net st = Inr (evs, st')" and "0 \<le> net"
  shows "pay_list h (p_token p) (net_payments p net) (ledger st) = Some (ledger st') \<and>
    payments st' = payments st \<and> payment_counter st' = payment_counter st \<and>
    settled st' = settled st \<and> subscriptions st' = subscriptions st"
proof -
  have "st' = st\<lparr>ledger := ledger st'\<rparr>"
    and l: "pay_list h (p_token p) (net_payments p net) (ledger st) = Some (ledger st')"
    using distribute_net_payment_Inr [OF assms] by simp_all
  then obtain l where "st' = st\<lparr>ledger := l\<rparr>" by blast
  with l show ?thesis by simp
qed

text \<open>The effect of a completion: every guard that passed, and what changed.\<close>

lemma complete_payment_internal_effect:
  assumes "complete_payment_internal h i sch st = Inr st'"
    and wf: "payments_wf st" "fees_ok st"
  shows "\<exists>p v r. payments st i = Some p \<and> completion_guard h p sch = Inr () \<and>
    rolling_merchant_volume h (p_merchant p) st = Inr v \<and> pay_fee_recipient st = Some r \<and>
    (let fee = bps_share (p_amount p) (fee_bps_for_volume (v + p_amount p) st);
         net = p_amount p - fee in
     payments st' = (payments st)(i \<mapsto> p\<lparr>p_status := Completed, p_amount := net\<rparr>) \<and>
     settled st' = (settled st)(i \<mapsto> True) \<and> payment_counter st' = payment_counter st \<and>
     subscriptions st' = subscriptions st \<and>
     payment_receipt st' i = Some (compute_receipt_hash h i (p_customer p) (p_merchant p) net
       (p_token p) (timestamp h)) \<and>
     pay_list h (p_token p) (completion_payments r p fee) (ledger st) = Some (ledger st'))"
  using assms(1)
  unfolding complete_payment_internal_def and_then_Inr Let_def arith128_Inr bps_share_def [symmetric]
  apply (clarsimp simp: ok_simps bps_share_def [symmetric] simp del: not_le if_split cong: if_cong)
  apply (drule fee_payment_Inr, drule distribute_net_payment_effect, erule net_nonneg [OF wf])
  apply (clarsimp dest!: refresh_merchant_tier_update elim!: note_updates simp del: if_split)
  apply (simp add: payments_emit_defs completion_payments_def pay_list_append del: if_split)
  done

lemma complete_payment_internal_step:
  assumes c: "complete_payment_internal h i sch st = Inr st'"
    and wf: "payments_wf st" "fees_ok st"
    and a: "sch \<or> admin_signs h st"
    and exact: "x \<longrightarrow> unrefunded i st"
  shows "payments_step h x st st'"
proof -
  obtain p v r where p: "payments st i = Some p" and g: "completion_guard h p sch = Inr ()"
    and r: "pay_fee_recipient st = Some r"
    and e: "let fee = bps_share (p_amount p) (fee_bps_for_volume (v + p_amount p) st);
         net = p_amount p - fee in
     payments st' = (payments st)(i \<mapsto> p\<lparr>p_status := Completed, p_amount := net\<rparr>) \<and>
     settled st' = (settled st)(i \<mapsto> True) \<and> payment_counter st' = payment_counter st \<and>
     subscriptions st' = subscriptions st \<and>
     payment_receipt st' i = Some (compute_receipt_hash h i (p_customer p) (p_merchant p) net
       (p_token p) (timestamp h)) \<and>
     pay_list h (p_token p) (completion_payments r p fee) (ledger st) = Some (ledger st')"
    using complete_payment_internal_effect [OF c wf] by blast
  define fee where "fee = bps_share (p_amount p) (fee_bps_for_volume (v + p_amount p) st)"
  have ok: "payment_ok i p" by (rule payments_wfD(2) [OF wf(1) p])
  have net: "0 \<le> p_amount p - fee"
    unfolding fee_def by (rule net_nonneg [OF wf p])
  have fee: "0 \<le> fee"
    using ok by (simp add: fee_def bps_share_nonneg payment_ok_def)
  let ?ps = "completion_payments r p fee"
  let ?p = "p\<lparr>p_status := Completed, p_amount := p_amount p - fee\<rparr>"
  have total: "sum_list (map snd ?ps) = p_amount p"
    using ok net fee by (simp add: completion_payments_def sum_net_payments payment_ok_def)
  have to: "\<forall>x \<in> fst ` set ?ps. payment_recipient st p x"
    using r net_payments_recipients [of _ p "p_amount p - fee" st]
    by (force simp: completion_payments_def payment_recipient_def [of _ _ r] image_Un split: if_splits)
  show ?thesis
  proof (rule payments_step.move [of i p ?p st st' h "Some True" ?ps])
    show "p_status ?p = p_status p \<and> admin_signs h st \<or>
       payment_status_step (p_status p) (p_status ?p) \<and> payment_authority h st p (p_status ?p)"
      using g a by (auto simp: payment_authority_def ok_simps intro: payment_status_step.intros)
    show "x \<longrightarrow>
       sum_list (map snd ?ps) = held False p - held (unwrap_or False (Some True)) ?p"
      using total ok g unrefundedD [OF _ p] exact by (auto simp: held_def payment_ok_def pending_status_def ok_simps split: if_splits)
  qed (use p ok net fee e g to in \<open>simp_all add: fee_def [symmetric] Let_def changes_payment_def
    held_simps(2) payment_ok_def same_payment_terms_def pending_status_def ok_simps split: if_splits\<close>)
qed

lemma complete_payment_step:
  "complete_payment h i st = Inr st' \<Longrightarrow> payments_wf st \<Longrightarrow> fees_ok st \<Longrightarrow>
     (x \<longrightarrow> unrefunded i st) \<Longrightarrow> payments_step h x st st'"
  by (auto simp: complete_payment_def admin_signs_def ok_simps stored_admin_auth_def
      intro!: complete_payment_internal_step)

lemma same_books_step:
  "payments_step h x st st1 \<Longrightarrow> same_payment_books st1 st' \<Longrightarrow> (payments_step h x)\<^sup>*\<^sup>* st st'"
  by (meson payments_step.bookkeep r_into_rtranclp rtranclp.rtrancl_into_rtrancl)

lemma execute_scheduled_payment_steps:
  "execute_scheduled_payment h i st = Inr st' \<Longrightarrow> payments_wf st \<Longrightarrow> fees_ok st \<Longrightarrow>
     (x \<longrightarrow> unrefunded i st) \<Longrightarrow> (payments_step h x)\<^sup>*\<^sup>* st st'"
  by (clarsimp simp: execute_scheduled_payment_def ok_simps)
    (rule same_books_step [OF complete_payment_internal_step], assumption,
      simp_all add: same_payment_books_def payments_emit_defs)

lemma cancel_scheduled_payment_step:
  assumes c: "cancel_scheduled_payment h c i st = Inr st'" and wf: "payments_wf st"
    and exact: "x \<longrightarrow> unrefunded i st"
  shows "payments_step h x st st'"
proof -
  obtain p where p: "payments st i = Some p" and g: "authorized h c" "p_customer p = c"
      "p_status p = ScheduledPending" "timestamp h < p_execute_after p"
    and e: "changes_payment i p (p\<lparr>p_status := PaymentRefunded\<rparr>) st st'" "settled st' = settled st"
      "tok_transfer h (ledger st) (p_token p) (self_address h) (p_customer p) (p_amount p)
        = Some (ledger st')"
    using c by (clarsimp simp: cancel_scheduled_payment_def Let_def ok_simps not_le
        changes_payment_def elim!: note_updates) (simp add: payments_emit_defs)
  have ok: "payment_ok i p" by (rule payments_wfD(2) [OF wf p])
  have ns: "\<not> unwrap_or False (settled st i)"
    using payments_wfD(3) [OF wf p] g by (auto simp: is_settled_def)
  show ?thesis
    by (rule payments_step.move [of i p _ st st' h "settled st i" "[(p_customer p, p_amount p)]", OF e(1)])
      (use p g ok e ns exact unrefundedD [OF _ p] in \<open>simp_all add: payment_ok_def same_payment_terms_def pending_status_def
        payment_authority_def payment_recipient_def held_def payment_status_step_simps\<close>)
qed

section \<open>Disputes, expiry and refunds\<close>

lemma dispute_payment_step:
  assumes c: "dispute_payment h c i r st = Inr st'" and wf: "payments_wf st"
  shows "payments_step h x st st'"
proof -
  obtain p where p: "payments st i = Some p" and g: "authorized h c" "p_customer p = c"
      "p_status p = Pending"
    and e: "changes_payment i p (p\<lparr>p_status := PaymentDisputed\<rparr>) st st'" "settled st' = settled st"
      "ledger st' = ledger st"
    using c by (clarsimp simp: dispute_payment_def Let_def ok_simps changes_payment_def)
      (simp add: payments_emit_defs)
  have ok: "payment_ok i p" by (rule payments_wfD(2) [OF wf p])
  have ns: "\<not> unwrap_or False (settled st i)"
    using payments_wfD(3) [OF wf p] g by (auto simp: is_settled_def)
  show ?thesis
    by (rule payments_step.move [of i p _ st st' h "settled st i" "[]", OF e(1)])
      (use p g ok e ns in \<open>simp_all add: payment_ok_def same_payment_terms_def pending_status_def
        payment_authority_def payment_recipient_def held_def payment_status_step_simps\<close>)
qed

lemma payments_resolve_dispute_effect:
  assumes "payments_resolve_dispute h i b st = Inr st'"
  shows "\<exists>p. payments st i = Some p \<and> admin_signs h st \<and> p_status p = PaymentDisputed \<and>
    changes_payment i p (p\<lparr>p_status := if b then Completed else PaymentRefunded\<rparr>) st st' \<and>
    settled st' = (if b then (settled st)(i \<mapsto> False) else settled st) \<and>
    (if b then ledger st' = ledger st
     else tok_transfer h (ledger st) (p_token p) (self_address h) (p_customer p) (p_amount p)
       = Some (ledger st'))"
proof (cases b)
  case True
  then show ?thesis
    using assms
    by (clarsimp simp: payments_resolve_dispute_def Let_def ok_simps changes_payment_def
        admin_signs_def)
      (simp add: payments_emit_defs split: option.splits)
next
  case False
  then show ?thesis
    using assms
    by (clarsimp simp: payments_resolve_dispute_def Let_def ok_simps changes_payment_def
        admin_signs_def elim!: note_updates)
      (simp add: payments_emit_defs split: option.splits)
qed

lemma payments_resolve_dispute_step:
  assumes c: "payments_resolve_dispute h i b st = Inr st'" and wf: "payments_wf st"
    and exact: "x \<longrightarrow> b \<or> unrefunded i st"
  shows "payments_step h x st st'"
proof -
  obtain p where p: "payments st i = Some p" and g: "admin_signs h st" "p_status p = PaymentDisputed"
    and e: "changes_payment i p (p\<lparr>p_status := if b then Completed else PaymentRefunded\<rparr>) st st'"
      "settled st' = (if b then (settled st)(i \<mapsto> False) else settled st)"
      "if b then ledger st' = ledger st
       else tok_transfer h (ledger st) (p_token p) (self_address h) (p_customer p) (p_amount p)
         = Some (ledger st')"
    using payments_resolve_dispute_effect [OF c] by blast
  have ok: "payment_ok i p" by (rule payments_wfD(2) [OF wf p])
  have ns: "\<not> unwrap_or False (settled st i)"
    using payments_wfD(3) [OF wf p] g by (auto simp: is_settled_def)
  show ?thesis
  proof (cases b)
    case True
    show ?thesis
      by (rule payments_step.move [of i p _ st st' h "Some False" "[]", OF e(1)])
        (use True p g ok e in \<open>simp_all add: payment_ok_def same_payment_terms_def pending_status_def
          payment_authority_def payment_recipient_def held_def payment_status_step_simps\<close>)
  next
    case False
    show ?thesis
      by (rule payments_step.move [of i p _ st st' h "settled st i" "[(p_customer p, p_amount p)]",
            OF e(1)])
        (use False p g ok e ns exact unrefundedD [OF _ p] in \<open>simp_all add: payment_ok_def same_payment_terms_def
          pending_status_def payment_authority_def payment_recipient_def held_def
          payment_status_step_simps\<close>)
  qed
qed

lemma expire_payment_step:
  assumes c: "expire_payment h i st = Inr st'" and wf: "payments_wf st"
    and exact: "x \<longrightarrow> unrefunded i st"
  shows "payments_step h x st st'"
proof -
  obtain p where p: "payments st i = Some p" and g: "p_status p = Pending"
      "p_expires_at p \<le> timestamp h"
    and e: "changes_payment i p (p\<lparr>p_status := PaymentExpired\<rparr>) st st'" "settled st' = settled st"
      "tok_transfer h (ledger st) (p_token p) (self_address h) (p_customer p) (p_amount p)
        = Some (ledger st')"
    using c by (clarsimp simp: expire_payment_def Let_def ok_simps not_less
        changes_payment_def elim!: note_updates) (simp add: payments_emit_defs)
  have ok: "payment_ok i p" by (rule payments_wfD(2) [OF wf p])
  have ns: "\<not> unwrap_or False (settled st i)"
    using payments_wfD(3) [OF wf p] g by (auto simp: is_settled_def)
  show ?thesis
    by (rule payments_step.move [of i p _ st st' h "settled st i" "[(p_customer p, p_amount p)]", OF e(1)])
      (use p g ok e ns exact unrefundedD [OF _ p] in \<open>simp_all add: payment_ok_def same_payment_terms_def pending_status_def
        payment_authority_def payment_recipient_def held_def payment_status_step_simps\<close>)
qed

lemma partial_refund_effect:
  assumes "partial_refund h i amt st = Inr st'"
  shows "\<exists>p. payments st i = Some p \<and> admin_signs h st \<and>
    (p_status p = Pending \<or> p_status p = PaymentDisputed) \<and>
    0 < amt \<and> p_refunded_amount p + amt \<le> p_amount p \<and>
    changes_payment i p (p\<lparr>p_refunded_amount := p_refunded_amount p + amt,
      p_status := (if p_amount p \<le> p_refunded_amount p + amt then PaymentRefunded
                   else p_status p)\<rparr>) st st' \<and>
    settled st' = settled st \<and>
    tok_transfer h (ledger st) (p_token p) (self_address h) (p_customer p) amt = Some (ledger st')"
  using assms
  by (clarsimp simp: partial_refund_def Let_def ok_simps changes_payment_def admin_signs_def
      not_le not_less elim!: note_updates simp del: if_split)
    (auto simp: payments_emit_defs simp del: if_split)

lemma partial_refund_step:
  assumes c: "partial_refund h i amt st = Inr st'" and wf: "payments_wf st"
  shows "payments_step h x st st'"
proof -
  let ?p = "\<lambda>p. p\<lparr>p_refunded_amount := p_refunded_amount p + amt,
      p_status := (if p_amount p \<le> p_refunded_amount p + amt then PaymentRefunded
                   else p_status p)\<rparr>"
  obtain p where p: "payments st i = Some p" and g: "admin_signs h st"
      "p_status p = Pending \<or> p_status p = PaymentDisputed" "0 < amt"
      "p_refunded_amount p + amt \<le> p_amount p"
    and e: "changes_payment i p (?p p) st st'" "settled st' = settled st"
      "tok_transfer h (ledger st) (p_token p) (self_address h) (p_customer p) amt = Some (ledger st')"
    using partial_refund_effect [OF c] by blast
  have ok: "payment_ok i p" by (rule payments_wfD(2) [OF wf p])
  have ns: "\<not> unwrap_or False (settled st i)"
    using payments_wfD(3) [OF wf p] g by (auto simp: is_settled_def)
  show ?thesis
    by (rule payments_step.move [of i p _ st st' h "settled st i" "[(p_customer p, amt)]", OF e(1)])
      (use p g ok e ns in \<open>auto simp: payment_ok_def same_payment_terms_def pending_status_def
        payment_authority_def payment_recipient_def held_def payment_status_step_simps\<close>)
qed

section \<open>Settlement\<close>

lemma settlement_total_Inr:
  "settlement_total m tk ids t st = Inr t' \<Longrightarrow>
     t' = t + (\<Sum>i\<leftarrow>ids. p_amount (the (payments st i))) \<and>
     (\<forall>i \<in> set ids. \<exists>p. payments st i = Some p \<and> p_status p = Completed \<and> p_merchant p = m \<and>
        p_token p = tk \<and> \<not> is_settled i st)"
proof (induction ids arbitrary: t)
  case Nil
  then show ?case by simp
next
  case (Cons i ids)
  obtain p where p: "payments st i = Some p" "p_status p = Completed" "p_merchant p = m"
      "p_token p = tk" "\<not> is_settled i st"
    and rest: "settlement_total m tk ids (t + p_amount p) st = Inr t'"
    using Cons.prems by (auto simp: ok_simps is_settled_def)
  from Cons.IH [OF rest] p show ?case by simp
qed

lemma mark_all_settled_fields [simp]:
  "payments (mark_all_settled ids st) = payments st"
  "payment_counter (mark_all_settled ids st) = payment_counter st"
  "subscriptions (mark_all_settled ids st) = subscriptions st"
  "ledger (mark_all_settled ids st) = ledger st"
  "settled (mark_all_settled ids st) = (\<lambda>i. if i \<in> set ids then Some True else settled st i)"
  by (induction ids st rule: mark_all_settled.induct) (auto simp: fun_eq_iff)

lemma settle_merchant_payments_effect:
  assumes "settle_merchant_payments h a m ids st = Inr st'"
  shows "\<exists>tk. authorized h a \<and> admin st = Some a \<and> ids \<noteq> [] \<and> length ids \<le> 50 \<and>
    (\<forall>i \<in> set ids. \<exists>p. payments st i = Some p \<and> p_status p = Completed \<and>
       p_merchant p = m \<and> p_token p = tk \<and> \<not> is_settled i st) \<and>
    payments st' = payments st \<and> payment_counter st' = payment_counter st \<and>
    subscriptions st' = subscriptions st \<and>
    settled st' = (\<lambda>i. if i \<in> set ids then Some True else settled st i) \<and>
    tok_transfer h (ledger st) tk (self_address h) m
      (\<Sum>i\<leftarrow>ids. p_amount (the (payments st i))) = Some (ledger st')"
  using assms
  apply (clarsimp simp: settle_merchant_payments_def Let_def ok_simps SETTLEMENT_FEE_BPS_def
      MAX_SETTLEMENT_BATCH_SIZE_def not_less)
  apply (drule settlement_total_Inr)
  apply (simp add: payments_emit_defs)
  apply (rule exI, rule conjI, assumption, simp add: fun_eq_iff)
  done

lemma settle_merchant_payments_step:
  assumes "settle_merchant_payments h a m ids st = Inr st'"
    and exact: "x \<longrightarrow> distinct ids \<and> list_all (\<lambda>i. unrefunded i st) ids"
  shows "payments_step h x st st'"
proof -
  obtain tk where g: "authorized h a" "admin st = Some a"
    and ids: "\<forall>i \<in> set ids. \<exists>p. payments st i = Some p \<and> p_status p = Completed \<and>
       p_merchant p = m \<and> p_token p = tk \<and> \<not> is_settled i st"
    and e: "payments st' = payments st" "payment_counter st' = payment_counter st"
      "subscriptions st' = subscriptions st"
      "settled st' = (\<lambda>i. if i \<in> set ids then Some True else settled st i)"
      "tok_transfer h (ledger st) tk (self_address h) m
        (\<Sum>i\<leftarrow>ids. p_amount (the (payments st i))) = Some (ledger st')"
    using settle_merchant_payments_effect [OF assms(1)] by blast
  have "x \<longrightarrow> distinct ids \<and> (\<forall>i \<in> set ids. p_refunded_amount (the (payments st i)) = 0)"
    using exact ids unrefundedD by (fastforce simp: list_all_iff)
  then show ?thesis
    using g by (intro payments_step.settle [OF e(1,2,3) _ ids _ e(4,5)]) (auto simp: admin_signs_def)
qed

section \<open>Bookkeeping\<close>

lemmas payments_admin_op_defs = payments_upgrade_def payments_migrate_def
  payments_pause_contract_def payments_resume_contract_def propose_admin_transfer_def
  accept_admin_role_def update_fee_def update_fee_recipient_def update_fee_tiers_def
  set_max_batch_size_def set_dispute_timeout_def set_payment_timeout_def
  update_rate_limit_config_def approve_merchant_def revoke_merchant_def
  set_merchant_open_mode_def set_oracle_def payments_get_or_init_version_def

lemma administrative_books:
  "payments_upgrade h a w st = Inr st' \<Longrightarrow> same_payment_books st st'"
  "payments_migrate h a st = Inr st' \<Longrightarrow> same_payment_books st st'"
  "payments_pause_contract h a rs st = Inr st' \<Longrightarrow> same_payment_books st st'"
  "payments_resume_contract h a st = Inr st' \<Longrightarrow> same_payment_books st st'"
  "propose_admin_transfer h a st = Inr st' \<Longrightarrow> same_payment_books st st'"
  "accept_admin_role h st = Inr st' \<Longrightarrow> same_payment_books st st'"
  "update_fee h a n st = Inr st' \<Longrightarrow> same_payment_books st st'"
  "update_fee_recipient h a r st = Inr st' \<Longrightarrow> same_payment_books st st'"
  "update_fee_tiers h a ts st = Inr st' \<Longrightarrow> same_payment_books st st'"
  "set_max_batch_size h n st = Inr st' \<Longrightarrow> same_payment_books st st'"
  "set_dispute_timeout h t st = Inr st' \<Longrightarrow> same_payment_books st st'"
  "set_payment_timeout h t st = Inr st' \<Longrightarrow> same_payment_books st st'"
  "update_rate_limit_config h a n w' st = Inr st' \<Longrightarrow> same_payment_books st st'"
  "approve_merchant h a st = Inr st' \<Longrightarrow> same_payment_books st st'"
  "revoke_merchant h a st = Inr st' \<Longrightarrow> same_payment_books st st'"
  "set_merchant_open_mode h b st = Inr st' \<Longrightarrow> same_payment_books st st'"
  "set_oracle h a u t st = Inr st' \<Longrightarrow> same_payment_books st st'"
  "payments_check_escalation h i st = Inr (b', st') \<Longrightarrow> same_payment_books st st'"
  by (auto simp: payments_admin_op_defs payments_check_escalation_def Let_def ok_simps
      payments_emit_defs same_payment_books_def split: if_splits option.splits)

section \<open>Every entry point is a sequence of steps\<close>

lemma payments_exec_refines:
  assumes "payments_exec h op st = Inr st'" and "payments_wf st" and "fees_ok st"
    and "admin st \<noteq> None" and "x \<longrightarrow> exact_call op st"
  shows "(payments_step h x)\<^sup>*\<^sup>* st st'"
proof (cases op)
  case (PayInitialize a r n)
  then show ?thesis using assms by (simp add: payments_initialize_def)
next
  case PayGetVersion
  then have "same_payment_books st st'"
    using assms(1) by (auto simp: payments_get_version_def payments_get_or_init_version_def
        same_payment_books_def split: option.splits)
  then show ?thesis by (blast intro: payments_step.bookkeep)
qed (use assms in \<open>auto simp: state_of_Inr intro: create_payment_step create_payments_batch_steps
  create_payment_multi_token_step complete_payment_step execute_scheduled_payment_steps
  cancel_scheduled_payment_step settle_merchant_payments_step dispute_payment_step
  payments_resolve_dispute_step expire_payment_step partial_refund_step create_subscription_step
  charge_subscription_step cancel_subscription_step administrative_books payments_step.bookkeep
  r_into_rtranclp\<close>)

end
