(* ===== verification/Payments_Settings.thy ===== *)
theory Payments_Settings
  imports Payments_Refine
begin

text \<open>
  What an entry point of the payments contract leaves alone: the settings (admin, emergency stop,
  fee and tiers, limits, allowlist, oracle) are changed by administration only, the
  idempotency keys by the creation of single payments only, and the fee stays below its maximum.
\<close>

section \<open>Components untouched by payments\<close>

locale payments_keyless_frame =
  fixes f :: "'l payments_state \<Rightarrow> 'v"
  assumes frame [simp]:
    "f (publish ev st) = f st"
    "f (st\<lparr>ledger := l\<rparr>) = f st"
    "f (st\<lparr>events := evs\<rparr>) = f st"
    "f (st\<lparr>payments := ps\<rparr>) = f st"
    "f (st\<lparr>payment_counter := c\<rparr>) = f st"
    "f (st\<lparr>settled := sd\<rparr>) = f st"
    "f (st\<lparr>subscriptions := ss\<rparr>) = f st"
    "f (st\<lparr>subscription_counter := c\<rparr>) = f st"
    "f (st\<lparr>customer_payments := cp\<rparr>) = f st"
    "f (st\<lparr>customer_limits := cl\<rparr>) = f st"
    "f (st\<lparr>merchant_reference := mr\<rparr>) = f st"
    "f (st\<lparr>payment_receipt := pr\<rparr>) = f st"
    "f (st\<lparr>global_statistics := gs\<rparr>) = f st"
    "f (st\<lparr>merchant_statistics := ms\<rparr>) = f st"
    "f (st\<lparr>volume_bucket := vb\<rparr>) = f st"
    "f (st\<lparr>merchant_volume_bucket := mvb\<rparr>) = f st"
    "f (st\<lparr>merchant_current_tier_bps := mt\<rparr>) = f st"
    "f (st\<lparr>payment_disputes := pd\<rparr>) = f st"
    "f (st\<lparr>contract_version := v\<rparr>) = f st"
    "f (st\<lparr>migration_completed := mc\<rparr>) = f st"
begin

lemma frame_helpers [simp]:
  "f (store_payment i p st) = f st"
  "f (add_customer_payment c i st) = f st"
  "f (index_payment_by_reference m r i st) = f st"
  "f (mark_settled i b st) = f st"
  "f (mark_all_settled ids st) = f st"
  "f (snd (payments_get_or_init_version st)) = f st"
  by (simp_all add: store_payment_def add_customer_payment_def index_payment_by_reference_def
      mark_settled_def payments_get_or_init_version_def Let_def
      split: option.splits)
    (induction ids arbitrary: st; simp add: mark_settled_def)

lemma create_payments_loop_frame:
  "create_payments_loop h c tmo rs ids tot st = Inr (ids', tot', st') \<Longrightarrow> f st' = f st"
proof (induction rs arbitrary: ids tot st)
  case Nil
  then show ?case by simp
next
  case (Cons r rs)
  obtain i st1 tot1 where "create_payments_loop h c tmo rs (ids @ [i]) tot1 st1 = Inr (ids', tot', st')"
    and "f st1 = f st"
    using Cons.prems
    apply (clarsimp simp: Let_def ok_simps elim!: note_updates)
    apply (drule meta_spec, drule meta_spec, drule meta_spec, drule meta_mp, assumption)
    apply (simp add: payments_emit_defs split: option.splits)
    done
  with Cons.IH show ?case by fastforce
qed

lemma create_payments_batch_frame:
  "create_payments_batch h c rs st = Inr (ids, st') \<Longrightarrow> f st' = f st"
  by (auto simp: create_payments_batch_def Let_def ok_simps payments_emit_defs
      elim!: note_updates dest!: create_payments_loop_frame)

lemma create_payment_multi_token_frame:
  "create_payment_multi_token h c m amt tk n st = Inr (i, st') \<Longrightarrow> f st' = f st"
  by (auto simp: create_payment_multi_token_def record_plain_payment_def Let_def ok_simps
      payments_emit_defs elim!: note_updates split: if_splits)

lemma pay_splits_frame:
  "pay_splits h tk net ss evs d st = Inr (evs', d', st') \<Longrightarrow> f st' = f st"
  by (induction ss arbitrary: evs d st) (fastforce simp: ok_simps split: if_splits)+

lemma distribute_net_payment_frame:
  "distribute_net_payment h p net st = Inr (evs, st') \<Longrightarrow> f st' = f st"
  by (auto simp: distribute_net_payment_def ok_simps split: option.splits if_splits
      dest!: pay_splits_frame)

lemma complete_payment_internal_frame:
  assumes "complete_payment_internal h i sch st = Inr st'"
  shows "f st' = f st"
  using assms
  unfolding complete_payment_internal_def and_then_Inr Let_def arith128_Inr
  by (clarsimp simp: ok_simps dest!: refresh_merchant_tier_update distribute_net_payment_frame
      elim!: note_updates)
    (auto simp: payments_emit_defs ok_simps split: if_splits)

lemma completion_frames:
  "complete_payment h i st = Inr st' \<Longrightarrow> f st' = f st"
  "execute_scheduled_payment h i st = Inr st' \<Longrightarrow> f st' = f st"
  by (auto simp: complete_payment_def execute_scheduled_payment_def ok_simps payments_emit_defs
      dest!: complete_payment_internal_frame)

lemma cancel_scheduled_payment_frame:
  "cancel_scheduled_payment h c i st = Inr st' \<Longrightarrow> f st' = f st"
  by (clarsimp simp: cancel_scheduled_payment_def Let_def ok_simps elim!: note_updates)
    (simp add: payments_emit_defs)

lemma settle_merchant_payments_frame:
  "settle_merchant_payments h a m ids st = Inr st' \<Longrightarrow> f st' = f st"
  by (clarsimp simp: settle_merchant_payments_def Let_def ok_simps) (simp add: payments_emit_defs)

lemma dispute_payment_frame:
  "dispute_payment h c i rs st = Inr st' \<Longrightarrow> f st' = f st"
  by (clarsimp simp: dispute_payment_def Let_def ok_simps) (simp add: payments_emit_defs)

lemma payments_resolve_dispute_frame:
  "payments_resolve_dispute h i b st = Inr st' \<Longrightarrow> f st' = f st"
  by (cases b; clarsimp simp: payments_resolve_dispute_def Let_def ok_simps elim!: note_updates)
    (simp_all add: payments_emit_defs split: option.splits)

lemma expiry_frames:
  "expire_payment h i st = Inr st' \<Longrightarrow> f st' = f st"
  "partial_refund h i amt st = Inr st' \<Longrightarrow> f st' = f st"
  by (clarsimp simp: expire_payment_def partial_refund_def Let_def ok_simps simp del: if_split
        elim!: note_updates,
      simp add: payments_emit_defs)+

lemma create_subscription_frame:
  "create_subscription h c m amt tk n k st = Inr (i, st') \<Longrightarrow> f st' = f st"
  by (auto simp: create_subscription_def Let_def ok_simps payments_emit_defs)

lemma charge_subscription_frame: "charge_subscription h i st = Inr st' \<Longrightarrow> f st' = f st"
  by (auto simp: charge_subscription_def Let_def ok_simps payments_emit_defs)

lemma cancel_subscription_frame: "cancel_subscription h c i st = Inr st' \<Longrightarrow> f st' = f st"
  by (auto simp: cancel_subscription_def Let_def ok_simps payments_emit_defs)

lemmas subscription_frames = create_subscription_frame charge_subscription_frame
  cancel_subscription_frame

lemma upkeep_frames:
  "payments_check_escalation h i st = Inr (b', st') \<Longrightarrow> f st' = f st"
  "payments_upgrade h a w st = Inr st' \<Longrightarrow> f st' = f st"
  "payments_migrate h a st = Inr st' \<Longrightarrow> f st' = f st"
  by (auto simp: payments_check_escalation_def payments_upgrade_def payments_migrate_def
      payments_get_or_init_version_def Let_def ok_simps payments_emit_defs
      split: if_splits option.splits)

lemmas keyless_op_frames = create_payments_batch_frame
  create_payment_multi_token_frame completion_frames cancel_scheduled_payment_frame
  settle_merchant_payments_frame dispute_payment_frame payments_resolve_dispute_frame
  expiry_frames subscription_frames upkeep_frames

end

section \<open>Settings\<close>

text \<open>The entry points of an administrator, and of the account that takes the role over.\<close>

fun payments_administrative :: "payments_op \<Rightarrow> bool" where
  "payments_administrative (PayInitialize a r n) = True"
| "payments_administrative (PaySetOracle ad u a) = True"
| "payments_administrative (PaySetMaxBatch n) = True"
| "payments_administrative (PaySetDisputeTimeout t) = True"
| "payments_administrative (PaySetPaymentTimeout t) = True"
| "payments_administrative (PayUpdateFee a n) = True"
| "payments_administrative (PayUpdateFeeRecipient a r) = True"
| "payments_administrative (PayUpdateFeeTiers a ts) = True"
| "payments_administrative (PayUpdateRateLimit a n w) = True"
| "payments_administrative (PayProposeAdmin a) = True"
| "payments_administrative PayAcceptAdmin = True"
| "payments_administrative (PayApproveMerchant m) = True"
| "payments_administrative (PayRevokeMerchant m) = True"
| "payments_administrative (PaySetOpenMode b) = True"
| "payments_administrative (PayPause a r) = True"
| "payments_administrative (PayResume a) = True"
| "payments_administrative _ = False"

definition creates_by_key :: "payments_op \<Rightarrow> bool" where
  "creates_by_key op \<longleftrightarrow> (case op of PayCreate c m amt tk r md sr ea ik \<Rightarrow> True | _ \<Rightarrow> False)"

context payments_keyless_frame
begin

lemma keyless_ops_keep:
  assumes "payments_exec h op st = Inr st'" and "\<not> payments_administrative op"
    and "\<not> creates_by_key op"
  shows "f st' = f st"
  using assms
  by (cases op; clarsimp simp: creates_by_key_def state_of_Inr payments_get_version_def;
      elim keyless_op_frames)

end

text \<open>Only the creation of a single payment writes an idempotency key.\<close>

locale payments_frame = payments_keyless_frame f for f :: "'l payments_state \<Rightarrow> 'v" +
  assumes key_frame [simp]: "f (st\<lparr>idempotency_keys := ik\<rparr>) = f st"
begin

lemma store_key_frame [simp]: "f (store_idempotency_key h k i st) = f st"
  by (simp add: store_idempotency_key_def)

lemma create_payment_frame:
  "create_payment_with_options h c m amt tk r md sr ea ik st = Inr (i, st') \<Longrightarrow> f st' = f st"
  by (auto simp: create_payment_with_options_def Let_def ok_simps payments_emit_defs
      elim!: note_updates split: option.splits)

lemma payment_ops_keep:
  assumes "payments_exec h op st = Inr st'" and "\<not> payments_administrative op"
  shows "f st' = f st"
proof (cases "creates_by_key op")
  case True
  then show ?thesis
    using assms(1) by (cases op) (auto simp: creates_by_key_def state_of_Inr dest: create_payment_frame)
next
  case False
  then show ?thesis by (rule keyless_ops_keep [OF assms])
qed

end

definition payments_settings where
  "payments_settings st = (admin st, proposed_admin st, paused st, pause_reason st, fee_bps st,
     pay_fee_recipient st, fee_tiers st, max_batch_size st, dispute_timeout st,
     payment_timeout st, rate_limits st, merchant_open_mode st, merchant_approved st,
     oracle_address st, usdc_token st, max_oracle_age st)"

interpretation payments_settings_frame: payments_frame payments_settings
  by unfold_locales (simp_all add: payments_settings_def)

text \<open>The idempotency keys are left alone by every other entry point, administrative ones included.\<close>

interpretation idempotency_frame: payments_keyless_frame idempotency_keys
  by unfold_locales simp_all

lemma administrative_keeps_keys:
  "payments_exec h op st = Inr st' \<Longrightarrow> payments_administrative op \<Longrightarrow>
     idempotency_keys st' = idempotency_keys st"
  by (cases op)
    (auto simp: payments_admin_op_defs payments_initialize_def Let_def ok_simps payments_emit_defs)

lemma keys_written_by_creation:
  assumes "payments_exec h op st = Inr st'" and "\<not> creates_by_key op"
  shows "idempotency_keys st' = idempotency_keys st"
  using administrative_keeps_keys [OF assms(1)] idempotency_frame.keyless_ops_keep [OF assms(1) _ assms(2)]
  by blast

section \<open>The fee cap and the admin\<close>

lemma validate_fee_tiers_Inr:
  "validate_fee_tiers_from v ts = Inr u \<Longrightarrow>
     (\<forall>t \<in> set ts. v < ft_min_volume t \<and> 0 \<le> ft_min_volume t \<and> ft_fee_bps t \<le> MAX_FEE_BPS) \<and>
     sorted_wrt (<) (map ft_min_volume ts)"
  by (induction v ts rule: validate_fee_tiers_from.induct)
    (auto simp: not_less not_le split: if_splits)

text \<open>Who runs the contract is settled at initialization; afterwards there always is an admin.\<close>

definition configured :: "'l payments_state \<Rightarrow> bool" where
  "configured st \<longleftrightarrow> admin st \<noteq> None \<and> fees_ok st"

lemma administrative_configured:
  "payments_exec h op st = Inr st' \<Longrightarrow> payments_administrative op \<Longrightarrow> configured st \<Longrightarrow>
     configured st'"
  by (cases op)
    (auto simp: payments_admin_op_defs payments_initialize_def Let_def ok_simps
      payments_emit_defs configured_def fees_ok_def get_fee_bps_def get_fee_tiers_def
      validate_fee_tiers_def dest: validate_fee_tiers_Inr)

lemma payments_exec_configured:
  assumes "payments_exec h op st = Inr st'" and "configured st"
  shows "configured st'"
proof (cases "payments_administrative op")
  case True
  then show ?thesis using assms by (blast intro: administrative_configured)
next
  case False
  then show ?thesis
    using payments_settings_frame.payment_ops_keep [OF assms(1)] assms(2)
    by (simp add: payments_settings_def configured_def fees_ok_def get_fee_bps_def get_fee_tiers_def)
qed

end
