(* ===== verification/Payments_Solvency.thy ===== *)
theory Payments_Solvency
  imports Payments_Settings
begin

text \<open>
  The money of the payments contract: an exact call never lowers the surplus of the contract's
  balance over what it holds for payments, so after any history of exact calls the contract can
  pay what it owes.
\<close>

section \<open>What the contract holds for payments\<close>

definition payments_owed :: "address \<Rightarrow> payment option \<times> bool option \<Rightarrow> int" where
  "payments_owed tk ps = (case fst ps of None \<Rightarrow> 0
     | Some p \<Rightarrow> if p_token p = tk then held (unwrap_or False (snd ps)) p else 0)"

definition entry :: "'l payments_state \<Rightarrow> u32 \<Rightarrow> payment option \<times> bool option" where
  "entry st i = (payments st i, settled st i)"

definition payments_liability :: "'l payments_state \<Rightarrow> address \<Rightarrow> int" where
  "payments_liability st tk = (\<Sum>k<get_payment_counter st. payments_owed tk (entry st k))"

definition payments_surplus :: "'l view \<Rightarrow> address \<Rightarrow> 'l payments_state \<Rightarrow> address \<Rightarrow> int" where
  "payments_surplus V self st tk = balance V (ledger st) tk self - payments_liability st tk"

lemma payments_owed_simps [simp]:
  "payments_owed tk (None, s) = 0"
  "payments_owed tk (Some p, s) = (if p_token p = tk then held (unwrap_or False s) p else 0)"
  by (simp_all add: payments_owed_def)

lemma payments_liability_cong:
  "payments st' = payments st \<Longrightarrow> settled st' = settled st \<Longrightarrow>
     payment_counter st' = payment_counter st \<Longrightarrow> payments_liability st' tk = payments_liability st tk"
  by (simp add: payments_liability_def get_payment_counter_def entry_def)

lemma payments_wf_unsettled:
  assumes "payments_wf st" and "payments st i = None"
  shows "\<not> unwrap_or False (settled st i)"
  using assms unfolding payments_wf_def is_settled_def by (metis option.distinct(1))

lemma payments_liability_add:
  assumes "adds_payment i p st st'" and "payments_wf st"
  shows "payments_liability st' tk =
    payments_liability st tk + (if p_token p = tk then p_amount p else 0)"
proof -
  have i: "i = get_payment_counter st" and st': "payments st' = (payments st)(i \<mapsto> p)"
    "settled st' = settled st" "get_payment_counter st' = Suc i"
    and p: "p_status p = Pending \<or> p_status p = ScheduledPending" "p_refunded_amount p = 0"
    using assms(1) by (auto simp: adds_payment_def get_payment_counter_def)
  have "entry st' = (entry st)(i := (Some p, settled st i))"
    by (auto simp: fun_eq_iff entry_def st')
  then have "payments_liability st' tk =
      (\<Sum>k<Suc i. payments_owed tk (((entry st)(i := (Some p, settled st i))) k))"
    by (simp add: payments_liability_def st')
  also have "\<dots> = payments_liability st tk + payments_owed tk (Some p, settled st i)"
    by (simp add: sum_fun_upd_fresh [where f = "payments_owed tk"] payments_liability_def i
        del: fun_upd_apply sum.lessThan_Suc)
  also have "payments_owed tk (Some p, settled st i) = (if p_token p = tk then p_amount p else 0)"
    using p by (auto simp: held_def pending_status_def)
  finally show ?thesis .
qed

lemma payments_liability_change:
  assumes "changes_payment i p p' st st'" and "settled st' = (settled st)(i := s')"
    and "payments_wf st" and "p_token p' = p_token p" and "pending_status (p_status p)"
  shows "payments_liability st' tk = payments_liability st tk
    - (if p_token p = tk then held False p - held (unwrap_or False s') p' else 0)"
proof -
  have p: "payments st i = Some p" and st': "payments st' = (payments st)(i \<mapsto> p')"
    "get_payment_counter st' = get_payment_counter st"
    using assms(1) by (auto simp: changes_payment_def get_payment_counter_def)
  have "i < get_payment_counter st" and "\<not> unwrap_or False (settled st i)"
    using payments_wfD [OF assms(3) p] assms(5) by (auto simp: is_settled_def pending_status_def)
  moreover have "entry st' = (entry st)(i := (Some p', s'))"
    by (auto simp: fun_eq_iff entry_def st' assms(2))
  ultimately show ?thesis
    using assms(4) p
    by (simp add: payments_liability_def st'(2) sum_fun_upd [where f = "payments_owed tk"] entry_def
        del: fun_upd_apply)
qed

lemma payments_liability_settle:
  assumes "payments st' = payments st" and "payment_counter st' = payment_counter st"
    and "settled st' = (\<lambda>i. if i \<in> set ids then Some True else settled st i)"
    and ids: "\<forall>i \<in> set ids. \<exists>p. payments st i = Some p \<and> p_status p = Completed \<and>
       p_merchant p = m \<and> p_token p = t \<and> \<not> is_settled i st"
    and "distinct ids" and r: "\<forall>i \<in> set ids. p_refunded_amount (the (payments st i)) = 0"
    and wf: "payments_wf st"
  shows "payments_liability st' tk = payments_liability st tk
    - (if tk = t then \<Sum>i\<leftarrow>ids. p_amount (the (payments st i)) else 0)"
proof -
  let ?f = "\<lambda>k. payments_owed tk (entry st k)" and ?n = "get_payment_counter st"
  have sub: "set ids \<subseteq> {..<?n}"
    using ids payments_wfD(1) [OF wf] by fastforce
  have new: "payments_owed tk (entry st' k) = (if k \<in> set ids then 0 else ?f k)" for k
    using ids assms(1,3) by (auto simp: entry_def held_def pending_status_def)
  have old: "?f k = (if tk = t then p_amount (the (payments st k)) else 0)" if "k \<in> set ids" for k
    using ids that r by (force simp: entry_def held_def is_settled_def)
  have "(\<Sum>k<?n. ?f k) = (\<Sum>k\<in>{..<?n} - set ids. ?f k) + (\<Sum>k\<in>set ids. ?f k)"
    using sub by (simp add: sum.subset_diff)
  also have "(\<Sum>k\<in>{..<?n} - set ids. ?f k) = (\<Sum>k<?n. if k \<in> set ids then 0 else ?f k)"
    by (rule sum.mono_neutral_cong_left) auto
  also have "(\<Sum>k\<in>set ids. ?f k) = (if tk = t then \<Sum>i\<leftarrow>ids. p_amount (the (payments st i)) else 0)"
    using assms(5) by (simp add: old sum_list_distinct_conv_sum_set)
  finally show ?thesis
    using assms(2) by (simp add: payments_liability_def get_payment_counter_def new)
qed

section \<open>Exact steps never eat into the surplus\<close>

definition payments_legal :: "'l view \<Rightarrow> address \<Rightarrow> 'l host \<Rightarrow> bool" where
  "payments_legal V self h \<longleftrightarrow> token_laws V h \<and> self_address h = self \<and> \<not> authorized h self"

definition foreign_subscribers :: "address \<Rightarrow> 'l payments_state \<Rightarrow> bool" where
  "foreign_subscribers self st \<longleftrightarrow> (\<forall>i s. subscriptions st i = Some s \<longrightarrow> s_subscriber s \<noteq> self)"

lemma payments_step_subscribers:
  assumes "payments_step h x st st'" and "payments_legal V self h" and "foreign_subscribers self st"
  shows "foreign_subscribers self st'"
  using assms
  by (induction rule: payments_step.induct)
    (auto simp: foreign_subscribers_def same_payment_books_def adds_payment_def
      changes_payment_def payments_legal_def)

lemma payments_step_surplus:
  assumes "payments_step h True st st'" and "payments_legal V self h" and "payments_wf st"
    and "foreign_subscribers self st"
  shows "payments_surplus V self st tk \<le> payments_surplus V self st' tk"
  using assms
proof (induction rule: payments_step.induct)
  case (bookkeep st st')
  then show ?case
    by (simp add: same_payment_books_def payments_surplus_def payments_liability_def
        get_payment_counter_def entry_def)
next
  case (receive i p st st')
  have "moves V (ledger st) (ledger st') (p_token p) (p_customer p) self (p_amount p)"
    and "p_customer p \<noteq> self"
    using receive token_laws_transfer [OF _ receive(3)] by (auto simp: payments_legal_def)
  with receive show ?case
    by (simp add: payments_surplus_def payments_liability_add moves_balance)
next
  case (convert i p st st' tk amt)
  then show ?case by simp
next
  case (move i p p' st st' s' ps)
  then have laws: "token_laws V h" and self: "self_address h = self"
    by (simp_all add: payments_legal_def)
  show ?case
    using move pay_list_self [OF laws move(10), of tk, unfolded self]
      payments_liability_change [OF move(1,7) _ _ move(6), of tk]
    by (simp add: payments_surplus_def same_payment_terms_def split: if_splits)
next
  case (settle st' st ids m t)
  have "moves V (ledger st) (ledger st') t self m (\<Sum>i\<leftarrow>ids. p_amount (the (payments st i)))"
    using settle.prems token_laws_transfer [OF _ settle(8)] by (auto simp: payments_legal_def)
  then have "balance V (ledger st') tk self = balance V (ledger st) tk self
      - (if tk = t \<and> m \<noteq> self then \<Sum>i\<leftarrow>ids. p_amount (the (payments st i)) else 0)"
    and "0 \<le> (\<Sum>i\<leftarrow>ids. p_amount (the (payments st i)))"
    by (auto simp: moves_def)
  moreover have "payments_liability st' tk = payments_liability st tk
      - (if tk = t then \<Sum>i\<leftarrow>ids. p_amount (the (payments st i)) else 0)"
    using settle(6) settle.prems(2) by (intro payments_liability_settle [OF settle(1,2,7,5)]) simp_all
  ultimately show ?case by (simp add: payments_surplus_def)
next
  case (subscribe st' st i s)
  then show ?case by (simp add: payments_surplus_def payments_liability_cong [OF subscribe(1,3,2)])
next
  case (charge st' st i s s' l)
  have "moves V (ledger st) l (s_token s) (s_subscriber s) self (s_amount s)"
    and "moves V l (ledger st') (s_token s) self (s_merchant s) (s_amount s)"
    and "s_subscriber s \<noteq> self"
    using charge token_laws_transfer [OF _ charge(7)] token_laws_transfer [OF _ charge(8)]
    by (auto simp: payments_legal_def foreign_subscribers_def)
  then have "balance V (ledger st) tk self \<le> balance V (ledger st') tk self"
    by (auto simp: moves_def)
  then show ?case
    by (simp add: payments_surplus_def payments_liability_cong [OF charge(1,3,2)])
qed

end
