(* ===== verification/Payments_Interfaces.thy ===== *)
theory Payments_Interfaces
  imports Payments_Solvency
begin

text \<open>
  The payments contract as an instance of the interfaces of Soroban.thy: a machine whose books
  stay well formed under every call, the machine of its exact calls, which stays solvent, the
  emergency stop, and the ids of payments and subscriptions.
\<close>

section \<open>The machine\<close>

definition payments_init :: "'l view \<Rightarrow> address \<Rightarrow> 'l payments_state \<Rightarrow> bool" where
  "payments_init V self st \<longleftrightarrow>
     (\<exists>a r n l. payments_initialize a r n (deployed_payments l) = Inr st \<and>
        (\<forall>tk. 0 \<le> balance V l tk self))"

text \<open>
  What other transactions do between two calls: the token ledger changes, but nobody takes from
  the contract's balance.
\<close>

definition payments_drift :: "'l view \<Rightarrow> address \<Rightarrow> 'l payments_state \<Rightarrow> 'l payments_state \<Rightarrow> bool" where
  "payments_drift V self st st' \<longleftrightarrow> st' = st\<lparr>ledger := ledger st'\<rparr> \<and>
     (\<forall>tk. balance V (ledger st) tk self \<le> balance V (ledger st') tk self)"

definition payments_reachable :: "'l view \<Rightarrow> address \<Rightarrow> 'l payments_state \<Rightarrow> bool" where
  "payments_reachable V self =
     reachable payments_exec (payments_legal V self) (payments_drift V self) (payments_init V self)"

definition payments_inv :: "address \<Rightarrow> 'l payments_state \<Rightarrow> bool" where
  "payments_inv self st \<longleftrightarrow> payments_wf st \<and> configured st \<and> foreign_subscribers self st"

lemma initialized_payments:
  assumes "payments_initialize a r n (deployed_payments l) = Inr st"
  shows "payments_inv self st" and "ledger st = l" and "payments_liability st tk = 0"
proof -
  have n: "n \<le> MAX_FEE_BPS"
    using assms by (auto simp: payments_initialize_def ok_simps)
  have st: "payments st = Map.empty" "settled st = Map.empty" "payment_counter st = Some 0"
    "subscriptions st = Map.empty" "admin st = Some a" "fee_bps st = Some n" "fee_tiers st = Some []"
    "ledger st = l"
    using assms by (auto simp: payments_initialize_def deployed_payments_def ok_simps)
  show "ledger st = l" by (fact st)
  show "payments_inv self st"
    using st n by (simp add: payments_inv_def payments_wf_def configured_def foreign_subscribers_def
        get_payment_counter_def is_settled_def fees_ok_def get_fee_bps_def get_fee_tiers_def)
  show "payments_liability st tk = 0"
    using st by (simp add: payments_liability_def get_payment_counter_def)
qed

lemma payments_steps_subscribers:
  "(payments_step h x)\<^sup>*\<^sup>* st st' \<Longrightarrow> payments_legal V self h \<Longrightarrow> foreign_subscribers self st \<Longrightarrow>
     foreign_subscribers self st'"
  by (induction rule: rtranclp_induct) (auto dest: payments_step_subscribers)

lemma payments_exec_inv:
  assumes "payments_legal V self h" and "payments_exec h op st = Inr st'" and "payments_inv self st"
  shows "payments_inv self st'"
proof -
  have steps: "(payments_step h False)\<^sup>*\<^sup>* st st'"
    using assms by (intro payments_exec_refines) (simp_all add: payments_inv_def configured_def)
  show ?thesis
    using assms payments_exec_configured payments_steps_wf [OF steps]
      payments_steps_subscribers [OF steps]
    unfolding payments_inv_def by blast
qed

lemma payments_drift_inv:
  assumes "payments_drift V self st st'" and "payments_inv self st"
  shows "payments_inv self st'" and "payments_surplus V self st tk \<le> payments_surplus V self st' tk"
proof -
  obtain l where st': "st' = st\<lparr>ledger := l\<rparr>"
    and le: "\<forall>tk. balance V (ledger st) tk self \<le> balance V l tk self"
    using assms(1) unfolding payments_drift_def by metis
  show "payments_inv self st'"
    using assms(2) by (simp add: st' payments_inv_def payments_wf_def configured_def
        foreign_subscribers_def get_payment_counter_def is_settled_def fees_ok_def get_fee_bps_def
        get_fee_tiers_def)
  show "payments_surplus V self st tk \<le> payments_surplus V self st' tk"
    using le by (simp add: st' payments_surplus_def payments_liability_def entry_def
        get_payment_counter_def)
qed

interpretation payments_contract: contract_machine payments_exec "payments_legal V self"
  "payments_drift V self" "payments_init V self" "payments_inv self"
  for V :: "'l view" and self
proof unfold_locales
  fix s :: "'l payments_state"
  assume "payments_init V self s"
  then show "payments_inv self s"
    unfolding payments_init_def by (blast dest: initialized_payments(1))
qed (blast dest: payments_exec_inv payments_drift_inv(1))+

section \<open>The machine of the exact calls\<close>

definition payments_exact_exec ::
  "'l host \<Rightarrow> payments_op \<Rightarrow> 'l payments_state \<Rightarrow> (payments_panic, 'l payments_state) outcome" where
  "payments_exact_exec h op st =
     (if exact_call op st then payments_exec h op st else Inl HostFailure)"

lemma payments_exact_exec_Inr [ok_simps]:
  "payments_exact_exec h op st = Inr st' \<longleftrightarrow> exact_call op st \<and> payments_exec h op st = Inr st'"
  by (simp add: payments_exact_exec_def)

definition payments_solvent :: "'l view \<Rightarrow> address \<Rightarrow> 'l payments_state \<Rightarrow> bool" where
  "payments_solvent V self st \<longleftrightarrow>
     (\<forall>tk. payments_liability st tk \<le> balance V (ledger st) tk self)"

lemma payments_solvent_surplus:
  "payments_solvent V self st \<longleftrightarrow> (\<forall>tk. 0 \<le> payments_surplus V self st tk)"
  by (simp add: payments_solvent_def payments_surplus_def)

lemma payments_steps_surplus:
  "(payments_step h True)\<^sup>*\<^sup>* st st' \<Longrightarrow> payments_legal V self h \<Longrightarrow> payments_wf st \<Longrightarrow>
     foreign_subscribers self st \<Longrightarrow> payments_surplus V self st tk \<le> payments_surplus V self st' tk"
proof (induction rule: rtranclp_induct)
  case base
  then show ?case by simp
next
  case (step st1 st2)
  then show ?case
    using payments_step_surplus [OF step(2) step.prems(1) payments_steps_wf [OF step(1) step.prems(2)]
        payments_steps_subscribers [OF step(1) step.prems(1,3)], of tk]
    by simp
qed

lemma payments_exact_exec_solvent:
  assumes "payments_legal V self h" and "payments_exact_exec h op st = Inr st'"
    and "payments_inv self st" and "payments_solvent V self st"
  shows "payments_solvent V self st'"
proof -
  have "(payments_step h True)\<^sup>*\<^sup>* st st'"
    using assms
    by (intro payments_exec_refines [of h op]) (simp_all add: payments_inv_def configured_def ok_simps)
  from payments_steps_surplus [OF this assms(1)] show ?thesis
    using assms(3,4) unfolding payments_solvent_surplus payments_inv_def by (meson order_trans)
qed

interpretation payments_exact: contract_machine payments_exact_exec "payments_legal V self"
  "payments_drift V self" "payments_init V self" "\<lambda>st. payments_inv self st \<and> payments_solvent V self st"
  for V :: "'l view" and self
proof unfold_locales
  fix s s' :: "'l payments_state"
  show "payments_inv self s \<and> payments_solvent V self s" if "payments_init V self s"
    using that unfolding payments_init_def payments_solvent_def
    by (metis initialized_payments)
  show "payments_inv self s' \<and> payments_solvent V self s'"
    if "payments_drift V self s s'" and "payments_inv self s \<and> payments_solvent V self s"
    using that payments_drift_inv unfolding payments_solvent_surplus by (meson order_trans)
qed (auto simp: ok_simps intro: payments_exec_inv payments_exact_exec_solvent)

section \<open>The emergency stop\<close>

fun payments_guarded :: "payments_op \<Rightarrow> bool" where
  "payments_guarded (PayInitialize a r n) = False"
| "payments_guarded (PayCheckEscalation i) = False"
| "payments_guarded (PayUpgrade a w) = False"
| "payments_guarded (PayMigrate a) = False"
| "payments_guarded PayGetVersion = False"
| "payments_guarded (PayPause a r) = False"
| "payments_guarded (PayResume a) = False"
| "payments_guarded _ = True"

lemma payments_paused_blocks:
  "payments_is_paused st \<Longrightarrow> payments_guarded op \<Longrightarrow> \<not> succeeds (payments_exec h op st)"
  by (cases op)
    (simp_all add: succeeds_iff state_of_Inr create_payment_with_options_def
      create_payments_batch_def create_payment_multi_token_def complete_payment_def
      execute_scheduled_payment_def cancel_scheduled_payment_def settle_merchant_payments_def
      dispute_payment_def payments_resolve_dispute_def expire_payment_def partial_refund_def
      create_subscription_def charge_subscription_def cancel_subscription_def
      payments_admin_op_defs ok_simps Let_def)

interpretation payments_stop: pausable_machine payments_is_paused payments_get_pause_reason
  payments_pause_contract payments_resume_contract payments_exec payments_guarded
proof unfold_locales
  fix h :: "'l host" and a r and s s' :: "'l payments_state"
  show "payments_pause_contract h a r s = Inr s' \<Longrightarrow>
      \<not> payments_is_paused s \<and> payments_is_paused s' \<and> payments_get_pause_reason s' = r"
    by (auto simp: payments_pause_contract_def ok_simps payments_is_paused_def
        payments_get_pause_reason_def payments_emit_defs)
  show "payments_resume_contract h a s = Inr s' \<Longrightarrow>
      payments_is_paused s \<and> \<not> payments_is_paused s' \<and> payments_get_pause_reason s' = []"
    by (auto simp: payments_resume_contract_def ok_simps payments_is_paused_def
        payments_get_pause_reason_def payments_emit_defs)
  show "payments_is_paused s \<Longrightarrow> payments_guarded op \<Longrightarrow> \<not> succeeds (payments_exec h op s)" for op
    by (rule payments_paused_blocks)
qed

section \<open>Ids\<close>

definition multi_token_args ::
  "'l host \<times> address \<times> address \<times> i128 \<times> address \<times> u32 \<Rightarrow> 'l payments_state \<Rightarrow>
   (payments_panic, u32 \<times> 'l payments_state) outcome" where
  "multi_token_args = (\<lambda>(h, c, m, amt, tk, n). create_payment_multi_token h c m amt tk n)"

lemma create_payment_multi_token_adds:
  assumes "create_payment_multi_token h c m amt tk n st = Inr (i, st')"
  shows "\<exists>p. adds_payment i p st st' \<and> p_customer p = c \<and> p_amount p = amt \<and> p_status p = Pending"
  using assms
  by (auto simp: create_payment_multi_token_def Let_def ok_simps not_le payments_emit_defs
      adds_payment_def get_payment_counter_def dest!: record_plain_payment_effect
      elim!: note_updates split: if_splits)

interpretation payment_ids: id_store get_payment_counter payments multi_token_args
proof unfold_locales
  fix x and s s' :: "'l payments_state" and i
  assume "multi_token_args x s = Inr (i, s')"
  then obtain p where "adds_payment i p s s'"
    by (cases x) (auto simp: multi_token_args_def dest: create_payment_multi_token_adds)
  then show "i = get_payment_counter s \<and> get_payment_counter s' = Suc i"
    and "payments s' i \<noteq> None" and "\<And>j. j \<noteq> i \<Longrightarrow> payments s' j = payments s j"
    by (auto simp: adds_payment_def get_payment_counter_def)
qed

definition next_subscription_id :: "'l payments_state \<Rightarrow> u32" where
  "next_subscription_id st = unwrap_or 0 (subscription_counter st)"

definition subscription_args ::
  "'l host \<times> address \<times> address \<times> i128 \<times> address \<times> u64 \<times> u32 \<Rightarrow> 'l payments_state \<Rightarrow>
   (payments_panic, u32 \<times> 'l payments_state) outcome" where
  "subscription_args = (\<lambda>(h, s, m, amt, tk, n, k). create_subscription h s m amt tk n k)"

interpretation subscription_ids: id_store next_subscription_id subscriptions subscription_args
  by unfold_locales
    (auto simp: subscription_args_def create_subscription_def next_subscription_id_def Let_def
      ok_simps payments_emit_defs)

end
