(* ===== verification/Payments_Demo.thy ===== *)
theory Payments_Demo
  imports Payments_Interfaces
begin

text \<open>
  A small concrete history of the payments contract.  The witnesses of the properties apply them
  to its states; nothing else depends on it.
\<close>

definition shop_token :: address where "shop_token = Contract 9"
definition shop_admin :: address where "shop_admin = Account 1"
definition shop_customer :: address where "shop_customer = Account 2"
definition shop_merchant :: address where "shop_merchant = Account 3"
definition shop_partner :: address where "shop_partner = Account 4"
definition shop_treasury :: address where "shop_treasury = Account 5"

lemmas shop_address_defs = shop_token_def shop_admin_def shop_customer_def shop_merchant_def
  shop_partner_def shop_treasury_def

definition shop_ledger :: plain_ledger where
  "shop_ledger = \<lparr>pl_bal = (\<lambda>t a. if a = shop_customer then 5000 else 0), pl_allow = (\<lambda>_ _ _. 0)\<rparr>"

definition shop_at :: "u64 \<Rightarrow> plain_ledger host" where
  "shop_at now = demo_host now 1 [shop_admin, shop_customer, shop_merchant, shop_partner, shop_treasury]"

text \<open>Initialized with a fee of one percent.\<close>

definition shop0 :: "plain_ledger payments_state" where
  "shop0 = run_calls payments_exec [(shop_at 1, PayInitialize shop_admin shop_treasury 100)]
     (deployed_payments shop_ledger)"

definition shop_key :: bytes32 where "shop_key = [7]"

definition shop_setup :: "(plain_ledger host \<times> payments_op) list" where
  "shop_setup =
     [(shop_at 2, PayCreate shop_customer shop_merchant 1001 shop_token (Some ''order'') None
         (Some [\<lparr>sr_recipient = shop_partner, sr_bps = 3333\<rparr>,
                \<lparr>sr_recipient = shop_merchant, sr_bps = 6667\<rparr>]) None (Some shop_key)),
      (shop_at 3, PayCreate shop_customer shop_merchant 500 shop_token None None None (Some 50) None)]"

definition shop :: "plain_ledger payments_state" where
  "shop = run_calls payments_exact_exec shop_setup shop0"

lemma shop_legal: "payments_legal plain_view (Contract 0) (shop_at now)"
  by (simp add: payments_legal_def shop_at_def token_laws_demo shop_address_defs)

lemma shop0_initialized:
  "payments_initialize shop_admin shop_treasury 100 (deployed_payments shop_ledger) = Inr shop0"
  by (simp add: shop0_def call_tx_def payments_initialize_def deployed_payments_def MAX_FEE_BPS_def)

lemma shop0_init: "payments_init plain_view (Contract 0) shop0"
  unfolding payments_init_def
  by (intro exI conjI, rule shop0_initialized) (simp add: plain_view_def shop_ledger_def shop_address_defs)

lemma shop_reachable:
  "set (map fst cs) \<subseteq> range shop_at \<Longrightarrow>
     reachable payments_exact_exec (payments_legal plain_view (Contract 0))
       (payments_drift plain_view (Contract 0)) (payments_init plain_view (Contract 0))
       (run_calls payments_exact_exec cs shop0)"
  by (rule run_calls_reachable) (auto simp: shop_legal intro: reachable.start shop0_init)

lemma shop_inv:
  assumes "set (map fst cs) \<subseteq> range shop_at"
  shows "payments_inv (Contract 0) (run_calls payments_exact_exec cs shop0)"
  using payments_exact.reachable_inv [OF shop_reachable [OF assms]] by blast

lemmas payments_eval = call_tx_def state_of_def payments_exact_exec_def unrefunded_def
  create_payment_with_options_def complete_payment_def execute_scheduled_payment_def
  cancel_scheduled_payment_def settle_merchant_payments_def dispute_payment_def
  payments_resolve_dispute_def payments_check_escalation_def expire_payment_def partial_refund_def
  create_subscription_def charge_subscription_def cancel_subscription_def
  complete_payment_internal_def distribute_net_payment_def completion_guard_def
  refresh_merchant_tier_def rolling_merchant_volume_def fee_bps_for_volume_def get_fee_bps_def
  payments_admin_op_defs payments_initialize_def payments_require_not_paused_def
  payments_is_paused_def payments_require_admin_def stored_admin_auth_def next_payment_id_def
  store_payment_def add_customer_payment_def index_payment_by_reference_def
  store_idempotency_key_def validate_reference_def validate_metadata_def
  validate_split_recipients_def require_merchant_approved_def enforce_rate_limit_def
  get_rate_limit_config_internal_def inc_global_created_def inc_global_completed_def
  inc_global_refunded_def inc_global_expired_def inc_merchant_created_def
  inc_merchant_completed_def inc_merchant_refunded_def inc_volume_bucket_def
  inc_merchant_volume_bucket_def load_global_stats_def save_global_stats_def
  load_merchant_stats_def save_merchant_stats_def pay_from_contract_def mark_settled_def
  temp_get_def temp_set_def temp_extend_ttl_def Let_def arith_defs demo_defs shop_address_defs
  payments_consts publish_def payments_emit_defs shop_at_def signed_divide_int_def

lemmas shop_eval = payments_eval shop_setup_def shop0_def deployed_payments_def shop_ledger_def
  shop_key_def

definition shop_payment :: payment where
  "shop_payment = \<lparr>p_id = 0, p_customer = shop_customer, p_merchant = shop_merchant,
     p_amount = 1001, p_token = shop_token, p_status = Pending, p_created_at = 2,
     p_expires_at = 604802, p_refunded_amount = 0, p_reference = Some ''order'',
     p_metadata = None, p_split_recipients = Some [\<lparr>sr_recipient = shop_partner, sr_bps = 3333\<rparr>,
       \<lparr>sr_recipient = shop_merchant, sr_bps = 6667\<rparr>], p_execute_after = 0\<rparr>"

definition shop_scheduled :: payment where
  "shop_scheduled = \<lparr>p_id = 1, p_customer = shop_customer, p_merchant = shop_merchant,
     p_amount = 500, p_token = shop_token, p_status = ScheduledPending, p_created_at = 3,
     p_expires_at = 604803, p_refunded_amount = 0, p_reference = None, p_metadata = None,
     p_split_recipients = None, p_execute_after = 50\<rparr>"

lemma shop_fields:
  "payments shop 0 = Some shop_payment" "payments shop 1 = Some shop_scheduled"
  "payments shop (Suc 0) = Some shop_scheduled"
  "payment_counter shop = Some 2" "settled shop = Map.empty" "paused shop = Some False"
  "admin shop = Some shop_admin" "pay_fee_recipient shop = Some shop_treasury"
  by (simp_all add: shop_def shop_eval shop_payment_def shop_scheduled_def)

end
