(* ===== verification/Payments_Money.thy ===== *)
theory Payments_Money
  imports Payments_Demo
begin

text \<open>
  Money properties of the payments contract: solvency under exact calls, the refinement of the
  specification and the exact split of a completion.
\<close>

section \<open>Solvency\<close>

lemma payments_liability_nonneg:
  assumes "payments_wf st"
  shows "0 \<le> payments_liability st tk"
  unfolding payments_liability_def
proof (rule sum_nonneg)
  fix k
  show "0 \<le> payments_owed tk (entry st k)"
    using payments_wfD(4) [OF assms, of k]
    by (cases "payments st k") (simp_all add: entry_def is_settled_def)
qed

definition exactly_reachable :: "'l view \<Rightarrow> address \<Rightarrow> 'l payments_state \<Rightarrow> bool" where
  "exactly_reachable V self =
     reachable payments_exact_exec (payments_legal V self) (payments_drift V self)
       (payments_init V self)"

lemma shop_exactly_reachable: "exactly_reachable plain_view (Contract 0) shop"
  unfolding exactly_reachable_def shop_def by (rule shop_reachable) (simp add: shop_setup_def)

lemma shop_inv_here: "payments_inv (Contract 0) shop"
  unfolding shop_def by (rule shop_inv) (simp add: shop_setup_def)

text \<open>
  C17. After any history of exact calls (with any callers and arguments) and foreign
  transactions, what the contract holds for pending and unsettled payments is, for every token,
  not negative and covered by its balance.  A call is exact unless it ends a payment that was
  partly refunded, names a payment twice in one settlement, or books a converted payment.
\<close>

theorem exact_payments_solvent:
  assumes "exactly_reachable V self st"
  shows "0 \<le> payments_liability st tk \<and> payments_liability st tk \<le> balance V (ledger st) tk self"
proof -
  have "payments_inv self st \<and> payments_solvent V self st"
    using assms unfolding exactly_reachable_def by (rule payments_exact.reachable_inv)
  then show ?thesis
    by (simp add: payments_inv_def payments_solvent_def payments_liability_nonneg)
qed

lemma exact_payments_solvent_witness:
  "payments_liability shop shop_token = 1501 \<and>
   payments_liability shop shop_token \<le> balance plain_view (ledger shop) shop_token (Contract 0)"
  using exact_payments_solvent [OF shop_exactly_reachable, of shop_token]
  by (simp add: payments_liability_def get_payment_counter_def shop_fields entry_def
      shop_payment_def shop_scheduled_def held_def pending_status_def numeral_2_eq_2)

section \<open>Refinement\<close>

text \<open>
  C18. Refinement: in a reachable state every entry point that succeeds is a finite sequence of
  steps of the specification \<open>payments_step\<close> (receiving from an authorised customer, moving a
  payment along its lifecycle with the right authority and paying only entitled recipients,
  settling, subscribing, charging), exact steps if the call is exact; and it keeps the books
  well formed, the contract configured and its fees below the maximum.
\<close>

theorem payments_refine_spec:
  assumes "payments_exec h op st = Inr st'" and "payments_wf st" and "configured st"
  shows "(payments_step h (exact_call op st))\<^sup>*\<^sup>* st st' \<and> payments_wf st' \<and> configured st'"
proof -
  have "(payments_step h (exact_call op st))\<^sup>*\<^sup>* st st'"
    using assms by (intro payments_exec_refines [of h op st st']) (simp_all add: configured_def)
  then show ?thesis
    using payments_steps_wf assms payments_exec_configured by blast
qed

lemma payments_refine_spec_witness:
  "(payments_step (shop_at 60) True)\<^sup>*\<^sup>* shop
      (call_tx payments_exec (shop_at 60, PayExecuteScheduled 1) shop) \<and>
   payments_exec (shop_at 60) (PayExecuteScheduled 1) shop \<noteq> Inr shop"
proof -
  obtain st' where ok: "payments_exec (shop_at 60) (PayExecuteScheduled 1) shop = Inr st'"
    and "map_option p_status (payments st' 1) = Some Completed"
    by (simp add: shop_def shop_eval)
  moreover have "map_option p_status (payments shop 1) = Some ScheduledPending"
    by (simp add: shop_fields shop_scheduled_def)
  moreover have "payments_wf shop" "configured shop" "exact_call (PayExecuteScheduled 1) shop"
    using shop_inv_here
    by (simp_all add: payments_inv_def unrefunded_def shop_fields shop_scheduled_def)
  ultimately show ?thesis
    using payments_refine_spec [OF ok] by (auto simp: call_tx_def)
qed

section \<open>Completion\<close>

text \<open>
  C19. A completion charges the fee of the merchant's tier, at most five percent of the amount,
  to the fee recipient, gives each split recipient its basis-point share of the rest rounded
  down and the remaining dust to the merchant, so that exactly the amount of the payment leaves
  the contract; the payment becomes completed and settled with its net amount.
\<close>

theorem completion_pays_exactly:
  assumes c: "complete_payment h i st = Inr st'" and "payments_wf st" and "configured st"
    and laws: "token_laws V h"
  shows "\<exists>p v r. payments st i = Some p \<and> p_status p = Pending \<and> pay_fee_recipient st = Some r \<and>
    rolling_merchant_volume h (p_merchant p) st = Inr v \<and>
    (let fee = bps_share (p_amount p) (fee_bps_for_volume (v + p_amount p) st);
         ps = completion_payments r p fee in
     0 \<le> fee \<and> fee * 10000 \<le> p_amount p * 500 \<and> sum_list (map snd ps) = p_amount p \<and>
     (\<forall>a. a \<noteq> self_address h \<longrightarrow>
        balance V (ledger st') (p_token p) a = balance V (ledger st) (p_token p) a + received a ps) \<and>
     payments st' i = Some (p\<lparr>p_status := Completed, p_amount := p_amount p - fee\<rparr>) \<and>
     is_settled i st')"
proof -
  have "complete_payment_internal h i False st = Inr st'"
    using c by (auto simp: complete_payment_def ok_simps)
  then obtain p v r where p: "payments st i = Some p" and g: "completion_guard h p False = Inr ()"
    and v: "rolling_merchant_volume h (p_merchant p) st = Inr v" and r: "pay_fee_recipient st = Some r"
    and e: "let fee = bps_share (p_amount p) (fee_bps_for_volume (v + p_amount p) st);
         net = p_amount p - fee in
     payments st' = (payments st)(i \<mapsto> p\<lparr>p_status := Completed, p_amount := net\<rparr>) \<and>
     settled st' = (settled st)(i \<mapsto> True) \<and> payment_counter st' = payment_counter st \<and>
     subscriptions st' = subscriptions st \<and>
     payment_receipt st' i = Some (compute_receipt_hash h i (p_customer p) (p_merchant p) net
       (p_token p) (timestamp h)) \<and>
     pay_list h (p_token p) (completion_payments r p fee) (ledger st) = Some (ledger st')"
    using complete_payment_internal_effect [of h i False st st'] assms by (auto simp: configured_def)
  define fee where "fee = bps_share (p_amount p) (fee_bps_for_volume (v + p_amount p) st)"
  have n: "fee_bps_for_volume (v + p_amount p) st \<le> 500"
    using assms(3) by (simp add: configured_def fee_bps_for_volume_le)
  have ok: "payment_ok i p" by (rule payments_wfD(2) [OF assms(2) p])
  then have bounds: "0 \<le> fee \<and> fee * 10000 \<le> p_amount p * 500 \<and> fee \<le> p_amount p"
    using n bps_share_bound [of "p_amount p" "fee_bps_for_volume (v + p_amount p) st" 500]
      bps_share_le [of "p_amount p" "fee_bps_for_volume (v + p_amount p) st"]
    by (simp add: fee_def payment_ok_def bps_share_nonneg)
  have pl: "pay_list h (p_token p) (completion_payments r p fee) (ledger st) = Some (ledger st')"
    using e by (simp add: fee_def Let_def)
  have "sum_list (map snd (completion_payments r p fee)) = p_amount p"
    using ok bounds by (simp add: completion_payments_def sum_net_payments payment_ok_def)
  with p g v r e bounds pay_list_effect [OF laws pl] show ?thesis
    by (intro exI [of _ p] exI [of _ v] exI [of _ r])
      (simp add: Let_def fee_def [symmetric] ok_simps is_settled_def)
qed

lemma completion_pays_exactly_witness:
  "\<exists>st'. complete_payment (shop_at 10) 0 shop = Inr st' \<and>
     map_option p_amount (payments st' 0) = Some 991 \<and>
     balance plain_view (ledger st') shop_token shop_treasury = 10 \<and>
     balance plain_view (ledger st') shop_token shop_partner = 330 \<and>
     balance plain_view (ledger st') shop_token shop_merchant = 661"
proof -
  obtain st' where ok: "complete_payment (shop_at 10) 0 shop = Inr st'"
    by (simp add: shop_def shop_eval)
  obtain v where v: "rolling_merchant_volume (shop_at 10) shop_merchant shop = Inr v"
    and n: "fee_bps_for_volume (v + 1001) shop = 100"
    by (simp add: shop_def shop_eval)
  have bal: "balance plain_view (ledger shop) shop_token a = 0" if "a \<in> {shop_treasury, shop_partner, shop_merchant}" for a
    using that by (auto simp: shop_def shop_eval plain_view_def)
  have "\<exists>p v r. payments shop 0 = Some p \<and> p_status p = Pending \<and> pay_fee_recipient shop = Some r \<and>
    rolling_merchant_volume (shop_at 10) (p_merchant p) shop = Inr v \<and>
    (let fee = bps_share (p_amount p) (fee_bps_for_volume (v + p_amount p) shop);
         ps = completion_payments r p fee in
     0 \<le> fee \<and> fee * 10000 \<le> p_amount p * 500 \<and> sum_list (map snd ps) = p_amount p \<and>
     (\<forall>a. a \<noteq> self_address (shop_at 10) \<longrightarrow>
        balance plain_view (ledger st') (p_token p) a
          = balance plain_view (ledger shop) (p_token p) a + received a ps) \<and>
     payments st' 0 = Some (p\<lparr>p_status := Completed, p_amount := p_amount p - fee\<rparr>) \<and>
     is_settled 0 st')"
    using shop_inv_here
    by (intro completion_pays_exactly [OF ok])
      (simp_all add: payments_inv_def shop_at_def token_laws_demo)
  then show ?thesis
    using v n ok bal
    by (auto simp: shop_fields shop_payment_def Let_def completion_payments_def net_payments_def
        share_list_def split_pairs_def bps_share_eq_div shop_address_defs shop_at_def)
qed

end
