(* ===== verification/Payments_Safety.thy ===== *)
theory Payments_Safety
  imports Payments_Demo
begin

text \<open>
  Safety of the payments contract over calls and histories: what may happen to a stored payment
  and on whose authority, finality, settlement at most once, the settings and the admin role.
\<close>

section \<open>What a call does to one payment\<close>

definition payment_evolves :: "'l host \<Rightarrow> 'l payments_state \<Rightarrow> payment \<Rightarrow> payment \<Rightarrow> bool" where
  "payment_evolves h st p p' \<longleftrightarrow> same_payment_terms p p' \<and> p_amount p' \<le> p_amount p \<and>
     (p' = p \<or> pending_status (p_status p) \<and>
       (p_status p' = p_status p \<and> admin_signs h st \<or>
        payment_status_step (p_status p) (p_status p') \<and> payment_authority h st p (p_status p')))"

lemma payment_evolves_refl [simp]: "payment_evolves h st p p"
  by (simp add: payment_evolves_def same_payment_terms_def)

lemma payments_step_evolves:
  assumes "payments_step h x st st'" and "payments_wf st" and "payments st i = Some p"
  shows "\<exists>p'. payments st' i = Some p' \<and> payment_evolves h st p p' \<and>
    (is_settled i st \<longrightarrow> is_settled i st')"
  using assms
proof (induction rule: payments_step.induct)
  case (bookkeep st st')
  then show ?case by (simp add: same_payment_books_def is_settled_def)
next
  case (receive j q st st')
  then show ?case
    using payments_wf_fresh [of st] by (auto simp: adds_payment_def is_settled_def)
next
  case (convert j q st st' tk amt)
  then show ?case
    using payments_wf_fresh [of st] by (auto simp: adds_payment_def is_settled_def)
next
  case (move j q q' st st' s' ps)
  show ?case
  proof (cases "i = j")
    case True
    then have "p = q" using move by (simp add: changes_payment_def)
    moreover have "\<not> is_settled j st"
      using payments_wfD(3) [OF move.prems(1), of j q] move(1,6)
      by (auto simp: changes_payment_def pending_status_def)
    ultimately show ?thesis
      using True move by (auto simp: changes_payment_def payment_evolves_def)
  next
    case False
    then show ?thesis using move by (simp add: changes_payment_def is_settled_def)
  qed
next
  case (settle st' st ids m tk)
  then show ?case by (simp add: is_settled_def)
next
  case (subscribe st' st j s)
  then show ?case by (simp add: is_settled_def)
next
  case (charge st' st j s s' l)
  then show ?case by (simp add: is_settled_def)
qed

definition keeps_payments :: "'l payments_state \<Rightarrow> 'l payments_state \<Rightarrow> bool" where
  "keeps_payments st st' \<longleftrightarrow> (\<forall>i p. payments st i = Some p \<longrightarrow> payments st' i = Some p)"

lemma adds_payment_keeps: "adds_payment i p st st' \<Longrightarrow> payments_wf st \<Longrightarrow> keeps_payments st st'"
  using payments_wf_fresh [of st] by (auto simp: adds_payment_def keeps_payments_def)

lemma create_payments_loop_keeps:
  "create_payments_loop h c tmo rs ids tot st = Inr (ids', tot', st') \<Longrightarrow> payments_wf st \<Longrightarrow>
     keeps_payments st st'"
proof (induction rs arbitrary: ids tot st)
  case Nil
  then show ?case by (simp add: keeps_payments_def)
next
  case (Cons r rs)
  obtain i st1 tot1 where rest: "create_payments_loop h c tmo rs (ids @ [i]) tot1 st1 = Inr (ids', tot', st')"
    and add: "adds_payment i (the (payments st1 i)) st st1"
    using create_payments_loop_adds [OF Cons.prems(1)] by blast
  have "keeps_payments st st1" and "payments_wf st1"
    using adds_payment_keeps [OF add] adds_payment_wf [OF add] Cons.prems(2) by blast+
  with Cons.IH [OF rest] show ?case by (simp add: keeps_payments_def)
qed

lemma creations_keep:
  "create_payment_with_options h c m amt tk r md sr ea ik st = Inr (i, st') \<Longrightarrow> payments_wf st \<Longrightarrow>
     keeps_payments st st'"
  "create_payment_multi_token h c m amt tk n st = Inr (i, st') \<Longrightarrow> payments_wf st \<Longrightarrow>
     keeps_payments st st'"
  by (drule create_payment_effect create_payment_multi_token_adds;
      auto intro: adds_payment_keeps simp: keeps_payments_def [of st st])+

lemma create_payments_batch_keeps:
  assumes "create_payments_batch h c rs st = Inr (ids, st')" and "payments_wf st"
  shows "keeps_payments st st'"
proof -
  obtain st1 st2 tmo tot where e: "enforce_rate_limit h c (length rs) st = Inr st1"
    and l: "create_payments_loop h c tmo rs [] 0 st1 = Inr (ids, tot, st2)"
    and "payments st' = payments st2"
    using assms(1) by (auto simp: create_payments_batch_def Let_def ok_simps payments_emit_defs)
  moreover from e assms(2) have "payments_wf st1 \<and> payments st1 = payments st"
    by (auto simp: payments_wf_def get_payment_counter_def is_settled_def elim!: note_updates)
  ultimately show ?thesis
    using create_payments_loop_keeps [OF l] by (simp add: keeps_payments_def)
qed

lemma execute_scheduled_payment_internal:
  "execute_scheduled_payment h i st = Inr st' \<Longrightarrow>
     \<exists>st1. complete_payment_internal h i True st = Inr st1 \<and> payments st' = payments st1"
  by (auto simp: execute_scheduled_payment_def ok_simps payments_emit_defs)

lemma payments_exec_evolves:
  assumes "payments_exec h op st = Inr st'" and "payments_wf st" and "configured st"
    and "payments st i = Some p"
  shows "\<exists>p'. payments st' i = Some p' \<and> payment_evolves h st p p'"
proof -
  have ev: "\<exists>p'. payments st' i = Some p' \<and> payment_evolves h st p p'"
    if "payments_step h False st st1" and "payments st' = payments st1" for st1
    using payments_step_evolves [OF that(1) assms(2,4)] that(2) by auto
  have kp: ?thesis if "keeps_payments st st'"
    using that assms(4) by (auto simp: keeps_payments_def)
  show ?thesis
  proof (cases op)
    case (PayInitialize a r n)
    then show ?thesis using assms by (simp add: payments_initialize_def configured_def)
  next
    case (PayExecuteScheduled j)
    then obtain st1 where "complete_payment_internal h j True st = Inr st1" "payments st' = payments st1"
      using assms(1) by (auto dest!: execute_scheduled_payment_internal)
    then show ?thesis
      using assms(2,3) by (intro ev [of st1] complete_payment_internal_step [of h j True])
        (simp_all add: configured_def)
  next
    case PayGetVersion
    then show ?thesis
      using assms(1,4) by (auto simp: payments_get_version_def payments_get_or_init_version_def
          split: option.splits)
  qed (use assms kp ev [OF _ refl] in \<open>auto simp: state_of_Inr configured_def
    intro: creations_keep create_payments_batch_keeps complete_payment_step
      cancel_scheduled_payment_step settle_merchant_payments_step dispute_payment_step
      payments_resolve_dispute_step expire_payment_step partial_refund_step
      create_subscription_step charge_subscription_step cancel_subscription_step
      administrative_books payments_step.bookkeep\<close>)
qed

text \<open>
  C20. A call that succeeds changes a stored payment only along its lifecycle, while it is pending
  and with the authority of the right party: the customer disputes or cancels before the schedule,
  anybody executes once the schedule or expires once the expiry has come, everything else is the
  admin's.  Parties, token, times and splits never change and the amount never grows.
\<close>

theorem payment_needs_authority:
  assumes "payments_exec h op st = Inr st'" and "payments_wf st" and "configured st"
    and "payments st i = Some p"
  shows "\<exists>p'. payments st' i = Some p' \<and> same_payment_terms p p' \<and> p_amount p' \<le> p_amount p \<and>
    (p' = p \<or> pending_status (p_status p) \<and>
       (p_status p' = p_status p \<and> admin_signs h st \<or>
        payment_status_step (p_status p) (p_status p') \<and> payment_authority h st p (p_status p')))"
  using payments_exec_evolves [OF assms] unfolding payment_evolves_def .

lemma payment_needs_authority_witness:
  "\<exists>st' p'. payments_exec (shop_at 10) (PayCancelScheduled shop_customer 1) shop = Inr st' \<and>
     payments st' 1 = Some p' \<and> p_status p' = PaymentRefunded \<and>
     payment_authority (shop_at 10) shop shop_scheduled (p_status p')"
proof -
  obtain st' where ok: "payments_exec (shop_at 10) (PayCancelScheduled shop_customer 1) shop = Inr st'"
    and s: "map_option p_status (payments st' 1) = Some PaymentRefunded"
    by (simp add: shop_def shop_eval)
  have wf: "payments_wf shop" "configured shop"
    using shop_inv [of shop_setup] by (simp_all add: payments_inv_def shop_def shop_setup_def)
  obtain p' where "payments st' 1 = Some p'" and "p' = shop_scheduled \<or> pending_status (p_status shop_scheduled) \<and>
       (p_status p' = p_status shop_scheduled \<and> admin_signs (shop_at 10) shop \<or>
        payment_status_step (p_status shop_scheduled) (p_status p') \<and>
        payment_authority (shop_at 10) shop shop_scheduled (p_status p'))"
    using payment_needs_authority [OF ok wf shop_fields(2)] by blast
  with ok s show ?thesis by (auto simp: shop_scheduled_def)
qed

section \<open>Finality\<close>

lemma payments_steps_final:
  "(payments_step h x)\<^sup>*\<^sup>* st st' \<Longrightarrow> payments_wf st \<Longrightarrow> payments st i = Some p \<Longrightarrow>
     \<not> pending_status (p_status p) \<Longrightarrow>
     payments st' i = Some p \<and> (is_settled i st \<longrightarrow> is_settled i st')"
proof (induction rule: rtranclp_induct)
  case base
  then show ?case by simp
next
  case (step st1 st2)
  then show ?case
    using payments_step_evolves [OF step(2) payments_steps_wf [OF step(1) step.prems(1)], of i p]
    by (auto simp: payment_evolves_def)
qed

lemma call_tx_payment_final:
  assumes "payments_inv self st" and "payments st i = Some p" and "\<not> pending_status (p_status p)"
  shows "payments (call_tx payments_exec c st) i = Some p \<and>
    (is_settled i st \<longrightarrow> is_settled i (call_tx payments_exec c st))"
proof (cases "payments_exec (fst c) (snd c) st")
  case (Inl e)
  then show ?thesis using assms(2) by (simp add: call_tx_def)
next
  case (Inr st')
  have "(payments_step (fst c) False)\<^sup>*\<^sup>* st st'"
    using Inr assms(1) by (intro payments_exec_refines) (simp_all add: payments_inv_def configured_def)
  from payments_steps_final [OF this _ assms(2,3)] show ?thesis
    using Inr assms(1) by (simp add: call_tx_def payments_inv_def)
qed

lemma settled_not_settleable:
  assumes "is_settled i st" and "i \<in> set ids"
  shows "\<not> succeeds (settle_merchant_payments h a m ids st)"
proof
  assume "succeeds (settle_merchant_payments h a m ids st)"
  then obtain st' where "settle_merchant_payments h a m ids st = Inr st'"
    by (auto simp: succeeds_iff)
  from settle_merchant_payments_effect [OF this] assms show False by blast
qed

lemma call_tx_inv:
  "payments_inv self st \<Longrightarrow> payments_legal V self (fst c) \<Longrightarrow>
     payments_inv self (call_tx payments_exec c st)"
  using payments_contract.run_calls_inv [of self st "[c]" V] by simp

text \<open>
  How often the settlements of a history pay for payment \<open>i\<close>: each successful one as often as its
  batch lists it.
\<close>

fun settlement_listings :: "'l host \<times> payments_op \<Rightarrow> u32 \<Rightarrow> nat" where
  "settlement_listings (h, PaySettle a m ids) i = count_list ids i"
| "settlement_listings _ i = 0"

fun times_settled :: "u32 \<Rightarrow> ('l host \<times> payments_op) list \<Rightarrow> 'l payments_state \<Rightarrow> nat" where
  "times_settled i [] st = 0"
| "times_settled i (c # cs) st =
     (if succeeds (payments_exec (fst c) (snd c) st) then settlement_listings c i else 0)
     + times_settled i cs (call_tx payments_exec c st)"

lemma settlement_needs_completed:
  assumes "succeeds (payments_exec (fst c) (snd c) st)" and "0 < settlement_listings c i"
  shows "\<not> is_settled i st \<and> is_settled i (call_tx payments_exec c st) \<and>
    (\<exists>p. payments st i = Some p \<and> p_status p = Completed)"
proof -
  obtain h a m ids where c: "c = (h, PaySettle a m ids)"
    using assms(2) by (cases c; cases "snd c") auto
  then obtain st' where ok: "settle_merchant_payments h a m ids st = Inr st'"
    using assms(1) by (auto simp: succeeds_iff)
  moreover have "i \<in> set ids"
    using assms(2) by (cases "i \<in> set ids") (simp_all add: c)
  ultimately show ?thesis
    using settle_merchant_payments_effect [OF ok]
    by (auto simp: c call_tx_def is_settled_def)
qed

lemma times_settled_bound:
  assumes "payments_inv self st" and "\<forall>c \<in> set cs. payments_legal V self (fst c)"
    and "\<forall>c \<in> set cs. settlement_listings c i \<le> 1"
    and "payments st i = Some p" and "\<not> pending_status (p_status p)"
  shows "times_settled i cs st \<le> (if is_settled i st \<or> p_status p \<noteq> Completed then 0 else 1)"
  using assms
proof (induction cs arbitrary: st)
  case Nil
  then show ?case by simp
next
  case (Cons c cs)
  let ?st = "call_tx payments_exec c st"
  have keeps: "payments ?st i = Some p" "is_settled i st \<longrightarrow> is_settled i ?st"
    using call_tx_payment_final [OF Cons.prems(1,4,5), of c] by simp_all
  have IH: "times_settled i cs ?st \<le> (if is_settled i ?st \<or> p_status p \<noteq> Completed then 0 else 1)"
    using Cons.IH [OF call_tx_inv [OF Cons.prems(1), of V c] _ _ keeps(1) Cons.prems(5)]
      Cons.prems(2,3) by simp
  show ?case
  proof (cases "succeeds (payments_exec (fst c) (snd c) st) \<and> 0 < settlement_listings c i")
    case True
    then show ?thesis
      using settlement_needs_completed [of c st i] IH Cons.prems(3,4) by auto
  next
    case False
    then show ?thesis using IH keeps(2) by (auto split: if_splits)
  qed
qed

text \<open>
  C21. Finality: once a payment is completed, refunded or expired, no history of calls changes its
  record again.  Once it is marked settled, which a direct completion does at once, no settlement
  after any such history succeeds if it names it.  Of a payment that a dispute completed, the
  successful settlements of a whole history pay at most one listing in total, and none of a
  payment that is settled already, refunded or expired - as long as no single batch lists it twice.
  A batch that does is outside this theorem: the contract pays it twice
  (\<open>settlement_with_duplicates_insolvent\<close>).
\<close>

theorem final_payment_stays_final:
  assumes "payments_inv self st" and "\<forall>c \<in> set cs. payments_legal V self (fst c)"
    and "payments st i = Some p" and "final_status (p_status p)"
  shows "payments (run_calls payments_exec cs st) i = Some p \<and>
    (is_settled i st \<longrightarrow> (\<forall>h a m ids. i \<in> set ids \<longrightarrow>
       \<not> succeeds (settle_merchant_payments h a m ids (run_calls payments_exec cs st)))) \<and>
    ((\<forall>c \<in> set cs. settlement_listings c i \<le> 1) \<longrightarrow>
       times_settled i cs st \<le> (if is_settled i st \<or> p_status p \<noteq> Completed then 0 else 1))"
proof -
  have np: "\<not> pending_status (p_status p)"
    using assms(4) by (cases "p_status p") (simp_all add: pstatus_defs)
  with assms(1,2,3) have "payments (run_calls payments_exec cs st) i = Some p \<and>
      (is_settled i st \<longrightarrow> is_settled i (run_calls payments_exec cs st))"
  proof (induction cs arbitrary: st)
    case Nil
    then show ?case by simp
  next
    case (Cons c cs)
    have "payments_inv self (call_tx payments_exec c st)"
      using call_tx_inv Cons.prems by fastforce
    then show ?case
      using Cons.IH [of "call_tx payments_exec c st"] call_tx_payment_final [OF Cons.prems(1,3,4), of c]
        Cons.prems by auto
  qed
  then show ?thesis
    using settled_not_settleable times_settled_bound [OF assms(1,2) _ assms(3) np] by blast
qed

text \<open>The scheduled payment is executed, which settles it; the other one a dispute completes.\<close>

definition shop_completed :: "plain_ledger payments_state" where
  "shop_completed = run_calls payments_exact_exec
     (shop_setup @ [(shop_at 60, PayExecuteScheduled 1), (shop_at 61, PayDispute shop_customer 0 ''late''),
        (shop_at 62, PayResolveDispute 0 True)]) shop0"

definition shop_settlements :: "(plain_ledger host \<times> payments_op) list" where
  "shop_settlements = [(shop_at 70, PayDispute shop_customer 1 ''late''),
     (shop_at 71, PaySettle shop_admin shop_merchant [0]),
     (shop_at 72, PaySettle shop_admin shop_merchant [0])]"

lemma final_payment_stays_final_witness:
  "\<not> succeeds (settle_merchant_payments (shop_at 80) shop_admin shop_merchant [1]
      (run_calls payments_exec shop_settlements shop_completed)) \<and>
   times_settled 0 shop_settlements shop_completed = 1"
proof -
  have inv: "payments_inv (Contract 0) shop_completed"
    unfolding shop_completed_def by (rule shop_inv) (auto simp: shop_setup_def)
  have legal: "\<forall>c \<in> set shop_settlements. payments_legal plain_view (Contract 0) (fst c)"
    and once: "\<forall>c \<in> set shop_settlements. settlement_listings c 0 \<le> 1"
    by (simp_all add: shop_settlements_def shop_legal)
  have "\<exists>p q. payments shop_completed 0 = Some p \<and> p_status p = Completed \<and>
      \<not> is_settled 0 shop_completed \<and>
      payments shop_completed 1 = Some q \<and> p_status q = Completed \<and> is_settled 1 shop_completed"
    by (simp add: shop_completed_def shop_eval is_settled_def)
  then obtain p q where p: "payments shop_completed 0 = Some p" "final_status (p_status p)"
      "\<not> is_settled 0 shop_completed"
    and q: "payments shop_completed 1 = Some q" "final_status (p_status q)"
      "is_settled 1 shop_completed"
    by (auto simp: final_status_def)
  have "1 \<le> times_settled 0 shop_settlements shop_completed"
    by (simp add: shop_settlements_def shop_completed_def shop_eval succeeds_def)
  moreover have "times_settled 0 shop_settlements shop_completed \<le> 1"
    using final_payment_stays_final [OF inv legal p(1,2)] once by (simp split: if_splits)
  ultimately show ?thesis
    using final_payment_stays_final [OF inv legal q(1,2)] q(3) by simp
qed

section \<open>Administration\<close>

text \<open>
  C22. The settings (admin, proposed admin, emergency stop, fee, tiers, limits, timeouts,
  allowlist, oracle) change only when the stored admin signs; the admin role itself changes hands
  only in two steps: the admin proposes an account and that account, signing itself, accepts,
  which changes no other setting.
\<close>

theorem admin_role_in_two_steps:
  assumes "payments_exec h op st = Inr st'" and "configured st"
  shows "(payments_settings st' \<noteq> payments_settings st \<longrightarrow> admin_signs h st \<or> op = PayAcceptAdmin) \<and>
    (admin st' \<noteq> admin st \<longrightarrow> op = PayAcceptAdmin \<and>
      (\<exists>a. proposed_admin st = Some a \<and> authorized h a \<and> admin st' = Some a \<and>
         proposed_admin st' = None)) \<and>
    (proposed_admin st' \<noteq> proposed_admin st \<longrightarrow> admin_signs h st \<or> proposed_admin st' = None) \<and>
    (op = PayAcceptAdmin \<longrightarrow> payments_settings st' =
       payments_settings (st\<lparr>admin := admin st', proposed_admin := None\<rparr>))"
proof (cases "payments_administrative op")
  case True
  then show ?thesis
    using assms
    by (cases op) (auto simp: payments_admin_op_defs payments_initialize_def Let_def ok_simps
        payments_emit_defs configured_def admin_signs_def payments_settings_def)
next
  case False
  have "payments_settings st' = payments_settings st"
    by (rule payments_settings_frame.payment_ops_keep [OF assms(1) False])
  moreover have "op \<noteq> PayAcceptAdmin" using False by auto
  ultimately show ?thesis by (simp add: payments_settings_def)
qed

lemma admin_role_in_two_steps_witness:
  "\<exists>st'. payments_exec (shop_at 9) PayAcceptAdmin
      (run_calls payments_exec [(shop_at 8, PayProposeAdmin shop_partner)] shop) = Inr st' \<and>
     admin st' = Some shop_partner \<and> proposed_admin st' = None"
proof -
  let ?s = "run_calls payments_exec [(shop_at 8, PayProposeAdmin shop_partner)] shop"
  obtain st' where ok: "payments_exec (shop_at 9) PayAcceptAdmin ?s = Inr st'"
    and ne: "admin st' \<noteq> admin ?s" and pa: "proposed_admin ?s = Some shop_partner"
    by (simp add: shop_def shop_eval)
  have "payments_inv (Contract 0) ?s"
    using shop_inv [of shop_setup] payments_contract.run_calls_inv [of "Contract 0" shop
        "[(shop_at 8, PayProposeAdmin shop_partner)]" plain_view]
    by (simp add: shop_def shop_setup_def shop_legal)
  then have "configured ?s" by (simp add: payments_inv_def)
  from admin_role_in_two_steps [OF ok this] ne pa ok show ?thesis by auto
qed

end
