(* ===== verification/Payments_Records.thy ===== *)
theory Payments_Records
  imports Payments_Demo
begin

text \<open>
  The records the payments contract keeps beside the payments: idempotency keys, over any history
  of calls, and receipts.
\<close>

section \<open>Retries\<close>

lemma other_keys [simp]:
  "idempotency_keys (store_payment i p st) = idempotency_keys st"
  "idempotency_keys (add_customer_payment c i st) = idempotency_keys st"
  "idempotency_keys (index_payment_by_reference m r i st) = idempotency_keys st"
  "idempotency_keys (store_idempotency_key h k i st) = temp_extend_ttl h k
     IDEMPOTENCY_KEY_LIFETIME_THRESHOLD IDEMPOTENCY_KEY_BUMP_AMOUNT
     (temp_set h k i (idempotency_keys st))"
  by (simp_all add: store_payment_def add_customer_payment_def index_payment_by_reference_def
      store_idempotency_key_def Let_def)

text \<open>A creation writes the key it names, and only if the key is not live.\<close>

lemma create_payment_keys:
  assumes "create_payment_with_options h c m amt tk r md sr ea ik st = Inr (i, st')"
  shows "idempotency_keys st' = (case ik of
      None \<Rightarrow> idempotency_keys st
    | Some k \<Rightarrow> (case temp_get h k (idempotency_keys st) of
        Some _ \<Rightarrow> idempotency_keys st
      | None \<Rightarrow> temp_extend_ttl h k IDEMPOTENCY_KEY_LIFETIME_THRESHOLD IDEMPOTENCY_KEY_BUMP_AMOUNT
          (temp_set h k i (idempotency_keys st))))"
proof (cases "case ik of None \<Rightarrow> None | Some k \<Rightarrow> temp_get h k (idempotency_keys st)")
  case (Some j)
  then show ?thesis
    using assms by (auto simp: create_payment_with_options_def ok_simps split: option.splits)
next
  case None
  then show ?thesis
    using assms
    by (clarsimp simp: create_payment_with_options_def Let_def ok_simps elim!: note_updates)
      (simp add: payments_emit_defs split: option.splits)
qed

text \<open>
  The last ledger in which a key lives that was created under the host \<open>h\<close>: a new entry gets the
  network's minimum time to live, and \<open>extend_ttl\<close> extends it to 17280 further ledgers only if less
  than 10000 are left.
\<close>

definition key_expiry :: "'l host \<Rightarrow> u32" where
  "key_expiry h = sequence h +
     (if min_temp_ttl h - 1 < IDEMPOTENCY_KEY_LIFETIME_THRESHOLD then IDEMPOTENCY_KEY_BUMP_AMOUNT
      else min_temp_ttl h - 1)"

lemma fresh_entry:
  assumes "temp_get h k m = None"
  shows "temp_extend_ttl h k IDEMPOTENCY_KEY_LIFETIME_THRESHOLD IDEMPOTENCY_KEY_BUMP_AMOUNT
    (temp_set h k v m) k = Some (v, key_expiry h)"
  using assms
  by (auto simp: temp_get_def temp_set_def temp_extend_ttl_def Let_def key_expiry_def
      IDEMPOTENCY_KEY_LIFETIME_THRESHOLD_def split: option.splits if_splits)

lemma fresh_idempotency_key:
  assumes "create_payment_with_options h c m amt tk r md sr ea (Some k) st = Inr (i, st')"
    and "temp_get h k (idempotency_keys st) = None"
  shows "idempotency_keys st' k = Some (i, key_expiry h)"
  using create_payment_keys [OF assms(1)] fresh_entry [OF assms(2)] assms(2) by simp

lemma temp_entry_other:
  "j \<noteq> k \<Longrightarrow> temp_extend_ttl h k n e (temp_set h k v m) j = m j"
  by (auto simp: temp_set_def temp_extend_ttl_def Let_def split: option.splits)

text \<open>No call touches a key that is live in its ledger.\<close>

lemma live_key_kept:
  assumes "idempotency_keys st k = Some (i, n)" and "sequence (fst c) \<le> n"
  shows "idempotency_keys (call_tx payments_exec c st) k = Some (i, n)"
proof (cases "payments_exec (fst c) (snd c) st")
  case (Inl e)
  then show ?thesis using assms(1) by (simp add: call_tx_def)
next
  case (Inr st')
  have live: "temp_get (fst c) k (idempotency_keys st) = Some i"
    using assms by (simp add: temp_get_def)
  have "idempotency_keys st' k = idempotency_keys st k"
  proof (cases "creates_by_key (snd c)")
    case True
    then obtain cu m amt tk r md sr ea ik j where
      "create_payment_with_options (fst c) cu m amt tk r md sr ea ik st = Inr (j, st')"
      using Inr by (cases "snd c") (auto simp: creates_by_key_def state_of_Inr)
    from create_payment_keys [OF this] live show ?thesis
      by (cases "ik = Some k") (auto simp: temp_entry_other split: option.splits)
  next
    case False
    then show ?thesis using keys_written_by_creation [OF Inr] by simp
  qed
  then show ?thesis using Inr assms(1) by (simp add: call_tx_def)
qed

lemma live_key_kept_by_history:
  "idempotency_keys st k = Some (i, n) \<Longrightarrow> \<forall>c \<in> set cs. sequence (fst c) \<le> n \<Longrightarrow>
     idempotency_keys (run_calls payments_exec cs st) k = Some (i, n)"
  by (induction cs arbitrary: st) (simp_all add: live_key_kept)

text \<open>
  C23. Idempotency: after a payment was created under a key that was not in use, the key belongs to
  it until it expires, whatever calls the contract serves in between (none of them later than that).
  Up to then every call that names the key and is signed by its caller, while the contract is not
  paused, returns the id of that payment and changes nothing - no second payment, no second
  transfer - whatever its other arguments; from the next ledger on the key is free again.  The key
  lives for 17280 ledgers after the one it was created in, unless the network's minimum time to
  live of a new entry leaves it 10000 ledgers or more: then it keeps just that.
\<close>

theorem retry_is_idempotent:
  assumes "create_payment_with_options h c m amt tk r md sr ea (Some k) st = Inr (i, st1)"
    and "temp_get h k (idempotency_keys st) = None"
    and "\<forall>c \<in> set cs. sequence (fst c) \<le> key_expiry h"
    and "st2 = run_calls payments_exec cs st1"
  shows "(sequence h2 \<le> key_expiry h \<and> authorized h2 c2 \<and> \<not> payments_is_paused st2 \<longrightarrow>
      create_payment_with_options h2 c2 m2 amt2 tk2 r2 md2 sr2 ea2 (Some k) st2 = Inr (i, st2)) \<and>
    (key_expiry h < sequence h2 \<longrightarrow> temp_get h2 k (idempotency_keys st2) = None) \<and>
    key_expiry h = sequence h + (if min_temp_ttl h \<le> 10000 then 17280 else min_temp_ttl h - 1)"
proof -
  have "idempotency_keys st2 k = Some (i, key_expiry h)"
    unfolding assms(4) using fresh_idempotency_key [OF assms(1,2)] assms(3)
    by (rule live_key_kept_by_history)
  then have found: "temp_get h2 k (idempotency_keys st2)
      = (if sequence h2 \<le> key_expiry h then Some i else None)"
    by (simp add: temp_get_def)
  have "create_payment_with_options h2 c2 m2 amt2 tk2 r2 md2 sr2 ea2 (Some k) st2 = Inr (i, st2)"
    if "sequence h2 \<le> key_expiry h" "authorized h2 c2" "\<not> payments_is_paused st2"
    using that found by (simp add: create_payment_with_options_def payments_require_not_paused_def
        payments_is_paused_def require_auth_def)
  with found show ?thesis
    by (auto simp: key_expiry_def IDEMPOTENCY_KEY_LIFETIME_THRESHOLD_def
        IDEMPOTENCY_KEY_BUMP_AMOUNT_def)
qed

text \<open>
  The retry comes from another customer, in the last ledger of the key and after another creation;
  the second network gives every new temporary entry 17280 ledgers.
\<close>

lemma retry_is_idempotent_witness:
  "\<exists>st1 st2. create_payment_with_options (shop_at 2) shop_customer shop_merchant 10 shop_token None
      None None None (Some shop_key) shop0 = Inr (0, st1) \<and>
    st2 = run_calls payments_exec
      [(shop_at 3, PayCreate shop_customer shop_merchant 20 shop_token None None None None (Some [8]))] st1 \<and>
    payments st2 1 \<noteq> None \<and>
    create_payment_with_options (demo_host 99 17281 [shop_partner]) shop_partner shop_merchant 20
      shop_token None None None None (Some shop_key) st2 = Inr (0, st2) \<and>
    temp_get (demo_host 99 17282 []) shop_key (idempotency_keys st2) = None \<and>
    key_expiry (shop_at 2\<lparr>min_temp_ttl := 17280\<rparr>) = 17280"
proof -
  let ?cs = "[(shop_at 3,
      PayCreate shop_customer shop_merchant 20 shop_token None None None None (Some [8]))]"
  obtain st1 where ok: "create_payment_with_options (shop_at 2) shop_customer shop_merchant 10
      shop_token None None None None (Some shop_key) shop0 = Inr (0, st1)"
    and run: "\<not> payments_is_paused (run_calls payments_exec ?cs st1)"
      "payments (run_calls payments_exec ?cs st1) 1 \<noteq> None"
    by (simp add: shop_eval)
  have free: "temp_get (shop_at 2) shop_key (idempotency_keys shop0) = None"
    by (simp add: temp_get_def shop0_def call_tx_def payments_initialize_def
        deployed_payments_def MAX_FEE_BPS_def)
  have expiry: "key_expiry (shop_at 2) = 17281"
    by (simp add: key_expiry_def shop_at_def demo_host_def IDEMPOTENCY_KEY_LIFETIME_THRESHOLD_def
        IDEMPOTENCY_KEY_BUMP_AMOUNT_def)
  have early: "\<forall>c \<in> set ?cs. sequence (fst c) \<le> key_expiry (shop_at 2)"
    by (simp add: expiry) (simp add: shop_at_def demo_host_def)
  note retry = retry_is_idempotent [OF ok free early refl]
  have "create_payment_with_options (demo_host 99 17281 [shop_partner]) shop_partner shop_merchant 20
      shop_token None None None None (Some shop_key) (run_calls payments_exec ?cs st1)
      = Inr (0, run_calls payments_exec ?cs st1)"
    using retry run(1) expiry by (simp add: demo_host_def del: run_calls.simps)
  moreover have "temp_get (demo_host 99 17282 []) shop_key
      (idempotency_keys (run_calls payments_exec ?cs st1)) = None"
    using retry expiry by (simp add: demo_host_def del: run_calls.simps)
  moreover have "key_expiry (shop_at 2\<lparr>min_temp_ttl := 17280\<rparr>) = 17280"
    by (simp add: key_expiry_def shop_at_def demo_host_def IDEMPOTENCY_KEY_LIFETIME_THRESHOLD_def)
  ultimately show ?thesis using ok run(2) by blast
qed

section \<open>Receipts\<close>

text \<open>Decoding the big-endian bytes of an integer.\<close>

definition be_value :: "8 word list \<Rightarrow> int" where
  "be_value bs = foldl (\<lambda>v b. v * 256 + uint b) 0 bs"

lemma be_bytes_Suc: "be_bytes (Suc w) x = be_bytes w (x div 256) @ [word_of_int x]"
proof -
  have "x div 256 ^ (w - k) = x div 256 div 256 ^ (w - 1 - k)" if "k < w" for k
  proof -
    have "(256::int) ^ (w - k) = 256 * 256 ^ (w - 1 - k)"
      using that by (metis Suc_diff_Suc diff_Suc_eq_diff_pred power_Suc)
    then show ?thesis by (simp add: zdiv_zmult2_eq)
  qed
  then show ?thesis by (simp add: be_bytes_def)
qed

lemma length_be_bytes [simp]: "length (be_bytes w x) = w"
  by (simp add: be_bytes_def)

lemma be_value_be_bytes: "be_value (be_bytes w x) = x mod 256 ^ w"
proof (induction w arbitrary: x)
  case 0
  then show ?case by (simp add: be_bytes_def be_value_def)
next
  case (Suc w)
  have "be_value (be_bytes (Suc w) x) = (x div 256 mod 256 ^ w) * 256 + x mod 256"
    using Suc.IH [of "x div 256"]
    by (simp add: be_bytes_Suc be_value_def uint_word_of_int)
  also have "\<dots> = x mod (256 * 256 ^ w)"
    by (simp add: zmod_zmult2_eq)
  finally show ?case by simp
qed

lemma be_bytes_inject:
  assumes "be_bytes w x = be_bytes w y" and "\<bar>x - y\<bar> < 256 ^ w"
  shows "x = y"
proof -
  have "x mod 256 ^ w = y mod 256 ^ w"
    using be_value_be_bytes [of w x] be_value_be_bytes [of w y] assms(1) by simp
  then have "256 ^ w dvd x - y" by (simp add: mod_eq_dvd_iff)
  then show ?thesis using assms(2) zdvd_imp_le [of "256 ^ w" "\<bar>x - y\<bar>"] by fastforce
qed

text \<open>The XDR encoding of an address says where it ends.\<close>

definition xdr_self_delimiting :: "'l host \<Rightarrow> bool" where
  "xdr_self_delimiting h \<longleftrightarrow>
     (\<forall>a b u v. to_xdr h a @ u = to_xdr h b @ v \<longrightarrow> a = b \<and> u = v)"

lemma receipt_preimage_inject:
  assumes "receipt_preimage h i c m amt tk t = receipt_preimage h i' c' m' amt' tk' t'"
    and xdr: "xdr_self_delimiting h"
    and "i < 2 ^ 32" "i' < 2 ^ 32" "i128_ok amt" "i128_ok amt'" "t < 2 ^ 64" "t' < 2 ^ 64"
  shows "i = i' \<and> c = c' \<and> m = m' \<and> amt = amt' \<and> tk = tk' \<and> t = t'"
proof -
  have "be_bytes 4 (int i) = be_bytes 4 (int i')"
    and 1: "to_xdr h c @ to_xdr h m @ be_bytes 16 amt @ to_xdr h tk @ be_bytes 8 (int t) =
      to_xdr h c' @ to_xdr h m' @ be_bytes 16 amt' @ to_xdr h tk' @ be_bytes 8 (int t')"
    using assms(1) by (simp_all add: receipt_preimage_def)
  then have i: "i = i'" using assms(3,4) be_bytes_inject [of 4 "int i" "int i'"] by simp
  have 2: "c = c'" "to_xdr h m @ be_bytes 16 amt @ to_xdr h tk @ be_bytes 8 (int t) =
      to_xdr h m' @ be_bytes 16 amt' @ to_xdr h tk' @ be_bytes 8 (int t')"
    using xdr 1 unfolding xdr_self_delimiting_def by blast+
  have 3: "m = m'" "be_bytes 16 amt @ to_xdr h tk @ be_bytes 8 (int t) =
      be_bytes 16 amt' @ to_xdr h tk' @ be_bytes 8 (int t')"
    using xdr 2(2) unfolding xdr_self_delimiting_def by blast+
  have 4: "be_bytes 16 amt = be_bytes 16 amt'"
      "to_xdr h tk @ be_bytes 8 (int t) = to_xdr h tk' @ be_bytes 8 (int t')"
    using 3(2) by simp_all
  have amt: "amt = amt'"
    using be_bytes_inject [OF 4(1)] assms(5,6) by (simp add: i128_ok_def abs_less_iff)
  have 5: "tk = tk'" "be_bytes 8 (int t) = be_bytes 8 (int t')"
    using xdr 4(2) unfolding xdr_self_delimiting_def by blast+
  have "t = t'" using be_bytes_inject [OF 5(2)] assms(7,8) by simp
  with i 2 3 amt 5 show ?thesis by simp
qed

lemma net_amount_fits:
  assumes "complete_payment_internal h i sch st = Inr st'"
  shows "\<exists>p v. payments st i = Some p \<and> rolling_merchant_volume h (p_merchant p) st = Inr v \<and>
    i128_ok (p_amount p - bps_share (p_amount p) (fee_bps_for_volume (v + p_amount p) st))"
  using assms
  unfolding complete_payment_internal_def and_then_Inr Let_def arith128_Inr bps_share_def [symmetric]
  by (clarsimp simp: ok_simps bps_share_def [symmetric] simp del: not_le if_split cong: if_cong)

text \<open>
  C24. Receipts bind: a completion stores a receipt that verifies exactly the hashes equal to the
  hash of the payment's id, customer, merchant, net amount, token and completion time; and whatever
  other data somebody presents - another id, customer, merchant, amount, token or time, each within
  its type - is encoded to a different input of the hash.  So data other than the payment's verifies
  only if these two very inputs are a collision of SHA-256.  The encoding of an address is assumed
  to say where it ends, as XDR does.
\<close>

theorem receipt_binds_payment:
  assumes c: "complete_payment h i st = Inr st'" and "payments_wf st" and "configured st"
    and "i < 2 ^ 32" and "timestamp h < 2 ^ 64" and "xdr_self_delimiting h"
  shows "\<exists>p pre. payments st' i = Some p \<and>
    pre = receipt_preimage h i (p_customer p) (p_merchant p) (p_amount p) (p_token p) (timestamp h) \<and>
    (\<forall>x. verify_payment i x st' \<longleftrightarrow> x = sha256 h pre) \<and>
    (\<forall>i' c' m' amt' tk' t'. i' < 2 ^ 32 \<and> i128_ok amt' \<and> t' < 2 ^ 64 \<and>
       (i', c', m', amt', tk', t')
         \<noteq> (i, p_customer p, p_merchant p, p_amount p, p_token p, timestamp h) \<longrightarrow>
       receipt_preimage h i' c' m' amt' tk' t' \<noteq> pre \<and>
       (verify_payment i (compute_receipt_hash h i' c' m' amt' tk' t') st' \<longleftrightarrow>
          sha256 h (receipt_preimage h i' c' m' amt' tk' t') = sha256 h pre))"
proof -
  have internal: "complete_payment_internal h i False st = Inr st'"
    using c by (auto simp: complete_payment_def ok_simps)
  then obtain p net where st': "payments st' i = Some (p\<lparr>p_status := Completed, p_amount := net\<rparr>)"
    and r: "payment_receipt st' i = Some (compute_receipt_hash h i (p_customer p) (p_merchant p) net
       (p_token p) (timestamp h))"
    and net: "i128_ok net"
    using complete_payment_internal_effect [of h i False st st'] net_amount_fits [OF internal] assms(2,3)
    by (auto simp: configured_def Let_def)
  let ?pre = "receipt_preimage h i (p_customer p) (p_merchant p) net (p_token p) (timestamp h)"
  have verifies: "verify_payment i x st' \<longleftrightarrow> x = sha256 h ?pre" for x
    using r by (auto simp: verify_payment_def compute_receipt_hash_def)
  have differs: "receipt_preimage h i' c' m' amt' tk' t' \<noteq> ?pre"
    if "i' < 2 ^ 32 \<and> i128_ok amt' \<and> t' < 2 ^ 64 \<and>
      (i', c', m', amt', tk', t') \<noteq> (i, p_customer p, p_merchant p, net, p_token p, timestamp h)"
    for i' c' m' amt' tk' t'
    using receipt_preimage_inject [of h i' c' m' amt' tk' t' i "p_customer p" "p_merchant p" net
        "p_token p" "timestamp h"] that assms(4-6) net by blast
  show ?thesis
    using st' verifies differs
    by (intro exI [of _ "p\<lparr>p_status := Completed, p_amount := net\<rparr>"] exI [of _ ?pre])
      (simp add: compute_receipt_hash_def)
qed

text \<open>A self-delimiting encoding, for the witness.\<close>

definition unary_xdr :: "address \<Rightarrow> 8 word list" where
  "unary_xdr a = (case a of Account n \<Rightarrow> replicate n 0 @ [1] | Contract n \<Rightarrow> replicate n 0 @ [2])"

lemma unary_end:
  "replicate n 0 @ (x::8 word) # u = replicate k 0 @ y # v \<Longrightarrow> x \<noteq> 0 \<Longrightarrow> y \<noteq> 0 \<Longrightarrow>
     n = k \<and> x = y \<and> u = v"
proof (induction n arbitrary: k)
  case 0
  then show ?case by (cases k) auto
next
  case (Suc n)
  then show ?case by (cases k) auto
qed

lemma unary_xdr_self_delimiting: "to_xdr h = unary_xdr \<Longrightarrow> xdr_self_delimiting h"
  unfolding xdr_self_delimiting_def unary_xdr_def
  by (auto split: address.splits dest!: unary_end)

text \<open>
  The witness hashes to the first 32 bytes, which is far from injective: the amount is within them,
  the completion time is not.  Another amount does not verify; another time does, by a collision.
\<close>

definition receipt_host :: "plain_ledger host" where
  "receipt_host = shop_at 10\<lparr>to_xdr := unary_xdr, sha256 := take 32\<rparr>"

lemma receipt_binds_payment_witness:
  "\<exists>st'. complete_payment receipt_host 0 shop = Inr st' \<and>
     \<not> verify_payment 0 (compute_receipt_hash receipt_host 0 shop_customer shop_merchant 1001
        shop_token 10) st' \<and>
     verify_payment 0 (compute_receipt_hash receipt_host 0 shop_customer shop_merchant 991
        shop_token 11) st' \<and>
     receipt_preimage receipt_host 0 shop_customer shop_merchant 991 shop_token 11
       \<noteq> receipt_preimage receipt_host 0 shop_customer shop_merchant 991 shop_token 10"
proof -
  obtain st' where ok: "complete_payment receipt_host 0 shop = Inr st'"
    and a: "map_option (\<lambda>p. (p_customer p, p_merchant p, p_amount p, p_token p)) (payments st' 0)
      = Some (shop_customer, shop_merchant, 991, shop_token)"
    by (simp add: receipt_host_def shop_def shop_eval)
  have wf: "payments_wf shop" "configured shop"
    using shop_inv [of shop_setup] by (simp_all add: payments_inv_def shop_def shop_setup_def)
  have h: "to_xdr receipt_host = unary_xdr" "sha256 receipt_host = take 32" "timestamp receipt_host = 10"
    by (simp_all add: receipt_host_def shop_at_def demo_host_def)
  have "(0::u32) < 2 ^ 32" "timestamp receipt_host < 2 ^ 64" by (simp_all add: h)
  from receipt_binds_payment [OF ok wf this unary_xdr_self_delimiting [OF h(1)]] obtain p pre where
    p: "payments st' 0 = Some p"
    and pre: "pre = receipt_preimage receipt_host 0 (p_customer p) (p_merchant p) (p_amount p)
      (p_token p) 10"
    and b: "\<forall>i' c' m' amt' tk' t'. i' < 2 ^ 32 \<and> i128_ok amt' \<and> t' < 2 ^ 64 \<and>
       (i', c', m', amt', tk', t') \<noteq> (0, p_customer p, p_merchant p, p_amount p, p_token p, 10) \<longrightarrow>
       receipt_preimage receipt_host i' c' m' amt' tk' t' \<noteq> pre \<and>
       (verify_payment 0 (compute_receipt_hash receipt_host i' c' m' amt' tk' t') st' \<longleftrightarrow>
          take 32 (receipt_preimage receipt_host i' c' m' amt' tk' t') = take 32 pre)"
    by (auto simp: h)
  have pre': "pre = receipt_preimage receipt_host 0 shop_customer shop_merchant 991 shop_token 10"
    using a p pre by simp
  note b = b [rule_format, of 0 _ _ shop_customer shop_merchant shop_token]
  have "take 32 (receipt_preimage receipt_host 0 shop_customer shop_merchant 1001 shop_token 10)
      \<noteq> take 32 (receipt_preimage receipt_host 0 shop_customer shop_merchant 991 shop_token 10)"
    by code_simp
  moreover have "take 32 (receipt_preimage receipt_host 0 shop_customer shop_merchant 991 shop_token 11)
      = take 32 (receipt_preimage receipt_host 0 shop_customer shop_merchant 991 shop_token 10)"
    by code_simp
  ultimately show ?thesis
    using ok a p pre' b [of 1001 10] b [of 991 11] by (auto simp: i128_ok_def)
qed

end
