(* ===== verification/Payments_Rates.thy ===== *)
theory Payments_Rates
  imports Payments_Demo
begin

text \<open>
  Properties of the prices of the payments contract: the conversion of a multi-token payment, the
  charges of a subscription and the fee tier of a merchant.
\<close>

section \<open>Conversion\<close>

lemma int_div_bounds:
  fixes a b :: int
  assumes "0 < b"
  shows "a div b * b \<le> a" and "a < (a div b + 1) * b"
  using div_mult_mod_eq [of a b] pos_mod_bound [OF assms, of a] pos_mod_sign [OF assms, of a]
  by (simp_all only: distrib_right mult_1)

lemma required_token_amount_bounds:
  assumes "required_token_amount_for amount price slip = Inr r" and "0 < amount" and "0 < price"
  shows "0 < r \<and> r * price \<le> amount * 10000000 \<and> amount * 10000000 < (r + 1) * price \<and>
    (amount - r * price div 10000000) * 10000 < (int slip + 1) * amount"
proof -
  have nn: "0 \<le> amount * 10000000" using assms(2) by simp
  have r: "r = amount * 10000000 div price" and pos: "0 < r"
    using assms by (auto simp: required_token_amount_for_def ok_simps ORACLE_PRICE_PRECISION_def
        sdiv_nonneg_eq)
  define e where "e = r * price div 10000000"
  have rp: "r * price \<le> amount * 10000000" "amount * 10000000 < (r + 1) * price"
    unfolding r by (rule int_div_bounds [OF assms(3)])+
  have "e \<le> amount * 10000000 div 10000000"
    unfolding e_def using rp(1) by (rule zdiv_mono1) simp
  then have e: "e \<le> amount" by simp
  have eff: "(r * price) sdiv 10000000 = e"
    using pos assms(3) by (simp add: e_def sdiv_nonneg_eq)
  have "(amount - e) * 10000 sdiv amount \<le> int slip"
    using assms(1) e pos nn assms(2,3) eff
    by (auto simp: required_token_amount_for_def ok_simps ORACLE_PRICE_PRECISION_def
        sdiv_nonneg_eq r [symmetric] split: if_splits)
  then have d: "(amount - e) * 10000 div amount \<le> int slip"
    using e assms(2) by (simp add: sdiv_nonneg_eq)
  have "(amount - e) * 10000 < ((amount - e) * 10000 div amount + 1) * amount"
    by (rule int_div_bounds [OF assms(2)])
  also have "\<dots> \<le> (int slip + 1) * amount"
    using d assms(2) by (intro mult_right_mono) simp_all
  finally show ?thesis using pos rp by (simp add: e_def)
qed

text \<open>
  C25. Conversion: a multi-token payment that succeeds in another token than USDC used a positive
  price no older than the configured age, and the customer paid exactly the largest amount worth
  at most the USDC amount at that price, which misses it by no more than the slippage tolerance;
  the recorded payment is pending and in USDC.
\<close>

theorem multi_token_conversion:
  assumes "create_payment_multi_token h c m amt tk slip st = Inr (i, st')"
    and "usdc_token st = Some usdc" and "tk \<noteq> usdc"
  shows "\<exists>orc max_age price t r p. oracle_address st = Some orc \<and>
    max_oracle_age st = Some max_age \<and> lastprice h orc tk usdc = Some (price, t) \<and>
    timestamp h - t \<le> max_age \<and> 0 < price \<and> 0 < r \<and>
    r * price \<le> amt * 10000000 \<and> amt * 10000000 < (r + 1) * price \<and>
    (amt - r * price div 10000000) * 10000 < (int slip + 1) * amt \<and>
    tok_transfer h (ledger st) tk c (self_address h) r = Some (ledger st') \<and>
    payments st' i = Some p \<and> p_status p = Pending \<and> p_token p = usdc \<and> p_amount p = amt"
proof -
  obtain orc max_age price t st1 r l st2 where o: "oracle_address st1 = Some orc"
    "max_oracle_age st1 = Some max_age" and pr: "lastprice h orc tk usdc = Some (price, t)"
    and age: "timestamp h - t \<le> max_age" and pos: "0 < price" "0 < amt"
    and r: "required_token_amount_for amt price slip = Inr r"
    and e: "enforce_rate_limit h c 1 st = Inr st1"
    and tr: "tok_transfer h (ledger st1) tk c (self_address h) r = Some l"
    and rec: "record_plain_payment h c m amt usdc (st1\<lparr>ledger := l\<rparr>) = Inr (i, st2)"
    and st': "st' = emit_multi_token_payment_created i c m amt tk r price st2"
    using assms by (auto simp: create_payment_multi_token_def Let_def ok_simps not_le not_less
        saturating_sub_def)
  have same: "oracle_address st1 = oracle_address st" "max_oracle_age st1 = max_oracle_age st"
    "ledger st1 = ledger st"
    using e by (auto elim!: note_updates)
  obtain p where "adds_payment i p (st1\<lparr>ledger := l\<rparr>) st2" "p_token p = usdc" "p_amount p = amt"
    "p_status p = Pending" "ledger st2 = l"
    using record_plain_payment_effect [OF rec pos(2)] by auto
  then have "payments st' i = Some p" "ledger st' = l"
    by (simp_all add: st' adds_payment_def payments_emit_defs)
  with o same pr age pos tr required_token_amount_bounds [OF r pos(2,1)] \<open>p_token p = usdc\<close>
    \<open>p_amount p = amt\<close> \<open>p_status p = Pending\<close>
  show ?thesis by (intro exI [of _ orc] exI [of _ max_age] exI [of _ price] exI [of _ t]
        exI [of _ r] exI [of _ p]) simp
qed

definition priced_host :: "plain_ledger host" where
  "priced_host = shop_at 10\<lparr>lastprice := (\<lambda>_ _ _. Some (30000000, 8))\<rparr>"

definition shop_usdc :: address where "shop_usdc = Contract 8"

definition priced_shop :: "plain_ledger payments_state" where
  "priced_shop = run_calls payments_exec [(shop_at 5, PaySetOracle (Contract 7) shop_usdc 100)] shop0"

lemma multi_token_conversion_witness:
  "\<exists>st'. create_payment_multi_token priced_host shop_customer shop_merchant 100 shop_token 200
      priced_shop = Inr (0, st') \<and>
    tok_transfer priced_host (ledger priced_shop) shop_token shop_customer (Contract 0) 33
      = Some (ledger st')"
proof -
  obtain st' where ok: "create_payment_multi_token priced_host shop_customer shop_merchant 100
      shop_token 200 priced_shop = Inr (0, st')"
    by (simp add: create_payment_multi_token_def record_plain_payment_def priced_shop_def
        required_token_amount_for_def priced_host_def shop_usdc_def shop_eval)
  have u: "usdc_token priced_shop = Some shop_usdc" and ne: "shop_token \<noteq> shop_usdc"
    by (simp_all add: priced_shop_def shop_usdc_def shop_eval)
  obtain price t r where "lastprice priced_host (Contract 7) shop_token shop_usdc = Some (price, t)"
    and r: "r * price \<le> 100 * 10000000" "100 * 10000000 < (r + 1) * price"
    and tr: "tok_transfer priced_host (ledger priced_shop) shop_token shop_customer
      (self_address priced_host) r = Some (ledger st')"
    using multi_token_conversion [OF ok u ne] by (auto simp: priced_shop_def shop_eval)
  then have "price = 30000000" by (simp add: priced_host_def)
  with r have "r = 33" by simp
  with ok tr show ?thesis by (auto simp: priced_host_def shop_at_def)
qed

section \<open>Subscriptions\<close>

text \<open>
  C26. A charge of a subscription succeeds only while it is active, below its maximal number of
  charges and no sooner than the interval after the last charge; it moves exactly the agreed
  amount from the subscriber to the merchant, leaves nothing in the contract, and a second charge
  before the interval has passed fails.
\<close>

theorem subscription_charge:
  assumes "charge_subscription h i st = Inr st'" and "token_laws V h"
  shows "\<exists>s s'. subscriptions st i = Some s \<and> s_active s \<and>
    (s_max_charges s = 0 \<or> s_charges_count s < s_max_charges s) \<and>
    (s_last_charged_at s = 0 \<or> s_last_charged_at s + s_interval_seconds s \<le> timestamp h) \<and>
    subscriptions st' i = Some s' \<and> s_charges_count s' = Suc (s_charges_count s) \<and>
    payments st' = payments st \<and>
    (\<forall>t a. balance V (ledger st') t a = balance V (ledger st) t a
       - (if t = s_token s \<and> a = s_subscriber s then s_amount s else 0)
       + (if t = s_token s \<and> a = s_merchant s then s_amount s else 0)) \<and>
    (\<forall>h'. 0 < timestamp h \<and> timestamp h' < timestamp h + s_interval_seconds s \<longrightarrow>
       \<not> succeeds (charge_subscription h' i st'))"
proof -
  obtain s l where s: "subscriptions st i = Some s" "s_active s"
      "s_max_charges s = 0 \<or> s_charges_count s < s_max_charges s"
      "s_last_charged_at s = 0 \<or> s_last_charged_at s + s_interval_seconds s \<le> timestamp h"
    and st': "subscriptions st' = (subscriptions st)(i \<mapsto> s\<lparr>s_last_charged_at := timestamp h,
      s_charges_count := Suc (s_charges_count s)\<rparr>)" "payments st' = payments st"
    and t: "tok_transfer h (ledger st) (s_token s) (s_subscriber s) (self_address h) (s_amount s) = Some l"
      "tok_transfer h l (s_token s) (self_address h) (s_merchant s) (s_amount s) = Some (ledger st')"
    using charge_subscription_effect [OF assms(1)] by blast
  have m: "moves V (ledger st) l (s_token s) (s_subscriber s) (self_address h) (s_amount s)"
    "moves V l (ledger st') (s_token s) (self_address h) (s_merchant s) (s_amount s)"
    using token_laws_transfer [OF assms(2)] t by blast+
  have bal: "balance V (ledger st') t a = balance V (ledger st) t a
       - (if t = s_token s \<and> a = s_subscriber s then s_amount s else 0)
       + (if t = s_token s \<and> a = s_merchant s then s_amount s else 0)" for t a
    by (simp add: moves_balance [OF m(2)] moves_balance [OF m(1)])
  have again: "\<not> succeeds (charge_subscription h' i st')"
    if "0 < timestamp h" "timestamp h' < timestamp h + s_interval_seconds s" for h'
    using that charge_subscription_effect [of h' i st'] st'(1) by (auto simp: succeeds_iff)
  show ?thesis
    by (rule exI [of _ s], rule exI [of _ "s\<lparr>s_last_charged_at := timestamp h,
        s_charges_count := Suc (s_charges_count s)\<rparr>"]) (simp add: s st' bal again)
qed

definition shop_subscribed :: "plain_ledger payments_state" where
  "shop_subscribed = run_calls payments_exec
     [(shop_at 5, PayCreateSubscription shop_customer shop_merchant 70 shop_token 30 0)] shop0"

lemma subscription_charge_witness:
  "\<exists>st'. charge_subscription (shop_at 10) 0 shop_subscribed = Inr st' \<and>
     \<not> succeeds (charge_subscription (shop_at 39) 0 st') \<and>
     balance plain_view (ledger st') shop_token shop_merchant = 70"
proof -
  obtain st' where ok: "charge_subscription (shop_at 10) 0 shop_subscribed = Inr st'"
    by (simp add: shop_subscribed_def shop_eval)
  have s: "map_option s_interval_seconds (subscriptions shop_subscribed 0) = Some 30"
    "map_option s_amount (subscriptions shop_subscribed 0) = Some 70"
    "map_option s_token (subscriptions shop_subscribed 0) = Some shop_token"
    "map_option s_merchant (subscriptions shop_subscribed 0) = Some shop_merchant"
    "map_option s_subscriber (subscriptions shop_subscribed 0) = Some shop_customer"
    "balance plain_view (ledger shop_subscribed) shop_token shop_merchant = 0"
    by (simp_all add: shop_subscribed_def shop_eval plain_view_def)
  have "token_laws plain_view (shop_at 10)" by (simp add: shop_at_def token_laws_demo)
  from subscription_charge [OF ok this] ok s show ?thesis
    by (auto simp: shop_at_def shop_address_defs)
qed

section \<open>Fee tiers\<close>

lemma select_tier_last:
  "select_tier v n ts =
     (case rev (filter (\<lambda>t. ft_min_volume t \<le> v) ts) of [] \<Rightarrow> n | t # _ \<Rightarrow> ft_fee_bps t)"
  by (induction v n ts rule: select_tier.induct)
    (auto split: list.splits)

text \<open>
  C27. Fee tiers: after an accepted update of the tiers, the fee for a volume is that of the
  highest tier the volume reaches, the default fee if it reaches none, and in no case more than
  five percent.
\<close>

theorem fee_follows_highest_tier:
  assumes "update_fee_tiers h a ts st = Inr st'" and "fees_ok st"
  shows "fee_bps_for_volume v st' \<le> 500 \<and>
    (if \<exists>t \<in> set ts. ft_min_volume t \<le> v
     then \<exists>t \<in> set ts. ft_min_volume t \<le> v \<and> fee_bps_for_volume v st' = ft_fee_bps t \<and>
       (\<forall>u \<in> set ts. ft_min_volume u \<le> v \<longrightarrow> ft_min_volume u \<le> ft_min_volume t)
     else fee_bps_for_volume v st' = get_fee_bps st')"
proof -
  have st': "st' = st\<lparr>fee_tiers := Some ts\<rparr>" and "validate_fee_tiers_from (- 1) ts = Inr ()"
    using assms(1) by (auto simp: update_fee_tiers_def validate_fee_tiers_def ok_simps)
  then have ts: "\<forall>t \<in> set ts. ft_fee_bps t \<le> MAX_FEE_BPS" "sorted_wrt (<) (map ft_min_volume ts)"
    using validate_fee_tiers_Inr by auto
  have "fees_ok st'"
    using assms(2) ts by (simp add: st' fees_ok_def get_fee_bps_def get_fee_tiers_def)
  then have le: "fee_bps_for_volume v st' \<le> 500" by (rule fee_bps_for_volume_le)
  let ?r = "filter (\<lambda>t. ft_min_volume t \<le> v) ts"
  have d: "get_fee_bps st' = unwrap_or DEFAULT_FEE_BPS (fee_bps st)"
    by (simp add: get_fee_bps_def st')
  have sel: "fee_bps_for_volume v st' = (case rev ?r of [] \<Rightarrow> unwrap_or DEFAULT_FEE_BPS (fee_bps st)
      | t # _ \<Rightarrow> ft_fee_bps t)"
    by (simp add: fee_bps_for_volume_def st' select_tier_last)
  show ?thesis
  proof (cases "rev ?r")
    case Nil
    then show ?thesis using le sel d by (auto simp: filter_empty_conv)
  next
    case (Cons t us)
    then have r: "?r = rev us @ [t]" by (metis rev.simps(2) rev_rev_ident)
    then have "t \<in> set ?r" by simp
    then have mem: "t \<in> set ts" "ft_min_volume t \<le> v" by auto
    have "sorted_wrt (<) (map ft_min_volume ?r)"
      using ts(2) by (simp add: sorted_wrt_map sorted_wrt_filter)
    then have "\<forall>u \<in> set ?r. ft_min_volume u \<le> ft_min_volume t"
      unfolding r by (auto simp: sorted_wrt_append)
    then show ?thesis using le sel Cons mem by auto
  qed
qed

lemma fee_follows_highest_tier_witness:
  "\<exists>st'. update_fee_tiers (shop_at 5) shop_admin [\<lparr>ft_min_volume = 100, ft_fee_bps = 80\<rparr>,
      \<lparr>ft_min_volume = 900, ft_fee_bps = 40\<rparr>] shop0 = Inr st' \<and> fee_bps_for_volume 901 st' = 40"
proof -
  let ?ts = "[\<lparr>ft_min_volume = 100, ft_fee_bps = 80\<rparr>, \<lparr>ft_min_volume = 900, ft_fee_bps = 40\<rparr>]"
  obtain st' where ok: "update_fee_tiers (shop_at 5) shop_admin ?ts shop0 = Inr st'"
    by (simp add: shop_eval update_fee_tiers_def validate_fee_tiers_def)
  have "fees_ok shop0"
    using shop_inv [of "[]"] by (simp add: payments_inv_def configured_def)
  from fee_follows_highest_tier [OF ok this, of 901] ok show ?thesis by auto
qed

end
