(* ===== verification/Payments_Inexact.thy ===== *)
theory Payments_Inexact
  imports Payments_Money Payments_Rates
begin

text \<open>
  What the hypotheses of the payments properties exclude, by example: the three kinds of calls
  that are not exact each leave the contract owing more than it has, the record of a dispute is
  gone before the default timeout has passed, and a payment made before initialization is
  overwritten.
\<close>

section \<open>Calls that are not exact\<close>

text \<open>Completing a partly refunded payment pays its whole amount again.\<close>

definition two_payments :: "plain_ledger payments_state" where
  "two_payments = run_calls payments_exec
     [(shop_at 2, PayCreate shop_customer shop_merchant 1000 shop_token None None None None None),
      (shop_at 3, PayCreate shop_customer shop_merchant 500 shop_token None None None None None)] shop0"

definition refunded_then_completed :: "plain_ledger payments_state" where
  "refunded_then_completed = run_calls payments_exec
     [(shop_at 10, PayPartialRefund 0 400), (shop_at 11, PayComplete 0)] two_payments"

lemma refunded_then_completed_fields:
  "payment_counter refunded_then_completed = Some 2"
  "\<exists>p. payments refunded_then_completed 0 = Some p \<and> p_status p = Completed"
  "settled refunded_then_completed 0 = Some True"
  "\<exists>p. payments refunded_then_completed 1 = Some p \<and> p_status p = Pending \<and> p_amount p = 500 \<and>
     p_refunded_amount p = 0 \<and> p_token p = shop_token"
  "balance plain_view (ledger refunded_then_completed) shop_token (Contract 0) = 100"
  by (simp_all add: refunded_then_completed_def two_payments_def shop_eval plain_view_def)

lemma partial_refund_then_complete_insolvent:
  "payments_liability refunded_then_completed shop_token = 500 \<and>
   balance plain_view (ledger refunded_then_completed) shop_token (Contract 0) = 100"
  using refunded_then_completed_fields
  by (auto simp: payments_liability_def get_payment_counter_def entry_def held_def
      pending_status_def numeral_2_eq_2)

text \<open>A settlement that names a payment twice pays it twice.\<close>

definition settled_twice :: "plain_ledger payments_state" where
  "settled_twice = run_calls payments_exec
     [(shop_at 6, PayDispute shop_customer 1 ''late''), (shop_at 7, PayResolveDispute 1 True),
      (shop_at 8, PaySettle shop_admin shop_merchant [1, 1])] two_payments"

lemma settled_twice_fields:
  "payment_counter settled_twice = Some 2"
  "\<exists>p. payments settled_twice 0 = Some p \<and> p_status p = Pending \<and> p_amount p = 1000 \<and>
     p_refunded_amount p = 0 \<and> p_token p = shop_token"
  "\<exists>p. payments settled_twice 1 = Some p \<and> p_status p = Completed \<and> p_amount p = 500"
  "settled settled_twice 1 = Some True"
  "balance plain_view (ledger settled_twice) shop_token (Contract 0) = 500"
  "balance plain_view (ledger settled_twice) shop_token shop_merchant = 1000"
  by (simp_all add: settled_twice_def two_payments_def shop_eval plain_view_def)

lemma settlement_with_duplicates_insolvent:
  "payments_liability settled_twice shop_token = 1000 \<and>
   balance plain_view (ledger settled_twice) shop_token (Contract 0) = 500"
  using settled_twice_fields
  by (auto simp: payments_liability_def get_payment_counter_def entry_def held_def
      pending_status_def numeral_2_eq_2)

text \<open>A converted payment is owed in USDC, of which the contract received nothing.\<close>

definition converted :: "plain_ledger payments_state" where
  "converted = run_calls payments_exec
     [(priced_host, PayCreateMultiToken shop_customer shop_merchant 100 shop_token 200)] priced_shop"

lemma conversion_insolvent:
  "payments_liability converted shop_usdc = 100 \<and>
   balance plain_view (ledger converted) shop_usdc (Contract 0) = 0 \<and>
   \<not> succeeds (payments_exec (shop_at 20) (PayComplete 0) converted)"
  by (simp add: converted_def priced_shop_def priced_host_def shop_usdc_def shop_eval
      create_payment_multi_token_def record_plain_payment_def required_token_amount_for_def
      payments_liability_def get_payment_counter_def entry_def held_def pending_status_def
      plain_view_def)

section \<open>Disputes outlive their record\<close>

text \<open>
  The record of a dispute is a temporary entry of 15000 ledgers; one ledger later the escalation
  check panics although the payment is still disputed.
\<close>

definition disputed_shop :: "plain_ledger payments_state" where
  "disputed_shop = run_calls payments_exec [(shop_at 6, PayDispute shop_customer 0 ''late'')] shop"

lemma escalation_check_loses_dispute:
  "is_disputed 0 disputed_shop = Inr True \<and>
   payments_check_escalation (demo_host 80000 15002 []) 0 disputed_shop
     = Inl (Panic PaymentDisputeNotFound)"
  by (simp add: disputed_shop_def is_disputed_def shop_def shop_eval)

section \<open>Payments before initialization\<close>

definition early_bird :: "plain_ledger payments_state" where
  "early_bird = run_calls payments_exec
     [(shop_at 1, PayCreate shop_customer shop_merchant 900 shop_token None None None None None),
      (shop_at 2, PayInitialize shop_admin shop_treasury 100),
      (shop_at 3, PayCreate shop_partner shop_merchant 0 shop_token None None None None None),
      (shop_at 4, PayCreate shop_customer shop_merchant 1 shop_token None None None None None)]
     (deployed_payments shop_ledger)"

lemma payment_before_initialization_lost:
  "map_option p_amount (payments early_bird 0) = Some 1 \<and> payments early_bird 1 = None \<and>
   balance plain_view (ledger early_bird) shop_token (Contract 0) = 901"
  by (simp add: early_bird_def shop_eval plain_view_def)

end
