(* ===== verification/Refund_Types.thy ===== *)
theory Refund_Types
  imports Payouts
begin

text \<open>
  Data of the refund contract (src/contracts/ahjoor-refund/src): the stored types, the minimal
  view of the payment contract it calls, the storage as one record field per \<open>DataKey\<close>, the
  panics as an enumeration, and the events of events.rs with the functions that publish them.
\<close>

section \<open>Unsigned casts\<close>

text \<open>
  The contract computes shares in \<open>u128\<close>: the cast of a negative \<open>i128\<close> wraps, the
  multiplication aborts beyond 128 bits, and the cast back wraps again.
\<close>

definition as_u128 :: "int \<Rightarrow> int" where "as_u128 x = x mod 2 ^ 128"

definition as_i128 :: "int \<Rightarrow> i128" where "as_i128 x = (x + 2 ^ 127) mod 2 ^ 128 - 2 ^ 127"

definition mul_u128 :: "int \<Rightarrow> int \<Rightarrow> ('p, int) outcome" where
  "mul_u128 a b = (if a * b < 2 ^ 128 then Inr (a * b) else Inl Overflow)"

definition saturating_sub128 :: "i128 \<Rightarrow> i128 \<Rightarrow> i128" where
  "saturating_sub128 a b = max (- (2 ^ 127)) (min (2 ^ 127 - 1) (a - b))"

text \<open>\<open>(amount as u128 * bps as u128 / 10_000) as i128\<close>.\<close>

definition u128_share :: "i128 \<Rightarrow> u32 \<Rightarrow> ('p, i128) outcome" where
  "u128_share amount bps =
     and_then (mul_u128 (as_u128 amount) (int bps)) (\<lambda>scaled. Inr (as_i128 (scaled div 10000)))"

section \<open>Stored data\<close>

definition INSTANCE_BUMP_AMOUNT :: u32 where "INSTANCE_BUMP_AMOUNT = 120000"

datatype refund_status = Requested | Approved | Rejected | Processed | UnderAppeal | Cancelled

record refund =
  r_id :: u32
  r_payment_id :: u32
  r_customer :: address
  r_merchant :: address
  r_amount :: i128
  r_token :: address
  r_status :: refund_status
  r_reason :: string
  r_reason_code :: u32
  r_requested_at :: u64
  r_approved_at :: "u64 option"
  r_processed_at :: "u64 option"
  r_rejected_at :: "u64 option"
  r_auto_approved_source :: "string option"
  r_escrow_id :: "u32 option"
  r_fee_amount :: "i128 option"

record refund_stats =
  total_requested :: u32
  total_approved :: u32
  total_rejected :: u32
  total_processed :: u32
  total_amount_refunded :: i128

section \<open>The payment contract\<close>

text \<open>
  What the contract reads of a payment.  The payment contract is code of its own, called at the
  configured address; here it is a parameter, the result of \<open>try_get_payment\<close> at an address.
\<close>

datatype ext_payment_status = ExtPending | ExtCompleted | ExtRefunded | ExtDisputed | ExtExpired

record ext_payment =
  x_id :: u32
  x_customer :: address
  x_merchant :: address
  x_amount :: i128
  x_token :: address
  x_status :: ext_payment_status
  x_created_at :: u64
  x_expires_at :: u64
  x_refunded_amount :: i128
  x_reference :: "string option"
  x_metadata :: "(string \<times> string) list option"

type_synonym payment_lookup = "address \<Rightarrow> u32 \<Rightarrow> ext_payment option"

section \<open>Panics\<close>

datatype (plugins only: code size) refund_panic =
    RefundAlreadyInitialized | RefundFeeTooHigh | RefundAmountNotPositive | InvalidReasonCode
  | CooldownActive | PaymentContractNotConfigured | ExtPaymentNotFound | ExtPaymentNotCompleted
  | ExceedsRefundableAmount | RefundWindowExpired | RefundNotInitialized | RefundNotFound
  | NotAdminOrDelegate | NotRequested | RefundOnlyAdmin | NotPaymentMerchant
  | MerchantBalanceInsufficient | RefundBatchEmpty | BatchTooLarge | NotApproved
  | AlreadyActedOn | DisputeWindowNotConfigured | DisputeWindowNotElapsed | AlreadyWhitelisted
  | NotWhitelisted | TooManyDelegates | AlreadyDelegate | NotDelegate | NotRefundCustomer
  | NotCancellable | CancelWindowNotConfigured | CancelWindowNotElapsed
  | AutoRejectWindowNotConfigured | AutoRejectWindowNotElapsed | NotRejected
  | AppealWindowNotConfigured | RejectionTimestampMissing | AppealWindowExpired | NotUnderAppeal
  | NotEscrowContract | EscrowContractNotConfigured | RefundVersionOverflow | RefundMigrationDone
  | RefundAlreadyPaused | RefundNotPaused | RefundContractPaused | TiersNotSorted | TierBpsTooHigh

section \<open>Events\<close>

datatype (plugins only: code size) refund_event =
    RefundRequested u32 address i128 address string
  | RefundApproved u32 address u64
  | RefundRejected u32 address string u64
  | RefundProcessed u32 address i128 u64
  | RefundUpgraded u32 u32 address
  | RefundAutoApproved u32 address i128
  | PartialRefundCapApplied u32 i128
  | RefundPaused address string u64
  | RefundResumed address u64
  | RefundAutoApprovedWhitelist u32 address i128
  | EscrowRefundRegistered u32 u32 address i128
  | RefundFeeCollected u32 i128
  | RefundReasonRecorded u32 u32
  | RefundAutoRejected u32 u64
  | RefundTierApplied u32 u32 i128
  | MerchantInitiatedRefund u32 u32 address i128 u32
  | AppealResolved u32 bool
  | BulkRefundProcessed u32 i128
  | RefundAppealed u32 address
  | DelegateAdded address address
  | RefundApprovedByDelegate u32 address
  | RefundRequestCancelled u32 address
  | RefundCooldownActive address u64

section \<open>Storage\<close>

text \<open>One field per \<open>DataKey\<close> beyond those every contract has; the last one is temporary.\<close>

record 'l refund_state = "('l, refund_event) contract" +
  refund_counter :: "u32 option"
  payment_contract_address :: "address option"
  dispute_window :: "u64 option"
  escrow_contract_address :: "address option"
  global_refund_stats :: "refund_stats option"
  refund_fee_bps :: "u32 option"
  refund_fee_recipient :: "address option"
  auto_reject_window :: "u64 option"
  appeal_window :: "u64 option"
  refund_tiers :: "(u64 \<times> u32) list option"
  refund_cooldown :: "u64 option"
  customer_cancel_window :: "u64 option"
  refunds :: "u32 \<rightharpoonup> refund"
  customer_refunds :: "address \<rightharpoonup> u32 list"
  merchant_refunds :: "address \<rightharpoonup> u32 list"
  payment_refunds :: "u32 \<rightharpoonup> u32 list"
  refunded_amount :: "u32 \<rightharpoonup> i128"
  auto_approved_merchants :: "address list option"
  merchant_refund_stats :: "address \<rightharpoonup> refund_stats"
  reason_code_refunds :: "address \<times> u32 \<rightharpoonup> u32 list"
  reason_code_count :: "address \<times> u32 \<rightharpoonup> u32"
  refund_deadline_extension :: "u32 \<rightharpoonup> u64"
  pending_refund_queue :: "u32 list option"
  merchant_delegates :: "address \<rightharpoonup> address list"
  last_refund_request :: "(address, u64) temporary"

definition deployed_refund :: "'l \<Rightarrow> 'l refund_state" where
  "deployed_refund l =
     \<lparr>ledger = l, events = [], admin = None, contract_version = None,
      migration_completed = Map.empty, paused = None, pause_reason = None,
      refund_counter = None, payment_contract_address = None, dispute_window = None,
      escrow_contract_address = None, global_refund_stats = None, refund_fee_bps = None,
      refund_fee_recipient = None, auto_reject_window = None, appeal_window = None,
      refund_tiers = None, refund_cooldown = None, customer_cancel_window = None, refunds =
      Map.empty, customer_refunds = Map.empty, merchant_refunds = Map.empty, payment_refunds =
      Map.empty, refunded_amount = Map.empty, auto_approved_merchants = None,
      merchant_refund_stats = Map.empty, reason_code_refunds = Map.empty, reason_code_count =
      Map.empty, refund_deadline_extension = Map.empty, pending_refund_queue = None,
      merchant_delegates = Map.empty, last_refund_request = Map.empty\<rparr>"

lemma publish_refund_fields [simp]:
  "refund_counter (publish ev st) = refund_counter st"
  "payment_contract_address (publish ev st) = payment_contract_address st"
  "dispute_window (publish ev st) = dispute_window st"
  "escrow_contract_address (publish ev st) = escrow_contract_address st"
  "global_refund_stats (publish ev st) = global_refund_stats st"
  "refund_fee_bps (publish ev st) = refund_fee_bps st"
  "refund_fee_recipient (publish ev st) = refund_fee_recipient st"
  "auto_reject_window (publish ev st) = auto_reject_window st"
  "appeal_window (publish ev st) = appeal_window st"
  "refund_tiers (publish ev st) = refund_tiers st"
  "refund_cooldown (publish ev st) = refund_cooldown st"
  "customer_cancel_window (publish ev st) = customer_cancel_window st"
  "refunds (publish ev st) = refunds st"
  "customer_refunds (publish ev st) = customer_refunds st"
  "merchant_refunds (publish ev st) = merchant_refunds st"
  "payment_refunds (publish ev st) = payment_refunds st"
  "refunded_amount (publish ev st) = refunded_amount st"
  "auto_approved_merchants (publish ev st) = auto_approved_merchants st"
  "merchant_refund_stats (publish ev st) = merchant_refund_stats st"
  "reason_code_refunds (publish ev st) = reason_code_refunds st"
  "reason_code_count (publish ev st) = reason_code_count st"
  "refund_deadline_extension (publish ev st) = refund_deadline_extension st"
  "pending_refund_queue (publish ev st) = pending_refund_queue st"
  "merchant_delegates (publish ev st) = merchant_delegates st"
  "last_refund_request (publish ev st) = last_refund_request st"
  by (simp_all add: publish_def)

section \<open>Publishing events\<close>

definition emit_refund_requested ::
  "u32 \<Rightarrow> address \<Rightarrow> i128 \<Rightarrow> address \<Rightarrow> string \<Rightarrow> 'l refund_state \<Rightarrow> 'l refund_state" where
  "emit_refund_requested refund_id customer amount token reason =
     publish (RefundRequested refund_id customer amount token reason)"

definition emit_refund_approved ::
  "u32 \<Rightarrow> address \<Rightarrow> u64 \<Rightarrow> 'l refund_state \<Rightarrow> 'l refund_state" where
  "emit_refund_approved refund_id approved_by approved_at =
     publish (RefundApproved refund_id approved_by approved_at)"

definition emit_refund_rejected ::
  "u32 \<Rightarrow> address \<Rightarrow> string \<Rightarrow> u64 \<Rightarrow> 'l refund_state \<Rightarrow> 'l refund_state" where
  "emit_refund_rejected refund_id rejected_by rejection_reason rejected_at =
     publish (RefundRejected refund_id rejected_by rejection_reason rejected_at)"

definition emit_refund_processed ::
  "u32 \<Rightarrow> address \<Rightarrow> i128 \<Rightarrow> u64 \<Rightarrow> 'l refund_state \<Rightarrow> 'l refund_state" where
  "emit_refund_processed refund_id customer amount processed_at =
     publish (RefundProcessed refund_id customer amount processed_at)"

definition refund_emit_contract_upgraded ::
  "u32 \<Rightarrow> u32 \<Rightarrow> address \<Rightarrow> 'l refund_state \<Rightarrow> 'l refund_state" where
  "refund_emit_contract_upgraded old_version new_version by_admin =
     publish (RefundUpgraded old_version new_version by_admin)"

definition emit_refund_auto_approved ::
  "u32 \<Rightarrow> address \<Rightarrow> i128 \<Rightarrow> 'l refund_state \<Rightarrow> 'l refund_state" where
  "emit_refund_auto_approved refund_id customer amount =
     publish (RefundAutoApproved refund_id customer amount)"

definition emit_partial_refund_cap_applied ::
  "u32 \<Rightarrow> i128 \<Rightarrow> 'l refund_state \<Rightarrow> 'l refund_state" where
  "emit_partial_refund_cap_applied refund_id remaining_refundable =
     publish (PartialRefundCapApplied refund_id remaining_refundable)"

definition refund_emit_contract_paused ::
  "address \<Rightarrow> string \<Rightarrow> u64 \<Rightarrow> 'l refund_state \<Rightarrow> 'l refund_state" where
  "refund_emit_contract_paused adm reason now =
     publish (RefundPaused adm reason now)"

definition refund_emit_contract_resumed ::
  "address \<Rightarrow> u64 \<Rightarrow> 'l refund_state \<Rightarrow> 'l refund_state" where
  "refund_emit_contract_resumed adm now =
     publish (RefundResumed adm now)"

definition emit_refund_auto_approved_whitelist ::
  "u32 \<Rightarrow> address \<Rightarrow> i128 \<Rightarrow> 'l refund_state \<Rightarrow> 'l refund_state" where
  "emit_refund_auto_approved_whitelist refund_id merchant amount =
     publish (RefundAutoApprovedWhitelist refund_id merchant amount)"

definition emit_escrow_refund_registered ::
  "u32 \<Rightarrow> u32 \<Rightarrow> address \<Rightarrow> i128 \<Rightarrow> 'l refund_state \<Rightarrow> 'l refund_state" where
  "emit_escrow_refund_registered refund_id escrow_id buyer amount =
     publish (EscrowRefundRegistered refund_id escrow_id buyer amount)"

definition emit_refund_fee_collected ::
  "u32 \<Rightarrow> i128 \<Rightarrow> 'l refund_state \<Rightarrow> 'l refund_state" where
  "emit_refund_fee_collected refund_id fee_amount =
     publish (RefundFeeCollected refund_id fee_amount)"

definition emit_refund_reason_recorded ::
  "u32 \<Rightarrow> u32 \<Rightarrow> 'l refund_state \<Rightarrow> 'l refund_state" where
  "emit_refund_reason_recorded refund_id reason_code =
     publish (RefundReasonRecorded refund_id reason_code)"

definition emit_refund_auto_rejected ::
  "u32 \<Rightarrow> u64 \<Rightarrow> 'l refund_state \<Rightarrow> 'l refund_state" where
  "emit_refund_auto_rejected refund_id elapsed_seconds =
     publish (RefundAutoRejected refund_id elapsed_seconds)"

definition emit_refund_tier_applied ::
  "u32 \<Rightarrow> u32 \<Rightarrow> i128 \<Rightarrow> 'l refund_state \<Rightarrow> 'l refund_state" where
  "emit_refund_tier_applied refund_id tier_bps max_refundable =
     publish (RefundTierApplied refund_id tier_bps max_refundable)"

definition emit_merchant_initiated_refund ::
  "u32 \<Rightarrow> u32 \<Rightarrow> address \<Rightarrow> i128 \<Rightarrow> u32 \<Rightarrow> 'l refund_state \<Rightarrow> 'l refund_state" where
  "emit_merchant_initiated_refund refund_id payment_id merchant amount reason_code =
     publish (MerchantInitiatedRefund refund_id payment_id merchant amount reason_code)"

definition emit_appeal_resolved ::
  "u32 \<Rightarrow> bool \<Rightarrow> 'l refund_state \<Rightarrow> 'l refund_state" where
  "emit_appeal_resolved refund_id approved =
     publish (AppealResolved refund_id approved)"

definition emit_bulk_refund_processed ::
  "u32 \<Rightarrow> i128 \<Rightarrow> 'l refund_state \<Rightarrow> 'l refund_state" where
  "emit_bulk_refund_processed count total_amount =
     publish (BulkRefundProcessed count total_amount)"

definition emit_refund_appealed ::
  "u32 \<Rightarrow> address \<Rightarrow> 'l refund_state \<Rightarrow> 'l refund_state" where
  "emit_refund_appealed refund_id customer =
     publish (RefundAppealed refund_id customer)"

definition emit_delegate_added ::
  "address \<Rightarrow> address \<Rightarrow> 'l refund_state \<Rightarrow> 'l refund_state" where
  "emit_delegate_added merchant delegate =
     publish (DelegateAdded merchant delegate)"

definition emit_refund_approved_by_delegate ::
  "u32 \<Rightarrow> address \<Rightarrow> 'l refund_state \<Rightarrow> 'l refund_state" where
  "emit_refund_approved_by_delegate refund_id delegate =
     publish (RefundApprovedByDelegate refund_id delegate)"

definition emit_refund_request_cancelled ::
  "u32 \<Rightarrow> address \<Rightarrow> 'l refund_state \<Rightarrow> 'l refund_state" where
  "emit_refund_request_cancelled refund_id cancelled_by =
     publish (RefundRequestCancelled refund_id cancelled_by)"

text \<open>Published just before a panic that rolls it back.\<close>

definition emit_refund_cooldown_active ::
  "address \<Rightarrow> u64 \<Rightarrow> 'l refund_state \<Rightarrow> 'l refund_state" where
  "emit_refund_cooldown_active customer next_eligible_at =
     publish (RefundCooldownActive customer next_eligible_at)"

lemmas refund_emit_defs = emit_refund_requested_def emit_refund_approved_def emit_refund_rejected_def
  emit_refund_processed_def refund_emit_contract_upgraded_def emit_refund_auto_approved_def
  emit_partial_refund_cap_applied_def refund_emit_contract_paused_def
  refund_emit_contract_resumed_def emit_refund_auto_approved_whitelist_def
  emit_escrow_refund_registered_def emit_refund_fee_collected_def
  emit_refund_reason_recorded_def emit_refund_auto_rejected_def emit_refund_tier_applied_def
  emit_merchant_initiated_refund_def emit_appeal_resolved_def emit_bulk_refund_processed_def
  emit_refund_appealed_def emit_delegate_added_def emit_refund_approved_by_delegate_def
  emit_refund_request_cancelled_def

end
