(* ===== verification/Refund_Admin.thy ===== *)
theory Refund_Admin
  imports Refund_Types
begin

text \<open>
  Administration of the refund contract (lib.rs): the guards, initialization, versions, the
  emergency stop, fees and tiers, the whitelist, delegates, the indexes and their pages, the
  pending queue and the statistics.
\<close>

section \<open>Guards\<close>

definition refund_is_paused :: "'l refund_state \<Rightarrow> bool" where
  "refund_is_paused st = unwrap_or False (paused st)"

definition refund_require_not_paused :: "'l refund_state \<Rightarrow> (refund_panic, unit) outcome" where
  "refund_require_not_paused st =
     (if unwrap_or False (paused st) then Inl (Panic RefundContractPaused) else Inr ())"

definition refund_require_admin ::
  "'l host \<Rightarrow> address \<Rightarrow> 'l refund_state \<Rightarrow> (refund_panic, unit) outcome" where
  "refund_require_admin h adm st =
     and_then (require_auth h adm) (\<lambda>_.
     and_then (expect RefundNotInitialized (admin st)) (\<lambda>stored_admin.
     if stored_admin \<noteq> adm then Inl (Panic RefundOnlyAdmin) else Inr ()))"

lemma refund_guards_Inr [ok_simps]:
  "refund_require_not_paused st = Inr u \<longleftrightarrow> \<not> refund_is_paused st"
  "refund_require_admin h adm st = Inr v \<longleftrightarrow> authorized h adm \<and> admin st = Some adm"
  by (auto simp: refund_require_not_paused_def refund_is_paused_def refund_require_admin_def ok_simps)

definition refund_get_or_init_version :: "'l refund_state \<Rightarrow> u32 \<times> 'l refund_state" where
  "refund_get_or_init_version st =
     (case contract_version st of
        Some version \<Rightarrow> (version, st)
      | None \<Rightarrow> (1, st\<lparr>contract_version := Some 1\<rparr>))"

section \<open>Lifecycle of the contract\<close>

text \<open>The loop of \<open>validate_refund_tiers\<close>; \<open>first\<close> holds in its first round.\<close>

fun validate_refund_tiers_from ::
  "bool \<Rightarrow> u64 \<Rightarrow> (u64 \<times> u32) list \<Rightarrow> (refund_panic, unit) outcome" where
  "validate_refund_tiers_from is_first prev_max [] = Inr ()"
| "validate_refund_tiers_from is_first prev_max ((max_seconds_since_payment, bps) # tiers) =
     (if \<not> is_first \<and> max_seconds_since_payment < prev_max then Inl (Panic TiersNotSorted)
      else if 10000 < bps then Inl (Panic TierBpsTooHigh)
      else validate_refund_tiers_from False max_seconds_since_payment tiers)"

definition validate_refund_tiers :: "(u64 \<times> u32) list \<Rightarrow> (refund_panic, unit) outcome" where
  "validate_refund_tiers tiers = validate_refund_tiers_from True 0 tiers"

definition refund_initialize ::
  "address \<Rightarrow> address \<Rightarrow> u64 \<Rightarrow> address option \<Rightarrow> u32 \<Rightarrow> address option \<Rightarrow> u64 \<Rightarrow> u64 \<Rightarrow>
   (u64 \<times> u32) list option \<Rightarrow> u64 \<Rightarrow> u64 \<Rightarrow> 'l refund_state \<Rightarrow>
   (refund_panic, 'l refund_state) outcome" where
  "refund_initialize adm payment_contract window escrow_contract fee recipient
     auto_reject_window_seconds appeal_window_seconds tiers cooldown_seconds
     customer_cancel_window_seconds st =
     (if admin st \<noteq> None then Inl (Panic RefundAlreadyInitialized)
      else if 200 < fee then Inl (Panic RefundFeeTooHigh)
      else
        let st = st\<lparr>admin := Some adm, refund_counter := Some 0, contract_version := Some 1,
              payment_contract_address := Some payment_contract, dispute_window := Some window\<rparr>;
            st = (case escrow_contract of
                    None \<Rightarrow> st
                  | Some escrow_addr \<Rightarrow> st\<lparr>escrow_contract_address := Some escrow_addr\<rparr>);
            st = st\<lparr>refund_fee_bps := Some fee\<rparr>;
            st = (case recipient of None \<Rightarrow> st | Some a \<Rightarrow> st\<lparr>refund_fee_recipient := Some a\<rparr>);
            tiers = unwrap_or [] tiers in
        and_then (validate_refund_tiers tiers) (\<lambda>_.
        Inr (st\<lparr>refund_tiers := Some tiers,
          global_refund_stats := Some \<lparr>total_requested = 0, total_approved = 0,
            total_rejected = 0, total_processed = 0, total_amount_refunded = 0\<rparr>,
          auto_approved_merchants := Some [],
          auto_reject_window := Some (if auto_reject_window_seconds = 0 then 2592000
            else auto_reject_window_seconds),
          appeal_window := Some appeal_window_seconds, pending_refund_queue := Some [],
          refund_cooldown := Some cooldown_seconds,
          customer_cancel_window := Some customer_cancel_window_seconds\<rparr>)))"

definition refund_upgrade ::
  "'l host \<Rightarrow> address \<Rightarrow> bytes32 \<Rightarrow> 'l refund_state \<Rightarrow> (refund_panic, 'l refund_state) outcome" where
  "refund_upgrade h adm new_wasm_hash st =
     and_then (refund_require_admin h adm st) (\<lambda>_.
     let (old_version, st) = refund_get_or_init_version st in
     if \<not> wasm_installed h new_wasm_hash then Inl HostFailure
     else if \<not> old_version + 1 < 2 ^ 32 then Inl (Panic RefundVersionOverflow)
     else let new_version = old_version + 1 in
       Inr (refund_emit_contract_upgraded old_version new_version adm
         (st\<lparr>contract_version := Some new_version\<rparr>)))"

definition refund_migrate ::
  "'l host \<Rightarrow> address \<Rightarrow> 'l refund_state \<Rightarrow> (refund_panic, 'l refund_state) outcome" where
  "refund_migrate h adm st =
     and_then (refund_require_admin h adm st) (\<lambda>_.
     let (version, st) = refund_get_or_init_version st in
     if unwrap_or False (migration_completed st version) then Inl (Panic RefundMigrationDone)
     else Inr (st\<lparr>migration_completed := (migration_completed st)(version \<mapsto> True)\<rparr>))"

definition refund_get_version :: "'l refund_state \<Rightarrow> u32 \<times> 'l refund_state" where
  "refund_get_version st = refund_get_or_init_version st"

definition refund_pause_contract ::
  "'l host \<Rightarrow> address \<Rightarrow> string \<Rightarrow> 'l refund_state \<Rightarrow> (refund_panic, 'l refund_state) outcome" where
  "refund_pause_contract h adm reason st =
     and_then (refund_require_admin h adm st) (\<lambda>_.
     if refund_is_paused st then Inl (Panic RefundAlreadyPaused)
     else Inr (refund_emit_contract_paused adm reason (timestamp h)
            (st\<lparr>paused := Some True, pause_reason := Some reason\<rparr>)))"

definition refund_resume_contract ::
  "'l host \<Rightarrow> address \<Rightarrow> 'l refund_state \<Rightarrow> (refund_panic, 'l refund_state) outcome" where
  "refund_resume_contract h adm st =
     and_then (refund_require_admin h adm st) (\<lambda>_.
     if \<not> refund_is_paused st then Inl (Panic RefundNotPaused)
     else Inr (refund_emit_contract_resumed adm (timestamp h)
            (st\<lparr>paused := Some False, pause_reason := None\<rparr>)))"

definition refund_get_pause_reason :: "'l refund_state \<Rightarrow> string" where
  "refund_get_pause_reason st = unwrap_or [] (pause_reason st)"

section \<open>Settings\<close>

definition set_refund_tiers ::
  "'l host \<Rightarrow> address \<Rightarrow> (u64 \<times> u32) list \<Rightarrow> 'l refund_state \<Rightarrow> (refund_panic, 'l refund_state) outcome" where
  "set_refund_tiers h adm tiers st =
     and_then (refund_require_admin h adm st) (\<lambda>_.
     and_then (validate_refund_tiers tiers) (\<lambda>_.
     Inr (st\<lparr>refund_tiers := Some tiers\<rparr>)))"

definition get_refund_tiers :: "'l refund_state \<Rightarrow> (u64 \<times> u32) list" where
  "get_refund_tiers st = unwrap_or [] (refund_tiers st)"

definition update_refund_fee ::
  "'l host \<Rightarrow> address \<Rightarrow> u32 \<Rightarrow> 'l refund_state \<Rightarrow> (refund_panic, 'l refund_state) outcome" where
  "update_refund_fee h adm new_fee_bps st =
     and_then (refund_require_admin h adm st) (\<lambda>_.
     if 200 < new_fee_bps then Inl (Panic RefundFeeTooHigh)
     else Inr (st\<lparr>refund_fee_bps := Some new_fee_bps\<rparr>))"

definition get_refund_fee :: "'l refund_state \<Rightarrow> u32" where
  "get_refund_fee st = unwrap_or 0 (refund_fee_bps st)"

definition refund_get_fee_recipient :: "'l refund_state \<Rightarrow> address option" where
  "refund_get_fee_recipient st = refund_fee_recipient st"

definition get_dispute_window :: "'l refund_state \<Rightarrow> (refund_panic, u64) outcome" where
  "get_dispute_window st = expect DisputeWindowNotConfigured (dispute_window st)"

definition get_auto_reject_window :: "'l refund_state \<Rightarrow> (refund_panic, u64) outcome" where
  "get_auto_reject_window st = expect AutoRejectWindowNotConfigured (auto_reject_window st)"

definition get_appeal_window :: "'l refund_state \<Rightarrow> (refund_panic, u64) outcome" where
  "get_appeal_window st = expect AppealWindowNotConfigured (appeal_window st)"

definition get_customer_cancel_window :: "'l refund_state \<Rightarrow> (refund_panic, u64) outcome" where
  "get_customer_cancel_window st = expect CancelWindowNotConfigured (customer_cancel_window st)"

definition get_refund_cooldown :: "'l refund_state \<Rightarrow> u64" where
  "get_refund_cooldown st = unwrap_or 0 (refund_cooldown st)"

definition refund_get_admin :: "'l refund_state \<Rightarrow> (refund_panic, address) outcome" where
  "refund_get_admin st = expect RefundNotInitialized (admin st)"

definition get_payment_contract :: "'l refund_state \<Rightarrow> (refund_panic, address) outcome" where
  "get_payment_contract st = expect PaymentContractNotConfigured (payment_contract_address st)"

definition waive_cooldown ::
  "'l host \<Rightarrow> address \<Rightarrow> address \<Rightarrow> 'l refund_state \<Rightarrow> (refund_panic, 'l refund_state) outcome" where
  "waive_cooldown h adm customer st =
     and_then (refund_require_admin h adm st) (\<lambda>_.
     Inr (st\<lparr>last_refund_request := (last_refund_request st)(customer := None)\<rparr>))"

section \<open>Whitelist and delegates\<close>

definition add_to_auto_approve ::
  "'l host \<Rightarrow> address \<Rightarrow> address \<Rightarrow> 'l refund_state \<Rightarrow> (refund_panic, 'l refund_state) outcome" where
  "add_to_auto_approve h adm merchant st =
     and_then (refund_require_admin h adm st) (\<lambda>_.
     let whitelist = unwrap_or [] (auto_approved_merchants st) in
     if merchant \<in> set whitelist then Inl (Panic AlreadyWhitelisted)
     else Inr (st\<lparr>auto_approved_merchants := Some (whitelist @ [merchant])\<rparr>))"

definition remove_from_auto_approve ::
  "'l host \<Rightarrow> address \<Rightarrow> address \<Rightarrow> 'l refund_state \<Rightarrow> (refund_panic, 'l refund_state) outcome" where
  "remove_from_auto_approve h adm merchant st =
     and_then (refund_require_admin h adm st) (\<lambda>_.
     let whitelist = unwrap_or [] (auto_approved_merchants st) in
     if merchant \<notin> set whitelist then Inl (Panic NotWhitelisted)
     else Inr (st\<lparr>auto_approved_merchants := Some (filter (\<lambda>addr. addr \<noteq> merchant) whitelist)\<rparr>))"

definition get_auto_approved_merchants :: "'l refund_state \<Rightarrow> address list" where
  "get_auto_approved_merchants st = unwrap_or [] (auto_approved_merchants st)"

definition is_merchant_auto_approved :: "address \<Rightarrow> 'l refund_state \<Rightarrow> bool" where
  "is_merchant_auto_approved merchant st =
     (merchant \<in> set (unwrap_or [] (auto_approved_merchants st)))"

definition add_delegate ::
  "'l host \<Rightarrow> address \<Rightarrow> address \<Rightarrow> 'l refund_state \<Rightarrow> (refund_panic, 'l refund_state) outcome" where
  "add_delegate h merchant delegate st =
     and_then (refund_require_not_paused st) (\<lambda>_.
     and_then (require_auth h merchant) (\<lambda>_.
     let delegates = unwrap_or [] (merchant_delegates st merchant) in
     if 5 \<le> length delegates then Inl (Panic TooManyDelegates)
     else if delegate \<in> set delegates then Inl (Panic AlreadyDelegate)
     else Inr (emit_delegate_added merchant delegate
            (st\<lparr>merchant_delegates := (merchant_delegates st)(merchant \<mapsto> delegates @ [delegate])\<rparr>))))"

definition remove_delegate ::
  "'l host \<Rightarrow> address \<Rightarrow> address \<Rightarrow> 'l refund_state \<Rightarrow> (refund_panic, 'l refund_state) outcome" where
  "remove_delegate h merchant delegate st =
     and_then (refund_require_not_paused st) (\<lambda>_.
     and_then (require_auth h merchant) (\<lambda>_.
     let delegates = unwrap_or [] (merchant_delegates st merchant) in
     if delegate \<notin> set delegates then Inl (Panic NotDelegate)
     else Inr (st\<lparr>merchant_delegates := (merchant_delegates st)
            (merchant \<mapsto> filter (\<lambda>addr. addr \<noteq> delegate) delegates)\<rparr>)))"

definition get_delegates :: "address \<Rightarrow> 'l refund_state \<Rightarrow> address list" where
  "get_delegates merchant st = unwrap_or [] (merchant_delegates st merchant)"

definition is_merchant_delegate :: "address \<Rightarrow> address \<Rightarrow> 'l refund_state \<Rightarrow> bool" where
  "is_merchant_delegate merchant caller st =
     (caller \<in> set (unwrap_or [] (merchant_delegates st merchant)))"

section \<open>Indexes\<close>

text \<open>\<open>append_index\<close> on the map that holds the keys of one kind.\<close>

definition append_index :: "'k \<Rightarrow> u32 \<Rightarrow> ('k \<rightharpoonup> u32 list) \<Rightarrow> ('k \<rightharpoonup> u32 list)" where
  "append_index key refund_id m = m(key \<mapsto> unwrap_or [] (m key) @ [refund_id])"

text \<open>The elements at the positions from \<open>start\<close> up to, but not including, \<open>stop\<close>.\<close>

definition slice :: "'a list \<Rightarrow> nat \<Rightarrow> nat \<Rightarrow> 'a list" where
  "slice xs start stop = map (\<lambda>i. xs ! i) [start..<stop]"

definition paginate ::
  "('k \<rightharpoonup> u32 list) \<Rightarrow> 'k \<Rightarrow> u32 \<Rightarrow> u32 \<Rightarrow> (refund_panic, u32 list) outcome" where
  "paginate m key limit offset =
     (let all = unwrap_or [] (m key);
          total = length all;
          start = min offset total in
      and_then (add_u32 start limit) (\<lambda>stop.
      Inr (slice all start (min stop total))))"

definition get_refunds_by_customer ::
  "address \<Rightarrow> u32 \<Rightarrow> u32 \<Rightarrow> 'l refund_state \<Rightarrow> (refund_panic, u32 list) outcome" where
  "get_refunds_by_customer customer limit offset st =
     paginate (customer_refunds st) customer limit offset"

definition get_refunds_by_merchant ::
  "address \<Rightarrow> u32 \<Rightarrow> u32 \<Rightarrow> 'l refund_state \<Rightarrow> (refund_panic, u32 list) outcome" where
  "get_refunds_by_merchant merchant limit offset st =
     paginate (merchant_refunds st) merchant limit offset"

definition get_refunds_by_payment :: "u32 \<Rightarrow> 'l refund_state \<Rightarrow> u32 list" where
  "get_refunds_by_payment payment_id st = unwrap_or [] (payment_refunds st payment_id)"

definition mul_u32 :: "u32 \<Rightarrow> u32 \<Rightarrow> ('p, u32) outcome" where
  "mul_u32 a b = (if a * b < 2 ^ 32 then Inr (a * b) else Inl Overflow)"

definition get_refunds_by_reason ::
  "address \<Rightarrow> u32 \<Rightarrow> u32 \<Rightarrow> u32 \<Rightarrow> 'l refund_state \<Rightarrow> (refund_panic, u32 list) outcome" where
  "get_refunds_by_reason merchant reason_code page page_size st =
     (if 4 < reason_code then Inl (Panic InvalidReasonCode)
      else
        let all = unwrap_or [] (reason_code_refunds st (merchant, reason_code));
            total = length all in
        and_then (mul_u32 page page_size) (\<lambda>skipped.
        let start = min skipped total in
        and_then (add_u32 start page_size) (\<lambda>stop.
        Inr (slice all start (min stop total)))))"

definition get_reason_code_count ::
  "address \<Rightarrow> u32 \<Rightarrow> 'l refund_state \<Rightarrow> (refund_panic, u32) outcome" where
  "get_reason_code_count merchant reason_code st =
     (if 4 < reason_code then Inl (Panic InvalidReasonCode)
      else Inr (unwrap_or 0 (reason_code_count st (merchant, reason_code))))"

section \<open>The pending queue\<close>

definition append_to_pending_queue :: "u32 \<Rightarrow> 'l refund_state \<Rightarrow> 'l refund_state" where
  "append_to_pending_queue refund_id st =
     st\<lparr>pending_refund_queue := Some (unwrap_or [] (pending_refund_queue st) @ [refund_id])\<rparr>"

definition remove_from_pending_queue :: "u32 \<Rightarrow> 'l refund_state \<Rightarrow> 'l refund_state" where
  "remove_from_pending_queue refund_id st =
     st\<lparr>pending_refund_queue :=
       Some (filter (\<lambda>i. i \<noteq> refund_id) (unwrap_or [] (pending_refund_queue st)))\<rparr>"

definition get_pending_refund_queue ::
  "u32 \<Rightarrow> u32 \<Rightarrow> 'l refund_state \<Rightarrow> (refund_panic, u32 list \<times> u32 \<times> bool) outcome" where
  "get_pending_refund_queue page page_size st =
     (let effective_size = min page_size 50;
          queue = unwrap_or [] (pending_refund_queue st);
          total = length queue in
      and_then (mul_u32 page effective_size) (\<lambda>skipped.
      let start = min skipped total in
      and_then (add_u32 start effective_size) (\<lambda>stop.
      let stop = min stop total
      in Inr (slice queue start stop, total, stop < total))))"

definition get_pending_refund_count :: "'l refund_state \<Rightarrow> u32" where
  "get_pending_refund_count st = length (unwrap_or [] (pending_refund_queue st))"

section \<open>Statistics\<close>

definition get_global_refund_stats :: "'l refund_state \<Rightarrow> refund_stats" where
  "get_global_refund_stats st =
     unwrap_or \<lparr>total_requested = 0, total_approved = 0, total_rejected = 0,
       total_processed = 0, total_amount_refunded = 0\<rparr> (global_refund_stats st)"

definition get_merchant_refund_stats :: "address \<Rightarrow> 'l refund_state \<Rightarrow> refund_stats" where
  "get_merchant_refund_stats merchant st =
     unwrap_or \<lparr>total_requested = 0, total_approved = 0, total_rejected = 0,
       total_processed = 0, total_amount_refunded = 0\<rparr> (merchant_refund_stats st merchant)"

definition update_stats_on_request ::
  "address \<Rightarrow> i128 \<Rightarrow> 'l refund_state \<Rightarrow> (refund_panic, 'l refund_state) outcome" where
  "update_stats_on_request merchant amount st =
     (let g = get_global_refund_stats st in
      and_then (add_u32 (total_requested g) 1) (\<lambda>n.
      let st = st\<lparr>global_refund_stats := Some (g\<lparr>total_requested := n\<rparr>)\<rparr>;
          m = get_merchant_refund_stats merchant st in
      and_then (add_u32 (total_requested m) 1) (\<lambda>n.
      Inr (st\<lparr>merchant_refund_stats :=
        (merchant_refund_stats st)(merchant \<mapsto> m\<lparr>total_requested := n\<rparr>)\<rparr>))))"

definition update_stats_on_approve ::
  "address \<Rightarrow> 'l refund_state \<Rightarrow> (refund_panic, 'l refund_state) outcome" where
  "update_stats_on_approve merchant st =
     (let g = get_global_refund_stats st in
      and_then (add_u32 (total_approved g) 1) (\<lambda>n.
      let st = st\<lparr>global_refund_stats := Some (g\<lparr>total_approved := n\<rparr>)\<rparr>;
          m = get_merchant_refund_stats merchant st in
      and_then (add_u32 (total_approved m) 1) (\<lambda>n.
      Inr (st\<lparr>merchant_refund_stats :=
        (merchant_refund_stats st)(merchant \<mapsto> m\<lparr>total_approved := n\<rparr>)\<rparr>))))"

definition update_stats_on_reject ::
  "address \<Rightarrow> 'l refund_state \<Rightarrow> (refund_panic, 'l refund_state) outcome" where
  "update_stats_on_reject merchant st =
     (let g = get_global_refund_stats st in
      and_then (add_u32 (total_rejected g) 1) (\<lambda>n.
      let st = st\<lparr>global_refund_stats := Some (g\<lparr>total_rejected := n\<rparr>)\<rparr>;
          m = get_merchant_refund_stats merchant st in
      and_then (add_u32 (total_rejected m) 1) (\<lambda>n.
      Inr (st\<lparr>merchant_refund_stats :=
        (merchant_refund_stats st)(merchant \<mapsto> m\<lparr>total_rejected := n\<rparr>)\<rparr>))))"

definition update_stats_on_process ::
  "address \<Rightarrow> i128 \<Rightarrow> 'l refund_state \<Rightarrow> (refund_panic, 'l refund_state) outcome" where
  "update_stats_on_process merchant amount st =
     (let g = get_global_refund_stats st in
      and_then (add_u32 (total_processed g) 1) (\<lambda>n.
      and_then (add128 (total_amount_refunded g) amount) (\<lambda>a.
      let st = st\<lparr>global_refund_stats :=
            Some (g\<lparr>total_processed := n, total_amount_refunded := a\<rparr>)\<rparr>;
          m = get_merchant_refund_stats merchant st in
      and_then (add_u32 (total_processed m) 1) (\<lambda>n.
      and_then (add128 (total_amount_refunded m) amount) (\<lambda>a.
      Inr (st\<lparr>merchant_refund_stats := (merchant_refund_stats st)(merchant \<mapsto>
        m\<lparr>total_processed := n, total_amount_refunded := a\<rparr>)\<rparr>))))))"

end
