(* ===== verification/Refund_Ops.thy ===== *)
theory Refund_Ops
  imports Refund_Admin
begin

text \<open>
  The operations on refunds (lib.rs): requests, approval and rejection, processing one by one or
  in bulk, refunds by the merchant, the automatic paths, cancellation, appeals and the refunds
  the escrow contract registers.  The payment contract is the argument \<open>q\<close>.
\<close>

section \<open>Helpers\<close>

definition next_refund_id :: "'l refund_state \<Rightarrow> (refund_panic, u32 \<times> 'l refund_state) outcome" where
  "next_refund_id st =
     (let id = unwrap_or 0 (refund_counter st) in
      and_then (add_u32 id 1) (\<lambda>counter.
      Inr (id, st\<lparr>refund_counter := Some counter\<rparr>)))"

definition store_refund :: "u32 \<Rightarrow> refund \<Rightarrow> 'l refund_state \<Rightarrow> 'l refund_state" where
  "store_refund refund_id refund st = st\<lparr>refunds := (refunds st)(refund_id \<mapsto> refund)\<rparr>"

definition already_refunded :: "u32 \<Rightarrow> 'l refund_state \<Rightarrow> i128" where
  "already_refunded payment_id st = unwrap_or 0 (refunded_amount st payment_id)"

definition index_refund :: "refund \<Rightarrow> 'l refund_state \<Rightarrow> 'l refund_state" where
  "index_refund refund st = st\<lparr>
     customer_refunds := append_index (r_customer refund) (r_id refund) (customer_refunds st),
     merchant_refunds := append_index (r_merchant refund) (r_id refund) (merchant_refunds st),
     payment_refunds := append_index (r_payment_id refund) (r_id refund) (payment_refunds st)\<rparr>"

text \<open>The call into the payment contract, both of whose failures are the same panic.\<close>

definition fetch_payment ::
  "payment_lookup \<Rightarrow> u32 \<Rightarrow> 'l refund_state \<Rightarrow> (refund_panic, ext_payment) outcome" where
  "fetch_payment q payment_id st =
     and_then (expect PaymentContractNotConfigured (payment_contract_address st))
       (\<lambda>payment_contract_addr.
     expect ExtPaymentNotFound (q payment_contract_addr payment_id))"

definition refund_fee_amount :: "refund \<Rightarrow> 'l refund_state \<Rightarrow> (refund_panic, i128) outcome" where
  "refund_fee_amount refund st =
     (let fee_bps = unwrap_or 0 (refund_fee_bps st) in
      if 0 < fee_bps then u128_share (r_amount refund) fee_bps else Inr 0)"

text \<open>Pays the customer and the fee recipient; returns the customer's part.\<close>

definition pay_out_refund ::
  "'l host \<Rightarrow> u32 \<Rightarrow> refund \<Rightarrow> i128 \<Rightarrow> 'l refund_state \<Rightarrow>
   (refund_panic, i128 \<times> 'l refund_state) outcome" where
  "pay_out_refund h refund_id refund fee_amount st =
     and_then (sub128 (r_amount refund) fee_amount) (\<lambda>customer_amount.
     and_then
       (if 0 < customer_amount
        then token_transfer h (r_token refund) (self_address h) (r_customer refund) customer_amount st
        else Inr st) (\<lambda>st.
     and_then
       (if 0 < fee_amount
        then (case refund_fee_recipient st of
                None \<Rightarrow> Inr st
              | Some fee_recipient \<Rightarrow>
                  and_then (token_transfer h (r_token refund) (self_address h) fee_recipient
                    fee_amount st) (\<lambda>st.
                  Inr (emit_refund_fee_collected refund_id fee_amount st)))
        else Inr st) (\<lambda>st.
     Inr (customer_amount, st))))"

definition add_refunded ::
  "refund \<Rightarrow> 'l refund_state \<Rightarrow> (refund_panic, 'l refund_state) outcome" where
  "add_refunded refund st =
     and_then (add128 (already_refunded (r_payment_id refund) st) (r_amount refund)) (\<lambda>new_total.
     Inr (st\<lparr>refunded_amount := (refunded_amount st)(r_payment_id refund \<mapsto> new_total)\<rparr>))"

definition fee_record :: "i128 \<Rightarrow> i128 option" where
  "fee_record fee_amount = (if 0 < fee_amount then Some fee_amount else None)"

section \<open>Requests\<close>

text \<open>The cooldown check of \<open>request_refund\<close>; the event it publishes is rolled back by its panic.\<close>

definition cooldown_guard ::
  "'l host \<Rightarrow> address \<Rightarrow> u64 \<Rightarrow> 'l refund_state \<Rightarrow> (refund_panic, unit) outcome" where
  "cooldown_guard h customer cooldown st =
     (if 0 < cooldown then
        let last_request = unwrap_or 0 (temp_get h customer (last_refund_request st)) in
        if 0 < last_request \<and> saturating_sub (timestamp h) last_request < cooldown
        then and_then (add_u64 last_request cooldown) (\<lambda>next_eligible_at. Inl (Panic CooldownActive))
        else Inr ()
      else Inr ())"

text \<open>The first tier the elapsed time still falls into.\<close>

fun find_tier :: "u64 \<Rightarrow> (u64 \<times> u32) list \<Rightarrow> u32 option" where
  "find_tier elapsed [] = None"
| "find_tier elapsed ((max_seconds, tier_bps) # tiers) =
     (if elapsed \<le> max_seconds then Some tier_bps else find_tier elapsed tiers)"

text \<open>The amount a request is cut to, with the tier applied and what it left refundable.\<close>

definition apply_tiers ::
  "'l host \<Rightarrow> ext_payment \<Rightarrow> i128 \<Rightarrow> i128 \<Rightarrow> (u64 \<times> u32) list \<Rightarrow>
   (refund_panic, i128 \<times> (u32 \<times> i128) option) outcome" where
  "apply_tiers h payment amount refunded tiers =
     (if tiers = [] then Inr (amount, None)
      else
        let elapsed = saturating_sub (timestamp h) (x_created_at payment) in
        and_then (expect RefundWindowExpired (find_tier elapsed tiers)) (\<lambda>tier_bps.
        and_then (u128_share (x_amount payment) tier_bps) (\<lambda>absolute_cap.
        let remaining_under_tier = saturating_sub128 absolute_cap refunded in
        if remaining_under_tier \<le> 0 then Inl (Panic ExceedsRefundableAmount)
        else Inr (if remaining_under_tier < amount then remaining_under_tier else amount,
                  Some (tier_bps, remaining_under_tier)))))"

text \<open>\<open>prev_count + 1\<close> of the reason's counter.\<close>

definition count_reason ::
  "address \<Rightarrow> u32 \<Rightarrow> 'l refund_state \<Rightarrow> (refund_panic, 'l refund_state) outcome" where
  "count_reason merchant reason_code st =
     and_then (add_u32 (unwrap_or 0 (reason_code_count st (merchant, reason_code))) 1) (\<lambda>count.
     Inr (st\<lparr>reason_code_count := (reason_code_count st)((merchant, reason_code) \<mapsto> count)\<rparr>))"

text \<open>The tail of \<open>request_refund\<close>: the time of the request, and its events.\<close>

definition note_request_time ::
  "'l host \<Rightarrow> address \<Rightarrow> u64 \<Rightarrow> 'l refund_state \<Rightarrow> 'l refund_state" where
  "note_request_time h customer cooldown st =
     (if 0 < cooldown
      then st\<lparr>last_refund_request :=
        temp_extend_ttl h customer INSTANCE_BUMP_AMOUNT INSTANCE_BUMP_AMOUNT
          (temp_set h customer (timestamp h) (last_refund_request st))\<rparr>
      else st)"

definition announce_request ::
  "refund \<Rightarrow> (u32 \<times> i128) option \<Rightarrow> bool \<Rightarrow> 'l refund_state \<Rightarrow> 'l refund_state" where
  "announce_request refund applied_tier is_whitelisted st =
     (let st = emit_refund_requested (r_id refund) (r_customer refund) (r_amount refund)
            (r_token refund) (r_reason refund) st;
          st = emit_refund_reason_recorded (r_id refund) (r_reason_code refund) st;
          st = (case applied_tier of
                  None \<Rightarrow> st
                | Some (tier_bps, max_refundable) \<Rightarrow>
                    emit_refund_tier_applied (r_id refund) tier_bps max_refundable st)
      in if is_whitelisted
         then emit_refund_auto_approved_whitelist (r_id refund) (r_merchant refund)
                (r_amount refund) st
         else st)"

definition request_refund ::
  "'l host \<Rightarrow> payment_lookup \<Rightarrow> address \<Rightarrow> u32 \<Rightarrow> i128 \<Rightarrow> string \<Rightarrow> u32 \<Rightarrow> 'l refund_state \<Rightarrow>
   (refund_panic, u32 \<times> 'l refund_state) outcome" where
  "request_refund h q customer payment_id amount reason reason_code st =
     and_then (refund_require_not_paused st) (\<lambda>_.
     and_then (require_auth h customer) (\<lambda>_.
     if amount \<le> 0 then Inl (Panic RefundAmountNotPositive)
     else if 4 < reason_code then Inl (Panic InvalidReasonCode)
     else
       let cooldown = unwrap_or 0 (refund_cooldown st) in
       and_then (cooldown_guard h customer cooldown st) (\<lambda>_.
       and_then (fetch_payment q payment_id st) (\<lambda>payment.
       if x_status payment \<noteq> ExtCompleted then Inl (Panic ExtPaymentNotCompleted)
       else
         let merchant = x_merchant payment;
             refunded = already_refunded payment_id st in
         and_then (apply_tiers h payment amount refunded (get_refund_tiers st))
           (\<lambda>(effective_amount, applied_tier).
         and_then (add128 effective_amount refunded) (\<lambda>total.
         if x_amount payment < total then Inl (Panic ExceedsRefundableAmount)
         else
           let token = x_token payment in
           and_then (token_transfer h token customer (self_address h) effective_amount st) (\<lambda>st.
           and_then (next_refund_id st) (\<lambda>(refund_id, st).
           let is_whitelisted = is_merchant_auto_approved merchant st;
               now = timestamp h;
               refund = \<lparr>r_id = refund_id, r_payment_id = payment_id, r_customer = customer,
                 r_merchant = merchant, r_amount = effective_amount, r_token = token,
                 r_status = (if is_whitelisted then Approved else Requested),
                 r_reason = reason, r_reason_code = reason_code, r_requested_at = now,
                 r_approved_at = (if is_whitelisted then Some now else None),
                 r_processed_at = None, r_rejected_at = None,
                 r_auto_approved_source = (if is_whitelisted then Some ''whitelist'' else None),
                 r_escrow_id = None, r_fee_amount = None\<rparr>;
               st = index_refund refund (store_refund refund_id refund st);
               st = st\<lparr>reason_code_refunds := append_index (merchant, reason_code) refund_id
                 (reason_code_refunds st)\<rparr> in
           and_then (count_reason merchant reason_code st) (\<lambda>st.
           let st = (if is_whitelisted then st else append_to_pending_queue refund_id st) in
           and_then (update_stats_on_request merchant effective_amount st) (\<lambda>st.
           let st = note_request_time h customer cooldown st
           in Inr (refund_id, announce_request refund applied_tier is_whitelisted st)))))))))))"

section \<open>Approval and rejection\<close>

text \<open>The admin, or a delegate of the refund's merchant; returns whether it is a delegate.\<close>

definition admin_or_delegate ::
  "address \<Rightarrow> refund \<Rightarrow> 'l refund_state \<Rightarrow> (refund_panic, bool) outcome" where
  "admin_or_delegate caller refund st =
     and_then (expect RefundNotInitialized (admin st)) (\<lambda>stored_admin.
     let is_admin = (caller = stored_admin);
         is_delegate = (\<not> is_admin \<and> is_merchant_delegate (r_merchant refund) caller st) in
     if \<not> is_admin \<and> \<not> is_delegate then Inl (Panic NotAdminOrDelegate) else Inr is_delegate)"

definition approve_refund ::
  "'l host \<Rightarrow> address \<Rightarrow> u32 \<Rightarrow> 'l refund_state \<Rightarrow> (refund_panic, 'l refund_state) outcome" where
  "approve_refund h adm refund_id st =
     and_then (refund_require_not_paused st) (\<lambda>_.
     and_then (require_auth h adm) (\<lambda>_.
     and_then (expect RefundNotInitialized (admin st)) (\<lambda>_.
     and_then (expect RefundNotFound (refunds st refund_id)) (\<lambda>refund.
     and_then (admin_or_delegate adm refund st) (\<lambda>is_delegate.
     if r_status refund \<noteq> Requested then Inl (Panic NotRequested)
     else
       let now = timestamp h;
           st = store_refund refund_id
             (refund\<lparr>r_status := Approved, r_approved_at := Some now\<rparr>) st;
           st = remove_from_pending_queue refund_id st in
       and_then (update_stats_on_approve (r_merchant refund) st) (\<lambda>st.
       let st = (if is_delegate then emit_refund_approved_by_delegate refund_id adm st else st)
       in Inr (emit_refund_approved refund_id adm now st)))))))"

definition reject_refund ::
  "'l host \<Rightarrow> address \<Rightarrow> u32 \<Rightarrow> string \<Rightarrow> 'l refund_state \<Rightarrow> (refund_panic, 'l refund_state) outcome" where
  "reject_refund h adm refund_id rejection_reason st =
     and_then (refund_require_not_paused st) (\<lambda>_.
     and_then (require_auth h adm) (\<lambda>_.
     and_then (expect RefundNotInitialized (admin st)) (\<lambda>_.
     and_then (expect RefundNotFound (refunds st refund_id)) (\<lambda>refund.
     and_then (admin_or_delegate adm refund st) (\<lambda>_.
     if r_status refund \<noteq> Requested then Inl (Panic NotRequested)
     else
       let now = timestamp h;
           st = store_refund refund_id
             (refund\<lparr>r_status := Rejected, r_rejected_at := Some now\<rparr>) st;
           st = remove_from_pending_queue refund_id st in
       and_then (update_stats_on_reject (r_merchant refund) st) (\<lambda>st.
       Inr (emit_refund_rejected refund_id adm rejection_reason now st)))))))"

section \<open>Processing\<close>

text \<open>The event of a payment with at most a tenth left to refund.\<close>

definition note_refund_cap ::
  "payment_lookup \<Rightarrow> u32 \<Rightarrow> refund \<Rightarrow> 'l refund_state \<Rightarrow> (refund_panic, 'l refund_state) outcome" where
  "note_refund_cap q refund_id refund st =
     and_then (expect PaymentContractNotConfigured (payment_contract_address st))
       (\<lambda>payment_contract_addr.
     case q payment_contract_addr (r_payment_id refund) of
       None \<Rightarrow> Inr st
     | Some payment \<Rightarrow>
         and_then (sub128 (x_amount payment) (already_refunded (r_payment_id refund) st))
           (\<lambda>remaining_refundable.
         and_then (div128 (x_amount payment) 10) (\<lambda>tenth.
         Inr (if remaining_refundable \<le> tenth
              then emit_partial_refund_cap_applied refund_id remaining_refundable st else st))))"

definition process_refund_internal ::
  "'l host \<Rightarrow> payment_lookup \<Rightarrow> u32 \<Rightarrow> 'l refund_state \<Rightarrow> (refund_panic, 'l refund_state) outcome" where
  "process_refund_internal h q refund_id st =
     and_then (expect RefundNotFound (refunds st refund_id)) (\<lambda>refund.
     if r_status refund \<noteq> Approved then Inl (Panic NotApproved)
     else
       and_then (refund_fee_amount refund st) (\<lambda>fee_amount.
       and_then (pay_out_refund h refund_id refund fee_amount st) (\<lambda>(customer_amount, st).
       and_then (add_refunded refund st) (\<lambda>st.
       and_then (note_refund_cap q refund_id refund st) (\<lambda>st.
       let now = timestamp h;
           st = store_refund refund_id (refund\<lparr>r_status := Processed,
             r_processed_at := Some now, r_fee_amount := fee_record fee_amount\<rparr>) st in
       and_then (update_stats_on_process (r_merchant refund) (r_amount refund) st) (\<lambda>st.
       Inr (emit_refund_processed refund_id (r_customer refund) customer_amount now st)))))))"

text \<open>\<open>require_auth\<close> of the caller and the comparison with the stored admin.\<close>

definition require_processing_admin ::
  "'l host \<Rightarrow> address \<Rightarrow> 'l refund_state \<Rightarrow> (refund_panic, unit) outcome" where
  "require_processing_admin h adm st =
     and_then (require_auth h adm) (\<lambda>_.
     and_then (expect RefundNotInitialized (admin st)) (\<lambda>stored_admin.
     if adm \<noteq> stored_admin then Inl (Panic RefundOnlyAdmin) else Inr ()))"

definition process_refund ::
  "'l host \<Rightarrow> payment_lookup \<Rightarrow> address \<Rightarrow> u32 \<Rightarrow> 'l refund_state \<Rightarrow>
   (refund_panic, 'l refund_state) outcome" where
  "process_refund h q adm refund_id st =
     and_then (refund_require_not_paused st) (\<lambda>_.
     and_then (require_processing_admin h adm st) (\<lambda>_.
     process_refund_internal h q refund_id st))"

text \<open>The two loops of \<open>bulk_process_refunds\<close>.\<close>

fun check_all_approved :: "u32 list \<Rightarrow> 'l refund_state \<Rightarrow> (refund_panic, unit) outcome" where
  "check_all_approved [] st = Inr ()"
| "check_all_approved (rid # rids) st =
     and_then (expect RefundNotFound (refunds st rid)) (\<lambda>refund.
     if r_status refund \<noteq> Approved then Inl (Panic NotApproved) else check_all_approved rids st)"

fun process_refunds_loop ::
  "'l host \<Rightarrow> payment_lookup \<Rightarrow> u32 list \<Rightarrow> i128 \<Rightarrow> 'l refund_state \<Rightarrow>
   (refund_panic, i128 \<times> 'l refund_state) outcome" where
  "process_refunds_loop h q [] total_amount st = Inr (total_amount, st)"
| "process_refunds_loop h q (rid # rids) total_amount st =
     and_then (expect RefundNotFound (refunds st rid)) (\<lambda>refund.
     and_then (add128 total_amount (r_amount refund)) (\<lambda>total_amount.
     and_then (process_refund_internal h q rid st) (\<lambda>st.
     process_refunds_loop h q rids total_amount st)))"

definition bulk_process_refunds ::
  "'l host \<Rightarrow> payment_lookup \<Rightarrow> address \<Rightarrow> u32 list \<Rightarrow> 'l refund_state \<Rightarrow>
   (refund_panic, 'l refund_state) outcome" where
  "bulk_process_refunds h q adm refund_ids st =
     and_then (refund_require_not_paused st) (\<lambda>_.
     and_then (require_processing_admin h adm st) (\<lambda>_.
     if refund_ids = [] then Inl (Panic RefundBatchEmpty)
     else if 20 < length refund_ids then Inl (Panic BatchTooLarge)
     else
       and_then (check_all_approved refund_ids st) (\<lambda>_.
       and_then (process_refunds_loop h q refund_ids 0 st) (\<lambda>(total_amount, st).
       Inr (emit_bulk_refund_processed (length refund_ids) total_amount st)))))"

section \<open>Refunds by the merchant\<close>

text \<open>
  The struct literal of the code leaves out two fields of \<open>Refund\<close>; the values they would have
  are the last two arguments before the state.
\<close>

definition merchant_refund ::
  "'l host \<Rightarrow> payment_lookup \<Rightarrow> address \<Rightarrow> u32 \<Rightarrow> i128 \<Rightarrow> u32 \<Rightarrow> u32 \<Rightarrow> u64 option \<Rightarrow>
   'l refund_state \<Rightarrow> (refund_panic, u32 \<times> 'l refund_state) outcome" where
  "merchant_refund h q merchant payment_id amount reason_code missing_reason_code missing_rejected_at st =
     and_then (refund_require_not_paused st) (\<lambda>_.
     and_then (require_auth h merchant) (\<lambda>_.
     if amount \<le> 0 then Inl (Panic RefundAmountNotPositive)
     else
       and_then (fetch_payment q payment_id st) (\<lambda>payment.
       if x_merchant payment \<noteq> merchant then Inl (Panic NotPaymentMerchant)
       else if x_amount payment < amount then Inl (Panic ExceedsRefundableAmount)
       else
         let refunded = already_refunded payment_id st;
             remaining = saturating_sub128 (x_amount payment) refunded in
         if remaining < amount then Inl (Panic MerchantBalanceInsufficient)
         else
           and_then (token_transfer h (x_token payment) merchant (x_customer payment) amount st)
             (\<lambda>st.
           and_then (next_refund_id st) (\<lambda>(refund_id, st).
           let now = timestamp h;
               refund = \<lparr>r_id = refund_id, r_payment_id = payment_id,
                 r_customer = x_customer payment, r_merchant = merchant, r_amount = amount,
                 r_token = x_token payment, r_status = Processed,
                 r_reason = ''merchant_initiated'', r_reason_code = missing_reason_code,
                 r_requested_at = now, r_approved_at = Some now, r_processed_at = Some now,
                 r_rejected_at = missing_rejected_at,
                 r_auto_approved_source = Some ''merchant_direct'', r_escrow_id = None,
                 r_fee_amount = None\<rparr>;
               st = index_refund refund (store_refund refund_id refund st) in
           and_then (add_refunded refund st) (\<lambda>st.
           and_then (update_stats_on_request merchant amount st) (\<lambda>st.
           and_then (update_stats_on_process merchant amount st) (\<lambda>st.
           Inr (refund_id, emit_merchant_initiated_refund refund_id payment_id merchant amount
             reason_code st)))))))))"

section \<open>Automatic approval and rejection\<close>

definition auto_approve_refund ::
  "'l host \<Rightarrow> u32 \<Rightarrow> 'l refund_state \<Rightarrow> (refund_panic, 'l refund_state) outcome" where
  "auto_approve_refund h refund_id st =
     and_then (refund_require_not_paused st) (\<lambda>_.
     and_then (expect RefundNotFound (refunds st refund_id)) (\<lambda>refund.
     if r_status refund \<noteq> Requested then Inl (Panic AlreadyActedOn)
     else
       and_then (get_dispute_window st) (\<lambda>window.
       let now = timestamp h in
       and_then (add_u64 (r_requested_at refund) window) (\<lambda>closes_at.
       if now < closes_at then Inl (Panic DisputeWindowNotElapsed)
       else
         and_then (refund_fee_amount refund st) (\<lambda>fee_amount.
         and_then (pay_out_refund h refund_id refund fee_amount st) (\<lambda>(customer_amount, st).
         let st = store_refund refund_id (refund\<lparr>r_status := Processed,
               r_processed_at := Some now, r_auto_approved_source := Some ''dispute_window'',
               r_fee_amount := fee_record fee_amount\<rparr>) st in
         and_then (update_stats_on_process (r_merchant refund) (r_amount refund) st) (\<lambda>st.
         Inr (emit_refund_auto_approved refund_id (r_customer refund) (r_amount refund) st))))))))"

definition auto_reject_stale_refund ::
  "'l host \<Rightarrow> u32 \<Rightarrow> 'l refund_state \<Rightarrow> (refund_panic, 'l refund_state) outcome" where
  "auto_reject_stale_refund h refund_id st =
     and_then (refund_require_not_paused st) (\<lambda>_.
     and_then (expect RefundNotFound (refunds st refund_id)) (\<lambda>refund.
     if r_status refund \<noteq> Requested then Inl (Panic NotRequested)
     else
       and_then (get_auto_reject_window st) (\<lambda>window.
       let extension = unwrap_or 0 (refund_deadline_extension st refund_id) in
       and_then (add_u64 (r_requested_at refund) window) (\<lambda>unextended.
       and_then (add_u64 unextended extension) (\<lambda>deadline.
       let now = timestamp h in
       if now < deadline then Inl (Panic AutoRejectWindowNotElapsed)
       else
         and_then (sub_u now (r_requested_at refund)) (\<lambda>elapsed_seconds.
         and_then (token_transfer h (r_token refund) (self_address h) (r_customer refund)
           (r_amount refund) st) (\<lambda>st.
         let st = store_refund refund_id
               (refund\<lparr>r_status := Rejected, r_rejected_at := Some now\<rparr>) st;
             st = remove_from_pending_queue refund_id st in
         and_then (update_stats_on_reject (r_merchant refund) st) (\<lambda>st.
         Inr (emit_refund_auto_rejected refund_id elapsed_seconds st)))))))))"

definition extend_refund_deadline ::
  "'l host \<Rightarrow> address \<Rightarrow> u32 \<Rightarrow> u64 \<Rightarrow> 'l refund_state \<Rightarrow> (refund_panic, 'l refund_state) outcome" where
  "extend_refund_deadline h adm refund_id extra_seconds st =
     and_then (refund_require_admin h adm st) (\<lambda>_.
     and_then (expect RefundNotFound (refunds st refund_id)) (\<lambda>refund.
     if r_status refund \<noteq> Requested then Inl (Panic NotRequested)
     else
       and_then (add_u64 (unwrap_or 0 (refund_deadline_extension st refund_id)) extra_seconds)
         (\<lambda>extension.
       Inr (st\<lparr>refund_deadline_extension :=
         (refund_deadline_extension st)(refund_id \<mapsto> extension)\<rparr>))))"

section \<open>Cancellation\<close>

definition cancel_refund_request ::
  "'l host \<Rightarrow> address \<Rightarrow> u32 \<Rightarrow> 'l refund_state \<Rightarrow> (refund_panic, 'l refund_state) outcome" where
  "cancel_refund_request h customer refund_id st =
     and_then (refund_require_not_paused st) (\<lambda>_.
     and_then (require_auth h customer) (\<lambda>_.
     and_then (expect RefundNotFound (refunds st refund_id)) (\<lambda>refund.
     if r_customer refund \<noteq> customer then Inl (Panic NotRefundCustomer)
     else if r_status refund \<noteq> Requested then Inl (Panic NotCancellable)
     else
       and_then (token_transfer h (r_token refund) (self_address h) (r_customer refund)
         (r_amount refund) st) (\<lambda>st.
       let st = store_refund refund_id (refund\<lparr>r_status := Cancelled\<rparr>) st;
           st = remove_from_pending_queue refund_id st
       in Inr (emit_refund_request_cancelled refund_id customer st)))))"

definition auto_cancel_expired_request ::
  "'l host \<Rightarrow> u32 \<Rightarrow> 'l refund_state \<Rightarrow> (refund_panic, 'l refund_state) outcome" where
  "auto_cancel_expired_request h refund_id st =
     and_then (refund_require_not_paused st) (\<lambda>_.
     and_then (expect RefundNotFound (refunds st refund_id)) (\<lambda>refund.
     if r_status refund \<noteq> Requested then Inl (Panic NotCancellable)
     else
       and_then (get_customer_cancel_window st) (\<lambda>cancel_window.
       and_then (add_u64 (r_requested_at refund) cancel_window) (\<lambda>closes_at.
       if timestamp h < closes_at then Inl (Panic CancelWindowNotElapsed)
       else
         and_then (token_transfer h (r_token refund) (self_address h) (r_customer refund)
           (r_amount refund) st) (\<lambda>st.
         let cancelled_by = r_customer refund;
             st = store_refund refund_id (refund\<lparr>r_status := Cancelled\<rparr>) st;
             st = remove_from_pending_queue refund_id st
         in Inr (emit_refund_request_cancelled refund_id cancelled_by st))))))"

section \<open>Appeals\<close>

definition appeal_refund ::
  "'l host \<Rightarrow> address \<Rightarrow> u32 \<Rightarrow> 'l refund_state \<Rightarrow> (refund_panic, 'l refund_state) outcome" where
  "appeal_refund h customer refund_id st =
     and_then (refund_require_not_paused st) (\<lambda>_.
     and_then (require_auth h customer) (\<lambda>_.
     and_then (expect RefundNotFound (refunds st refund_id)) (\<lambda>refund.
     if r_status refund \<noteq> Rejected then Inl (Panic NotRejected)
     else if r_customer refund \<noteq> customer then Inl (Panic NotRefundCustomer)
     else
       and_then (get_appeal_window st) (\<lambda>window.
       and_then (expect RejectionTimestampMissing (r_rejected_at refund)) (\<lambda>rejected_at.
       and_then (add_u64 rejected_at window) (\<lambda>closes_at.
       if closes_at < timestamp h then Inl (Panic AppealWindowExpired)
       else Inr (emit_refund_appealed refund_id customer
              (store_refund refund_id (refund\<lparr>r_status := UnderAppeal\<rparr>) st))))))))"

definition resolve_appeal ::
  "'l host \<Rightarrow> address \<Rightarrow> u32 \<Rightarrow> bool \<Rightarrow> 'l refund_state \<Rightarrow> (refund_panic, 'l refund_state) outcome" where
  "resolve_appeal h adm refund_id approve st =
     and_then (refund_require_not_paused st) (\<lambda>_.
     and_then (refund_require_admin h adm st) (\<lambda>_.
     and_then (expect RefundNotFound (refunds st refund_id)) (\<lambda>refund.
     if r_status refund \<noteq> UnderAppeal then Inl (Panic NotUnderAppeal)
     else
       let now = timestamp h in
       and_then
         (if approve
          then
            and_then (refund_fee_amount refund st) (\<lambda>fee_amount.
            and_then (pay_out_refund h refund_id refund fee_amount st) (\<lambda>(customer_amount, st).
            and_then (add_refunded refund st) (\<lambda>st.
            and_then (update_stats_on_process (r_merchant refund) (r_amount refund) st) (\<lambda>st.
            Inr (refund\<lparr>r_status := Processed, r_processed_at := Some now,
                   r_fee_amount := fee_record fee_amount\<rparr>, st)))))
          else
            and_then (token_transfer h (r_token refund) (self_address h) (r_customer refund)
              (r_amount refund) st) (\<lambda>st.
            and_then (update_stats_on_reject (r_merchant refund) st) (\<lambda>st.
            Inr (refund\<lparr>r_status := Rejected, r_rejected_at := Some now\<rparr>, st))))
         (\<lambda>(refund, st).
       Inr (emit_appeal_resolved refund_id approve (store_refund refund_id refund st))))))"

section \<open>Refunds of the escrow contract\<close>

definition register_escrow_refund ::
  "'l host \<Rightarrow> u32 \<Rightarrow> address \<Rightarrow> i128 \<Rightarrow> address \<Rightarrow> 'l refund_state \<Rightarrow>
   (refund_panic, u32 \<times> 'l refund_state) outcome" where
  "register_escrow_refund h escrow_id buyer amount token st =
     and_then (refund_require_not_paused st) (\<lambda>_.
     and_then (expect EscrowContractNotConfigured (escrow_contract_address st)) (\<lambda>escrow_addr.
     if self_address h \<noteq> escrow_addr then Inl (Panic NotEscrowContract)
     else if amount \<le> 0 then Inl (Panic RefundAmountNotPositive)
     else
       and_then (next_refund_id st) (\<lambda>(refund_id, st).
       let now = timestamp h;
           merchant = buyer;
           refund = \<lparr>r_id = refund_id, r_payment_id = 0, r_customer = buyer,
             r_merchant = merchant, r_amount = amount, r_token = token, r_status = Processed,
             r_reason = ''escrow_refund'', r_reason_code = 4, r_requested_at = now,
             r_approved_at = Some now, r_processed_at = Some now, r_rejected_at = None,
             r_auto_approved_source = None, r_escrow_id = Some escrow_id, r_fee_amount = None\<rparr>;
           st = store_refund refund_id refund st;
           st = st\<lparr>customer_refunds := append_index buyer refund_id (customer_refunds st)\<rparr>
       in Inr (refund_id, emit_escrow_refund_registered refund_id escrow_id buyer amount st))))"

section \<open>Views\<close>

definition get_refund :: "u32 \<Rightarrow> 'l refund_state \<Rightarrow> (refund_panic, refund) outcome" where
  "get_refund refund_id st = expect RefundNotFound (refunds st refund_id)"

definition get_refund_counter :: "'l refund_state \<Rightarrow> u32" where
  "get_refund_counter st = unwrap_or 0 (refund_counter st)"

definition get_refundable_remaining ::
  "payment_lookup \<Rightarrow> u32 \<Rightarrow> 'l refund_state \<Rightarrow> (refund_panic, i128) outcome" where
  "get_refundable_remaining q payment_id st =
     and_then (fetch_payment q payment_id st) (\<lambda>payment.
     sub128 (x_amount payment) (already_refunded payment_id st))"

end
