(* ===== verification/Refund_Machine.thy ===== *)
theory Refund_Machine
  imports Refund_Ops Payouts
begin

text \<open>
  The refund contract as a machine: its state-changing entry points as one operation type run
  with the host and the payment contract, and the books they keep: the refunds and their counter,
  the refunded amount of each payment, the pending queue and the funds already handed back.
\<close>

section \<open>Entry points\<close>

datatype (plugins only: code size) refund_op =
    RefInitialize address address u64 "address option" u32 "address option" u64 u64
      "(u64 \<times> u32) list option" u64 u64
  | RefRequest address u32 i128 string u32
  | RefMerchant address u32 i128 u32 u32 "u64 option"
  | RefRegisterEscrow u32 address i128 address
  | RefApprove address u32
  | RefReject address u32 string
  | RefProcess address u32
  | RefBulkProcess address "u32 list"
  | RefAutoApprove u32
  | RefAutoReject u32
  | RefExtendDeadline address u32 u64
  | RefCancel address u32
  | RefAutoCancel u32
  | RefAppeal address u32
  | RefResolveAppeal address u32 bool
  | RefSetTiers address "(u64 \<times> u32) list"
  | RefUpdateFee address u32
  | RefWaiveCooldown address address
  | RefWhitelist address address
  | RefUnwhitelist address address
  | RefAddDelegate address address
  | RefRemoveDelegate address address
  | RefUpgrade address bytes32
  | RefMigrate address
  | RefGetVersion
  | RefPause address string
  | RefResume address

type_synonym 'l refund_host = "'l host \<times> payment_lookup"

fun refund_exec ::
  "'l refund_host \<Rightarrow> refund_op \<Rightarrow> 'l refund_state \<Rightarrow> (refund_panic, 'l refund_state) outcome" where
  "refund_exec (h, q) (RefInitialize a p w e f r j l ts k n) =
     refund_initialize a p w e f r j l ts k n"
| "refund_exec (h, q) (RefRequest c p amt r n) = (\<lambda>st. state_of (request_refund h q c p amt r n st))"
| "refund_exec (h, q) (RefMerchant m p amt n n' t) =
     (\<lambda>st. state_of (merchant_refund h q m p amt n n' t st))"
| "refund_exec (h, q) (RefRegisterEscrow e b amt tk) =
     (\<lambda>st. state_of (register_escrow_refund h e b amt tk st))"
| "refund_exec (h, q) (RefApprove a i) = approve_refund h a i"
| "refund_exec (h, q) (RefReject a i r) = reject_refund h a i r"
| "refund_exec (h, q) (RefProcess a i) = process_refund h q a i"
| "refund_exec (h, q) (RefBulkProcess a ids) = bulk_process_refunds h q a ids"
| "refund_exec (h, q) (RefAutoApprove i) = auto_approve_refund h i"
| "refund_exec (h, q) (RefAutoReject i) = auto_reject_stale_refund h i"
| "refund_exec (h, q) (RefExtendDeadline a i n) = extend_refund_deadline h a i n"
| "refund_exec (h, q) (RefCancel c i) = cancel_refund_request h c i"
| "refund_exec (h, q) (RefAutoCancel i) = auto_cancel_expired_request h i"
| "refund_exec (h, q) (RefAppeal c i) = appeal_refund h c i"
| "refund_exec (h, q) (RefResolveAppeal a i b) = resolve_appeal h a i b"
| "refund_exec (h, q) (RefSetTiers a ts) = set_refund_tiers h a ts"
| "refund_exec (h, q) (RefUpdateFee a n) = update_refund_fee h a n"
| "refund_exec (h, q) (RefWaiveCooldown a c) = waive_cooldown h a c"
| "refund_exec (h, q) (RefWhitelist a m) = add_to_auto_approve h a m"
| "refund_exec (h, q) (RefUnwhitelist a m) = remove_from_auto_approve h a m"
| "refund_exec (h, q) (RefAddDelegate m d) = add_delegate h m d"
| "refund_exec (h, q) (RefRemoveDelegate m d) = remove_delegate h m d"
| "refund_exec (h, q) (RefUpgrade a w) = refund_upgrade h a w"
| "refund_exec (h, q) (RefMigrate a) = refund_migrate h a"
| "refund_exec (h, q) RefGetVersion = (\<lambda>st. Inr (snd (refund_get_version st)))"
| "refund_exec (h, q) (RefPause a r) = refund_pause_contract h a r"
| "refund_exec (h, q) (RefResume a) = refund_resume_contract h a"

section \<open>Updates that are not about the books\<close>

lemma refund_stats_updates:
  "update_stats_on_request m amt st = Inr st' \<Longrightarrow>
     \<exists>g s. st' = st\<lparr>global_refund_stats := g, merchant_refund_stats := s\<rparr>"
  "update_stats_on_approve m st = Inr st' \<Longrightarrow>
     \<exists>g s. st' = st\<lparr>global_refund_stats := g, merchant_refund_stats := s\<rparr>"
  "update_stats_on_reject m st = Inr st' \<Longrightarrow>
     \<exists>g s. st' = st\<lparr>global_refund_stats := g, merchant_refund_stats := s\<rparr>"
  "update_stats_on_process m amt st = Inr st' \<Longrightarrow>
     \<exists>g s. st' = st\<lparr>global_refund_stats := g, merchant_refund_stats := s\<rparr>"
  "count_reason m n st = Inr st' \<Longrightarrow> \<exists>g. st' = st\<lparr>reason_code_count := g\<rparr>"
  by (auto simp: update_stats_on_request_def update_stats_on_approve_def
      update_stats_on_reject_def update_stats_on_process_def count_reason_def Let_def ok_simps)

lemmas refund_notes = refund_stats_updates [THEN exE]

lemma next_refund_id_Inr [ok_simps]:
  "next_refund_id st = Inr (i, st') \<longleftrightarrow>
     i = get_refund_counter st \<and> Suc i < 4294967296 \<and> st' = st\<lparr>refund_counter := Some (Suc i)\<rparr>"
  by (auto simp: next_refund_id_def get_refund_counter_def Let_def ok_simps)

lemma fetch_payment_Inr [ok_simps]:
  "fetch_payment q p st = Inr x \<longleftrightarrow>
     (\<exists>a. payment_contract_address st = Some a \<and> q a p = Some x)"
  by (auto simp: fetch_payment_def ok_simps)

lemma add_refunded_Inr [ok_simps]:
  "add_refunded r st = Inr st' \<longleftrightarrow>
     i128_ok (already_refunded (r_payment_id r) st + r_amount r) \<and>
     st' = st\<lparr>refunded_amount := (refunded_amount st)
       (r_payment_id r \<mapsto> already_refunded (r_payment_id r) st + r_amount r)\<rparr>"
  by (auto simp: add_refunded_def ok_simps)

lemma admin_or_delegate_Inr:
  "admin_or_delegate a r st = Inr b \<Longrightarrow>
     admin st = Some a \<or> is_merchant_delegate (r_merchant r) a st"
  by (auto simp: admin_or_delegate_def Let_def ok_simps split: if_splits)

lemma require_processing_admin_Inr [ok_simps]:
  "require_processing_admin h a st = Inr u \<longleftrightarrow> authorized h a \<and> admin st = Some a"
  by (auto simp: require_processing_admin_def ok_simps)

text \<open>The publications and indexes of a step change nothing but their own fields.\<close>

lemma store_refund_fields [simp]:
  "refunds (store_refund i r st) = (refunds st)(i \<mapsto> r)"
  "refund_counter (store_refund i r st) = refund_counter st"
  "refunded_amount (store_refund i r st) = refunded_amount st"
  "pending_refund_queue (store_refund i r st) = pending_refund_queue st"
  "ledger (store_refund i r st) = ledger st"
  "events (store_refund i r st) = events st"
  "admin (store_refund i r st) = admin st"
  by (simp_all add: store_refund_def)

lemma index_refund_fields [simp]:
  "refunds (index_refund r st) = refunds st"
  "refund_counter (index_refund r st) = refund_counter st"
  "refunded_amount (index_refund r st) = refunded_amount st"
  "pending_refund_queue (index_refund r st) = pending_refund_queue st"
  "ledger (index_refund r st) = ledger st"
  "events (index_refund r st) = events st"
  "admin (index_refund r st) = admin st"
  by (simp_all add: index_refund_def)

section \<open>The books\<close>

definition pending :: "'l refund_state \<Rightarrow> u32 list" where
  "pending st = unwrap_or [] (pending_refund_queue st)"

text \<open>The two events that tell that the contract has handed a rejected refund's funds back.\<close>

fun hands_back :: "u32 \<Rightarrow> refund_event \<Rightarrow> bool" where
  "hands_back i (RefundAutoRejected j s) = (j = i)"
| "hands_back i (AppealResolved j b) = (j = i \<and> \<not> b)"
| "hands_back i _ = False"

definition funds_returned :: "'l refund_state \<Rightarrow> u32 \<Rightarrow> bool" where
  "funds_returned st i = list_ex (hands_back i) (events st)"

definition same_refund_books :: "'l refund_state \<Rightarrow> 'l refund_state \<Rightarrow> bool" where
  "same_refund_books st st' \<longleftrightarrow> refunds st' = refunds st \<and>
     get_refund_counter st' = get_refund_counter st \<and> refunded_amount st' = refunded_amount st \<and>
     pending st' = pending st \<and> ledger st' = ledger st \<and> funds_returned st' = funds_returned st"

text \<open>Whether a refund counts towards the refunded amount of its payment.\<close>

definition counted :: "refund \<Rightarrow> bool" where
  "counted r \<longleftrightarrow> r_status r = Processed \<and> r_escrow_id r = None \<and>
     r_auto_approved_source r \<noteq> Some ''dispute_window''"

text \<open>Whether its id is in the pending queue: the automatic approval leaves it there.\<close>

definition queued :: "refund \<Rightarrow> bool" where
  "queued r \<longleftrightarrow> r_status r = Requested \<or>
     r_status r = Processed \<and> r_auto_approved_source r = Some ''dispute_window''"

definition refund_ok :: "u32 \<Rightarrow> refund \<Rightarrow> bool" where
  "refund_ok i r \<longleftrightarrow> r_id r = i \<and> 0 < r_amount r \<and>
     (r_auto_approved_source r = Some ''dispute_window'' \<longrightarrow> r_status r = Processed) \<and>
     (r_status r \<noteq> Processed \<longrightarrow> i128_ok (r_amount r) \<and> r_escrow_id r = None) \<and>
     (r_status r = Processed \<longrightarrow> r_processed_at r \<noteq> None) \<and>
     (r_status r = Approved \<longrightarrow> r_approved_at r \<noteq> None) \<and>
     (r_status r = Rejected \<or> r_status r = UnderAppeal \<longrightarrow> r_rejected_at r \<noteq> None)"

text \<open>What the contract holds for a refund.\<close>

definition refund_held :: "bool \<Rightarrow> refund \<Rightarrow> i128" where
  "refund_held returned r =
     (case r_status r of
        Requested \<Rightarrow> r_amount r | Approved \<Rightarrow> r_amount r
      | Rejected \<Rightarrow> if returned then 0 else r_amount r
      | UnderAppeal \<Rightarrow> if returned then 0 else r_amount r
      | Processed \<Rightarrow> 0 | Cancelled \<Rightarrow> 0)"

definition credits :: "refund \<Rightarrow> 'l refund_state \<Rightarrow> 'l refund_state \<Rightarrow> bool" where
  "credits r st st' \<longleftrightarrow> refunded_amount st' =
     (if counted r then (refunded_amount st)
        (r_payment_id r \<mapsto> already_refunded (r_payment_id r) st + r_amount r)
      else refunded_amount st)"

definition adds_refund :: "u32 \<Rightarrow> refund \<Rightarrow> 'l refund_state \<Rightarrow> 'l refund_state \<Rightarrow> bool" where
  "adds_refund i r st st' \<longleftrightarrow> i = get_refund_counter st \<and> refund_ok i r \<and>
     refunds st' = (refunds st)(i \<mapsto> r) \<and> get_refund_counter st' = Suc i \<and> credits r st st' \<and>
     pending st' = pending st @ (if queued r then [i] else []) \<and>
     funds_returned st' = funds_returned st"

definition changes_refund ::
  "u32 \<Rightarrow> refund \<Rightarrow> refund \<Rightarrow> 'l refund_state \<Rightarrow> 'l refund_state \<Rightarrow> bool" where
  "changes_refund i r r' st st' \<longleftrightarrow> refunds st i = Some r \<and> refund_ok i r' \<and>
     refunds st' = (refunds st)(i \<mapsto> r') \<and> get_refund_counter st' = get_refund_counter st \<and>
     r_status r \<noteq> Processed \<and> credits r' st st' \<and> (queued r' \<longrightarrow> queued r) \<and>
     pending st' = (if queued r \<and> \<not> queued r' then filter (\<lambda>j. j \<noteq> i) (pending st) else pending st)"

definition refunded_sum :: "u32 \<Rightarrow> 'l refund_state \<Rightarrow> int" where
  "refunded_sum p st = (\<Sum>k<get_refund_counter st. case refunds st k of None \<Rightarrow> 0
     | Some r \<Rightarrow> if counted r \<and> r_payment_id r = p then r_amount r else 0)"

definition refunds_wf :: "'l refund_state \<Rightarrow> bool" where
  "refunds_wf st \<longleftrightarrow>
     (\<forall>i. refunds st i \<noteq> None \<longleftrightarrow> i < get_refund_counter st) \<and>
     (\<forall>i r. refunds st i = Some r \<longrightarrow> refund_ok i r) \<and>
     (\<forall>i. funds_returned st i \<longrightarrow> refunds st i \<noteq> None) \<and>
     (\<forall>p. already_refunded p st = refunded_sum p st) \<and>
     pending st = filter (\<lambda>i. case refunds st i of None \<Rightarrow> False | Some r \<Rightarrow> queued r)
       [0..<get_refund_counter st]"

section \<open>Payouts and fees\<close>

lemma u128_share_Inr:
  assumes "u128_share amt n = Inr f" and "0 \<le> amt" and "i128_ok amt" and "n \<le> 10000"
  shows "f = bps_share amt n \<and> 0 \<le> f \<and> f \<le> amt"
proof -
  have u: "as_u128 amt = amt" using assms(2,3) by (simp add: as_u128_def i128_ok_def)
  have le: "bps_share amt n \<le> amt" and ge: "0 \<le> bps_share amt n"
    using assms by (simp_all add: bps_share_le bps_share_nonneg)
  have "as_i128 (bps_share amt n) = bps_share amt n"
    using le ge assms(3) by (simp add: as_i128_def i128_ok_def)
  moreover have "f = as_i128 (bps_share amt n)"
    using assms(1) by (simp add: u128_share_def mul_u128_def u bps_share_eq_div [OF assms(2)] ok_simps)
  ultimately show ?thesis using le ge by simp
qed

definition payouts :: "refund \<Rightarrow> i128 \<Rightarrow> address option \<Rightarrow> (address \<times> i128) list" where
  "payouts r fee recipient =
     (if 0 < r_amount r - fee then [(r_customer r, r_amount r - fee)] else []) @
     (if 0 < fee then case recipient of None \<Rightarrow> [] | Some a \<Rightarrow> [(a, fee)] else [])"

lemma pay_out_refund_Inr:
  assumes "pay_out_refund h i r fee st = Inr (amt, st')"
  shows "\<exists>l evs. amt = r_amount r - fee \<and> st' = st\<lparr>ledger := l, events := events st @ evs\<rparr> \<and>
    pay_list h (r_token r) (payouts r fee (refund_fee_recipient st)) (ledger st) = Some l \<and>
    (\<forall>j. \<not> list_ex (hands_back j) evs)"
proof -
  from assms obtain st1 where amt: "amt = r_amount r - fee"
    and st1: "(if 0 < amt
       then token_transfer h (r_token r) (self_address h) (r_customer r) amt st else Inr st) = (Inr st1 :: (refund_panic, _) outcome)"
    and st': "(if 0 < fee
        then (case refund_fee_recipient st1 of
                None \<Rightarrow> Inr st1
              | Some a \<Rightarrow> and_then (token_transfer h (r_token r) (self_address h) a fee st1)
                  (\<lambda>st. Inr (emit_refund_fee_collected i fee st)))
        else Inr st1) = (Inr st' :: (refund_panic, _) outcome)"
    by (clarsimp simp: pay_out_refund_def and_then_Inr arith128_Inr)
  obtain l1 where l1: "st1 = st\<lparr>ledger := l1\<rparr>"
    and p1: "pay_list h (r_token r) (if 0 < amt then [(r_customer r, amt)] else []) (ledger st) = Some l1"
  proof (cases "0 < amt")
    case True
    with st1 that show ?thesis by (simp add: ok_simps) force
  next
    case False
    with st1 that [of "ledger st"] show ?thesis by simp
  qed
  show ?thesis
  proof (cases "0 < fee \<and> refund_fee_recipient st \<noteq> None")
    case True
    then obtain a where a: "refund_fee_recipient st = Some a" by blast
    from True st' obtain l where "tok_transfer h l1 (r_token r) (self_address h) a fee = Some l"
      and "st' = emit_refund_fee_collected i fee (st1\<lparr>ledger := l\<rparr>)"
      by (auto simp: a l1 ok_simps)
    moreover have "payouts r fee (Some a) =
        (if 0 < amt then [(r_customer r, amt)] else []) @ [(a, fee)]"
      using True by (simp add: payouts_def amt)
    ultimately show ?thesis
      using pay_list_snoc [OF p1]
      by (intro exI [of _ l] exI [of _ "[RefundFeeCollected i fee]"])
        (simp add: a amt l1 emit_refund_fee_collected_def publish_def)
  next
    case False
    then have "st' = st1" using st' by (auto simp: l1 split: if_splits option.splits)
    with False p1 show ?thesis
      by (intro exI [of _ l1] exI [of _ "[]"])
        (auto simp: amt l1 payouts_def split: option.splits)
  qed
qed

lemma sum_payouts_le: "0 \<le> fee \<Longrightarrow> fee \<le> r_amount r \<Longrightarrow> sum_list (map snd (payouts r fee a)) \<le> r_amount r"
  by (cases a) (simp_all add: payouts_def)

lemma payouts_recipients: "a \<in> fst ` set (payouts r fee f) \<Longrightarrow> a = r_customer r \<or> f = Some a"
  by (cases "0 < r_amount r - fee"; cases "0 < fee"; cases f) (auto simp: payouts_def)

end
