(* ===== verification/Refund_Spec.thy ===== *)
theory Refund_Spec
  imports Refund_Machine
begin

text \<open>
  The abstract contract of the refunds: the lifecycle of a refund, who may move it and when, what
  backs a new one, and the steps an entry point is made of.
\<close>

section \<open>Lifecycle and authority\<close>

inductive refund_status_step :: "refund_status \<Rightarrow> refund_status \<Rightarrow> bool" where
  approve: "refund_status_step Requested Approved"
| reject: "refund_status_step Requested Rejected"
| auto_approve: "refund_status_step Requested Processed"
| cancel: "refund_status_step Requested Cancelled"
| process: "refund_status_step Approved Processed"
| appeal: "refund_status_step Rejected UnderAppeal"
| uphold: "refund_status_step UnderAppeal Processed"
| dismiss: "refund_status_step UnderAppeal Rejected"

inductive_simps refund_status_step_simps: "refund_status_step s s'"
inductive_cases refund_status_stepE: "refund_status_step s s'"

definition final_refund :: "refund_status \<Rightarrow> bool" where
  "final_refund s \<longleftrightarrow> s = Processed \<or> s = Cancelled"

lemma final_refund_stays: "final_refund s \<Longrightarrow> \<not> refund_status_step s s'"
  by (auto elim!: refund_status_stepE simp: final_refund_def)

definition refund_admin_signs :: "'l host \<Rightarrow> 'l refund_state \<Rightarrow> bool" where
  "refund_admin_signs h st \<longleftrightarrow> (\<exists>a. admin st = Some a \<and> authorized h a)"

definition refund_manager_signs :: "'l host \<Rightarrow> 'l refund_state \<Rightarrow> refund \<Rightarrow> bool" where
  "refund_manager_signs h st r \<longleftrightarrow> refund_admin_signs h st \<or>
     (\<exists>d. is_merchant_delegate (r_merchant r) d st \<and> authorized h d)"

definition window_over :: "'l host \<Rightarrow> u64 \<Rightarrow> u64 option \<Rightarrow> bool" where
  "window_over h since window \<longleftrightarrow> (\<exists>n. window = Some n \<and> since + n \<le> timestamp h)"

definition refund_authority ::
  "'l host \<Rightarrow> 'l refund_state \<Rightarrow> refund \<Rightarrow> refund_status \<Rightarrow> bool" where
  "refund_authority h st r s' \<longleftrightarrow>
     (if r_status r = Requested then
        if s' = Approved then refund_manager_signs h st r
        else if s' = Rejected then refund_manager_signs h st r \<or>
          window_over h (r_requested_at r) (auto_reject_window st)
        else if s' = Cancelled then authorized h (r_customer r) \<or>
          window_over h (r_requested_at r) (customer_cancel_window st)
        else window_over h (r_requested_at r) (dispute_window st)
      else if r_status r = Rejected then authorized h (r_customer r) \<and>
        (\<exists>t n. r_rejected_at r = Some t \<and> appeal_window st = Some n \<and> timestamp h \<le> t + n)
      else refund_admin_signs h st)"

definition same_refund_terms :: "refund \<Rightarrow> refund \<Rightarrow> bool" where
  "same_refund_terms r r' \<longleftrightarrow> r_id r' = r_id r \<and> r_payment_id r' = r_payment_id r \<and>
     r_customer r' = r_customer r \<and> r_merchant r' = r_merchant r \<and> r_amount r' = r_amount r \<and>
     r_token r' = r_token r \<and> r_reason r' = r_reason r \<and> r_reason_code r' = r_reason_code r \<and>
     r_requested_at r' = r_requested_at r \<and> r_escrow_id r' = r_escrow_id r"

text \<open>A new refund is backed by a payment that the payment contract has and that is not used up.\<close>

definition backed :: "payment_lookup \<Rightarrow> 'l refund_state \<Rightarrow> refund \<Rightarrow> bool" where
  "backed q st r \<longleftrightarrow> (\<exists>a x. payment_contract_address st = Some a \<and>
     q a (r_payment_id r) = Some x \<and> r_merchant r = x_merchant x \<and> r_token r = x_token x \<and>
     already_refunded (r_payment_id r) st + r_amount r \<le> x_amount x \<and>
     (r_status r \<noteq> Processed \<longrightarrow> x_status x = ExtCompleted) \<and>
     (r_status r = Processed \<longrightarrow> r_customer r = x_customer x))"

section \<open>Steps of the specification\<close>

text \<open>
  An \<^emph>\<open>exact\<close> step pays out no more than the contract holds for the refund.  One call of the
  code is not exact: resolving the appeal of a refund whose funds were already handed back.
\<close>

inductive refund_step ::
  "'l refund_host \<Rightarrow> bool \<Rightarrow> 'l refund_state \<Rightarrow> 'l refund_state \<Rightarrow> bool" for hq exact where
  bookkeep: "same_refund_books st st' \<Longrightarrow> refund_step hq exact st st'"
| open_request: "adds_refund i r st st' \<Longrightarrow> r_status r = Requested \<or> r_status r = Approved \<Longrightarrow>
     authorized (fst hq) (r_customer r) \<Longrightarrow> backed (snd hq) st r \<Longrightarrow>
     tok_transfer (fst hq) (ledger st) (r_token r) (r_customer r) (self_address (fst hq)) (r_amount r)
       = Some (ledger st') \<Longrightarrow>
     refund_step hq exact st st'"
| direct: "adds_refund i r st st' \<Longrightarrow> r_status r = Processed \<Longrightarrow>
     authorized (fst hq) (r_merchant r) \<Longrightarrow> backed (snd hq) st r \<Longrightarrow>
     tok_transfer (fst hq) (ledger st) (r_token r) (r_merchant r) (r_customer r) (r_amount r)
       = Some (ledger st') \<Longrightarrow>
     refund_step hq exact st st'"
| register: "adds_refund i r st st' \<Longrightarrow> r_status r = Processed \<Longrightarrow> r_escrow_id r \<noteq> None \<Longrightarrow>
     escrow_contract_address st = Some (self_address (fst hq)) \<Longrightarrow> ledger st' = ledger st \<Longrightarrow>
     refund_step hq exact st st'"
| move: "changes_refund i r r' st st' \<Longrightarrow> same_refund_terms r r' \<Longrightarrow>
     refund_status_step (r_status r) (r_status r') \<Longrightarrow>
     refund_authority (fst hq) st r (r_status r') \<Longrightarrow>
     funds_returned st' = (\<lambda>j. funds_returned st j \<or> j = i \<and> gone) \<Longrightarrow>
     pay_list (fst hq) (r_token r) ps (ledger st) = Some (ledger st') \<Longrightarrow>
     (exact \<longrightarrow> sum_list (map snd ps)
        \<le> refund_held (funds_returned st i) r - refund_held (funds_returned st' i) r') \<Longrightarrow>
     \<forall>a \<in> fst ` set ps. a = r_customer r \<or> refund_fee_recipient st = Some a \<Longrightarrow>
     refund_step hq exact st st'"

fun exact_refund_call :: "refund_op \<Rightarrow> 'l refund_state \<Rightarrow> bool" where
  "exact_refund_call (RefResolveAppeal a i b) st = (\<not> funds_returned st i)"
| "exact_refund_call _ st = True"

section \<open>Steps keep the books well formed\<close>

lemma refunds_wfD:
  assumes "refunds_wf st"
  shows "refunds st i = Some r \<Longrightarrow> i < get_refund_counter st"
    and "refunds st i = Some r \<Longrightarrow> refund_ok i r"
    and "refunds st (get_refund_counter st) = None"
    and "i \<in> set (pending st) \<Longrightarrow> \<exists>r. refunds st i = Some r \<and> queued r"
proof -
  show "i < get_refund_counter st" if "refunds st i = Some r"
    using assms that unfolding refunds_wf_def by blast
  show "refund_ok i r" if "refunds st i = Some r"
    using assms that unfolding refunds_wf_def by blast
  show "refunds st (get_refund_counter st) = None"
    using assms unfolding refunds_wf_def by (metis less_irrefl)
  show "\<exists>r. refunds st i = Some r \<and> queued r" if "i \<in> set (pending st)"
    using assms that unfolding refunds_wf_def by (auto split: option.splits)
qed

text \<open>The invariants over the ids below the counter, for a new record and for a changed one.\<close>

lemma refunded_sum_add:
  assumes "refunds st' = (refunds st)(i \<mapsto> r)" and "i = get_refund_counter st"
    and "get_refund_counter st' = Suc i"
  shows "refunded_sum p st' =
    refunded_sum p st + (if counted r \<and> r_payment_id r = p then r_amount r else 0)"
  using sum_fun_upd_fresh [where f = "case_option 0 (\<lambda>r. if counted r \<and> r_payment_id r = p
      then r_amount r else 0)" and m = "refunds st" and n = i and x = "Some r"]
  by (simp add: refunded_sum_def assms del: fun_upd_apply sum.lessThan_Suc)

lemma refunded_sum_change:
  assumes "refunds st' = (refunds st)(i \<mapsto> r')" and "refunds st i = Some r" and "\<not> counted r"
    and "i < get_refund_counter st" and "get_refund_counter st' = get_refund_counter st"
  shows "refunded_sum p st' =
    refunded_sum p st + (if counted r' \<and> r_payment_id r' = p then r_amount r' else 0)"
  using assms(2,3) sum_fun_upd [OF assms(4), where f = "case_option 0 (\<lambda>r. if counted r \<and>
      r_payment_id r = p then r_amount r else 0)" and m = "refunds st" and x = "Some r'"]
  by (simp add: refunded_sum_def assms(1,5) del: fun_upd_apply)

lemma credits_refunded:
  "credits r st st' \<Longrightarrow> already_refunded p st' =
     already_refunded p st + (if counted r \<and> r_payment_id r = p then r_amount r else 0)"
  by (auto simp: credits_def already_refunded_def)

lemma queue_filter_add:
  "refunds st' = (refunds st)(i \<mapsto> r) \<Longrightarrow>
   filter (\<lambda>j. case refunds st' j of None \<Rightarrow> False | Some r \<Rightarrow> queued r) [0..<Suc i] =
   filter (\<lambda>j. case refunds st j of None \<Rightarrow> False | Some r \<Rightarrow> queued r) [0..<i] @
     (if queued r then [i] else [])"
  by (auto intro: filter_cong)

lemma queue_filter_change:
  assumes "refunds st' = (refunds st)(i \<mapsto> r')" and "refunds st i = Some r" and "queued r' \<longrightarrow> queued r"
  shows "filter (\<lambda>j. case refunds st' j of None \<Rightarrow> False | Some r \<Rightarrow> queued r) [0..<n] =
   (if queued r \<and> \<not> queued r'
    then filter (\<lambda>j. j \<noteq> i) (filter (\<lambda>j. case refunds st j of None \<Rightarrow> False | Some r \<Rightarrow> queued r) [0..<n])
    else filter (\<lambda>j. case refunds st j of None \<Rightarrow> False | Some r \<Rightarrow> queued r) [0..<n])"
  using assms by (auto intro!: filter_cong)

lemma adds_refund_wf:
  assumes "adds_refund i r st st'" and wf: "refunds_wf st"
  shows "refunds_wf st'"
proof -
  from assms(1) have i: "i = get_refund_counter st" and ok: "refund_ok i r"
    and st': "refunds st' = (refunds st)(i \<mapsto> r)" "get_refund_counter st' = Suc i"
      "funds_returned st' = funds_returned st"
      "pending st' = pending st @ (if queued r then [i] else [])" and cr: "credits r st st'"
    unfolding adds_refund_def by blast+
  have dense: "\<forall>j. refunds st j \<noteq> None \<longleftrightarrow> j < get_refund_counter st"
    and oks: "\<forall>j r. refunds st j = Some r \<longrightarrow> refund_ok j r"
    and ret: "\<forall>j. funds_returned st j \<longrightarrow> refunds st j \<noteq> None"
    and sums: "\<forall>p. already_refunded p st = refunded_sum p st"
    and queue: "pending st = filter (\<lambda>j. case refunds st j of None \<Rightarrow> False | Some r \<Rightarrow> queued r)
      [0..<get_refund_counter st]"
    using wf unfolding refunds_wf_def by blast+
  have "\<forall>j. refunds st' j \<noteq> None \<longleftrightarrow> j < get_refund_counter st'"
    using dense i by (simp add: st' less_Suc_eq)
  moreover have "\<forall>p. already_refunded p st' = refunded_sum p st'"
    using sums refunded_sum_add [OF st'(1) i st'(2)] credits_refunded [OF cr] by simp
  moreover have "pending st' = filter (\<lambda>j. case refunds st' j of None \<Rightarrow> False | Some r \<Rightarrow> queued r)
      [0..<get_refund_counter st']"
    unfolding st'(2) queue_filter_add [OF st'(1)] unfolding st'(4) queue i ..
  moreover have "\<forall>j r. refunds st' j = Some r \<longrightarrow> refund_ok j r"
    and "\<forall>j. funds_returned st' j \<longrightarrow> refunds st' j \<noteq> None"
    using oks ok ret by (simp_all add: st'(1,3))
  ultimately show ?thesis unfolding refunds_wf_def by blast
qed

lemma changes_refund_wf:
  assumes "changes_refund i r r' st st'" and wf: "refunds_wf st"
    and ret': "funds_returned st' = (\<lambda>j. funds_returned st j \<or> j = i \<and> gone)"
  shows "refunds_wf st'"
proof -
  from assms(1) have r: "refunds st i = Some r" and ok: "refund_ok i r'" and np: "r_status r \<noteq> Processed"
    and st': "refunds st' = (refunds st)(i \<mapsto> r')" "get_refund_counter st' = get_refund_counter st"
      "pending st' = (if queued r \<and> \<not> queued r' then filter (\<lambda>j. j \<noteq> i) (pending st) else pending st)"
    and cr: "credits r' st st'" and q: "queued r' \<longrightarrow> queued r"
    unfolding changes_refund_def by blast+
  have dense: "\<forall>j. refunds st j \<noteq> None \<longleftrightarrow> j < get_refund_counter st"
    and oks: "\<forall>j r. refunds st j = Some r \<longrightarrow> refund_ok j r"
    and ret: "\<forall>j. funds_returned st j \<longrightarrow> refunds st j \<noteq> None"
    and sums: "\<forall>p. already_refunded p st = refunded_sum p st"
    and queue: "pending st = filter (\<lambda>j. case refunds st j of None \<Rightarrow> False | Some r \<Rightarrow> queued r)
      [0..<get_refund_counter st]"
    using wf unfolding refunds_wf_def by blast+
  have i: "i < get_refund_counter st" and nc: "\<not> counted r"
    using dense r np by (auto simp: counted_def)
  have "\<forall>p. already_refunded p st' = refunded_sum p st'"
    using sums refunded_sum_change [OF st'(1) r nc i st'(2)] credits_refunded [OF cr] by simp
  moreover have "pending st' = filter (\<lambda>j. case refunds st' j of None \<Rightarrow> False | Some r \<Rightarrow> queued r)
      [0..<get_refund_counter st']"
    unfolding st'(2) queue_filter_change [OF st'(1) r q] unfolding st'(3) queue ..
  moreover have "\<forall>j. refunds st' j \<noteq> None \<longleftrightarrow> j < get_refund_counter st'"
    using dense i by (simp add: st')
  moreover have "\<forall>j r. refunds st' j = Some r \<longrightarrow> refund_ok j r"
    and "\<forall>j. funds_returned st' j \<longrightarrow> refunds st' j \<noteq> None"
    using oks ok ret r by (auto simp: st'(1) ret')
  ultimately show ?thesis unfolding refunds_wf_def by blast
qed

lemma refund_step_wf: "refund_step hq x st st' \<Longrightarrow> refunds_wf st \<Longrightarrow> refunds_wf st'"
proof (induction rule: refund_step.induct)
  case (bookkeep st st')
  then have eqs: "refunds st' = refunds st" "get_refund_counter st' = get_refund_counter st"
    "refunded_amount st' = refunded_amount st" "pending st' = pending st"
    "funds_returned st' = funds_returned st"
    unfolding same_refund_books_def by blast+
  show ?case
    using bookkeep(2) unfolding refunds_wf_def refunded_sum_def already_refunded_def eqs .
qed (blast intro: adds_refund_wf changes_refund_wf)+

lemma refund_steps_wf: "(refund_step hq x)\<^sup>*\<^sup>* st st' \<Longrightarrow> refunds_wf st \<Longrightarrow> refunds_wf st'"
  by (induction rule: rtranclp_induct) (auto intro: refund_step_wf)

end
