(* ===== verification/Refund_Refine.thy ===== *)
theory Refund_Refine
  imports Refund_Spec
begin

text \<open>
  Every successful call of the refund contract is made of steps of its specification, one lemma
  per entry point.
\<close>

section \<open>Fields the books read\<close>

lemma funds_returned_publish [simp]:
  "funds_returned (publish ev st) = (\<lambda>j. funds_returned st j \<or> hands_back j ev)"
  by (auto simp: funds_returned_def publish_def)

lemma pending_fields [simp]:
  "pending (publish ev st) = pending st"
  "pending (store_refund i r st) = pending st"
  "pending (index_refund r st) = pending st"
  "pending (remove_from_pending_queue i st) = filter (\<lambda>j. j \<noteq> i) (pending st)"
  "pending (append_to_pending_queue i st) = pending st @ [i]"
  by (simp_all add: pending_def remove_from_pending_queue_def append_to_pending_queue_def)

lemma queue_update_fields [simp]:
  "refunds (remove_from_pending_queue i st) = refunds st"
  "refund_counter (remove_from_pending_queue i st) = refund_counter st"
  "refunded_amount (remove_from_pending_queue i st) = refunded_amount st"
  "ledger (remove_from_pending_queue i st) = ledger st"
  "events (remove_from_pending_queue i st) = events st"
  "admin (remove_from_pending_queue i st) = admin st"
  "refunds (append_to_pending_queue i st) = refunds st"
  "refund_counter (append_to_pending_queue i st) = refund_counter st"
  "refunded_amount (append_to_pending_queue i st) = refunded_amount st"
  "ledger (append_to_pending_queue i st) = ledger st"
  "events (append_to_pending_queue i st) = events st"
  "admin (append_to_pending_queue i st) = admin st"
  by (simp_all add: remove_from_pending_queue_def append_to_pending_queue_def)

lemma get_refund_counter_fields [simp]:
  "get_refund_counter (publish ev st) = get_refund_counter st"
  "get_refund_counter (store_refund i r st) = get_refund_counter st"
  "get_refund_counter (index_refund r st) = get_refund_counter st"
  "get_refund_counter (remove_from_pending_queue i st) = get_refund_counter st"
  "get_refund_counter (append_to_pending_queue i st) = get_refund_counter st"
  by (simp_all add: get_refund_counter_def)

lemma funds_returned_fields [simp]:
  "funds_returned (store_refund i r st) = funds_returned st"
  "funds_returned (index_refund r st) = funds_returned st"
  "funds_returned (remove_from_pending_queue i st) = funds_returned st"
  "funds_returned (append_to_pending_queue i st) = funds_returned st"
  by (simp_all add: funds_returned_def fun_eq_iff)

text \<open>Updates of the fields outside the books leave the books alone.\<close>

lemma books_frame [simp]:
  "pending (st\<lparr>global_refund_stats := g, merchant_refund_stats := m\<rparr>) = pending st"
  "funds_returned (st\<lparr>global_refund_stats := g, merchant_refund_stats := m\<rparr>) = funds_returned st"
  "get_refund_counter (st\<lparr>global_refund_stats := g, merchant_refund_stats := m\<rparr>) = get_refund_counter st"
  "pending (st\<lparr>ledger := l\<rparr>) = pending st"
  "funds_returned (st\<lparr>ledger := l\<rparr>) = funds_returned st"
  "get_refund_counter (st\<lparr>ledger := l\<rparr>) = get_refund_counter st"
  "pending (st\<lparr>refunded_amount := ra\<rparr>) = pending st"
  "funds_returned (st\<lparr>refunded_amount := ra\<rparr>) = funds_returned st"
  "get_refund_counter (st\<lparr>refunded_amount := ra\<rparr>) = get_refund_counter st"
  "pending (st\<lparr>refund_counter := n\<rparr>) = pending st"
  "funds_returned (st\<lparr>refund_counter := n\<rparr>) = funds_returned st"
  "pending (st\<lparr>reason_code_refunds := rs\<rparr>) = pending st"
  "funds_returned (st\<lparr>reason_code_refunds := rs\<rparr>) = funds_returned st"
  "get_refund_counter (st\<lparr>reason_code_refunds := rs\<rparr>) = get_refund_counter st"
  "pending (st\<lparr>reason_code_count := rc\<rparr>) = pending st"
  "funds_returned (st\<lparr>reason_code_count := rc\<rparr>) = funds_returned st"
  "get_refund_counter (st\<lparr>reason_code_count := rc\<rparr>) = get_refund_counter st"
  "pending (st\<lparr>last_refund_request := lr\<rparr>) = pending st"
  "funds_returned (st\<lparr>last_refund_request := lr\<rparr>) = funds_returned st"
  "get_refund_counter (st\<lparr>last_refund_request := lr\<rparr>) = get_refund_counter st"
  "pending (st\<lparr>customer_refunds := cr\<rparr>) = pending st"
  "funds_returned (st\<lparr>customer_refunds := cr\<rparr>) = funds_returned st"
  "get_refund_counter (st\<lparr>customer_refunds := cr\<rparr>) = get_refund_counter st"
  by (simp_all add: pending_def funds_returned_def get_refund_counter_def fun_eq_iff)

lemma request_notes [simp]:
  "pending (note_request_time h c n st) = pending st"
  "refunds (note_request_time h c n st) = refunds st"
  "get_refund_counter (note_request_time h c n st) = get_refund_counter st"
  "refunded_amount (note_request_time h c n st) = refunded_amount st"
  "ledger (note_request_time h c n st) = ledger st"
  "funds_returned (note_request_time h c n st) = funds_returned st"
  "pending (announce_request r tier w st) = pending st"
  "refunds (announce_request r tier w st) = refunds st"
  "get_refund_counter (announce_request r tier w st) = get_refund_counter st"
  "refunded_amount (announce_request r tier w st) = refunded_amount st"
  "ledger (announce_request r tier w st) = ledger st"
  "funds_returned (announce_request r tier w st) = funds_returned st"
  by (simp_all add: note_request_time_def announce_request_def Let_def refund_emit_defs
      split: option.split)

lemma get_refund_counter_update [simp]: "get_refund_counter (st\<lparr>refund_counter := Some n\<rparr>) = n"
  by (simp add: get_refund_counter_def)

lemma is_merchant_auto_approved_frame [simp]:
  "is_merchant_auto_approved m (st\<lparr>ledger := l\<rparr>) = is_merchant_auto_approved m st"
  "is_merchant_auto_approved m (st\<lparr>refund_counter := n\<rparr>) = is_merchant_auto_approved m st"
  by (simp_all add: is_merchant_auto_approved_def)

lemmas refund_book_defs = changes_refund_def refund_ok_def counted_def queued_def credits_def
  refund_emit_defs

section \<open>Approval and rejection\<close>

lemma manager_signs:
  "authorized h a \<Longrightarrow> admin_or_delegate a r st = Inr b \<Longrightarrow> refund_manager_signs h st r"
  using admin_or_delegate_Inr [of a r st b]
  by (auto simp: refund_manager_signs_def refund_admin_signs_def)

lemma approve_refund_effect:
  assumes "approve_refund h a i st = Inr st'" and "refunds_wf st"
  shows "\<exists>r. r_status r = Requested \<and> refund_manager_signs h st r \<and>
    changes_refund i r (r\<lparr>r_status := Approved, r_approved_at := Some (timestamp h)\<rparr>) st st' \<and>
    funds_returned st' = funds_returned st \<and> ledger st' = ledger st"
proof -
  from assms(1) obtain r where r: "refunds st i = Some r"
    by (auto simp: approve_refund_def ok_simps)
  note ok = refunds_wfD(2) [OF assms(2) r]
  show ?thesis
    using assms(1) r ok
    by (intro exI [of _ r], clarsimp simp: approve_refund_def Let_def ok_simps manager_signs
        elim!: refund_notes) (simp add: refund_book_defs)
qed

lemma reject_refund_effect:
  assumes "reject_refund h a i s st = Inr st'" and "refunds_wf st"
  shows "\<exists>r. r_status r = Requested \<and> refund_manager_signs h st r \<and>
    changes_refund i r (r\<lparr>r_status := Rejected, r_rejected_at := Some (timestamp h)\<rparr>) st st' \<and>
    funds_returned st' = funds_returned st \<and> ledger st' = ledger st"
proof -
  from assms(1) obtain r where r: "refunds st i = Some r"
    by (auto simp: reject_refund_def ok_simps)
  note ok = refunds_wfD(2) [OF assms(2) r]
  show ?thesis
    using assms(1) r ok
    by (intro exI [of _ r], clarsimp simp: reject_refund_def Let_def ok_simps manager_signs
        elim!: refund_notes) (simp add: refund_book_defs)
qed

lemmas refund_move_defs = same_refund_terms_def refund_status_step_simps refund_authority_def
  refund_held_def

lemma changes_refund_amount: "changes_refund i r r' st st' \<Longrightarrow> 0 < r_amount r'"
  by (simp add: changes_refund_def refund_ok_def)

lemma approve_refund_step:
  assumes "approve_refund h a i st = Inr st'" and "refunds_wf st"
  shows "refund_step (h, q) x st st'"
proof -
  from approve_refund_effect [OF assms] obtain r where r: "r_status r = Requested"
      "refund_manager_signs h st r" "funds_returned st' = funds_returned st" "ledger st' = ledger st"
    and ch: "changes_refund i r (r\<lparr>r_status := Approved, r_approved_at := Some (timestamp h)\<rparr>) st st'"
    by blast
  show ?thesis
    by (rule refund_step.move [OF ch, where gone = False and ps = "[]"])
      (use r in \<open>simp_all add: refund_move_defs\<close>)
qed

lemma reject_refund_step:
  assumes "reject_refund h a i s st = Inr st'" and "refunds_wf st"
  shows "refund_step (h, q) x st st'"
proof -
  from reject_refund_effect [OF assms] obtain r where r: "r_status r = Requested"
      "refund_manager_signs h st r" "funds_returned st' = funds_returned st" "ledger st' = ledger st"
    and ch: "changes_refund i r (r\<lparr>r_status := Rejected, r_rejected_at := Some (timestamp h)\<rparr>) st st'"
    by blast
  show ?thesis
    by (rule refund_step.move [OF ch, where gone = False and ps = "[]"])
      (use r changes_refund_amount [OF ch] in \<open>simp_all add: refund_move_defs\<close>)
qed

section \<open>Processing\<close>

definition fee_in_bounds :: "'l refund_state \<Rightarrow> bool" where
  "fee_in_bounds st \<longleftrightarrow> get_refund_fee st \<le> 200"

lemma refund_fee_amount_Inr:
  assumes "refund_fee_amount r st = Inr fee" and "refund_ok i r" and "r_status r \<noteq> Processed"
    and "fee_in_bounds st"
  shows "fee = bps_share (r_amount r) (get_refund_fee st) \<and> 0 \<le> fee \<and> fee \<le> r_amount r"
  using assms u128_share_Inr [of "r_amount r" "get_refund_fee st" fee]
  by (auto simp: refund_fee_amount_def refund_ok_def get_refund_fee_def fee_in_bounds_def Let_def
      bps_share_def split: if_splits)

lemma note_refund_cap_Inr:
  "note_refund_cap q i r st = Inr st' \<Longrightarrow> st' = st \<or> (\<exists>n. st' = publish (PartialRefundCapApplied i n) st)"
  by (auto simp: note_refund_cap_def emit_partial_refund_cap_applied_def ok_simps
      split: option.splits if_splits)

lemma process_refund_internal_effect:
  assumes c: "process_refund_internal h q i st = Inr st'" and wf: "refunds_wf st"
    and "fee_in_bounds st"
  shows "\<exists>r fee. r_status r = Approved \<and> fee = bps_share (r_amount r) (get_refund_fee st) \<and>
    0 \<le> fee \<and> fee \<le> r_amount r \<and>
    changes_refund i r (r\<lparr>r_status := Processed, r_processed_at := Some (timestamp h),
      r_fee_amount := fee_record fee\<rparr>) st st' \<and>
    funds_returned st' = funds_returned st \<and>
    pay_list h (r_token r) (payouts r fee (refund_fee_recipient st)) (ledger st) = Some (ledger st')"
proof -
  from c obtain r fee amt st1 st2 st3 where r: "refunds st i = Some r" "r_status r = Approved"
    and fee: "refund_fee_amount r st = Inr fee"
    and pay: "pay_out_refund h i r fee st = Inr (amt, st1)"
    and add: "add_refunded r st1 = Inr st2" and cap: "note_refund_cap q i r st2 = Inr st3"
    and rest: "and_then (update_stats_on_process (r_merchant r) (r_amount r) (store_refund i
        (r\<lparr>r_status := Processed, r_processed_at := Some (timestamp h),
          r_fee_amount := fee_record fee\<rparr>) st3))
      (\<lambda>st. Inr (emit_refund_processed i (r_customer r) amt (timestamp h) st)) = Inr st'"
    by (auto simp: process_refund_internal_def Let_def and_then_Inr expect_Inr split: if_splits)
  note ok = refunds_wfD(2) [OF wf r(1)]
  have bounds: "fee = bps_share (r_amount r) (get_refund_fee st)" "0 \<le> fee" "fee \<le> r_amount r"
    using refund_fee_amount_Inr [OF fee ok _ assms(3)] r(2) by simp_all
  from pay_out_refund_Inr [OF pay] obtain l evs
    where st1: "st1 = st\<lparr>ledger := l, events := events st @ evs\<rparr>"
      and l: "pay_list h (r_token r) (payouts r fee (refund_fee_recipient st)) (ledger st) = Some l"
      and evs: "\<forall>j. \<not> list_ex (hands_back j) evs"
    by blast
  have st3: "refunds st3 = refunds st" "get_refund_counter st3 = get_refund_counter st"
      "pending st3 = pending st" "ledger st3 = l" "funds_returned st3 = funds_returned st"
      "refunded_amount st3 = (refunded_amount st)
         (r_payment_id r \<mapsto> already_refunded (r_payment_id r) st + r_amount r)"
    using add note_refund_cap_Inr [OF cap] evs
    by (auto simp: st1 add_refunded_Inr already_refunded_def get_refund_counter_def pending_def
        funds_returned_def)
  have "refund_ok i (r\<lparr>r_status := Processed, r_processed_at := Some (timestamp h),
      r_fee_amount := fee_record fee\<rparr>)"
    using ok r by (simp add: refund_ok_def)
  then show ?thesis
    using rest r ok bounds l
    by (intro exI [of _ r] exI [of _ fee], clarsimp simp: ok_simps elim!: refund_notes)
      (simp add: refund_book_defs st3)
qed

lemma process_refund_internal_step:
  assumes "process_refund_internal h q i st = Inr st'" and "refunds_wf st" and "fee_in_bounds st"
    and "refund_admin_signs h st"
  shows "refund_step (h, q) x st st'"
proof -
  from process_refund_internal_effect [OF assms(1-3)] obtain r fee where r: "r_status r = Approved"
      "0 \<le> fee" "fee \<le> r_amount r" "funds_returned st' = funds_returned st"
    and ch: "changes_refund i r (r\<lparr>r_status := Processed, r_processed_at := Some (timestamp h),
      r_fee_amount := fee_record fee\<rparr>) st st'"
    and pay: "pay_list h (r_token r) (payouts r fee (refund_fee_recipient st)) (ledger st)
      = Some (ledger st')"
    by blast
  show ?thesis
    by (rule refund_step.move [OF ch, where gone = False and
          ps = "payouts r fee (refund_fee_recipient st)"])
      (use r pay assms(4) sum_payouts_le payouts_recipients in
        \<open>fastforce simp: refund_move_defs\<close>)+
qed


lemma auto_approve_refund_effect:
  assumes c: "auto_approve_refund h i st = Inr st'" and wf: "refunds_wf st"
    and "fee_in_bounds st"
  shows "\<exists>r fee. r_status r = Requested \<and> fee = bps_share (r_amount r) (get_refund_fee st) \<and>
    0 \<le> fee \<and> fee \<le> r_amount r \<and> window_over h (r_requested_at r) (dispute_window st) \<and>
    changes_refund i r (r\<lparr>r_status := Processed, r_processed_at := Some (timestamp h),
      r_auto_approved_source := Some ''dispute_window'', r_fee_amount := fee_record fee\<rparr>) st st' \<and>
    funds_returned st' = funds_returned st \<and>
    pay_list h (r_token r) (payouts r fee (refund_fee_recipient st)) (ledger st) = Some (ledger st')"
proof -
  from c obtain r fee amt st1 where r: "refunds st i = Some r" "r_status r = Requested"
    and fee: "refund_fee_amount r st = Inr fee"
    and pay: "pay_out_refund h i r fee st = Inr (amt, st1)"
    and over: "window_over h (r_requested_at r) (dispute_window st)"
    and rest: "and_then (update_stats_on_process (r_merchant r) (r_amount r) (store_refund i
        (r\<lparr>r_status := Processed, r_processed_at := Some (timestamp h),
          r_auto_approved_source := Some ''dispute_window'', r_fee_amount := fee_record fee\<rparr>) st1))
      (\<lambda>st. Inr (emit_refund_auto_approved i (r_customer r) (r_amount r) st)) = Inr st'"
    by (auto simp: auto_approve_refund_def get_dispute_window_def window_over_def Let_def
        and_then_Inr expect_Inr arith_u_Inr split: if_splits)
  note ok = refunds_wfD(2) [OF wf r(1)]
  have bounds: "fee = bps_share (r_amount r) (get_refund_fee st)" "0 \<le> fee" "fee \<le> r_amount r"
    using refund_fee_amount_Inr [OF fee ok _ assms(3)] r(2) by simp_all
  from pay_out_refund_Inr [OF pay] obtain l evs
    where st1: "st1 = st\<lparr>ledger := l, events := events st @ evs\<rparr>"
      and l: "pay_list h (r_token r) (payouts r fee (refund_fee_recipient st)) (ledger st) = Some l"
      and evs: "\<forall>j. \<not> list_ex (hands_back j) evs"
    by blast
  have st1_fields: "refunds st1 = refunds st" "get_refund_counter st1 = get_refund_counter st"
      "pending st1 = pending st" "ledger st1 = l" "funds_returned st1 = funds_returned st"
      "refunded_amount st1 = refunded_amount st"
    using evs by (auto simp: st1 get_refund_counter_def pending_def funds_returned_def)
  have "refund_ok i (r\<lparr>r_status := Processed, r_processed_at := Some (timestamp h),
      r_auto_approved_source := Some ''dispute_window'', r_fee_amount := fee_record fee\<rparr>)"
    using ok by (simp add: refund_ok_def)
  then show ?thesis
    using rest r ok bounds l over
    by (intro exI [of _ r] exI [of _ fee], clarsimp simp: ok_simps elim!: refund_notes)
      (simp add: refund_book_defs st1_fields)
qed

lemma auto_approve_refund_step:
  assumes "auto_approve_refund h i st = Inr st'" and "refunds_wf st" and "fee_in_bounds st"
  shows "refund_step (h, q) x st st'"
proof -
  from auto_approve_refund_effect [OF assms] obtain r fee where r: "r_status r = Requested"
      "0 \<le> fee" "fee \<le> r_amount r" "funds_returned st' = funds_returned st"
      "window_over h (r_requested_at r) (dispute_window st)"
    and ch: "changes_refund i r (r\<lparr>r_status := Processed, r_processed_at := Some (timestamp h),
      r_auto_approved_source := Some ''dispute_window'', r_fee_amount := fee_record fee\<rparr>) st st'"
    and pay: "pay_list h (r_token r) (payouts r fee (refund_fee_recipient st)) (ledger st)
      = Some (ledger st')"
    by blast
  show ?thesis
    by (rule refund_step.move [OF ch, where gone = False and
          ps = "payouts r fee (refund_fee_recipient st)"])
      (use r pay sum_payouts_le payouts_recipients in \<open>fastforce simp: refund_move_defs\<close>)+
qed

section \<open>Handing the funds back\<close>

lemma auto_reject_effect:
  assumes "auto_reject_stale_refund h i st = Inr st'" and "refunds_wf st"
  shows "\<exists>r. r_status r = Requested \<and> window_over h (r_requested_at r) (auto_reject_window st) \<and>
    changes_refund i r (r\<lparr>r_status := Rejected, r_rejected_at := Some (timestamp h)\<rparr>) st st' \<and>
    funds_returned st' = (\<lambda>j. funds_returned st j \<or> j = i) \<and>
    tok_transfer h (ledger st) (r_token r) (self_address h) (r_customer r) (r_amount r)
      = Some (ledger st')"
proof -
  from assms(1) obtain r where r: "refunds st i = Some r"
    by (auto simp: auto_reject_stale_refund_def ok_simps)
  note ok = refunds_wfD(2) [OF assms(2) r]
  show ?thesis
    using assms(1) r ok
    by (intro exI [of _ r], clarsimp simp: auto_reject_stale_refund_def Let_def ok_simps
        get_auto_reject_window_def window_over_def elim!: refund_notes)
      (simp add: refund_book_defs fun_eq_iff eq_commute)
qed

lemma cancel_refund_effect:
  assumes "cancel_refund_request h c i st = Inr st'" and "refunds_wf st"
  shows "\<exists>r. r_status r = Requested \<and> authorized h (r_customer r) \<and>
    changes_refund i r (r\<lparr>r_status := Cancelled\<rparr>) st st' \<and>
    funds_returned st' = funds_returned st \<and>
    tok_transfer h (ledger st) (r_token r) (self_address h) (r_customer r) (r_amount r)
      = Some (ledger st')"
proof -
  from assms(1) obtain r where r: "refunds st i = Some r"
    by (auto simp: cancel_refund_request_def ok_simps)
  note ok = refunds_wfD(2) [OF assms(2) r]
  show ?thesis
    using assms(1) r ok
    by (intro exI [of _ r], clarsimp simp: cancel_refund_request_def Let_def ok_simps)
      (simp add: refund_book_defs)
qed

lemma auto_cancel_effect:
  assumes "auto_cancel_expired_request h i st = Inr st'" and "refunds_wf st"
  shows "\<exists>r. r_status r = Requested \<and> window_over h (r_requested_at r) (customer_cancel_window st) \<and>
    changes_refund i r (r\<lparr>r_status := Cancelled\<rparr>) st st' \<and>
    funds_returned st' = funds_returned st \<and>
    tok_transfer h (ledger st) (r_token r) (self_address h) (r_customer r) (r_amount r)
      = Some (ledger st')"
proof -
  from assms(1) obtain r where r: "refunds st i = Some r"
    by (auto simp: auto_cancel_expired_request_def ok_simps)
  note ok = refunds_wfD(2) [OF assms(2) r]
  show ?thesis
    using assms(1) r ok
    by (intro exI [of _ r], clarsimp simp: auto_cancel_expired_request_def Let_def ok_simps
        get_customer_cancel_window_def window_over_def)
      (simp add: refund_book_defs)
qed

text \<open>A refund of the whole amount to the customer is exact.\<close>

lemma hand_back_step:
  assumes "changes_refund i r r' st st'" and "same_refund_terms r r'"
    and "r_status r = Requested" and "r_status r' = Rejected \<and> gone \<or> r_status r' = Cancelled \<and> \<not> gone"
    and "refund_authority h st r (r_status r')"
    and "funds_returned st' = (\<lambda>j. funds_returned st j \<or> j = i \<and> gone)"
    and "tok_transfer h (ledger st) (r_token r) (self_address h) (r_customer r) (r_amount r)
      = Some (ledger st')"
  shows "refund_step (h, q) x st st'"
  by (rule refund_step.move [OF assms(1,2), where gone = gone and
        ps = "[(r_customer r, r_amount r)]"])
    (use assms(3-7) in \<open>auto simp: refund_status_step_simps refund_held_def\<close>)

lemma auto_reject_step:
  assumes "auto_reject_stale_refund h i st = Inr st'" and "refunds_wf st"
  shows "refund_step (h, q) x st st'"
  using auto_reject_effect [OF assms]
  by (elim exE conjE, intro hand_back_step [where gone = True])
    (assumption | simp add: refund_move_defs)+

lemma cancel_refund_step:
  assumes "cancel_refund_request h c i st = Inr st'" and "refunds_wf st"
  shows "refund_step (h, q) x st st'"
  using cancel_refund_effect [OF assms]
  by (elim exE conjE, intro hand_back_step [where gone = False])
    (assumption | simp add: refund_move_defs)+

lemma auto_cancel_step:
  assumes "auto_cancel_expired_request h i st = Inr st'" and "refunds_wf st"
  shows "refund_step (h, q) x st st'"
  using auto_cancel_effect [OF assms]
  by (elim exE conjE, intro hand_back_step [where gone = False])
    (assumption | simp add: refund_move_defs)+


section \<open>Appeals\<close>

lemma appeal_refund_effect:
  assumes "appeal_refund h c i st = Inr st'" and "refunds_wf st"
  shows "\<exists>r t n. r_status r = Rejected \<and> authorized h (r_customer r) \<and> r_rejected_at r = Some t \<and>
    appeal_window st = Some n \<and> timestamp h \<le> t + n \<and>
    changes_refund i r (r\<lparr>r_status := UnderAppeal\<rparr>) st st' \<and>
    funds_returned st' = funds_returned st \<and> ledger st' = ledger st"
proof -
  from assms(1) obtain r where r: "refunds st i = Some r"
    by (auto simp: appeal_refund_def ok_simps)
  note ok = refunds_wfD(2) [OF assms(2) r]
  show ?thesis
    using assms(1) r ok
    by (intro exI [of _ r], clarsimp simp: appeal_refund_def Let_def ok_simps get_appeal_window_def)
      (simp add: refund_book_defs)
qed

lemma appeal_refund_step:
  assumes "appeal_refund h c i st = Inr st'" and "refunds_wf st"
  shows "refund_step (h, q) x st st'"
proof -
  from appeal_refund_effect [OF assms] obtain r t n where r: "r_status r = Rejected"
      "authorized h (r_customer r)" "r_rejected_at r = Some t" "appeal_window st = Some n"
      "timestamp h \<le> t + n" "funds_returned st' = funds_returned st" "ledger st' = ledger st"
    and ch: "changes_refund i r (r\<lparr>r_status := UnderAppeal\<rparr>) st st'"
    by blast
  show ?thesis
    by (rule refund_step.move [OF ch, where gone = False and ps = "[]"])
      (use r in \<open>simp_all add: refund_move_defs\<close>)
qed

lemma uphold_appeal_effect:
  assumes c: "resolve_appeal h a i True st = Inr st'" and wf: "refunds_wf st" and "fee_in_bounds st"
  shows "\<exists>r fee. r_status r = UnderAppeal \<and> refund_admin_signs h st \<and>
    fee = bps_share (r_amount r) (get_refund_fee st) \<and> 0 \<le> fee \<and> fee \<le> r_amount r \<and>
    changes_refund i r (r\<lparr>r_status := Processed, r_processed_at := Some (timestamp h),
      r_fee_amount := fee_record fee\<rparr>) st st' \<and>
    funds_returned st' = funds_returned st \<and>
    pay_list h (r_token r) (payouts r fee (refund_fee_recipient st)) (ledger st) = Some (ledger st')"
proof -
  from c obtain r fee amt st1 st2 where r: "refunds st i = Some r" "r_status r = UnderAppeal"
    and signs: "refund_admin_signs h st" and fee: "refund_fee_amount r st = Inr fee"
    and pay: "pay_out_refund h i r fee st = Inr (amt, st1)" and add: "add_refunded r st1 = Inr st2"
    and rest: "and_then (update_stats_on_process (r_merchant r) (r_amount r) st2)
      (\<lambda>st. Inr (emit_appeal_resolved i True (store_refund i (r\<lparr>r_status := Processed,
        r_processed_at := Some (timestamp h), r_fee_amount := fee_record fee\<rparr>) st))) = Inr st'"
    by (auto simp: resolve_appeal_def Let_def ok_simps refund_admin_signs_def)
  note ok = refunds_wfD(2) [OF wf r(1)]
  have bounds: "fee = bps_share (r_amount r) (get_refund_fee st)" "0 \<le> fee" "fee \<le> r_amount r"
    using refund_fee_amount_Inr [OF fee ok _ assms(3)] r(2) by simp_all
  from pay_out_refund_Inr [OF pay] obtain l evs
    where st1: "st1 = st\<lparr>ledger := l, events := events st @ evs\<rparr>"
      and l: "pay_list h (r_token r) (payouts r fee (refund_fee_recipient st)) (ledger st) = Some l"
      and evs: "\<forall>j. \<not> list_ex (hands_back j) evs"
    by blast
  have st2: "refunds st2 = refunds st" "get_refund_counter st2 = get_refund_counter st"
      "pending st2 = pending st" "ledger st2 = l" "funds_returned st2 = funds_returned st"
      "refunded_amount st2 = (refunded_amount st)
         (r_payment_id r \<mapsto> already_refunded (r_payment_id r) st + r_amount r)"
    using add evs by (auto simp: st1 add_refunded_Inr already_refunded_def get_refund_counter_def
        pending_def funds_returned_def)
  have "refund_ok i (r\<lparr>r_status := Processed, r_processed_at := Some (timestamp h),
      r_fee_amount := fee_record fee\<rparr>)"
    using ok r by (simp add: refund_ok_def)
  then show ?thesis
    using rest r ok bounds l signs
    by (intro exI [of _ r] exI [of _ fee], clarsimp simp: ok_simps elim!: refund_notes)
      (simp add: refund_book_defs st2)
qed

lemma dismiss_appeal_effect:
  assumes "resolve_appeal h a i False st = Inr st'" and "refunds_wf st"
  shows "\<exists>r. r_status r = UnderAppeal \<and> refund_admin_signs h st \<and>
    changes_refund i r (r\<lparr>r_status := Rejected, r_rejected_at := Some (timestamp h)\<rparr>) st st' \<and>
    funds_returned st' = (\<lambda>j. funds_returned st j \<or> j = i) \<and>
    tok_transfer h (ledger st) (r_token r) (self_address h) (r_customer r) (r_amount r)
      = Some (ledger st')"
proof -
  from assms(1) obtain r where r: "refunds st i = Some r"
    by (auto simp: resolve_appeal_def ok_simps)
  note ok = refunds_wfD(2) [OF assms(2) r]
  show ?thesis
    using assms(1) r ok
    by (intro exI [of _ r], clarsimp simp: resolve_appeal_def Let_def ok_simps
        refund_admin_signs_def elim!: refund_notes)
      (simp add: refund_book_defs fun_eq_iff eq_commute)
qed

lemma resolve_appeal_step:
  assumes c: "resolve_appeal h a i b st = Inr st'" and wf: "refunds_wf st" and fee: "fee_in_bounds st"
    and exact: "x \<longrightarrow> \<not> funds_returned st i"
  shows "refund_step (h, q) x st st'"
proof (cases b)
  case True
  then have "resolve_appeal h a i True st = Inr st'" using c by simp
  from uphold_appeal_effect [OF this wf fee]
  obtain r fee where r: "r_status r = UnderAppeal" "refund_admin_signs h st"
      "0 \<le> fee" "fee \<le> r_amount r" "funds_returned st' = funds_returned st"
    and ch: "changes_refund i r (r\<lparr>r_status := Processed, r_processed_at := Some (timestamp h),
      r_fee_amount := fee_record fee\<rparr>) st st'"
    and pay: "pay_list h (r_token r) (payouts r fee (refund_fee_recipient st)) (ledger st)
      = Some (ledger st')"
    by blast
  show ?thesis
    by (rule refund_step.move [OF ch, where gone = False and
          ps = "payouts r fee (refund_fee_recipient st)"])
      (use r pay exact sum_payouts_le payouts_recipients in \<open>fastforce simp: refund_move_defs\<close>)+
next
  case False
  then have "resolve_appeal h a i False st = Inr st'" using c by simp
  from dismiss_appeal_effect [OF this wf]
  obtain r where r: "r_status r = UnderAppeal" "refund_admin_signs h st"
      "funds_returned st' = (\<lambda>j. funds_returned st j \<or> j = i)"
      "tok_transfer h (ledger st) (r_token r) (self_address h) (r_customer r) (r_amount r)
        = Some (ledger st')"
    and ch: "changes_refund i r (r\<lparr>r_status := Rejected, r_rejected_at := Some (timestamp h)\<rparr>) st st'"
    by blast
  show ?thesis
    by (rule refund_step.move [OF ch, where gone = True and ps = "[(r_customer r, r_amount r)]"])
      (use r exact in \<open>simp_all add: refund_move_defs\<close>)
qed

section \<open>New refunds\<close>

lemma refunded_nonneg: "refunds_wf st \<Longrightarrow> 0 \<le> already_refunded p st"
proof -
  assume wf: "refunds_wf st"
  have "0 \<le> refunded_sum p st"
    unfolding refunded_sum_def
    by (rule sum_nonneg)
      (use refunds_wfD(2) [OF wf] in \<open>fastforce simp: refund_ok_def split: option.split\<close>)
  then show ?thesis using wf unfolding refunds_wf_def by simp
qed

lemma apply_tiers_Inr:
  assumes "apply_tiers h x amt refunded ts = Inr (eff, tier)" and "\<not> amt \<le> 0"
  shows "0 < eff \<and> eff \<le> amt"
  using assms by (auto simp: apply_tiers_def Let_def ok_simps split: if_splits)

lemma merchant_refund_step:
  assumes c: "merchant_refund h q m p amt n n' t st = Inr (i, st')" and wf: "refunds_wf st"
  shows "refund_step (h, q) x st st'"
proof -
  define r where "r = the (refunds st' i)"
  have "adds_refund i r st st' \<and> r_status r = Processed \<and> authorized h (r_merchant r) \<and>
      backed q st r \<and> tok_transfer h (ledger st) (r_token r) (r_merchant r) (r_customer r)
        (r_amount r) = Some (ledger st')"
    using c refunded_nonneg [OF wf, of p] unfolding r_def
    by (clarsimp simp: merchant_refund_def Let_def ok_simps elim!: refund_notes)
      (simp add: adds_refund_def refund_book_defs backed_def get_refund_counter_def
        already_refunded_def saturating_sub128_def min_less_iff_disj)
  then show ?thesis by (auto intro: refund_step.direct)
qed

lemma register_escrow_refund_step:
  assumes c: "register_escrow_refund h e b amt tk st = Inr (i, st')"
  shows "refund_step (h, q) x st st'"
proof -
  define r where "r = the (refunds st' i)"
  have "adds_refund i r st st' \<and> r_status r = Processed \<and> r_escrow_id r \<noteq> None \<and>
      escrow_contract_address st = Some (self_address h) \<and> ledger st' = ledger st"
    using c unfolding r_def
    by (clarsimp simp: register_escrow_refund_def Let_def ok_simps)
      (simp add: adds_refund_def refund_book_defs get_refund_counter_def)
  then show ?thesis by (auto intro: refund_step.register)
qed

lemma request_refund_effect:
  assumes c: "request_refund h q cu p amt s n st = Inr (i, st')" and wf: "refunds_wf st"
  shows "\<exists>r. adds_refund i r st st' \<and> (r_status r = Requested \<or> r_status r = Approved) \<and>
    authorized h cu \<and> r_customer r = cu \<and> r_payment_id r = p \<and> r_amount r \<le> amt \<and>
    backed q st r \<and>
    tok_transfer h (ledger st) (r_token r) cu (self_address h) (r_amount r) = Some (ledger st')"
proof -
  from c obtain a x where x: "payment_contract_address st = Some a" "q a p = Some x"
    by (clarsimp simp: request_refund_def Let_def ok_simps)
  show ?thesis
  proof (cases "is_merchant_auto_approved (x_merchant x) st")
    case True
    with c x refunded_nonneg [OF wf, of p] show ?thesis
      by (intro exI [of _ "the (refunds st' i)"],
          clarsimp simp: request_refund_def Let_def ok_simps elim!: refund_notes dest!: apply_tiers_Inr)
        (simp add: adds_refund_def refund_book_defs backed_def i128_ok_def already_refunded_def)
  next
    case False
    with c x refunded_nonneg [OF wf, of p] show ?thesis
      by (intro exI [of _ "the (refunds st' i)"],
          clarsimp simp: request_refund_def Let_def ok_simps elim!: refund_notes dest!: apply_tiers_Inr)
        (simp add: adds_refund_def refund_book_defs backed_def i128_ok_def already_refunded_def)
  qed
qed

end
