(* ===== verification/Refund_Settings.thy ===== *)
theory Refund_Settings
  imports Refund_Refine
begin

text \<open>
  What the calls of the refund contract leave alone: only administration changes the settings,
  and administration does not touch the books; the limits the settings keep; and the whole
  contract as steps of its specification.
\<close>

section \<open>Settings\<close>

definition refund_settings where
  "refund_settings st = (admin st, paused st, pause_reason st, payment_contract_address st,
     dispute_window st, escrow_contract_address st, refund_fee_bps st, refund_fee_recipient st,
     auto_reject_window st, appeal_window st, refund_tiers st, refund_cooldown st,
     customer_cancel_window st, auto_approved_merchants st, merchant_delegates st)"

lemma refund_settings_fields [simp]:
  "refund_settings (publish ev st) = refund_settings st"
  "refund_settings (store_refund i r st) = refund_settings st"
  "refund_settings (index_refund r st) = refund_settings st"
  "refund_settings (remove_from_pending_queue i st) = refund_settings st"
  "refund_settings (append_to_pending_queue i st) = refund_settings st"
  "refund_settings (note_request_time h c n st) = refund_settings st"
  "refund_settings (announce_request r tier w st) = refund_settings st"
  "refund_settings (st\<lparr>ledger := l\<rparr>) = refund_settings st"
  "refund_settings (st\<lparr>events := evs\<rparr>) = refund_settings st"
  "refund_settings (st\<lparr>refund_counter := cnt\<rparr>) = refund_settings st"
  "refund_settings (st\<lparr>refunded_amount := ra\<rparr>) = refund_settings st"
  "refund_settings (st\<lparr>merchant_refund_stats := m\<rparr>) = refund_settings st"
  "refund_settings (st\<lparr>global_refund_stats := g\<rparr>) = refund_settings st"
  "refund_settings (st\<lparr>reason_code_count := rc\<rparr>) = refund_settings st"
  "refund_settings (st\<lparr>reason_code_refunds := rs\<rparr>) = refund_settings st"
  "refund_settings (st\<lparr>customer_refunds := cr\<rparr>) = refund_settings st"
  "refund_settings (st\<lparr>refund_deadline_extension := de\<rparr>) = refund_settings st"
  "refund_settings (st\<lparr>contract_version := v\<rparr>) = refund_settings st"
  "refund_settings (st\<lparr>migration_completed := mc\<rparr>) = refund_settings st"
  "refund_settings (snd (refund_get_or_init_version st)) = refund_settings st"
  by (simp_all add: refund_settings_def store_refund_def index_refund_def
      remove_from_pending_queue_def append_to_pending_queue_def note_request_time_def
      announce_request_def refund_emit_defs refund_get_or_init_version_def Let_def
      split: option.splits)

lemma pay_out_refund_settings:
  "pay_out_refund h i r fee st = Inr (amt, st') \<Longrightarrow> refund_settings st' = refund_settings st"
  by (auto dest!: pay_out_refund_Inr)

lemma process_refund_internal_settings:
  "process_refund_internal h q i st = Inr st' \<Longrightarrow> refund_settings st' = refund_settings st"
  by (auto simp: process_refund_internal_def Let_def ok_simps refund_emit_defs
      dest!: pay_out_refund_settings note_refund_cap_Inr elim!: refund_notes)

lemma process_refunds_loop_settings:
  "process_refunds_loop h q ids tot st = Inr (tot', st') \<Longrightarrow> refund_settings st' = refund_settings st"
proof (induction ids arbitrary: tot st)
  case Nil
  then show ?case by simp
next
  case (Cons i ids)
  then show ?case by (auto simp: ok_simps dest!: process_refund_internal_settings)
qed

lemma request_refund_settings:
  "request_refund h q c p amt s n st = Inr (i, st') \<Longrightarrow> refund_settings st' = refund_settings st"
  by (clarsimp simp: request_refund_def Let_def ok_simps elim!: refund_notes)

lemma refund_op_settings:
  "merchant_refund h q m p amt n n' t st = Inr (i, st') \<Longrightarrow> refund_settings st' = refund_settings st"
  "register_escrow_refund h e b amt tk st = Inr (i, st') \<Longrightarrow> refund_settings st' = refund_settings st"
  "approve_refund h a i st = Inr st' \<Longrightarrow> refund_settings st' = refund_settings st"
  "reject_refund h a i rs st = Inr st' \<Longrightarrow> refund_settings st' = refund_settings st"
  "process_refund h q a i st = Inr st' \<Longrightarrow> refund_settings st' = refund_settings st"
  "bulk_process_refunds h q a ids st = Inr st' \<Longrightarrow> refund_settings st' = refund_settings st"
  "auto_approve_refund h i st = Inr st' \<Longrightarrow> refund_settings st' = refund_settings st"
  "auto_reject_stale_refund h i st = Inr st' \<Longrightarrow> refund_settings st' = refund_settings st"
  "extend_refund_deadline h a i k st = Inr st' \<Longrightarrow> refund_settings st' = refund_settings st"
  "cancel_refund_request h c i st = Inr st' \<Longrightarrow> refund_settings st' = refund_settings st"
  "auto_cancel_expired_request h i st = Inr st' \<Longrightarrow> refund_settings st' = refund_settings st"
  "appeal_refund h c i st = Inr st' \<Longrightarrow> refund_settings st' = refund_settings st"
  by (auto simp: merchant_refund_def register_escrow_refund_def approve_refund_def
      reject_refund_def process_refund_def bulk_process_refunds_def auto_approve_refund_def
      auto_reject_stale_refund_def extend_refund_deadline_def cancel_refund_request_def
      auto_cancel_expired_request_def appeal_refund_def
      Let_def ok_simps refund_emit_defs
      dest!: pay_out_refund_settings process_refund_internal_settings process_refunds_loop_settings
      elim!: refund_notes)

lemma resolve_appeal_settings:
  "resolve_appeal h a i b st = Inr st' \<Longrightarrow> refund_settings st' = refund_settings st"
  by (cases b) (auto simp: resolve_appeal_def Let_def ok_simps refund_emit_defs
      dest!: pay_out_refund_settings elim!: refund_notes)

lemma refund_version_settings:
  "refund_upgrade h a w st = Inr st' \<Longrightarrow> refund_settings st' = refund_settings st"
  "refund_migrate h a st = Inr st' \<Longrightarrow> refund_settings st' = refund_settings st"
  by (auto simp: refund_upgrade_def refund_migrate_def refund_get_or_init_version_def Let_def
      ok_simps refund_emit_defs split: if_splits option.splits)

fun refund_administrative :: "refund_op \<Rightarrow> bool" where
  "refund_administrative (RefInitialize a p w e f r j l ts k n) = True"
| "refund_administrative (RefSetTiers a ts) = True"
| "refund_administrative (RefUpdateFee a n) = True"
| "refund_administrative (RefWaiveCooldown a c) = True"
| "refund_administrative (RefWhitelist a m) = True"
| "refund_administrative (RefUnwhitelist a m) = True"
| "refund_administrative (RefAddDelegate m d) = True"
| "refund_administrative (RefRemoveDelegate m d) = True"
| "refund_administrative (RefPause a r) = True"
| "refund_administrative (RefResume a) = True"
| "refund_administrative _ = False"

lemma refund_ops_keep_settings:
  assumes "refund_exec (h, q) op st = Inr st'" and "\<not> refund_administrative op"
  shows "refund_settings st' = refund_settings st"
  using assms
  by (cases op; clarsimp simp: state_of_Inr refund_get_version_def;
      elim refund_op_settings request_refund_settings resolve_appeal_settings
        refund_version_settings)

lemmas refund_admin_op_defs = set_refund_tiers_def update_refund_fee_def waive_cooldown_def
  add_to_auto_approve_def remove_from_auto_approve_def add_delegate_def remove_delegate_def
  refund_pause_contract_def refund_resume_contract_def

section \<open>Limits of the settings\<close>

text \<open>
  What the setters promise: a fee of at most two percent, refund tiers in the order of time that
  give back at most everything, at most five different delegates per merchant; and a contract
  without an admin has neither addresses to call nor refunds.
\<close>

definition refund_configured :: "'l refund_state \<Rightarrow> bool" where
  "refund_configured st \<longleftrightarrow> fee_in_bounds st \<and> sorted (map fst (get_refund_tiers st)) \<and>
     (\<forall>t \<in> set (get_refund_tiers st). snd t \<le> 10000) \<and>
     (\<forall>m. length (get_delegates m st) \<le> 5 \<and> distinct (get_delegates m st)) \<and>
     (admin st = None \<longrightarrow> payment_contract_address st = None \<and> escrow_contract_address st = None \<and>
        get_refund_counter st = 0)"

lemma validate_refund_tiers_from_Inr:
  "validate_refund_tiers_from b v ts = Inr u \<longleftrightarrow> sorted (map fst ts) \<and>
     (\<forall>t \<in> set ts. snd t \<le> 10000 \<and> (\<not> b \<longrightarrow> v \<le> fst t))"
  by (induction b v ts rule: validate_refund_tiers_from.induct)
    (simp_all add: ok_simps, fastforce)

lemma validate_refund_tiers_Inr [ok_simps]:
  "validate_refund_tiers ts = Inr u \<longleftrightarrow> sorted (map fst ts) \<and> (\<forall>t \<in> set ts. snd t \<le> 10000)"
  by (simp add: validate_refund_tiers_def validate_refund_tiers_from_Inr)

lemma deployed_refund_configured: "refund_configured (deployed_refund l)"
  by (simp add: refund_configured_def deployed_refund_def fee_in_bounds_def get_refund_fee_def
      get_refund_tiers_def get_delegates_def get_refund_counter_def)

lemma delegates_configured:
  "add_delegate h m d st = Inr st' \<Longrightarrow> refund_configured st \<Longrightarrow> refund_configured st'"
  "remove_delegate h m d st = Inr st' \<Longrightarrow> refund_configured st \<Longrightarrow> refund_configured st'"
  by (auto simp: add_delegate_def remove_delegate_def Let_def ok_simps emit_delegate_added_def
      refund_configured_def fee_in_bounds_def get_refund_fee_def get_refund_tiers_def
      get_delegates_def get_refund_counter_def intro!: le_trans [OF length_filter_le])

lemma initialize_configured:
  assumes "refund_initialize a p w e f r j l ts k n st = Inr st'" and "refund_configured st"
  shows "refund_configured st'"
  using assms
  by (auto simp: refund_initialize_def Let_def ok_simps refund_configured_def fee_in_bounds_def
      get_refund_fee_def get_refund_tiers_def get_delegates_def split: option.splits)

lemma refund_administrative_configured:
  assumes "refund_exec (h, q) op st = Inr st'" and "refund_administrative op" and "refund_configured st"
  shows "refund_configured st'"
proof (cases op)
  case (RefInitialize a p w e f r j l ts k n)
  then show ?thesis using assms by (auto intro: initialize_configured)
next
  case (RefAddDelegate m d)
  then show ?thesis using assms by (auto intro: delegates_configured)
next
  case (RefRemoveDelegate m d)
  then show ?thesis using assms by (auto intro: delegates_configured)
qed (use assms in \<open>auto simp: refund_admin_op_defs Let_def ok_simps refund_emit_defs
      refund_configured_def fee_in_bounds_def get_refund_fee_def get_refund_tiers_def
      get_delegates_def get_refund_counter_def\<close>)

text \<open>Without an admin nothing is counted: every creation asks for a configured address.\<close>

lemma uninitialized_counter:
  assumes "refund_exec (h, q) op st = Inr st'" and "\<not> refund_administrative op"
    and "payment_contract_address st = None" and "escrow_contract_address st = None"
    and "admin st = None" and "refunds st = Map.empty"
  shows "get_refund_counter st' = get_refund_counter st"
  using assms
  by (cases op) (simp_all add: state_of_Inr request_refund_def merchant_refund_def
      register_escrow_refund_def approve_refund_def reject_refund_def process_refund_def
      bulk_process_refunds_def require_processing_admin_def fetch_payment_def
      auto_approve_refund_def auto_reject_stale_refund_def extend_refund_deadline_def
      cancel_refund_request_def auto_cancel_expired_request_def appeal_refund_def
      resolve_appeal_def refund_upgrade_def refund_migrate_def refund_get_version_def
      refund_get_or_init_version_def get_refund_counter_def Let_def ok_simps,
      auto split: option.splits)

section \<open>Administration and the books\<close>

lemma refund_administrative_books:
  assumes "refund_exec (h, q) op st = Inr st'" and "refund_administrative op"
    and "refund_configured st" and "refunds_wf st"
  shows "same_refund_books st st'"
proof (cases op)
  case (RefInitialize a p w e f r j l ts k n)
  then have "get_refund_counter st = 0"
    using assms(1,3) by (auto simp: refund_initialize_def refund_configured_def split: if_splits)
  moreover from this have "pending st = []"
    using assms(4) unfolding refunds_wf_def by simp
  ultimately show ?thesis
    using assms(1) RefInitialize
    by (auto simp: refund_initialize_def Let_def ok_simps same_refund_books_def pending_def
        funds_returned_def get_refund_counter_def fun_eq_iff split: option.splits)
qed (use assms in \<open>auto simp: refund_admin_op_defs Let_def ok_simps refund_emit_defs
      same_refund_books_def pending_def funds_returned_def get_refund_counter_def publish_def
      fun_eq_iff\<close>)

lemma upkeep_books:
  "extend_refund_deadline h a i k st = Inr st' \<Longrightarrow> same_refund_books st st'"
  "refund_upgrade h a w st = Inr st' \<Longrightarrow> same_refund_books st st'"
  "refund_migrate h a st = Inr st' \<Longrightarrow> same_refund_books st st'"
  "same_refund_books st (snd (refund_get_version st))"
  by (auto simp: extend_refund_deadline_def refund_upgrade_def refund_migrate_def
      refund_get_version_def refund_get_or_init_version_def Let_def ok_simps refund_emit_defs
      same_refund_books_def pending_def funds_returned_def get_refund_counter_def publish_def
      fun_eq_iff split: option.splits if_splits)

section \<open>The contract implements its specification\<close>

lemma process_refund_step:
  assumes "process_refund h q a i st = Inr st'" and "refunds_wf st" and "fee_in_bounds st"
  shows "refund_step (h, q) x st st'"
  using assms
  by (auto simp: process_refund_def ok_simps refund_admin_signs_def intro: process_refund_internal_step)

lemma refund_settings_facts:
  assumes "refund_settings st' = refund_settings st"
  shows "admin st' = admin st" and "get_refund_fee st' = get_refund_fee st"
    and "fee_in_bounds st' \<longleftrightarrow> fee_in_bounds st"
    and "refund_fee_recipient st' = refund_fee_recipient st"
    and "get_refund_tiers st' = get_refund_tiers st" and "get_delegates m st' = get_delegates m st"
    and "payment_contract_address st' = payment_contract_address st"
    and "escrow_contract_address st' = escrow_contract_address st"
  using assms by (simp_all add: refund_settings_def fee_in_bounds_def get_refund_fee_def
      get_refund_tiers_def get_delegates_def)

lemma process_refunds_loop_steps:
  assumes "process_refunds_loop h q ids tot st = Inr (tot', st')" and "refunds_wf st"
    and "fee_in_bounds st" and "refund_admin_signs h st"
  shows "(refund_step (h, q) x)\<^sup>*\<^sup>* st st'"
  using assms
proof (induction ids arbitrary: tot st)
  case Nil
  then show ?case by simp
next
  case (Cons i ids)
  from Cons.prems(1) obtain st1 tot1 where p: "process_refund_internal h q i st = Inr st1"
    and loop: "process_refunds_loop h q ids tot1 st1 = Inr (tot', st')"
    by (auto simp: ok_simps)
  have step: "refund_step (h, q) x st st1"
    by (rule process_refund_internal_step [OF p Cons.prems(2-4)])
  note s = refund_settings_facts [OF process_refund_internal_settings [OF p]]
  have "(refund_step (h, q) x)\<^sup>*\<^sup>* st1 st'"
    using Cons.prems(3,4) s refund_step_wf [OF step Cons.prems(2)]
    by (intro Cons.IH [OF loop]) (simp_all add: refund_admin_signs_def)
  with step show ?case by (rule converse_rtranclp_into_rtranclp)
qed

lemma bulk_process_refunds_steps:
  assumes "bulk_process_refunds h q a ids st = Inr st'" and "refunds_wf st" and "fee_in_bounds st"
  shows "(refund_step (h, q) x)\<^sup>*\<^sup>* st st'"
proof -
  from assms(1) obtain tot st1 where a: "authorized h a" "admin st = Some a"
    and loop: "process_refunds_loop h q ids 0 st = Inr (tot, st1)"
    and st': "st' = emit_bulk_refund_processed (length ids) tot st1"
    by (auto simp: bulk_process_refunds_def ok_simps)
  have "same_refund_books st1 st'"
    by (simp add: st' same_refund_books_def emit_bulk_refund_processed_def)
  moreover have "(refund_step (h, q) x)\<^sup>*\<^sup>* st st1"
    using a by (intro process_refunds_loop_steps [OF loop assms(2,3)])
      (auto simp: refund_admin_signs_def)
  ultimately show ?thesis by (meson refund_step.bookkeep rtranclp.rtrancl_into_rtrancl)
qed

lemma request_refund_step:
  assumes "request_refund h q c p amt s n st = Inr (i, st')" and "refunds_wf st"
  shows "refund_step (h, q) x st st'"
  using request_refund_effect [OF assms] refund_step.open_request [of i _ st st' "(h, q)" x] by auto

lemmas refund_op_steps = request_refund_step merchant_refund_step register_escrow_refund_step
  approve_refund_step reject_refund_step process_refund_step auto_approve_refund_step
  auto_reject_step cancel_refund_step auto_cancel_step appeal_refund_step

lemma refund_exec_refines:
  assumes c: "refund_exec (h, q) op st = Inr st'" and wf: "refunds_wf st"
    and conf: "refund_configured st" and exact: "x \<longrightarrow> exact_refund_call op st"
  shows "(refund_step (h, q) x)\<^sup>*\<^sup>* st st'"
proof (cases "refund_administrative op")
  case True
  then show ?thesis
    using refund_administrative_books [OF c _ conf wf] by (blast intro: refund_step.bookkeep)
next
  case False
  have fee: "fee_in_bounds st" using conf by (simp add: refund_configured_def)
  show ?thesis
  proof (cases op)
    case (RefBulkProcess a ids)
    then show ?thesis using c bulk_process_refunds_steps [OF _ wf fee] by simp
  next
    case (RefResolveAppeal a i b)
    then show ?thesis
      using c exact by (auto intro: resolve_appeal_step [OF _ wf fee])
  qed (use c wf fee False in \<open>auto simp: state_of_Inr
      intro: refund_op_steps refund_step.bookkeep upkeep_books\<close>)
qed

lemma refund_exec_configured:
  assumes c: "refund_exec (h, q) op st = Inr st'" and wf: "refunds_wf st"
    and conf: "refund_configured st"
  shows "refund_configured st'"
proof (cases "refund_administrative op")
  case True
  then show ?thesis using c conf by (blast intro: refund_administrative_configured)
next
  case False
  note s = refund_settings_facts [OF refund_ops_keep_settings [OF c False]]
  have "get_refund_counter st' = 0" if no: "admin st = None"
  proof -
    have z: "payment_contract_address st = None" "escrow_contract_address st = None"
        "get_refund_counter st = 0"
      using no conf by (simp_all add: refund_configured_def)
    then have "refunds st = Map.empty" using wf unfolding refunds_wf_def by auto
    with uninitialized_counter [OF c False] no z show ?thesis by simp
  qed
  then show ?thesis using conf s by (simp add: refund_configured_def)
qed

end
