(* ===== verification/Refund_Solvency.thy ===== *)
theory Refund_Solvency
  imports Refund_Settings
begin

text \<open>
  The money of the refund contract, and the contract as an instance of the interfaces of
  Soroban.thy: an exact call never lowers the surplus of its balance over what it holds for
  refunds, so that it stays solvent over any history of exact calls; the emergency stop; the ids.
\<close>

section \<open>What the contract holds for refunds\<close>

definition refund_owed :: "address \<Rightarrow> refund option \<times> bool \<Rightarrow> int" where
  "refund_owed tk rb = (case fst rb of None \<Rightarrow> 0
     | Some r \<Rightarrow> if r_token r = tk then refund_held (snd rb) r else 0)"

definition refund_entry :: "'l refund_state \<Rightarrow> u32 \<Rightarrow> refund option \<times> bool" where
  "refund_entry st i = (refunds st i, funds_returned st i)"

definition refund_liability :: "'l refund_state \<Rightarrow> address \<Rightarrow> int" where
  "refund_liability st tk = (\<Sum>k<get_refund_counter st. refund_owed tk (refund_entry st k))"

definition refund_surplus :: "'l view \<Rightarrow> address \<Rightarrow> 'l refund_state \<Rightarrow> address \<Rightarrow> int" where
  "refund_surplus V self st tk = balance V (ledger st) tk self - refund_liability st tk"

lemma refund_owed_simps [simp]:
  "refund_owed tk (None, b) = 0"
  "refund_owed tk (Some r, b) = (if r_token r = tk then refund_held b r else 0)"
  by (simp_all add: refund_owed_def)

lemma refund_held_nonneg: "0 < r_amount r \<Longrightarrow> 0 \<le> refund_held b r"
  by (simp add: refund_held_def split: refund_status.split)

lemma refund_liability_nonneg: "refunds_wf st \<Longrightarrow> 0 \<le> refund_liability st tk"
  unfolding refund_liability_def
  by (rule sum_nonneg)
    (auto simp: refund_owed_def refund_entry_def refund_ok_def split: option.split
      intro!: refund_held_nonneg dest!: refunds_wfD(2))

lemma refund_liability_add:
  assumes "adds_refund i r st st'" and "refunds_wf st"
  shows "refund_liability st' tk = refund_liability st tk +
    (if r_token r = tk then refund_held False r else 0)"
proof -
  from assms(1) have i: "i = get_refund_counter st" and st': "refunds st' = (refunds st)(i \<mapsto> r)"
      "get_refund_counter st' = Suc i" "funds_returned st' = funds_returned st"
    by (simp_all add: adds_refund_def)
  have "\<not> funds_returned st i"
    using assms(2) refunds_wfD(3) [OF assms(2)] i unfolding refunds_wf_def by blast
  then have "refund_entry st' = (refund_entry st)(i := (Some r, False))"
    by (auto simp: fun_eq_iff refund_entry_def st')
  then have "refund_liability st' tk =
      (\<Sum>k<Suc i. refund_owed tk (((refund_entry st)(i := (Some r, False))) k))"
    by (simp add: refund_liability_def st')
  also have "\<dots> = refund_liability st tk + refund_owed tk (Some r, False)"
    by (simp add: sum_fun_upd_fresh [where f = "refund_owed tk"] refund_liability_def i
        del: fun_upd_apply sum.lessThan_Suc)
  finally show ?thesis by (simp add: refund_owed_def)
qed

lemma refund_liability_change:
  assumes "changes_refund i r r' st st'"
    and "funds_returned st' = (\<lambda>j. funds_returned st j \<or> j = i \<and> gone)"
    and "refunds_wf st" and "r_token r' = r_token r"
  shows "refund_liability st' tk = refund_liability st tk - (if r_token r = tk
    then refund_held (funds_returned st i) r - refund_held (funds_returned st' i) r' else 0)"
proof -
  from assms(1) have r: "refunds st i = Some r" and st': "refunds st' = (refunds st)(i \<mapsto> r')"
      "get_refund_counter st' = get_refund_counter st"
    by (simp_all add: changes_refund_def)
  have "refund_entry st' = (refund_entry st)(i := (Some r', funds_returned st' i))"
    by (auto simp: fun_eq_iff refund_entry_def st' assms(2))
  then show ?thesis
    using assms(4) r refunds_wfD(1) [OF assms(3) r]
    by (simp add: refund_liability_def st'(2) sum_fun_upd [where f = "refund_owed tk"]
        del: fun_upd_apply) (simp add: refund_entry_def)
qed

section \<open>Exact steps never eat into the surplus\<close>

definition refund_legal :: "'l view \<Rightarrow> address \<Rightarrow> 'l refund_host \<Rightarrow> bool" where
  "refund_legal V self hq \<longleftrightarrow>
     token_laws V (fst hq) \<and> self_address (fst hq) = self \<and> \<not> authorized (fst hq) self"

lemma refund_step_surplus:
  assumes "refund_step hq True st st'" and "refund_legal V self hq" and "refunds_wf st"
  shows "refund_surplus V self st tk \<le> refund_surplus V self st' tk"
  using assms
proof (induction rule: refund_step.induct)
  case (bookkeep st st')
  then show ?case
    by (simp add: same_refund_books_def refund_surplus_def refund_liability_def refund_entry_def)
next
  case (open_request i r st st')
  have "moves V (ledger st) (ledger st') (r_token r) (r_customer r) self (r_amount r)"
    and "r_customer r \<noteq> self"
    using open_request token_laws_transfer [OF _ open_request(5)] by (auto simp: refund_legal_def)
  moreover have "refund_held False r = r_amount r"
    using open_request(2) by (auto simp: refund_held_def)
  ultimately show ?case
    using refund_liability_add [OF open_request(1,7), of tk]
    by (simp add: refund_surplus_def moves_balance)
next
  case (direct i r st st')
  have "moves V (ledger st) (ledger st') (r_token r) (r_merchant r) (r_customer r) (r_amount r)"
    and "r_merchant r \<noteq> self"
    using direct token_laws_transfer [OF _ direct(5)] by (auto simp: refund_legal_def)
  moreover from this(1) have "0 \<le> r_amount r" by (simp add: moves_def)
  ultimately show ?case
    using refund_liability_add [OF direct(1,7), of tk] direct(2)
    by (simp add: refund_surplus_def moves_balance refund_held_def)
next
  case (register i r st st')
  then show ?case by (simp add: refund_surplus_def refund_liability_add refund_held_def)
next
  case (move i r r' st st' gone ps)
  then have laws: "token_laws V (fst hq)" and self: "self_address (fst hq) = self"
    by (simp_all add: refund_legal_def)
  show ?case
    using move pay_list_self [OF laws move(6), of tk, unfolded self]
      refund_liability_change [OF move(1,5) _ , of tk]
    by (simp add: refund_surplus_def same_refund_terms_def split: if_splits)
qed

section \<open>The machine\<close>

definition refund_init :: "'l view \<Rightarrow> address \<Rightarrow> 'l refund_state \<Rightarrow> bool" where
  "refund_init V self st \<longleftrightarrow> (\<exists>l. st = deployed_refund l \<and> (\<forall>tk. 0 \<le> balance V l tk self))"

definition refund_drift :: "'l view \<Rightarrow> address \<Rightarrow> 'l refund_state \<Rightarrow> 'l refund_state \<Rightarrow> bool" where
  "refund_drift V self st st' \<longleftrightarrow> st' = st\<lparr>ledger := ledger st'\<rparr> \<and>
     (\<forall>tk. balance V (ledger st) tk self \<le> balance V (ledger st') tk self)"

definition refund_inv :: "'l refund_state \<Rightarrow> bool" where
  "refund_inv st \<longleftrightarrow> refunds_wf st \<and> refund_configured st"

definition refund_solvent :: "'l view \<Rightarrow> address \<Rightarrow> 'l refund_state \<Rightarrow> bool" where
  "refund_solvent V self st \<longleftrightarrow> (\<forall>tk. 0 \<le> refund_surplus V self st tk)"

lemma deployed_refund_inv:
  "refund_inv (deployed_refund l)" "ledger (deployed_refund l) = l"
  "refund_liability (deployed_refund l) tk = 0"
proof -
  show "ledger (deployed_refund l) = l" by (simp add: deployed_refund_def)
  show "refund_inv (deployed_refund l)"
    using deployed_refund_configured [of l]
    by (simp add: refund_inv_def refunds_wf_def) (simp add: deployed_refund_def
        get_refund_counter_def funds_returned_def already_refunded_def refunded_sum_def pending_def)
  show "refund_liability (deployed_refund l) tk = 0"
    by (simp add: refund_liability_def deployed_refund_def get_refund_counter_def)
qed

lemma refund_exec_inv:
  assumes "refund_exec hq op st = Inr st'" and "refund_inv st"
  shows "refund_inv st'"
proof -
  obtain h q where hq: "hq = (h, q)" by (cases hq)
  have "(refund_step (h, q) False)\<^sup>*\<^sup>* st st'"
    using assms by (intro refund_exec_refines) (simp_all add: hq refund_inv_def)
  then show ?thesis
    using assms refund_steps_wf refund_exec_configured unfolding refund_inv_def hq by blast
qed

lemma refund_drift_inv:
  assumes "refund_drift V self st st'" and "refund_inv st"
  shows "refund_inv st'" and "refund_surplus V self st tk \<le> refund_surplus V self st' tk"
proof -
  obtain l where st': "st' = st\<lparr>ledger := l\<rparr>"
    and le: "\<forall>tk. balance V (ledger st) tk self \<le> balance V l tk self"
    using assms(1) unfolding refund_drift_def by metis
  have eqs: "refunds st' = refunds st" "get_refund_counter st' = get_refund_counter st"
    "funds_returned st' = funds_returned st" "refunded_amount st' = refunded_amount st"
    "pending st' = pending st" "refund_settings st' = refund_settings st"
    by (simp_all add: st')
  have "refunds_wf st'"
    using assms(2) unfolding refund_inv_def refunds_wf_def refunded_sum_def already_refunded_def eqs
    by (rule conjunct1)
  moreover have "refund_configured st'"
    using assms(2) eqs(2) refund_settings_facts [OF eqs(6)]
    by (simp add: refund_inv_def refund_configured_def)
  ultimately show "refund_inv st'" by (simp add: refund_inv_def)
  show "refund_surplus V self st tk \<le> refund_surplus V self st' tk"
    using le by (simp add: refund_surplus_def refund_liability_def refund_entry_def eqs) (simp add: st')
qed

interpretation refund_contract: contract_machine refund_exec "refund_legal V self"
  "refund_drift V self" "refund_init V self" refund_inv
  for V :: "'l view" and self
proof unfold_locales
  fix s :: "'l refund_state"
  show "refund_inv s" if "refund_init V self s"
    using that by (auto simp: refund_init_def deployed_refund_inv)
qed (blast dest: refund_exec_inv refund_drift_inv(1))+

definition refund_exact_exec ::
  "'l refund_host \<Rightarrow> refund_op \<Rightarrow> 'l refund_state \<Rightarrow> (refund_panic, 'l refund_state) outcome" where
  "refund_exact_exec hq op st =
     (if exact_refund_call op st then refund_exec hq op st else Inl HostFailure)"

lemma refund_exact_exec_Inr [ok_simps]:
  "refund_exact_exec hq op st = Inr st' \<longleftrightarrow> exact_refund_call op st \<and> refund_exec hq op st = Inr st'"
  by (simp add: refund_exact_exec_def)

lemma refund_steps_surplus:
  "(refund_step hq True)\<^sup>*\<^sup>* st st' \<Longrightarrow> refund_legal V self hq \<Longrightarrow> refunds_wf st \<Longrightarrow>
     refund_surplus V self st tk \<le> refund_surplus V self st' tk"
proof (induction rule: rtranclp_induct)
  case base
  then show ?case by simp
next
  case (step st1 st2)
  then show ?case
    using refund_step_surplus [OF step(2) step.prems(1) refund_steps_wf [OF step(1) step.prems(2)],
        of tk]
    by simp
qed

lemma refund_exact_exec_solvent:
  assumes "refund_legal V self hq" and "refund_exact_exec hq op st = Inr st'"
    and "refund_inv st" and "refund_solvent V self st"
  shows "refund_solvent V self st'"
proof -
  obtain h q where hq: "hq = (h, q)" by (cases hq)
  have "(refund_step (h, q) True)\<^sup>*\<^sup>* st st'"
    using assms by (intro refund_exec_refines [of h q op]) (simp_all add: hq refund_inv_def ok_simps)
  from refund_steps_surplus [OF this assms(1) [unfolded hq]] show ?thesis
    using assms(3,4) unfolding refund_solvent_def refund_inv_def by (meson order_trans)
qed

interpretation refund_exact: contract_machine refund_exact_exec "refund_legal V self"
  "refund_drift V self" "refund_init V self" "\<lambda>st. refund_inv st \<and> refund_solvent V self st"
  for V :: "'l view" and self
proof unfold_locales
  fix s s' :: "'l refund_state"
  show "refund_inv s \<and> refund_solvent V self s" if "refund_init V self s"
    using that by (auto simp: refund_init_def refund_solvent_def refund_surplus_def
        deployed_refund_inv)
  show "refund_inv s' \<and> refund_solvent V self s'"
    if "refund_drift V self s s'" and "refund_inv s \<and> refund_solvent V self s"
    using that refund_drift_inv unfolding refund_solvent_def by (meson order_trans)
qed (auto simp: ok_simps intro: refund_exec_inv refund_exact_exec_solvent)

section \<open>The emergency stop\<close>

fun refund_guarded :: "refund_op \<Rightarrow> bool" where
  "refund_guarded (RefRequest c p amt r n) = True"
| "refund_guarded (RefMerchant m p amt n n' t) = True"
| "refund_guarded (RefRegisterEscrow e b amt tk) = True"
| "refund_guarded (RefApprove a i) = True"
| "refund_guarded (RefReject a i r) = True"
| "refund_guarded (RefProcess a i) = True"
| "refund_guarded (RefBulkProcess a ids) = True"
| "refund_guarded (RefAutoApprove i) = True"
| "refund_guarded (RefAutoReject i) = True"
| "refund_guarded (RefCancel c i) = True"
| "refund_guarded (RefAutoCancel i) = True"
| "refund_guarded (RefAppeal c i) = True"
| "refund_guarded (RefResolveAppeal a i b) = True"
| "refund_guarded (RefAddDelegate m d) = True"
| "refund_guarded (RefRemoveDelegate m d) = True"
| "refund_guarded _ = False"

lemma refund_paused_blocks:
  "refund_is_paused st \<Longrightarrow> refund_guarded op \<Longrightarrow> \<not> succeeds (refund_exec hq op st)"
  by (cases hq; cases op)
    (simp_all add: succeeds_iff state_of_Inr request_refund_def merchant_refund_def
      register_escrow_refund_def approve_refund_def reject_refund_def process_refund_def
      bulk_process_refunds_def auto_approve_refund_def auto_reject_stale_refund_def
      cancel_refund_request_def auto_cancel_expired_request_def appeal_refund_def
      resolve_appeal_def add_delegate_def remove_delegate_def ok_simps)

interpretation refund_stop: pausable_machine refund_is_paused refund_get_pause_reason
  "\<lambda>hq. refund_pause_contract (fst hq)" "\<lambda>hq. refund_resume_contract (fst hq)"
  refund_exec refund_guarded
proof unfold_locales
  fix hq :: "'l refund_host" and a r and s s' :: "'l refund_state"
  show "refund_pause_contract (fst hq) a r s = Inr s' \<Longrightarrow>
      \<not> refund_is_paused s \<and> refund_is_paused s' \<and> refund_get_pause_reason s' = r"
    by (auto simp: refund_pause_contract_def ok_simps refund_is_paused_def
        refund_get_pause_reason_def refund_emit_defs)
  show "refund_resume_contract (fst hq) a s = Inr s' \<Longrightarrow>
      refund_is_paused s \<and> \<not> refund_is_paused s' \<and> refund_get_pause_reason s' = []"
    by (auto simp: refund_resume_contract_def ok_simps refund_is_paused_def
        refund_get_pause_reason_def refund_emit_defs)
qed (rule refund_paused_blocks)

section \<open>Ids\<close>

definition merchant_refund_args where
  "merchant_refund_args = (\<lambda>(h, q, m, p, amt, n, n', t). merchant_refund h q m p amt n n' t)"

interpretation refund_ids: id_store get_refund_counter refunds merchant_refund_args
proof unfold_locales
  fix a :: "'l host \<times> payment_lookup \<times> address \<times> u32 \<times> i128 \<times> u32 \<times> u32 \<times> u64 option"
    and s s' :: "'l refund_state" and i j
  assume "merchant_refund_args a s = Inr (i, s')"
  then show "i = get_refund_counter s \<and> get_refund_counter s' = Suc i"
    and "refunds s' i \<noteq> None" and "j \<noteq> i \<Longrightarrow> refunds s' j = refunds s j"
    by (cases a, auto simp: merchant_refund_args_def merchant_refund_def Let_def ok_simps
        refund_emit_defs elim!: refund_notes)+
qed

end
