(* ===== verification/Refund_Demo.thy ===== *)
theory Refund_Demo
  imports Refund_Solvency
begin

text \<open>
  A small concrete history of the refund contract, with a payment contract that knows one
  completed payment.  The witnesses of the properties apply them to its states.
\<close>

definition desk_token :: address where "desk_token = Contract 9"
definition desk_admin :: address where "desk_admin = Account 1"
definition desk_customer :: address where "desk_customer = Account 2"
definition desk_merchant :: address where "desk_merchant = Account 3"
definition desk_helper :: address where "desk_helper = Account 4"
definition desk_treasury :: address where "desk_treasury = Account 5"

lemmas desk_address_defs = desk_token_def desk_admin_def desk_customer_def desk_merchant_def
  desk_helper_def desk_treasury_def

definition desk_ledger :: plain_ledger where
  "desk_ledger = \<lparr>pl_bal = (\<lambda>t a. if a = desk_customer \<or> a = desk_merchant then 5000 else 0),
     pl_allow = (\<lambda>_ _ _. 0)\<rparr>"

definition desk_payment :: ext_payment where
  "desk_payment = \<lparr>x_id = 7, x_customer = desk_customer, x_merchant = desk_merchant,
     x_amount = 1000, x_token = desk_token, x_status = ExtCompleted, x_created_at = 5,
     x_expires_at = 0, x_refunded_amount = 0, x_reference = None, x_metadata = None\<rparr>"

definition desk_lookup :: payment_lookup where
  "desk_lookup a i = (if a = Contract 1 \<and> i = 7 then Some desk_payment else None)"

definition desk_at :: "u64 \<Rightarrow> plain_ledger refund_host" where
  "desk_at now = (demo_host now 1 [desk_admin, desk_customer, desk_merchant, desk_helper], desk_lookup)"

text \<open>A fee of one percent; the whole payment for 1000 seconds, then half of it for 1000 more.\<close>

definition desk_setup :: "(plain_ledger refund_host \<times> refund_op) list" where
  "desk_setup =
     [(desk_at 1, RefInitialize desk_admin (Contract 1) 200 (Some (Contract 0)) 100
         (Some desk_treasury) 500 50 (Some [(1000, 10000), (2000, 5000)]) 60 300),
      (desk_at 2, RefAddDelegate desk_merchant desk_helper),
      (desk_at 10, RefRequest desk_customer 7 400 ''broken'' 0),
      (desk_at 100, RefRequest desk_customer 7 300 ''late'' 1),
      (desk_at 110, RefApprove desk_helper 0)]"

definition desk :: "plain_ledger refund_state" where
  "desk = run_calls refund_exact_exec desk_setup (deployed_refund desk_ledger)"

lemma desk_legal: "refund_legal plain_view (Contract 0) (desk_at now)"
  by (simp add: refund_legal_def desk_at_def token_laws_demo desk_address_defs)

lemma desk_reachable:
  assumes "set (map fst cs) \<subseteq> range desk_at"
  shows "reachable refund_exact_exec (refund_legal plain_view (Contract 0))
       (refund_drift plain_view (Contract 0)) (refund_init plain_view (Contract 0))
       (run_calls refund_exact_exec cs (deployed_refund desk_ledger))"
proof (rule run_calls_reachable)
  have "refund_init plain_view (Contract 0) (deployed_refund desk_ledger)"
    unfolding refund_init_def
    by (intro exI [of _ desk_ledger]) (simp add: plain_view_def desk_ledger_def desk_address_defs)
  then show "reachable refund_exact_exec (refund_legal plain_view (Contract 0))
       (refund_drift plain_view (Contract 0)) (refund_init plain_view (Contract 0))
       (deployed_refund desk_ledger)"
    by (rule reachable.start)
qed (use assms in \<open>auto simp: desk_legal\<close>)

lemma desk_inv:
  assumes "set (map fst cs) \<subseteq> range desk_at"
  shows "refund_inv (run_calls refund_exact_exec cs (deployed_refund desk_ledger))"
  using refund_exact.reachable_inv [OF desk_reachable [OF assms]] by blast

lemmas refund_eval = call_tx_def state_of_def refund_exact_exec_def refund_initialize_def
  validate_refund_tiers_def refund_require_not_paused_def refund_is_paused_def
  refund_require_admin_def refund_admin_op_defs request_refund_def merchant_refund_def
  register_escrow_refund_def approve_refund_def reject_refund_def process_refund_def
  bulk_process_refunds_def auto_approve_refund_def auto_reject_stale_refund_def
  extend_refund_deadline_def cancel_refund_request_def auto_cancel_expired_request_def
  appeal_refund_def resolve_appeal_def process_refund_internal_def require_processing_admin_def
  admin_or_delegate_def is_merchant_delegate_def is_merchant_auto_approved_def cooldown_guard_def
  fetch_payment_def apply_tiers_def u128_share_def mul_u128_def as_u128_def as_i128_def
  saturating_sub128_def next_refund_id_def store_refund_def index_refund_def append_index_def
  count_reason_def already_refunded_def add_refunded_def append_to_pending_queue_def
  remove_from_pending_queue_def update_stats_on_request_def update_stats_on_approve_def
  update_stats_on_reject_def update_stats_on_process_def get_global_refund_stats_def
  get_merchant_refund_stats_def note_request_time_def announce_request_def refund_fee_amount_def
  pay_out_refund_def fee_record_def note_refund_cap_def get_refund_tiers_def get_dispute_window_def
  get_auto_reject_window_def get_appeal_window_def get_customer_cancel_window_def
  INSTANCE_BUMP_AMOUNT_def temp_get_def temp_set_def temp_extend_ttl_def Let_def arith_defs
  demo_defs desk_address_defs publish_def refund_emit_defs desk_at_def signed_divide_int_def
  desk_lookup_def desk_payment_def

lemmas desk_eval = refund_eval desk_setup_def deployed_refund_def desk_ledger_def

definition desk_approved :: refund where
  "desk_approved = \<lparr>r_id = 0, r_payment_id = 7, r_customer = desk_customer,
     r_merchant = desk_merchant, r_amount = 400, r_token = desk_token, r_status = Approved,
     r_reason = ''broken'', r_reason_code = 0, r_requested_at = 10, r_approved_at = Some 110,
     r_processed_at = None, r_rejected_at = None, r_auto_approved_source = None,
     r_escrow_id = None, r_fee_amount = None\<rparr>"

definition desk_requested :: refund where
  "desk_requested = \<lparr>r_id = 1, r_payment_id = 7, r_customer = desk_customer,
     r_merchant = desk_merchant, r_amount = 300, r_token = desk_token, r_status = Requested,
     r_reason = ''late'', r_reason_code = 1, r_requested_at = 100, r_approved_at = None,
     r_processed_at = None, r_rejected_at = None, r_auto_approved_source = None,
     r_escrow_id = None, r_fee_amount = None\<rparr>"

lemma desk_fields:
  "refunds desk 0 = Some desk_approved" "refunds desk 1 = Some desk_requested"
  "refunds desk (Suc 0) = Some desk_requested"
  "get_refund_counter desk = 2" "pending desk = [1]" "admin desk = Some desk_admin"
  "refunded_amount desk = Map.empty" "get_refund_fee desk = 100"
  "refund_fee_recipient desk = Some desk_treasury" "paused desk = None"
  by (simp_all add: desk_def desk_eval desk_approved_def desk_requested_def get_refund_counter_def
      pending_def get_refund_fee_def)

end
