(* ===== verification/Refund_Money.thy ===== *)
theory Refund_Money
  imports Refund_Demo
begin

text \<open>
  The money of refunds: solvency under exact calls, the refinement of the specification, the
  consistency of the books in every reachable state, and the exact payout of a processed refund.
\<close>

section \<open>Solvency\<close>

definition refund_exactly_reachable :: "'l view \<Rightarrow> address \<Rightarrow> 'l refund_state \<Rightarrow> bool" where
  "refund_exactly_reachable V self =
     reachable refund_exact_exec (refund_legal V self) (refund_drift V self) (refund_init V self)"

definition refund_reachable :: "'l view \<Rightarrow> address \<Rightarrow> 'l refund_state \<Rightarrow> bool" where
  "refund_reachable V self =
     reachable refund_exec (refund_legal V self) (refund_drift V self) (refund_init V self)"

lemma desk_exactly_reachable: "refund_exactly_reachable plain_view (Contract 0) desk"
  unfolding refund_exactly_reachable_def desk_def
  by (rule desk_reachable) (simp add: desk_setup_def)

lemma desk_inv_here: "refund_inv desk"
  unfolding desk_def by (rule desk_inv) (simp add: desk_setup_def)

lemma exactly_reachable_refund: "refund_exactly_reachable V self st \<Longrightarrow> refund_reachable V self st"
  unfolding refund_exactly_reachable_def refund_reachable_def
  by (induction rule: reachable.induct) (auto simp: ok_simps intro: reachable.intros)

text \<open>
  C28. From deployment on, after any history of exact calls (with any callers and arguments) and
  foreign transactions, what the contract holds for open refunds is, for every token, not
  negative and covered by its balance.  The only call that is not exact resolves the appeal of a
  refund whose funds were already handed back by an automatic or a final rejection.
\<close>

theorem exact_refunds_solvent:
  assumes "refund_exactly_reachable V self st"
  shows "0 \<le> refund_liability st tk \<and> refund_liability st tk \<le> balance V (ledger st) tk self"
proof -
  have "refund_inv st \<and> refund_solvent V self st"
    using assms unfolding refund_exactly_reachable_def by (rule refund_exact.reachable_inv)
  then show ?thesis
    using refund_liability_nonneg [of st tk]
    by (simp add: refund_inv_def refund_solvent_def refund_surplus_def)
qed

lemma exact_refunds_solvent_witness:
  "refund_liability desk desk_token = 700 \<and>
   refund_liability desk desk_token \<le> balance plain_view (ledger desk) desk_token (Contract 0)"
  using exact_refunds_solvent [OF desk_exactly_reachable, of desk_token]
  by (simp add: refund_liability_def desk_fields refund_entry_def desk_approved_def
      desk_requested_def refund_held_def numeral_2_eq_2)

section \<open>Refinement\<close>

text \<open>
  C29. Refinement: in a reachable state every entry point that succeeds is a finite sequence of
  steps of the specification \<open>refund_step\<close> (opening a refund that a completed payment backs and
  the customer funds, a direct refund by the merchant, registering one for the escrow contract,
  moving a refund along its lifecycle with the right authority and paying only its customer and
  the fee recipient), exact steps if the call is exact; and it keeps the books well formed and
  the settings within their limits.
\<close>

theorem refunds_refine_spec:
  assumes "refund_exec (h, q) op st = Inr st'" and "refunds_wf st" and "refund_configured st"
  shows "(refund_step (h, q) (exact_refund_call op st))\<^sup>*\<^sup>* st st' \<and> refunds_wf st' \<and>
    refund_configured st'"
proof -
  have "(refund_step (h, q) (exact_refund_call op st))\<^sup>*\<^sup>* st st'"
    using assms by (intro refund_exec_refines [of h q op]) simp_all
  then show ?thesis
    using refund_steps_wf refund_exec_configured assms by blast
qed

lemma refunds_refine_spec_witness:
  "(refund_step (desk_at 120) True)\<^sup>*\<^sup>* desk
      (call_tx refund_exec (desk_at 120, RefBulkProcess desk_admin [0]) desk) \<and>
   refund_exec (desk_at 120) (RefBulkProcess desk_admin [0]) desk \<noteq> Inr desk"
proof -
  obtain st' where ok: "refund_exec (desk_at 120) (RefBulkProcess desk_admin [0]) desk = Inr st'"
    and "map_option r_status (refunds st' 0) = Some Processed"
    by (simp add: desk_def desk_eval)
  moreover have "map_option r_status (refunds desk 0) = Some Approved"
    by (simp add: desk_fields desk_approved_def)
  ultimately show ?thesis
    using desk_inv_here refunds_refine_spec [OF ok [unfolded desk_at_def]]
    by (auto simp: call_tx_def refund_inv_def desk_at_def)
qed

section \<open>Books\<close>

text \<open>
  C30. In every reachable state the refunds carry the ids below the counter; the amount recorded
  as refunded for a payment is exactly the sum of its processed refunds, leaving out those of the
  escrow contract and those the dispute window approved; and the pending queue is exactly the
  ids, in order and without repetition, of the requested refunds and of those the dispute window
  approved automatically, which are processed and paid but never leave the queue - against the
  comments, which call it the pending (Requested) refunds
  (\<open>processed_refund_listed_as_pending\<close>).
\<close>

theorem refund_books_consistent:
  assumes "refund_reachable V self st"
  shows "(refunds st i \<noteq> None \<longleftrightarrow> i < get_refund_counter st) \<and>
    already_refunded p st = (\<Sum>k<get_refund_counter st. case refunds st k of None \<Rightarrow> 0
      | Some r \<Rightarrow> if (r_status r = Processed \<and> r_escrow_id r = None \<and>
          r_auto_approved_source r \<noteq> Some ''dispute_window'') \<and> r_payment_id r = p
        then r_amount r else 0) \<and>
    pending st = filter (\<lambda>i. case refunds st i of None \<Rightarrow> False
      | Some r \<Rightarrow> r_status r = Requested \<or>
          r_status r = Processed \<and> r_auto_approved_source r = Some ''dispute_window'')
      [0..<get_refund_counter st]"
proof -
  have "refunds_wf st"
    using refund_contract.reachable_inv [OF assms [unfolded refund_reachable_def]]
    by (simp add: refund_inv_def)
  then have "refunds st i \<noteq> None \<longleftrightarrow> i < get_refund_counter st"
    and "already_refunded p st = refunded_sum p st"
    and "pending st = filter (\<lambda>i. case refunds st i of None \<Rightarrow> False | Some r \<Rightarrow> queued r)
      [0..<get_refund_counter st]"
    unfolding refunds_wf_def by blast+
  then show ?thesis
    unfolding refunded_sum_def counted_def queued_def by blast
qed

lemma refund_books_consistent_witness:
  "\<exists>st'. refund_exec (desk_at 120) (RefProcess desk_admin 0) desk = Inr st' \<and>
     already_refunded 7 st' = 400 \<and> pending st' = [1]"
proof -
  obtain st' where ok: "refund_exec (desk_at 120) (RefProcess desk_admin 0) desk = Inr st'"
    and f: "refunds st' 0 = Some (desk_approved\<lparr>r_status := Processed, r_processed_at := Some 120,
        r_fee_amount := Some 4\<rparr>)" "refunds st' (Suc 0) = Some desk_requested"
      "get_refund_counter st' = 2"
    by (simp add: desk_def desk_eval desk_approved_def desk_requested_def get_refund_counter_def)
  have "refund_reachable plain_view (Contract 0) st'"
    using exactly_reachable_refund [OF desk_exactly_reachable] unfolding refund_reachable_def
    by (rule reachable.call [where h = "desk_at 120"]) (rule desk_legal, rule ok)
  from refund_books_consistent [OF this, of 0 7] ok f show ?thesis
    by (simp add: desk_approved_def desk_requested_def numeral_2_eq_2)
qed

section \<open>Payout\<close>

text \<open>
  C31. Processing an approved refund pays its customer the amount less the fee, and the fee, the
  configured share of at most two percent rounded down, to the fee recipient if one is set;
  nobody else's balance in any token changes, and the refund is processed, recorded with its fee
  and added to what is refunded of its payment.
\<close>

theorem processing_pays_net_of_fee:
  assumes c: "process_refund h q a i st = Inr st'" and wf: "refunds_wf st" and "refund_configured st"
    and laws: "token_laws V h"
  shows "\<exists>r. refunds st i = Some r \<and> r_status r = Approved \<and> admin st = Some a \<and> authorized h a \<and>
    (let fee = bps_share (r_amount r) (get_refund_fee st) in
     0 \<le> fee \<and> fee * 10000 \<le> r_amount r * 200 \<and>
     (\<forall>t b. b \<noteq> self_address h \<longrightarrow> balance V (ledger st') t b = balance V (ledger st) t b +
        (if t = r_token r \<and> b = r_customer r then r_amount r - fee else 0) +
        (if t = r_token r \<and> refund_fee_recipient st = Some b then fee else 0)) \<and>
     refunds st' i = Some (r\<lparr>r_status := Processed, r_processed_at := Some (timestamp h),
       r_fee_amount := (if 0 < fee then Some fee else None)\<rparr>) \<and>
     already_refunded (r_payment_id r) st' = already_refunded (r_payment_id r) st + r_amount r)"
proof -
  have internal: "process_refund_internal h q i st = Inr st'" and auth: "admin st = Some a" "authorized h a"
    using c by (auto simp: process_refund_def ok_simps)
  have "fee_in_bounds st" using assms(3) by (simp add: refund_configured_def)
  from process_refund_internal_effect [OF internal wf this]
  obtain r fee where r: "r_status r = Approved" and fee: "fee = bps_share (r_amount r) (get_refund_fee st)"
      "0 \<le> fee" "fee \<le> r_amount r"
    and ch: "changes_refund i r (r\<lparr>r_status := Processed, r_processed_at := Some (timestamp h),
      r_fee_amount := fee_record fee\<rparr>) st st'"
    and pay: "pay_list h (r_token r) (payouts r fee (refund_fee_recipient st)) (ledger st)
      = Some (ledger st')"
    by blast
  have st: "refunds st i = Some r" and ok: "refund_ok i r"
    using ch refunds_wfD(2) [OF wf] by (simp_all add: changes_refund_def)
  have "fee * 10000 \<le> r_amount r * 200"
    using bps_share_bound [of "r_amount r" "get_refund_fee st" 200] ok assms(3)
    by (simp add: fee(1) refund_ok_def refund_configured_def fee_in_bounds_def)
  moreover have "received b (payouts r fee (refund_fee_recipient st)) =
      (if b = r_customer r then r_amount r - fee else 0) +
      (if refund_fee_recipient st = Some b then fee else 0)" for b
    using fee(2,3) by (auto simp: payouts_def received_append split: option.split)
  then have "\<forall>t b. b \<noteq> self_address h \<longrightarrow> balance V (ledger st') t b = balance V (ledger st) t b +
        (if t = r_token r \<and> b = r_customer r then r_amount r - fee else 0) +
        (if t = r_token r \<and> refund_fee_recipient st = Some b then fee else 0)"
    using pay_list_effect [OF laws pay] by simp
  moreover have "refunds st' i = Some (r\<lparr>r_status := Processed, r_processed_at := Some (timestamp h),
       r_fee_amount := fee_record fee\<rparr>)"
    and "already_refunded (r_payment_id r) st' = already_refunded (r_payment_id r) st + r_amount r"
    using ch r ok credits_refunded [of _ st st' "r_payment_id r"]
    by (auto simp: changes_refund_def counted_def refund_ok_def)
  ultimately show ?thesis
    using st r auth fee(2) unfolding Let_def fee_record_def
    by (intro exI [of _ r]) (simp flip: fee(1))
qed

lemma processing_pays_net_of_fee_witness:
  "\<exists>st'. process_refund (fst (desk_at 120)) desk_lookup desk_admin 0 desk = Inr st' \<and>
     balance plain_view (ledger st') desk_token desk_treasury =
       balance plain_view (ledger desk) desk_token desk_treasury + 4"
proof -
  obtain st' where ok: "process_refund (fst (desk_at 120)) desk_lookup desk_admin 0 desk = Inr st'"
    by (simp add: desk_def desk_eval)
  have laws: "token_laws plain_view (fst (desk_at 120))" "self_address (fst (desk_at 120)) = Contract 0"
    using desk_legal [of 120] by (simp_all add: refund_legal_def)
  have "bps_share 400 100 = 4" by (simp add: bps_share_eq_div)
  with processing_pays_net_of_fee [OF ok _ _ laws(1)] desk_inv_here ok laws(2)
  show ?thesis
    by (auto simp: refund_inv_def desk_fields desk_approved_def desk_address_defs Let_def)
qed

end
