(* ===== verification/Refund_Requests.thy ===== *)
theory Refund_Requests
  imports Refund_Money
begin

text \<open>
  The life of a refund: who moves it, what a request may ask for, and how the pending queue is
  read page by page.
\<close>

section \<open>Authority\<close>

definition refund_evolves :: "'l host \<Rightarrow> 'l refund_state \<Rightarrow> refund \<Rightarrow> refund \<Rightarrow> bool" where
  "refund_evolves h st r r' \<longleftrightarrow> same_refund_terms r r' \<and>
     (r' = r \<or> refund_status_step (r_status r) (r_status r') \<and> refund_authority h st r (r_status r'))"

lemma refund_evolves_refl: "refund_evolves h st r r"
  by (simp add: refund_evolves_def same_refund_terms_def)

lemma refund_step_evolves:
  assumes "refund_step hq x st st'" and "refunds_wf st" and "refunds st i = Some r"
  shows "\<exists>r'. refunds st' i = Some r' \<and> refund_evolves (fst hq) st r r'"
  using assms
proof (induction rule: refund_step.induct)
  case (bookkeep st st')
  then show ?case by (auto simp: same_refund_books_def refund_evolves_refl)
next
  case (move j r0 r' st st' gone ps)
  then show ?case
    by (cases "i = j") (auto simp: changes_refund_def refund_evolves_def same_refund_terms_def)
qed (auto simp: adds_refund_def refund_evolves_refl dest: refunds_wfD(1))

text \<open>A bulk processing moves a refund at most once.\<close>

lemma process_refunds_loop_evolves:
  assumes "process_refunds_loop h q ids tot st = Inr (tot', st')" and "refunds_wf st"
    and "fee_in_bounds st" and "refund_admin_signs h st" and "refunds st i = Some r"
  shows "\<exists>r'. refunds st' i = Some r' \<and> refund_evolves h st r r'"
  using assms
proof (induction ids arbitrary: tot st r)
  case Nil
  then show ?case by (auto simp: refund_evolves_refl)
next
  case (Cons j ids)
  from Cons.prems(1) obtain st1 tot1 where p: "process_refund_internal h q j st = Inr st1"
    and loop: "process_refunds_loop h q ids tot1 st1 = Inr (tot', st')"
    by (auto simp: ok_simps)
  have step: "refund_step (h, q) False st st1"
    by (rule process_refund_internal_step [OF p Cons.prems(2-4)])
  have set: "refund_settings st1 = refund_settings st"
    by (rule process_refund_internal_settings [OF p])
  note s = refund_settings_facts [OF set]
  obtain r1 where r1: "refunds st1 i = Some r1" "refund_evolves h st r r1"
    using refund_step_evolves [OF step Cons.prems(2,5)] by auto
  have "\<exists>r'. refunds st' i = Some r' \<and> refund_evolves h st1 r1 r'"
    using Cons.prems(3,4) s refund_step_wf [OF step Cons.prems(2)] r1(1)
    by (intro Cons.IH [OF loop]) (simp_all add: refund_admin_signs_def)
  then obtain r' where r': "refunds st' i = Some r'" "refund_evolves h st1 r1 r'" by blast
  show ?case
  proof (cases "i = j")
    case True
    then have "r_status r1 = Processed"
      using process_refund_internal_effect [OF p Cons.prems(2,3)] r1(1)
      by (auto simp: changes_refund_def)
    then have "r' = r1" using r'(2) by (auto simp: refund_evolves_def refund_status_step_simps)
    then show ?thesis using r'(1) r1(2) by blast
  next
    case False
    then have "r1 = r"
      using process_refund_internal_effect [OF p Cons.prems(2,3)] r1(1) Cons.prems(5)
      by (auto simp: changes_refund_def)
    moreover have "refund_authority h st1 r s' = refund_authority h st r s'" for s'
      using set by (simp add: refund_authority_def refund_manager_signs_def refund_admin_signs_def
          refund_settings_def is_merchant_delegate_def)
    ultimately show ?thesis using r' by (auto simp: refund_evolves_def)
  qed
qed

lemma refund_exec_evolves:
  assumes c: "refund_exec (h, q) op st = Inr st'" and wf: "refunds_wf st"
    and conf: "refund_configured st" and r: "refunds st i = Some r"
  shows "\<exists>r'. refunds st' i = Some r' \<and> refund_evolves h st r r'"
proof -
  have ev: "\<exists>r'. refunds st' i = Some r' \<and> refund_evolves h st r r'"
    if "refund_step (h, q) False st st'"
    using refund_step_evolves [OF that wf r] by simp
  have fee: "fee_in_bounds st" using conf by (simp add: refund_configured_def)
  show ?thesis
  proof (cases "refund_administrative op")
    case True
    then show ?thesis
      using refund_administrative_books [OF c _ conf wf] by (blast intro: ev refund_step.bookkeep)
  next
    case False
    show ?thesis
    proof (cases op)
      case (RefBulkProcess a ids)
      then obtain tot st1 where "authorized h a" "admin st = Some a"
        and loop: "process_refunds_loop h q ids 0 st = Inr (tot, st1)"
        and st': "refunds st' = refunds st1"
        using c by (auto simp: bulk_process_refunds_def emit_bulk_refund_processed_def ok_simps)
      then show ?thesis
        using process_refunds_loop_evolves [OF loop wf fee _ r]
        by (auto simp: refund_admin_signs_def)
    next
      case RefGetVersion
      then have "same_refund_books st st'" using c upkeep_books(4) [of st] by simp
      then show ?thesis by (intro ev refund_step.bookkeep)
    next
      case (RefResolveAppeal a i b)
      then show ?thesis
        using c resolve_appeal_step [OF _ wf fee, of h a i b st' False q] by (auto intro: ev)
    qed (use c wf fee False in \<open>auto simp: state_of_Inr intro!: ev
        intro: refund_op_steps refund_step.bookkeep upkeep_books\<close>)
  qed
qed

text \<open>
  C32. A call that succeeds changes a stored refund only along its lifecycle and with the right
  authority: the admin or a delegate of its merchant approves or rejects a request, its customer
  cancels it or appeals a rejection in time, only the admin processes an approved refund or
  resolves an appeal, and others get through only after the auto-reject, cancellation or dispute
  window is over.  Its parties, payment, amount and reason never change, and a processed or
  cancelled refund never changes again.
\<close>

theorem refund_needs_authority:
  assumes "refund_exec (h, q) op st = Inr st'" and "refunds_wf st" and "refund_configured st"
    and "refunds st i = Some r"
  shows "\<exists>r'. refunds st' i = Some r' \<and> same_refund_terms r r' \<and>
    (r' = r \<or> \<not> final_refund (r_status r) \<and> refund_status_step (r_status r) (r_status r') \<and>
       refund_authority h st r (r_status r'))"
  using refund_exec_evolves [OF assms] final_refund_stays unfolding refund_evolves_def by blast

lemma refund_needs_authority_witness:
  "\<exists>st' r'. refund_exec (desk_at 130) (RefReject desk_helper 1 ''no'') desk = Inr st' \<and>
     refunds st' 1 = Some r' \<and> r_status r' = Rejected \<and>
     refund_authority (fst (desk_at 130)) desk desk_requested Rejected"
proof -
  obtain st' where ok: "refund_exec (desk_at 130) (RefReject desk_helper 1 ''no'') desk = Inr st'"
    and s: "map_option r_status (refunds st' 1) = Some Rejected"
    by (simp add: desk_def desk_eval)
  have "desk_at 130 = (fst (desk_at 130), desk_lookup)" by (simp add: desk_at_def)
  with ok have "refund_exec (fst (desk_at 130), desk_lookup) (RefReject desk_helper 1 ''no'') desk
      = Inr st'" by simp
  from refund_needs_authority [OF this _ _ desk_fields(2)] obtain r' where "refunds st' 1 = Some r'"
    and "r' = desk_requested \<or>
       refund_authority (fst (desk_at 130)) desk desk_requested (r_status r')"
    using desk_inv_here by (auto simp: refund_inv_def)
  with ok s show ?thesis by (auto simp: desk_requested_def)
qed

section \<open>Requests\<close>

lemma find_tier_mem: "find_tier t ts = Some bps \<Longrightarrow> \<exists>k. (k, bps) \<in> set ts"
  by (induction t ts rule: find_tier.induct) (auto split: if_splits)

lemma apply_tiers_tiered:
  assumes "apply_tiers h x amt refunded ts = Inr (eff, tier)" and "ts \<noteq> []"
  shows "\<exists>bps cap. find_tier (timestamp h - x_created_at x) ts = Some bps \<and>
    u128_share (x_amount x) bps = (Inr cap :: (refund_panic, _) outcome) \<and>
    eff = (if saturating_sub128 cap refunded < amt then saturating_sub128 cap refunded else amt)"
  using assms unfolding apply_tiers_def Let_def saturating_sub_def
  by (clarsimp simp: ok_simps split del: if_split)

text \<open>
  C33. A request that succeeds comes from its signing customer at least the cooldown after his
  last recorded one, for a completed payment.  Without tiers it is for the amount asked for; with
  tiers for the lesser of that amount and what the tier of the payment's age still gives back,
  the tier's share of the payment rounded down less what was already refunded.  Together with
  what was already refunded it never exceeds the payment; exactly this amount moves from the
  customer to the contract, and the refund is stored as requested, or as approved for a merchant
  on the whitelist.
\<close>

theorem request_within_tier:
  assumes c: "request_refund h q cu p amt s n st = Inr (i, st')" and wf: "refunds_wf st"
    and "refund_configured st" and typed: "\<forall>a j x. q a j = Some x \<longrightarrow> i128_ok (x_amount x)"
  shows "\<exists>a x r. payment_contract_address st = Some a \<and> q a p = Some x \<and> x_status x = ExtCompleted \<and>
    authorized h cu \<and> i = get_refund_counter st \<and> refunds st' i = Some r \<and> r_customer r = cu \<and>
    r_merchant r = x_merchant x \<and> r_payment_id r = p \<and>
    (\<forall>t. temp_get h cu (last_refund_request st) = Some t \<and> 0 < t \<longrightarrow>
       unwrap_or 0 (refund_cooldown st) \<le> timestamp h - t) \<and>
    (if get_refund_tiers st = [] then r_amount r = amt
     else \<exists>bps. find_tier (timestamp h - x_created_at x) (get_refund_tiers st) = Some bps \<and>
       r_amount r = min amt (bps_share (x_amount x) bps - already_refunded p st)) \<and>
    0 < r_amount r \<and> already_refunded p st + r_amount r \<le> x_amount x \<and>
    tok_transfer h (ledger st) (x_token x) cu (self_address h) (r_amount r) = Some (ledger st') \<and>
    r_status r = (if is_merchant_auto_approved (x_merchant x) st then Approved else Requested)"
proof -
  from c obtain a x eff tier where a: "payment_contract_address st = Some a" "q a p = Some x"
      "x_status x = ExtCompleted" and amt: "0 < amt"
    and cool: "cooldown_guard h cu (unwrap_or 0 (refund_cooldown st)) st = Inr ()"
    and tier: "apply_tiers h x amt (already_refunded p st) (get_refund_tiers st) = Inr (eff, tier)"
    by (clarsimp simp: request_refund_def Let_def ok_simps)
  from request_refund_effect [OF c wf] obtain r where r: "adds_refund i r st st'" "authorized h cu"
      "r_customer r = cu" "r_payment_id r = p" "backed q st r"
      "tok_transfer h (ledger st) (r_token r) cu (self_address h) (r_amount r) = Some (ledger st')"
    by blast
  have st': "refunds st' i = Some r" "i = get_refund_counter st" "0 < r_amount r"
    using r(1) by (simp_all add: adds_refund_def refund_ok_def)
  have fields: "r_amount r = eff \<and>
      r_status r = (if is_merchant_auto_approved (x_merchant x) st then Approved else Requested)"
    using c a tier st'(1)
    by (cases "is_merchant_auto_approved (x_merchant x) st"; clarsimp simp: request_refund_def
        Let_def ok_simps elim!: refund_notes)
  have bk: "r_merchant r = x_merchant x" "r_token r = x_token x"
      "already_refunded p st + r_amount r \<le> x_amount x"
    using r(4,5) a by (simp_all add: backed_def)
  have "unwrap_or 0 (refund_cooldown st) \<le> timestamp h - t"
    if "temp_get h cu (last_refund_request st) = Some t \<and> 0 < t" for t
    using cool that by (auto simp: cooldown_guard_def Let_def saturating_sub_def not_less ok_simps
        split: if_splits)
  moreover have "if get_refund_tiers st = [] then r_amount r = amt
     else \<exists>bps. find_tier (timestamp h - x_created_at x) (get_refund_tiers st) = Some bps \<and>
       r_amount r = min amt (bps_share (x_amount x) bps - already_refunded p st)"
  proof (cases "get_refund_tiers st = []")
    case True
    then show ?thesis using tier fields by (simp add: apply_tiers_def)
  next
    case False
    from apply_tiers_tiered [OF tier this] obtain bps cap where b: "find_tier (timestamp h - x_created_at x) (get_refund_tiers st) = Some bps"
      and cap: "u128_share (x_amount x) bps = (Inr cap :: (refund_panic, _) outcome)"
      and eff: "eff = (if saturating_sub128 cap (already_refunded p st) < amt
        then saturating_sub128 cap (already_refunded p st) else amt)"
      by blast
    have "bps \<le> 10000"
      using assms(3) find_tier_mem [OF b] by (auto simp: refund_configured_def)
    then have "cap = bps_share (x_amount x) bps" "0 \<le> cap" "cap \<le> x_amount x"
      using u128_share_Inr [OF cap] bk(3) st'(3) refunded_nonneg [OF wf, of p] typed a(2) by auto
    then have "saturating_sub128 cap (already_refunded p st) = bps_share (x_amount x) bps - already_refunded p st"
      using refunded_nonneg [OF wf, of p] bk(3) st'(3) typed a(2)
      by (force simp: saturating_sub128_def i128_ok_def)
    then show ?thesis using False b eff fields by (simp add: min_def)
  qed
  ultimately show ?thesis
    using a r st' fields bk by (intro exI [of _ a] exI [of _ x] exI [of _ r]) simp
qed

lemma request_within_tier_witness:
  "\<exists>st' r. request_refund (fst (desk_at 1500)) desk_lookup desk_customer 7 900 ''late'' 1 desk
      = Inr (2, st') \<and>
     refunds st' 2 = Some r \<and> r_amount r = 500"
proof -
  obtain st' where ok: "request_refund (fst (desk_at 1500)) desk_lookup desk_customer 7 900 ''late'' 1
      desk = Inr (2, st')"
    by (simp add: desk_def desk_eval)
  have typed: "\<forall>a j x. desk_lookup a j = Some x \<longrightarrow> i128_ok (x_amount x)"
    by (simp add: desk_lookup_def desk_payment_def i128_ok_def)
  have tiers: "get_refund_tiers desk = [(1000, 10000), (2000, 5000)]"
    by (simp add: desk_def desk_eval)
  have "bps_share 1000 5000 = 500" by (simp add: bps_share_eq_div)
  with request_within_tier [OF ok _ _ typed] desk_inv_here ok show ?thesis
    by (auto simp: refund_inv_def tiers already_refunded_def desk_fields desk_lookup_def
        desk_payment_def desk_at_def split: if_splits)
qed

section \<open>Pages of the pending queue\<close>

lemma slice_take_drop: "stop \<le> length xs \<Longrightarrow> slice xs start stop = take (stop - start) (drop start xs)"
  by (cases "start \<le> stop")
    (auto simp: slice_def list_eq_iff_nth_eq)

lemma concat_pages:
  "concat (map (\<lambda>k. take s (drop (k * s) xs)) [0..<n]) = take (n * s) xs"
proof (induction n)
  case 0
  then show ?case by simp
next
  case (Suc n)
  then show ?case by (simp add: take_add [symmetric] add.commute)
qed

text \<open>
  C34. Reading the pending queue page by page, for any page size, gives pages of at most fifty
  ids which together list exactly the pending queue, each id once and in order; every page
  carries the length of the queue, and exactly the last one says that nothing follows.
\<close>

theorem queue_pages_cover_queue:
  fixes st :: "'l refund_state"
  defines "q \<equiv> pending st"
  assumes "0 < page_size" and "length q + 50 < 2 ^ 32"
  shows "\<exists>pages n. concat (map pages [0..<n]) = q \<and>
    (\<forall>k<n. length (pages k) \<le> 50 \<and> pages k \<noteq> [] \<and>
       get_pending_refund_queue k page_size st = Inr (pages k, length q, k + 1 < n))"
proof -
  define s where "s = min page_size 50"
  define n where "n = (length q + s - 1) div s"
  define pages where "pages k = take s (drop (k * s) q)" for k
  have s: "0 < s" "s \<le> 50" using assms(2) by (simp_all add: s_def)
  have less: "k < n \<longleftrightarrow> k * s < length q" for k
  proof -
    have "k < n \<longleftrightarrow> Suc k * s \<le> length q + s - 1"
      using s(1) by (simp add: n_def less_eq_div_iff_mult_less_eq Suc_le_eq [symmetric])
    then show ?thesis using s(1) by auto
  qed
  have "get_pending_refund_queue k page_size st = Inr (pages k, length q, k + 1 < n)" if "k < n" for k
  proof -
    have k: "k * s < length q" using that less by simp
    then have "slice q (k * s) (min (k * s + s) (length q)) = pages k"
      by (simp add: slice_take_drop pages_def min_def)
    moreover have "min (k * s + s) (length q) < length q \<longleftrightarrow> k + 1 < n"
      using less [of "k + 1"] by (simp add: min_def add.commute)
    ultimately show ?thesis
      using k s(2) assms(3)
      by (simp add: get_pending_refund_queue_def Let_def s_def [symmetric] q_def [symmetric]
          pending_def [symmetric] mul_u32_def add_u32_def)
  qed
  moreover have "length q \<le> n * s"
    using less [of n] by simp
  then have "concat (map pages [0..<n]) = q"
    using concat_pages [of s q n] by (simp add: pages_def [abs_def])
  moreover have "length (pages k) \<le> 50 \<and> pages k \<noteq> []" if "k < n" for k
    using that less s by (auto simp: pages_def)
  ultimately show ?thesis by (intro exI [of _ pages] exI [of _ n]) simp
qed

lemma queue_pages_cover_queue_witness:
  "\<exists>pages n. concat (map pages [0..<n]) = [1] \<and>
    (\<forall>k<n. get_pending_refund_queue k 3 desk = Inr (pages k, 1, k + 1 < n))"
  using queue_pages_cover_queue [of 3 desk] by (simp add: desk_fields) metis

end
