(* ===== verification/Refund_Inexact.thy ===== *)
theory Refund_Inexact
  imports Refund_Requests
begin

text \<open>
  What the refund contract does where its bookkeeping and its funds part: concrete histories from
  the state \<open>desk\<close>, in which the contract holds 400 for an approved and 300 for a requested
  refund of a payment of 1000.
\<close>

section \<open>Paid twice\<close>

text \<open>
  The request is rejected automatically, which hands its funds back; its customer appeals and the
  admin dismisses the appeal, which hands them back again.  What is left does not cover the
  approved refund.
\<close>

definition paid_twice :: "plain_ledger refund_state" where
  "paid_twice = run_calls refund_exec
     [(desk_at 600, RefAutoReject 1), (desk_at 620, RefAppeal desk_customer 1),
      (desk_at 630, RefResolveAppeal desk_admin 1 False)] desk"

lemma paid_twice_fields:
  "map_option r_status (refunds paid_twice 1) = Some Rejected"
  "refunds paid_twice 0 = Some desk_approved" "get_refund_counter paid_twice = 2"
  "balance plain_view (ledger paid_twice) desk_token (Contract 0) = 100"
  by (simp_all add: paid_twice_def desk_def desk_eval desk_approved_def get_refund_counter_def
      plain_view_def)

lemma appeal_after_hand_back_insolvent:
  "balance plain_view (ledger paid_twice) desk_token (Contract 0) < r_amount desk_approved \<and>
   \<not> succeeds (process_refund (fst (desk_at 640)) desk_lookup desk_admin 0 paid_twice)"
  by (simp add: paid_twice_fields desk_approved_def)
    (simp add: paid_twice_def desk_def desk_eval)

section \<open>Kept funds\<close>

text \<open>
  A request rejected by hand keeps the customer's funds in the contract; once the appeal window is
  over no call reaches them.
\<close>

lemma rejected_funds_kept:
  "\<exists>st'. refund_exec (desk_at 120) (RefReject desk_admin 1 ''no'') desk = Inr st' \<and>
     balance plain_view (ledger st') desk_token (Contract 0) = 700 \<and>
     \<not> succeeds (refund_exec (desk_at 171) (RefAppeal desk_customer 1) st') \<and>
     \<not> succeeds (refund_exec (desk_at 171) (RefCancel desk_customer 1) st')"
  by (simp add: desk_def desk_eval plain_view_def)

section \<open>More than the payment\<close>

text \<open>Pending requests do not count against the payment: two of them together exceed it.\<close>

lemma pending_requests_exceed_payment:
  "already_refunded 7 (run_calls refund_exec
     [(desk_at 200, RefRequest desk_customer 7 700 ''more'' 4), (desk_at 210, RefApprove desk_admin 2),
      (desk_at 220, RefBulkProcess desk_admin [0, 2])] desk) = 1100"
  by (simp add: desk_def desk_eval)

text \<open>The automatic approval neither counts its refund nor takes it off the pending queue.\<close>

lemma auto_approval_not_counted:
  "\<exists>st'. refund_exec (desk_at 300) (RefAutoApprove 1) desk = Inr st' \<and>
     map_option r_status (refunds st' 1) = Some Processed \<and>
     already_refunded 7 st' = 0 \<and> pending st' = [1]"
  by (simp add: desk_def desk_eval pending_def)

text \<open>
  The comments call the queue the pending (Requested) refunds.  Here it lists, and counts, a refund
  that is processed and paid, while no refund is requested any more; no entry point takes it off.
\<close>

lemma processed_refund_listed_as_pending:
  "\<exists>st'. refund_exec (desk_at 300) (RefAutoApprove 1) desk = Inr st' \<and>
     map_option r_status (refunds st' 0) = Some Approved \<and>
     map_option r_status (refunds st' 1) = Some Processed \<and> get_refund_counter st' = 2 \<and>
     get_pending_refund_queue 0 10 st' = Inr ([1], 1, False) \<and> get_pending_refund_count st' = 1 \<and>
     \<not> succeeds (refund_exec (desk_at 301) (RefApprove desk_admin 1) st') \<and>
     \<not> succeeds (refund_exec (desk_at 301) (RefReject desk_admin 1 ''no'') st')"
  by (simp add: desk_def desk_eval get_pending_refund_queue_def get_pending_refund_count_def
      get_refund_counter_def slice_def mul_u32_def add_u32_def)

section \<open>Who requests\<close>

text \<open>A request does not compare its customer with the payment's.\<close>

lemma stranger_requests_refund:
  "\<exists>st' r. refund_exec (desk_at 200) (RefRequest desk_merchant 7 50 ''mine'' 4) desk = Inr st' \<and>
     refunds st' 2 = Some r \<and> r_customer r \<noteq> x_customer desk_payment"
  by (simp add: desk_def desk_eval)

end
