(* ===== verification/Rosca_Types.thy ===== *)
theory Rosca_Types
  imports Payouts
begin

text \<open>
  Data of the savings group (src/contracts/ahjoor-rosca/src): the types of types.rs, the errors
  of errors.rs with the string panics as one enumeration, the storage as one record field per
  \<open>DataKey\<close>, and the events of events.rs with the functions that publish them.
\<close>

section \<open>Stored data\<close>

datatype payout_strategy = RoundRobin | AdminAssigned

datatype distribution_type = EqualShares | Proportional | Weighted

datatype voting_mode = EqualVotes | WeightedByContributions

record rosca_config =
  cfg_strategy :: payout_strategy
  cfg_custom_order :: "address list option"
  cfg_penalty_amount :: i128
  cfg_exit_penalty_bps :: u32
  cfg_collective_goal :: "i128 option"
  cfg_member_goals :: "(address \<rightharpoonup> i128) option"
  cfg_fee_bps :: u32
  cfg_fee_recipient :: "address option"
  cfg_max_defaults :: u32
  cfg_use_timestamp_schedule :: bool
  cfg_round_duration_seconds :: u64
  cfg_max_members :: "u32 option"
  cfg_skip_fee :: i128
  cfg_max_skips_per_cycle :: u32
  cfg_voting_mode :: voting_mode

record group_info =
  gi_members :: "address list"
  gi_contribution_amount :: i128
  gi_token :: address
  gi_current_round :: u32
  gi_total_rounds :: u32
  gi_paid_members :: "address list"
  gi_next_recipient :: address
  gi_round_deadline :: u64

record payout_record =
  pr_recipient :: address
  pr_amount :: i128

record exit_request =
  x_member :: address
  x_rounds_contributed :: u32
  x_refund_amount :: i128
  x_approved :: bool

record member_status =
  ms_is_member :: bool
  ms_is_suspended :: bool
  ms_is_exited :: bool
  ms_contributions_this_round :: i128
  ms_has_paid_this_round :: bool
  ms_default_count :: u32
  ms_lifetime_contributions :: i128
  ms_claimable_rewards :: i128

datatype proposal_type = PenaltyAppeal | RuleChange | MemberRemoval | MaxMembersUpdate

text \<open>\<open>proposal_type as u32\<close>.\<close>

fun proposal_code :: "proposal_type \<Rightarrow> u32" where
  "proposal_code PenaltyAppeal = 0"
| "proposal_code RuleChange = 1"
| "proposal_code MemberRemoval = 2"
| "proposal_code MaxMembersUpdate = 3"

datatype proposal_status = Pending | Approved | Rejected | Executed

record proposal =
  p_id :: u32
  p_type :: proposal_type
  p_creator :: address
  p_description :: string
  p_target_member :: address
  p_votes_for :: i128
  p_votes_against :: i128
  p_created_at :: u64
  p_deadline :: u64
  p_status :: proposal_status
  p_execution_data :: "i128 option"
  p_required_quorum :: u32

definition ROSCA_TEMP_LIFETIME_THRESHOLD :: u32 where "ROSCA_TEMP_LIFETIME_THRESHOLD = 10000"

definition ROSCA_TEMP_BUMP_AMOUNT :: u32 where "ROSCA_TEMP_BUMP_AMOUNT = 15000"

text \<open>The cast \<open>x as u32\<close> of an \<open>i128\<close> keeps the low 32 bits.\<close>

definition as_u32 :: "i128 \<Rightarrow> u32" where "as_u32 x = nat (x mod 2 ^ 32)"

section \<open>Errors\<close>

text \<open>
  The codes of errors.rs (raised by \<open>panic_with_error!\<close>), the panics with a message, and the
  \<open>unwrap\<close> of a missing entry.
\<close>

datatype (plugins only: size) rosca_error =
    AlreadyInitialized | TokenNotApproved | CustomOrderLengthMismatch | CustomOrderNonMember
  | AmountMustBePositive | RoundDeadlinePassed | MemberHasExited | NotAMember
  | AlreadyContributed | InvalidExchangeRate | ExceedsTokenLimit | ExceedsRemainingContribution
  | DeadlineNotPassed | PenaltyDisabled | NotADefaulter | CannotChangeMidRound | AlreadyAMember
  | NoRewardsToClaim | OnlyMembersAllowed | ProposalNotFound | VotingDeadlinePassed
  | ProposalNotPending | AlreadyVoted | VotingNotEnded | ContractPaused | AllMembersSuspended
  | AlreadyPaused | NotPaused | MemberAlreadyExited | ExitRequestPending | NoExitRequestFound
  | ExitNotAllowedMidRound | ContributionWindowClosed | FeeExceedsMaximum | InvalidMaxDefaults
  | GroupFull | InvalidMaxMembers | DelegationAlreadyExists | NoDelegationFound
  | CannotVoteWithActiveDelegation | CannotSubDelegate | InviteNotFound | InviteAlreadyRedeemed
  | InviteWrongRecipient | AdminActionNotFound | AdminActionAlreadyExecuted | AdminActionExpired
  | AdminAlreadyApproved | InsufficientApprovals | NotACoAdmin | InvalidTier
  | InsurancePoolNegative | InvalidInsuranceContribution | SkipLimitReached | AlreadySkipped
  | InsufficientWeight

datatype (plugins only: size) rosca_message =
    AdminNotSet | CustomOrderRequired | DeadlineNotSet | ExchangeRateNotSet | InvalidActionType
  | InvalidMultisigThreshold | NoAdminTransferProposed | RoscaNotInitialized | RoscaOnlyAdmin
  | PayoutOrderNotSet | QuorumOutOfRange | TimestampDeadlineNotSet | RoscaVersionOverflow
  | UnwrapNone

datatype rosca_panic = Code rosca_error | Message rosca_message

abbreviation fail :: "rosca_error \<Rightarrow> (rosca_panic, 'a) outcome" where
  "fail e \<equiv> Inl (Panic (Code e))"

abbreviation panic :: "rosca_message \<Rightarrow> (rosca_panic, 'a) outcome" where
  "panic m \<equiv> Inl (Panic (Message m))"

abbreviation entry :: "rosca_message \<Rightarrow> 'a option \<Rightarrow> (rosca_panic, 'a) outcome" where
  "entry m x \<equiv> expect (Message m) x"

section \<open>Events\<close>

datatype (plugins only: size) rosca_event =
    RoscaInitialized u32 i128
  | ContributionReceived address u32 address i128
  | SavingsMilestoneReached u32 i128
  | RoundClosed u32 "address list"
  | MemberDefaulted address u32 i128 u32
  | MemberSuspended address u32
  | MemberAdded address u32
  | MemberRemoved address u32
  | TokenApproved address
  | TokenRemoved address
  | ExchangeRateSet address i128
  | TokenLimitSet address i128
  | RewardDeposited address i128
  | RewardConfigUpdated distribution_type
  | RewardClaimed address i128
  | ProposalCreated u32 address address u64 u64
  | VoteCast u32 address bool
  | WeightedVoteCast address u32 i128
  | ProposalRejected u32 string i128 i128
  | ProposalExecuted u32 u32 address
  | PenaltyAppealApproved address
  | QuorumUpdated i128
  | QuorumConfigUpdated proposal_type u32
  | MemberRemovalExecuted address
  | DeadlineReminder u32 u64 "address list" string
  | ContractPausedEvent string
  | ContractResumedEvent string
  | RoundFinalized u32 "address list"
  | ExitRequested address u32
  | ExitApproved address i128
  | ExitRejected address
  | RoundCompleted u32 address i128
  | PayoutReinvested address u32 i128
  | RoundSkipRequested address u32 i128
  | FeeCollected u32 i128 address
  | PartialContributionReceived address u32 i128 i128
  | SuspensionThresholdSet u32
  | RoundReset u32
  | AdminTransferProposed address address
  | AdminTransferred address address
  | ContractUpgraded u32 u32 address
  | MemberTierSet address u32
  | RoundDeadlineTimestampSet u32 u64
  | MaxMembersUpdated u32 u32
  | VoteDelegated address address
  | DelegationRevoked address
  | RoundAutoClosedEarly u32 u64
  | InviteGenerated address u64
  | InviteRedeemed address
  | AdminActionProposed u32 string address
  | AdminActionApproved u32 address u32
  | AdminActionExecuted u32 string
  | InsurancePoolTopUp address i128
  | InsurancePaidOut u32 i128 i128

section \<open>Storage\<close>

text \<open>
  One field per \<open>DataKey\<close> beyond those every contract has, in three layers: the settings, the
  round in progress with its bookkeeping, and governance.  \<open>Paused\<close> is the shared field \<open>paused\<close>
  and \<open>IsPaused\<close> is \<open>is_paused_flag\<close>.  A missing map and an empty one cannot be told apart by the
  code and are one value here.  The last six fields are temporary entries; the maps the code
  iterates over are association lists (all terms of the sums over them are non-negative, so the
  order is immaterial).
\<close>

record 'l rosca_settings_store = "('l, rosca_event) contract" +
  proposed_admin :: "address option"
  is_paused_flag :: "bool option"
  pause_timestamp :: "u64 option"
  members :: "address list option"
  payout_order :: "address list option"
  strategy :: "payout_strategy option"
  contribution_amt :: "i128 option"
  base_token :: "address option"
  approved_tokens :: "address list option"
  exchange_rates :: "address \<rightharpoonup> i128"
  token_limits :: "address \<rightharpoonup> i128"
  exit_penalty_bps :: "u32 option"
  penalty_amount :: "i128 option"
  fee_bps :: "u32 option"
  fee_recipient :: "address option"
  max_defaults :: "u32 option"
  max_members :: "u32 option"
  member_tiers :: "address \<rightharpoonup> u32"
  insurance_contribution_bps :: "u32 option"
  skip_fee :: "i128 option"
  max_skips_per_cycle :: "u32 option"
  collective_goal :: "i128 option"
  member_goals :: "address \<rightharpoonup> i128"
  round_duration :: "u64 option"
  use_timestamp_schedule :: "bool option"
  round_duration_seconds :: "u64 option"

record 'l rosca_rounds_store = "'l rosca_settings_store" +
  current_round :: "u32 option"
  paid_members :: "address list option"
  round_deadline :: "u64 option"
  round_deadline_timestamp :: "u64 option"
  member_contributions :: "address \<rightharpoonup> i128"
  defaulters :: "address list option"
  default_count :: "address \<rightharpoonup> u32"
  suspended_members :: "address list option"
  exited_members :: "address list option"
  skip_requests :: "address \<times> u32 \<rightharpoonup> bool"
  member_skips :: "address \<times> u32 \<rightharpoonup> u32"
  insurance_pool :: "i128 option"
  total_collected :: "i128 option"
  member_collected :: "address \<rightharpoonup> i128"
  milestones_reached :: "u32 list option"
  round_history :: "payout_record list option"
  reinvest_preference :: "address \<rightharpoonup> bool"
  reward_pool :: "i128 option"
  reward_dist_type :: "distribution_type option"
  reward_weights :: "(address \<times> u32) list"
  total_participations :: "u32 option"
  member_participation :: "address \<rightharpoonup> u32"
  claimed_rewards :: "address \<rightharpoonup> i128"

record 'l rosca_state = "'l rosca_rounds_store" +
  voting_mode :: "voting_mode option"
  voting_deadline :: "u64 option"
  quorum_percentage :: "u32 option"
  quorum_config :: "proposal_type \<rightharpoonup> u32"
  proposal_counter :: "u32 option"
  proposals :: "u32 \<rightharpoonup> proposal"
  proposal_votes :: "u32 \<rightharpoonup> (address \<rightharpoonup> bool)"
  vote_delegations :: "(unit, (address \<times> address) list) temporary"
  exit_requests :: "(unit, address \<rightharpoonup> exit_request) temporary"
  auto_close_enabled :: "(unit, bool) temporary"
  approved_invitees :: "(unit, address list) temporary"
  co_admins :: "(unit, address list) temporary"
  multisig_threshold :: "(unit, u32) temporary"

definition deployed_rosca :: "'l \<Rightarrow> 'l rosca_state" where
  "deployed_rosca l =
     \<lparr>ledger = l, events = [], admin = None, contract_version = None,
      migration_completed = Map.empty, paused = None, pause_reason = None,
      proposed_admin = None, is_paused_flag = None, pause_timestamp = None, members = None,
      payout_order = None, strategy = None, contribution_amt = None, base_token = None,
      approved_tokens = None, exchange_rates = Map.empty, token_limits = Map.empty,
      exit_penalty_bps = None, penalty_amount = None, fee_bps = None, fee_recipient = None,
      max_defaults = None, max_members = None, member_tiers = Map.empty,
      insurance_contribution_bps = None, skip_fee = None, max_skips_per_cycle = None,
      collective_goal = None, member_goals = Map.empty, round_duration = None,
      use_timestamp_schedule = None, round_duration_seconds = None, current_round = None,
      paid_members = None, round_deadline = None, round_deadline_timestamp = None,
      member_contributions = Map.empty, defaulters = None, default_count = Map.empty,
      suspended_members = None, exited_members = None, skip_requests = Map.empty,
      member_skips = Map.empty, insurance_pool = None, total_collected = None,
      member_collected = Map.empty, milestones_reached = None, round_history = None,
      reinvest_preference = Map.empty, reward_pool = None, reward_dist_type = None,
      reward_weights = [], total_participations = None, member_participation = Map.empty,
      claimed_rewards = Map.empty, voting_mode = None, voting_deadline = None,
      quorum_percentage = None, quorum_config = Map.empty, proposal_counter = None,
      proposals = Map.empty, proposal_votes = Map.empty, vote_delegations = Map.empty,
      exit_requests = Map.empty, auto_close_enabled = Map.empty, approved_invitees = Map.empty,
      co_admins = Map.empty, multisig_threshold = Map.empty\<rparr>"

lemma publish_rosca_fields [simp]:
  "proposed_admin (publish ev st) = proposed_admin st"
  "is_paused_flag (publish ev st) = is_paused_flag st"
  "pause_timestamp (publish ev st) = pause_timestamp st"
  "members (publish ev st) = members st"
  "payout_order (publish ev st) = payout_order st"
  "strategy (publish ev st) = strategy st"
  "contribution_amt (publish ev st) = contribution_amt st"
  "base_token (publish ev st) = base_token st"
  "approved_tokens (publish ev st) = approved_tokens st"
  "exchange_rates (publish ev st) = exchange_rates st"
  "token_limits (publish ev st) = token_limits st"
  "exit_penalty_bps (publish ev st) = exit_penalty_bps st"
  "penalty_amount (publish ev st) = penalty_amount st"
  "fee_bps (publish ev st) = fee_bps st"
  "fee_recipient (publish ev st) = fee_recipient st"
  "max_defaults (publish ev st) = max_defaults st"
  "max_members (publish ev st) = max_members st"
  "member_tiers (publish ev st) = member_tiers st"
  "insurance_contribution_bps (publish ev st) = insurance_contribution_bps st"
  "skip_fee (publish ev st) = skip_fee st"
  "max_skips_per_cycle (publish ev st) = max_skips_per_cycle st"
  "collective_goal (publish ev st) = collective_goal st"
  "member_goals (publish ev st) = member_goals st"
  "round_duration (publish ev st) = round_duration st"
  "use_timestamp_schedule (publish ev st) = use_timestamp_schedule st"
  "round_duration_seconds (publish ev st) = round_duration_seconds st"
  "current_round (publish ev st) = current_round st"
  "paid_members (publish ev st) = paid_members st"
  "round_deadline (publish ev st) = round_deadline st"
  "round_deadline_timestamp (publish ev st) = round_deadline_timestamp st"
  "member_contributions (publish ev st) = member_contributions st"
  "defaulters (publish ev st) = defaulters st"
  "default_count (publish ev st) = default_count st"
  "suspended_members (publish ev st) = suspended_members st"
  "exited_members (publish ev st) = exited_members st"
  "skip_requests (publish ev st) = skip_requests st"
  "member_skips (publish ev st) = member_skips st"
  "insurance_pool (publish ev st) = insurance_pool st"
  "total_collected (publish ev st) = total_collected st"
  "member_collected (publish ev st) = member_collected st"
  "milestones_reached (publish ev st) = milestones_reached st"
  "round_history (publish ev st) = round_history st"
  "reinvest_preference (publish ev st) = reinvest_preference st"
  "reward_pool (publish ev st) = reward_pool st"
  "reward_dist_type (publish ev st) = reward_dist_type st"
  "reward_weights (publish ev st) = reward_weights st"
  "total_participations (publish ev st) = total_participations st"
  "member_participation (publish ev st) = member_participation st"
  "claimed_rewards (publish ev st) = claimed_rewards st"
  "voting_mode (publish ev st) = voting_mode st"
  "voting_deadline (publish ev st) = voting_deadline st"
  "quorum_percentage (publish ev st) = quorum_percentage st"
  "quorum_config (publish ev st) = quorum_config st"
  "proposal_counter (publish ev st) = proposal_counter st"
  "proposals (publish ev st) = proposals st"
  "proposal_votes (publish ev st) = proposal_votes st"
  "vote_delegations (publish ev st) = vote_delegations st"
  "exit_requests (publish ev st) = exit_requests st"
  "auto_close_enabled (publish ev st) = auto_close_enabled st"
  "approved_invitees (publish ev st) = approved_invitees st"
  "co_admins (publish ev st) = co_admins st"
  "multisig_threshold (publish ev st) = multisig_threshold st"
  by (simp_all add: publish_def)

section \<open>Publishing events\<close>

definition emit_rosc_init ::
  "u32 \<Rightarrow> i128 \<Rightarrow> 'l rosca_state \<Rightarrow> 'l rosca_state" where
  "emit_rosc_init member_count contribution_amount =
     publish (RoscaInitialized member_count contribution_amount)"

definition emit_round_deadline_timestamp_set ::
  "u32 \<Rightarrow> u64 \<Rightarrow> 'l rosca_state \<Rightarrow> 'l rosca_state" where
  "emit_round_deadline_timestamp_set round at =
     publish (RoundDeadlineTimestampSet round at)"

definition emit_max_members_upd ::
  "u32 \<Rightarrow> u32 \<Rightarrow> 'l rosca_state \<Rightarrow> 'l rosca_state" where
  "emit_max_members_upd old_max new_max =
     publish (MaxMembersUpdated old_max new_max)"

definition emit_member_tier_set ::
  "address \<Rightarrow> u32 \<Rightarrow> 'l rosca_state \<Rightarrow> 'l rosca_state" where
  "emit_member_tier_set member tier_bps =
     publish (MemberTierSet member tier_bps)"

definition emit_contrib ::
  "address \<Rightarrow> u32 \<Rightarrow> address \<Rightarrow> i128 \<Rightarrow> 'l rosca_state \<Rightarrow> 'l rosca_state" where
  "emit_contrib contributor round token amount =
     publish (ContributionReceived contributor round token amount)"

definition emit_milestone ::
  "u32 \<Rightarrow> i128 \<Rightarrow> 'l rosca_state \<Rightarrow> 'l rosca_state" where
  "emit_milestone milestone collected =
     publish (SavingsMilestoneReached milestone collected)"

definition emit_closed ::
  "u32 \<Rightarrow> address list \<Rightarrow> 'l rosca_state \<Rightarrow> 'l rosca_state" where
  "emit_closed round late =
     publish (RoundClosed round late)"

definition emit_defaulted ::
  "address \<Rightarrow> u32 \<Rightarrow> i128 \<Rightarrow> u32 \<Rightarrow> 'l rosca_state \<Rightarrow> 'l rosca_state" where
  "emit_defaulted member round penalty count =
     publish (MemberDefaulted member round penalty count)"

definition emit_suspended ::
  "address \<Rightarrow> u32 \<Rightarrow> 'l rosca_state \<Rightarrow> 'l rosca_state" where
  "emit_suspended member count =
     publish (MemberSuspended member count)"

definition emit_mem_add ::
  "address \<Rightarrow> u32 \<Rightarrow> 'l rosca_state \<Rightarrow> 'l rosca_state" where
  "emit_mem_add member member_count =
     publish (MemberAdded member member_count)"

definition emit_mem_rmv ::
  "address \<Rightarrow> u32 \<Rightarrow> 'l rosca_state \<Rightarrow> 'l rosca_state" where
  "emit_mem_rmv member member_count =
     publish (MemberRemoved member member_count)"

definition emit_tok_add ::
  "address \<Rightarrow> 'l rosca_state \<Rightarrow> 'l rosca_state" where
  "emit_tok_add token =
     publish (TokenApproved token)"

definition emit_tok_rmv ::
  "address \<Rightarrow> 'l rosca_state \<Rightarrow> 'l rosca_state" where
  "emit_tok_rmv token =
     publish (TokenRemoved token)"

definition emit_rate_set ::
  "address \<Rightarrow> i128 \<Rightarrow> 'l rosca_state \<Rightarrow> 'l rosca_state" where
  "emit_rate_set token rate =
     publish (ExchangeRateSet token rate)"

definition emit_lim_set ::
  "address \<Rightarrow> i128 \<Rightarrow> 'l rosca_state \<Rightarrow> 'l rosca_state" where
  "emit_lim_set token limit =
     publish (TokenLimitSet token limit)"

definition emit_rew_dep ::
  "address \<Rightarrow> i128 \<Rightarrow> 'l rosca_state \<Rightarrow> 'l rosca_state" where
  "emit_rew_dep depositor amount =
     publish (RewardDeposited depositor amount)"

definition emit_rew_cfg ::
  "distribution_type \<Rightarrow> 'l rosca_state \<Rightarrow> 'l rosca_state" where
  "emit_rew_cfg dist_type =
     publish (RewardConfigUpdated dist_type)"

definition emit_rew_clm ::
  "address \<Rightarrow> i128 \<Rightarrow> 'l rosca_state \<Rightarrow> 'l rosca_state" where
  "emit_rew_clm member amount =
     publish (RewardClaimed member amount)"

definition emit_prop_new ::
  "u32 \<Rightarrow> address \<Rightarrow> address \<Rightarrow> u64 \<Rightarrow> u64 \<Rightarrow> 'l rosca_state \<Rightarrow> 'l rosca_state" where
  "emit_prop_new proposal_id creator target_member created_at deadline =
     publish (ProposalCreated proposal_id creator target_member created_at deadline)"

definition emit_voted ::
  "u32 \<Rightarrow> address \<Rightarrow> bool \<Rightarrow> 'l rosca_state \<Rightarrow> 'l rosca_state" where
  "emit_voted proposal_id voter vote_for =
     publish (VoteCast proposal_id voter vote_for)"

definition emit_weighted_vote_cast ::
  "address \<Rightarrow> u32 \<Rightarrow> i128 \<Rightarrow> 'l rosca_state \<Rightarrow> 'l rosca_state" where
  "emit_weighted_vote_cast member proposal_id weight =
     publish (WeightedVoteCast member proposal_id weight)"

definition emit_prop_rej ::
  "u32 \<Rightarrow> string \<Rightarrow> i128 \<Rightarrow> i128 \<Rightarrow> 'l rosca_state \<Rightarrow> 'l rosca_state" where
  "emit_prop_rej proposal_id reason votes_for votes_against =
     publish (ProposalRejected proposal_id reason votes_for votes_against)"

definition emit_prop_exec ::
  "u32 \<Rightarrow> u32 \<Rightarrow> address \<Rightarrow> 'l rosca_state \<Rightarrow> 'l rosca_state" where
  "emit_prop_exec proposal_id proposal_type target_member =
     publish (ProposalExecuted proposal_id proposal_type target_member)"

definition emit_appeal_ok ::
  "address \<Rightarrow> 'l rosca_state \<Rightarrow> 'l rosca_state" where
  "emit_appeal_ok member =
     publish (PenaltyAppealApproved member)"

definition emit_rule_upd ::
  "i128 \<Rightarrow> 'l rosca_state \<Rightarrow> 'l rosca_state" where
  "emit_rule_upd new_quorum =
     publish (QuorumUpdated new_quorum)"

definition emit_quorum_config_updated ::
  "proposal_type \<Rightarrow> u32 \<Rightarrow> 'l rosca_state \<Rightarrow> 'l rosca_state" where
  "emit_quorum_config_updated proposal_type quorum_bps =
     publish (QuorumConfigUpdated proposal_type quorum_bps)"

definition emit_mem_del ::
  "address \<Rightarrow> 'l rosca_state \<Rightarrow> 'l rosca_state" where
  "emit_mem_del member =
     publish (MemberRemovalExecuted member)"

definition emit_reminder ::
  "u32 \<Rightarrow> u64 \<Rightarrow> address list \<Rightarrow> string \<Rightarrow> 'l rosca_state \<Rightarrow> 'l rosca_state" where
  "emit_reminder round time_remaining non_contributors interval =
     publish (DeadlineReminder round time_remaining non_contributors interval)"

definition emit_paused ::
  "string \<Rightarrow> 'l rosca_state \<Rightarrow> 'l rosca_state" where
  "emit_paused reason =
     publish (ContractPausedEvent reason)"

definition emit_resumed ::
  "string \<Rightarrow> 'l rosca_state \<Rightarrow> 'l rosca_state" where
  "emit_resumed reason =
     publish (ContractResumedEvent reason)"

definition emit_round_finalized ::
  "u32 \<Rightarrow> address list \<Rightarrow> 'l rosca_state \<Rightarrow> 'l rosca_state" where
  "emit_round_finalized round late =
     publish (RoundFinalized round late)"

definition emit_exit_req ::
  "address \<Rightarrow> u32 \<Rightarrow> 'l rosca_state \<Rightarrow> 'l rosca_state" where
  "emit_exit_req member round =
     publish (ExitRequested member round)"

definition emit_exit_ok ::
  "address \<Rightarrow> i128 \<Rightarrow> 'l rosca_state \<Rightarrow> 'l rosca_state" where
  "emit_exit_ok member refund_amount =
     publish (ExitApproved member refund_amount)"

definition emit_exit_no ::
  "address \<Rightarrow> 'l rosca_state \<Rightarrow> 'l rosca_state" where
  "emit_exit_no member =
     publish (ExitRejected member)"

definition emit_rd_done ::
  "u32 \<Rightarrow> address \<Rightarrow> i128 \<Rightarrow> 'l rosca_state \<Rightarrow> 'l rosca_state" where
  "emit_rd_done round recipient payout_amount =
     publish (RoundCompleted round recipient payout_amount)"

definition emit_payout_reinvested ::
  "address \<Rightarrow> u32 \<Rightarrow> i128 \<Rightarrow> 'l rosca_state \<Rightarrow> 'l rosca_state" where
  "emit_payout_reinvested member round amount =
     publish (PayoutReinvested member round amount)"

definition emit_reset ::
  "u32 \<Rightarrow> 'l rosca_state \<Rightarrow> 'l rosca_state" where
  "emit_reset round =
     publish (RoundReset round)"

definition rosca_emit_admin_transfer_proposed ::
  "address \<Rightarrow> address \<Rightarrow> 'l rosca_state \<Rightarrow> 'l rosca_state" where
  "rosca_emit_admin_transfer_proposed current_admin new_admin =
     publish (AdminTransferProposed current_admin new_admin)"

definition rosca_emit_admin_transferred ::
  "address \<Rightarrow> address \<Rightarrow> 'l rosca_state \<Rightarrow> 'l rosca_state" where
  "rosca_emit_admin_transferred old_admin new_admin =
     publish (AdminTransferred old_admin new_admin)"

definition emit_contract_upgraded ::
  "u32 \<Rightarrow> u32 \<Rightarrow> address \<Rightarrow> 'l rosca_state \<Rightarrow> 'l rosca_state" where
  "emit_contract_upgraded old_version new_version by_admin =
     publish (ContractUpgraded old_version new_version by_admin)"

definition rosca_emit_fee_collected ::
  "u32 \<Rightarrow> i128 \<Rightarrow> address \<Rightarrow> 'l rosca_state \<Rightarrow> 'l rosca_state" where
  "rosca_emit_fee_collected round fee_amount recipient =
     publish (FeeCollected round fee_amount recipient)"

definition emit_partial_contribution ::
  "address \<Rightarrow> u32 \<Rightarrow> i128 \<Rightarrow> i128 \<Rightarrow> 'l rosca_state \<Rightarrow> 'l rosca_state" where
  "emit_partial_contribution member round amount remaining =
     publish (PartialContributionReceived member round amount remaining)"

definition emit_suspension_threshold_set ::
  "u32 \<Rightarrow> 'l rosca_state \<Rightarrow> 'l rosca_state" where
  "emit_suspension_threshold_set threshold =
     publish (SuspensionThresholdSet threshold)"

definition emit_vote_delegated ::
  "address \<Rightarrow> address \<Rightarrow> 'l rosca_state \<Rightarrow> 'l rosca_state" where
  "emit_vote_delegated delegator delegate =
     publish (VoteDelegated delegator delegate)"

definition emit_delegation_revoked ::
  "address \<Rightarrow> 'l rosca_state \<Rightarrow> 'l rosca_state" where
  "emit_delegation_revoked delegator =
     publish (DelegationRevoked delegator)"

definition emit_round_auto_closed_early ::
  "u32 \<Rightarrow> u64 \<Rightarrow> 'l rosca_state \<Rightarrow> 'l rosca_state" where
  "emit_round_auto_closed_early round closed_at_ledger =
     publish (RoundAutoClosedEarly round closed_at_ledger)"

definition emit_invite_generated ::
  "address \<Rightarrow> u64 \<Rightarrow> 'l rosca_state \<Rightarrow> 'l rosca_state" where
  "emit_invite_generated invitee expires_at =
     publish (InviteGenerated invitee expires_at)"

definition emit_invite_redeemed ::
  "address \<Rightarrow> 'l rosca_state \<Rightarrow> 'l rosca_state" where
  "emit_invite_redeemed invitee =
     publish (InviteRedeemed invitee)"

definition emit_admin_action_proposed ::
  "u32 \<Rightarrow> string \<Rightarrow> address \<Rightarrow> 'l rosca_state \<Rightarrow> 'l rosca_state" where
  "emit_admin_action_proposed action_id action_type proposed_by =
     publish (AdminActionProposed action_id action_type proposed_by)"

definition emit_admin_action_approved ::
  "u32 \<Rightarrow> address \<Rightarrow> u32 \<Rightarrow> 'l rosca_state \<Rightarrow> 'l rosca_state" where
  "emit_admin_action_approved action_id approved_by approval_count =
     publish (AdminActionApproved action_id approved_by approval_count)"

definition emit_admin_action_executed ::
  "u32 \<Rightarrow> string \<Rightarrow> 'l rosca_state \<Rightarrow> 'l rosca_state" where
  "emit_admin_action_executed action_id action_type =
     publish (AdminActionExecuted action_id action_type)"

definition emit_insurance_top_up ::
  "address \<Rightarrow> i128 \<Rightarrow> 'l rosca_state \<Rightarrow> 'l rosca_state" where
  "emit_insurance_top_up contributor amount =
     publish (InsurancePoolTopUp contributor amount)"

definition emit_insurance_paid_out ::
  "u32 \<Rightarrow> i128 \<Rightarrow> i128 \<Rightarrow> 'l rosca_state \<Rightarrow> 'l rosca_state" where
  "emit_insurance_paid_out round shortfall remaining_pool =
     publish (InsurancePaidOut round shortfall remaining_pool)"

definition emit_round_skip_requested ::
  "address \<Rightarrow> u32 \<Rightarrow> i128 \<Rightarrow> 'l rosca_state \<Rightarrow> 'l rosca_state" where
  "emit_round_skip_requested member round fee_paid =
     publish (RoundSkipRequested member round fee_paid)"

lemmas rosca_emit_defs [simp] = emit_rosc_init_def emit_round_deadline_timestamp_set_def emit_max_members_upd_def
  emit_member_tier_set_def emit_contrib_def emit_milestone_def emit_closed_def
  emit_defaulted_def emit_suspended_def emit_mem_add_def emit_mem_rmv_def emit_tok_add_def
  emit_tok_rmv_def emit_rate_set_def emit_lim_set_def emit_rew_dep_def emit_rew_cfg_def
  emit_rew_clm_def emit_prop_new_def emit_voted_def emit_weighted_vote_cast_def
  emit_prop_rej_def emit_prop_exec_def emit_appeal_ok_def emit_rule_upd_def
  emit_quorum_config_updated_def emit_mem_del_def emit_reminder_def emit_paused_def
  emit_resumed_def emit_round_finalized_def emit_exit_req_def emit_exit_ok_def
  emit_exit_no_def emit_rd_done_def emit_payout_reinvested_def emit_reset_def
  rosca_emit_admin_transfer_proposed_def rosca_emit_admin_transferred_def
  emit_contract_upgraded_def rosca_emit_fee_collected_def emit_partial_contribution_def
  emit_suspension_threshold_set_def emit_vote_delegated_def emit_delegation_revoked_def
  emit_round_auto_closed_early_def emit_invite_generated_def emit_invite_redeemed_def
  emit_admin_action_proposed_def emit_admin_action_approved_def
  emit_admin_action_executed_def emit_insurance_top_up_def emit_insurance_paid_out_def
  emit_round_skip_requested_def

end
