(* ===== verification/Rosca_Admin.thy ===== *)
theory Rosca_Admin
  imports Rosca_Types
begin

text \<open>
  Administration of the savings group (lib.rs): the guards, initialization, the two-step transfer
  of the admin role, versions, tiers, tokens, rates and limits, the fee, the member limit, the
  emergency stop with its shift of the deadlines, and the readers of the settings.
\<close>

section \<open>Guards\<close>

definition rosca_is_paused :: "'l rosca_state \<Rightarrow> bool" where
  "rosca_is_paused st =
     unwrap_or False (case paused st of Some b \<Rightarrow> Some b | None \<Rightarrow> is_paused_flag st)"

definition check_not_paused :: "'l rosca_state \<Rightarrow> (rosca_panic, unit) outcome" where
  "check_not_paused st =
     (let paused_now = unwrap_or False
            (case paused st of Some b \<Rightarrow> Some b | None \<Rightarrow> is_paused_flag st) in
      if paused_now then fail ContractPaused else Inr ())"

text \<open>The stored admin signs; the caller does not name it.\<close>

definition group_admin :: "'l host \<Rightarrow> 'l rosca_state \<Rightarrow> (rosca_panic, address) outcome" where
  "group_admin h st =
     and_then (entry AdminNotSet (admin st)) (\<lambda>adm.
     and_then (require_auth h adm) (\<lambda>_. Inr adm))"

text \<open>The caller names itself and must be the stored admin.\<close>

definition named_admin :: "'l host \<Rightarrow> address \<Rightarrow> 'l rosca_state \<Rightarrow> (rosca_panic, unit) outcome" where
  "named_admin h adm st =
     and_then (require_auth h adm) (\<lambda>_.
     and_then (entry RoscaNotInitialized (admin st)) (\<lambda>stored_admin.
     if adm \<noteq> stored_admin then panic RoscaOnlyAdmin else Inr ()))"

lemma rosca_guards_Inr [ok_simps]:
  "check_not_paused st = Inr u \<longleftrightarrow> \<not> rosca_is_paused st"
  "group_admin h st = Inr adm \<longleftrightarrow> admin st = Some adm \<and> authorized h adm"
  "named_admin h a st = Inr u \<longleftrightarrow> admin st = Some a \<and> authorized h a"
  by (auto simp: check_not_paused_def rosca_is_paused_def group_admin_def named_admin_def ok_simps)

definition rosca_get_or_init_version :: "'l rosca_state \<Rightarrow> u32 \<times> 'l rosca_state" where
  "rosca_get_or_init_version st =
     (case contract_version st of
        Some version \<Rightarrow> (version, st)
      | None \<Rightarrow> (1, st\<lparr>contract_version := Some 1\<rparr>))"

section \<open>Lifecycle of the contract\<close>

definition resolve_order ::
  "rosca_config \<Rightarrow> address list \<Rightarrow> (rosca_panic, address list) outcome" where
  "resolve_order config mems =
     (case cfg_strategy config of
        RoundRobin \<Rightarrow> Inr mems
      | AdminAssigned \<Rightarrow>
          and_then (entry CustomOrderRequired (cfg_custom_order config)) (\<lambda>order.
          if length order \<noteq> length mems then fail CustomOrderLengthMismatch
          else if \<not> list_all (\<lambda>m. m \<in> set mems) order then fail CustomOrderNonMember
          else Inr order))"

definition init_round_schedule ::
  "'l host \<Rightarrow> rosca_config \<Rightarrow> 'l rosca_state \<Rightarrow> (rosca_panic, 'l rosca_state) outcome" where
  "init_round_schedule h config st =
     (let st = st\<lparr>use_timestamp_schedule := Some (cfg_use_timestamp_schedule config),
            round_duration_seconds := Some (cfg_round_duration_seconds config)\<rparr> in
      if cfg_use_timestamp_schedule config then
        and_then (add_u64 (timestamp h) (cfg_round_duration_seconds config)) (\<lambda>timestamp_deadline.
        Inr (emit_round_deadline_timestamp_set 0 timestamp_deadline
          (st\<lparr>round_deadline_timestamp := Some timestamp_deadline\<rparr>)))
      else Inr st)"

text \<open>The entries with a fixed initial value.\<close>

definition init_bookkeeping :: "'l host \<Rightarrow> 'l rosca_state \<Rightarrow> 'l rosca_state" where
  "init_bookkeeping h st =
     st\<lparr>current_round := Some 0, paid_members := Some [], defaulters := Some [],
        default_count := Map.empty, suspended_members := Some [], round_history := Some [],
        reward_pool := Some 0, total_participations := Some 0, member_participation := Map.empty,
        claimed_rewards := Map.empty, reward_weights := [], reward_dist_type := Some EqualShares,
        exit_requests := temp_extend_ttl h () ROSCA_TEMP_LIFETIME_THRESHOLD ROSCA_TEMP_BUMP_AMOUNT
          (temp_set h () Map.empty (exit_requests st)),
        exited_members := Some [], paused := Some False, is_paused_flag := Some False,
        member_contributions := Map.empty\<rparr>"

text \<open>The group itself, with its base token approved.\<close>

definition init_group ::
  "address \<Rightarrow> address list \<Rightarrow> address list \<Rightarrow> i128 \<Rightarrow> address \<Rightarrow> rosca_config \<Rightarrow>
   'l rosca_state \<Rightarrow> 'l rosca_state" where
  "init_group adm mems order contribution_amount tk config st =
     (let st = st\<lparr>admin := Some adm, contract_version := Some 1, members := Some mems,
            payout_order := Some order, strategy := Some (cfg_strategy config),
            contribution_amt := Some contribution_amount, base_token := Some tk\<rparr>;
          approved = unwrap_or [] (approved_tokens st) in
      if tk \<notin> set approved then st\<lparr>approved_tokens := Some (approved @ [tk])\<rparr> else st)"

text \<open>The terms of the configuration.\<close>

definition init_terms ::
  "u64 \<Rightarrow> u64 \<Rightarrow> u32 \<Rightarrow> rosca_config \<Rightarrow> 'l rosca_state \<Rightarrow> 'l rosca_state" where
  "init_terms duration deadline max_count config st =
     (let st = st\<lparr>round_duration := Some duration, round_deadline := Some deadline,
            penalty_amount := Some (cfg_penalty_amount config),
            exit_penalty_bps := Some (cfg_exit_penalty_bps config),
            fee_bps := Some (cfg_fee_bps config)\<rparr>;
          st = (case cfg_fee_recipient config of
                  None \<Rightarrow> st
                | Some recipient \<Rightarrow> st\<lparr>fee_recipient := Some recipient\<rparr>);
          st = emit_suspension_threshold_set (cfg_max_defaults config)
            (st\<lparr>max_defaults := Some (cfg_max_defaults config)\<rparr>)
      in st\<lparr>max_members := Some max_count\<rparr>)"

text \<open>The savings goals, the skips and the governance.\<close>

definition init_goals :: "rosca_config \<Rightarrow> 'l rosca_state \<Rightarrow> 'l rosca_state" where
  "init_goals config st =
     (let st = (case cfg_collective_goal config of
                  None \<Rightarrow> st
                | Some goal \<Rightarrow> st\<lparr>collective_goal := Some goal\<rparr>);
          st = (case cfg_member_goals config of
                  None \<Rightarrow> st
                | Some goals \<Rightarrow> st\<lparr>member_goals := goals\<rparr>)
      in st\<lparr>total_collected := Some 0, member_collected := Map.empty,
           milestones_reached := Some [], skip_fee := Some (cfg_skip_fee config),
           max_skips_per_cycle := Some (cfg_max_skips_per_cycle config),
           skip_requests := Map.empty, member_skips := Map.empty,
           voting_mode := Some (cfg_voting_mode config), reinvest_preference := Map.empty,
           proposal_counter := Some 0, proposals := Map.empty, proposal_votes := Map.empty,
           voting_deadline := Some 0, quorum_percentage := Some 51\<rparr>)"

definition rosca_init ::
  "'l host \<Rightarrow> address \<Rightarrow> address list \<Rightarrow> i128 \<Rightarrow> address \<Rightarrow> u64 \<Rightarrow> rosca_config \<Rightarrow> 'l rosca_state \<Rightarrow>
   (rosca_panic, 'l rosca_state) outcome" where
  "rosca_init h adm mems contribution_amount tk duration config st =
     (if members st \<noteq> None then fail AlreadyInitialized
      else if 500 < cfg_fee_bps config then fail FeeExceedsMaximum
      else if cfg_max_defaults config < 1 then fail InvalidMaxDefaults
      else
        let max_count = unwrap_or 50 (cfg_max_members config) in
        if max_count < 1 \<or> 100 < max_count then fail InvalidMaxMembers
        else if max_count < length mems then fail GroupFull
        else
          let approved = unwrap_or [] (approved_tokens st) in
          if approved \<noteq> [] \<and> tk \<notin> set approved then fail TokenNotApproved
          else
            and_then (resolve_order config mems) (\<lambda>order.
            and_then (add_u64 (timestamp h) duration) (\<lambda>deadline.
            let st = init_group adm mems order contribution_amount tk config st;
                st = init_bookkeeping h st;
                st = init_terms duration deadline max_count config st in
            and_then (init_round_schedule h config st) (\<lambda>st.
            let st = init_goals config st
            in Inr (emit_rosc_init (length mems) contribution_amount st)))))"

definition rosca_propose_admin_transfer ::
  "'l host \<Rightarrow> address \<Rightarrow> 'l rosca_state \<Rightarrow> (rosca_panic, 'l rosca_state) outcome" where
  "rosca_propose_admin_transfer h new_admin st =
     and_then (entry RoscaNotInitialized (admin st)) (\<lambda>adm.
     and_then (require_auth h adm) (\<lambda>_.
     Inr (rosca_emit_admin_transfer_proposed adm new_admin
       (st\<lparr>proposed_admin := Some new_admin\<rparr>))))"

definition rosca_accept_admin_role ::
  "'l host \<Rightarrow> 'l rosca_state \<Rightarrow> (rosca_panic, 'l rosca_state) outcome" where
  "rosca_accept_admin_role h st =
     and_then (entry NoAdminTransferProposed (proposed_admin st)) (\<lambda>new_admin.
     and_then (require_auth h new_admin) (\<lambda>_.
     and_then (entry RoscaNotInitialized (admin st)) (\<lambda>old_admin.
     Inr (rosca_emit_admin_transferred old_admin new_admin
       (st\<lparr>admin := Some new_admin, proposed_admin := None\<rparr>)))))"

definition rosca_get_admin :: "'l rosca_state \<Rightarrow> (rosca_panic, address) outcome" where
  "rosca_get_admin st = entry RoscaNotInitialized (admin st)"

definition rosca_get_proposed_admin :: "'l rosca_state \<Rightarrow> address option" where
  "rosca_get_proposed_admin st = proposed_admin st"

definition rosca_upgrade ::
  "'l host \<Rightarrow> address \<Rightarrow> bytes32 \<Rightarrow> 'l rosca_state \<Rightarrow> (rosca_panic, 'l rosca_state) outcome" where
  "rosca_upgrade h adm new_wasm_hash st =
     and_then (named_admin h adm st) (\<lambda>_.
     let (old_version, st) = rosca_get_or_init_version st in
     if \<not> wasm_installed h new_wasm_hash then Inl HostFailure
     else if \<not> old_version + 1 < 2 ^ 32 then panic RoscaVersionOverflow
     else
       let new_version = old_version + 1 in
       Inr (emit_contract_upgraded old_version new_version adm
         (st\<lparr>contract_version := Some new_version\<rparr>)))"

definition rosca_migrate ::
  "'l host \<Rightarrow> address \<Rightarrow> 'l rosca_state \<Rightarrow> (rosca_panic, 'l rosca_state) outcome" where
  "rosca_migrate h adm st = and_then (named_admin h adm st) (\<lambda>_. Inr st)"

definition rosca_get_version :: "'l rosca_state \<Rightarrow> u32 \<times> 'l rosca_state" where
  "rosca_get_version st = rosca_get_or_init_version st"

definition bump_storage :: "'l rosca_state \<Rightarrow> (rosca_panic, 'l rosca_state) outcome" where
  "bump_storage st = Inr st"

section \<open>Settings\<close>

definition set_member_tier ::
  "'l host \<Rightarrow> address \<Rightarrow> address \<Rightarrow> u32 \<Rightarrow> 'l rosca_state \<Rightarrow> (rosca_panic, 'l rosca_state) outcome" where
  "set_member_tier h adm member tier_bps st =
     and_then (named_admin h adm st) (\<lambda>_.
     if tier_bps = 0 then fail InvalidTier
     else
       and_then (entry RoscaNotInitialized (members st)) (\<lambda>mems.
       if member \<notin> set mems then fail NotAMember
       else Inr (emit_member_tier_set member tier_bps
              (st\<lparr>member_tiers := (member_tiers st)(member \<mapsto> tier_bps)\<rparr>))))"

definition add_approved_token ::
  "'l host \<Rightarrow> address \<Rightarrow> 'l rosca_state \<Rightarrow> (rosca_panic, 'l rosca_state) outcome" where
  "add_approved_token h tk st =
     and_then (check_not_paused st) (\<lambda>_.
     and_then (group_admin h st) (\<lambda>_.
     let approved = unwrap_or [] (approved_tokens st) in
     if tk \<notin> set approved
     then Inr (emit_tok_add tk (st\<lparr>approved_tokens := Some (approved @ [tk])\<rparr>))
     else Inr st))"

definition remove_approved_token ::
  "'l host \<Rightarrow> address \<Rightarrow> 'l rosca_state \<Rightarrow> (rosca_panic, 'l rosca_state) outcome" where
  "remove_approved_token h tk st =
     and_then (check_not_paused st) (\<lambda>_.
     and_then (group_admin h st) (\<lambda>_.
     let approved = unwrap_or [] (approved_tokens st) in
     if tk \<in> set approved
     then Inr (emit_tok_rmv tk
            (st\<lparr>approved_tokens := Some (filter (\<lambda>t. t \<noteq> tk) approved)\<rparr>))
     else Inr st))"

definition set_exchange_rate ::
  "'l host \<Rightarrow> address \<Rightarrow> i128 \<Rightarrow> 'l rosca_state \<Rightarrow> (rosca_panic, 'l rosca_state) outcome" where
  "set_exchange_rate h tk rate st =
     and_then (check_not_paused st) (\<lambda>_.
     and_then (group_admin h st) (\<lambda>_.
     Inr (emit_rate_set tk rate (st\<lparr>exchange_rates := (exchange_rates st)(tk \<mapsto> rate)\<rparr>))))"

definition set_token_limit ::
  "'l host \<Rightarrow> address \<Rightarrow> i128 \<Rightarrow> 'l rosca_state \<Rightarrow> (rosca_panic, 'l rosca_state) outcome" where
  "set_token_limit h tk limit st =
     and_then (check_not_paused st) (\<lambda>_.
     and_then (group_admin h st) (\<lambda>_.
     Inr (emit_lim_set tk limit (st\<lparr>token_limits := (token_limits st)(tk \<mapsto> limit)\<rparr>))))"

definition set_reward_dist_params ::
  "'l host \<Rightarrow> distribution_type \<Rightarrow> (address \<times> u32) list option \<Rightarrow> 'l rosca_state \<Rightarrow>
   (rosca_panic, 'l rosca_state) outcome" where
  "set_reward_dist_params h dist_type weights st =
     and_then (check_not_paused st) (\<lambda>_.
     and_then (group_admin h st) (\<lambda>_.
     let st = st\<lparr>reward_dist_type := Some dist_type\<rparr>;
         st = (case weights of None \<Rightarrow> st | Some w \<Rightarrow> st\<lparr>reward_weights := w\<rparr>)
     in Inr (emit_rew_cfg dist_type st)))"

definition rosca_update_fee ::
  "'l host \<Rightarrow> u32 \<Rightarrow> 'l rosca_state \<Rightarrow> (rosca_panic, 'l rosca_state) outcome" where
  "rosca_update_fee h new_fee_bps st =
     and_then (check_not_paused st) (\<lambda>_.
     and_then (group_admin h st) (\<lambda>_.
     if 500 < new_fee_bps then fail FeeExceedsMaximum
     else Inr (st\<lparr>fee_bps := Some new_fee_bps\<rparr>)))"

definition update_max_members ::
  "'l host \<Rightarrow> u32 \<Rightarrow> 'l rosca_state \<Rightarrow> (rosca_panic, 'l rosca_state) outcome" where
  "update_max_members h new_max st =
     and_then (group_admin h st) (\<lambda>_.
     if new_max < 1 \<or> 100 < new_max then fail InvalidMaxMembers
     else if new_max < length (unwrap_or [] (members st)) then fail InvalidMaxMembers
     else
       let old_max = unwrap_or 50 (max_members st)
       in Inr (emit_max_members_upd old_max new_max (st\<lparr>max_members := Some new_max\<rparr>)))"

definition set_auto_close_enabled ::
  "'l host \<Rightarrow> bool \<Rightarrow> 'l rosca_state \<Rightarrow> (rosca_panic, 'l rosca_state) outcome" where
  "set_auto_close_enabled h enabled st =
     and_then (check_not_paused st) (\<lambda>_.
     and_then (group_admin h st) (\<lambda>_.
     Inr (st\<lparr>auto_close_enabled := temp_set h () enabled (auto_close_enabled st)\<rparr>)))"

definition set_quorum_per_type ::
  "'l host \<Rightarrow> address \<Rightarrow> proposal_type \<Rightarrow> u32 \<Rightarrow> 'l rosca_state \<Rightarrow>
   (rosca_panic, 'l rosca_state) outcome" where
  "set_quorum_per_type h adm kind quorum_bps st =
     and_then (named_admin h adm st) (\<lambda>_.
     if quorum_bps < 100 \<or> 10000 < quorum_bps then panic QuorumOutOfRange
     else Inr (emit_quorum_config_updated kind quorum_bps
            (st\<lparr>quorum_config := (quorum_config st)(kind \<mapsto> quorum_bps)\<rparr>)))"

section \<open>Emergency stop\<close>

definition pause_group ::
  "'l host \<Rightarrow> string \<Rightarrow> 'l rosca_state \<Rightarrow> (rosca_panic, 'l rosca_state) outcome" where
  "pause_group h reason st =
     and_then (group_admin h st) (\<lambda>_.
     if rosca_is_paused st then fail AlreadyPaused
     else Inr (emit_paused reason
            (st\<lparr>paused := Some True, is_paused_flag := Some True, pause_reason := Some reason,
               pause_timestamp := Some (timestamp h)\<rparr>)))"

text \<open>A deadline of 0, or a missing one, is not moved.\<close>

definition extend_round_deadline ::
  "u64 \<Rightarrow> 'l rosca_state \<Rightarrow> (rosca_panic, 'l rosca_state) outcome" where
  "extend_round_deadline pause_duration st =
     (let current_deadline = unwrap_or 0 (round_deadline st) in
      if 0 < current_deadline
      then and_then (add_u64 current_deadline pause_duration) (\<lambda>next_deadline.
        Inr (st\<lparr>round_deadline := Some next_deadline\<rparr>))
      else Inr st)"

definition extend_timestamp_deadline ::
  "u64 \<Rightarrow> 'l rosca_state \<Rightarrow> (rosca_panic, 'l rosca_state) outcome" where
  "extend_timestamp_deadline pause_duration st =
     (let current_timestamp_deadline = unwrap_or 0 (round_deadline_timestamp st) in
      if 0 < current_timestamp_deadline
      then and_then (add_u64 current_timestamp_deadline pause_duration) (\<lambda>next_deadline.
        Inr (emit_round_deadline_timestamp_set (unwrap_or 0 (current_round st)) next_deadline
          (st\<lparr>round_deadline_timestamp := Some next_deadline\<rparr>)))
      else Inr st)"

definition resume_group ::
  "'l host \<Rightarrow> string \<Rightarrow> 'l rosca_state \<Rightarrow> (rosca_panic, 'l rosca_state) outcome" where
  "resume_group h reason st =
     and_then (group_admin h st) (\<lambda>_.
     if \<not> rosca_is_paused st then fail NotPaused
     else
       and_then (entry UnwrapNone (pause_timestamp st)) (\<lambda>paused_at.
       and_then (sub_u (timestamp h) paused_at) (\<lambda>pause_duration.
       and_then (extend_round_deadline pause_duration st) (\<lambda>st.
       and_then (extend_timestamp_deadline pause_duration st) (\<lambda>st.
       Inr (emit_resumed reason
         (st\<lparr>paused := Some False, is_paused_flag := Some False, pause_reason := None,
            pause_timestamp := None\<rparr>)))))))"

definition rosca_pause_contract ::
  "'l host \<Rightarrow> address \<Rightarrow> string \<Rightarrow> 'l rosca_state \<Rightarrow> (rosca_panic, 'l rosca_state) outcome" where
  "rosca_pause_contract h adm reason st =
     and_then (entry AdminNotSet (admin st)) (\<lambda>stored_admin.
     if adm \<noteq> stored_admin then panic RoscaOnlyAdmin
     else and_then (require_auth h adm) (\<lambda>_. pause_group h reason st))"

definition rosca_resume_contract ::
  "'l host \<Rightarrow> address \<Rightarrow> 'l rosca_state \<Rightarrow> (rosca_panic, 'l rosca_state) outcome" where
  "rosca_resume_contract h adm st =
     and_then (entry AdminNotSet (admin st)) (\<lambda>stored_admin.
     if adm \<noteq> stored_admin then panic RoscaOnlyAdmin
     else and_then (require_auth h adm) (\<lambda>_. resume_group h ''Resumed'' st))"

definition rosca_get_pause_reason :: "'l rosca_state \<Rightarrow> string" where
  "rosca_get_pause_reason st = unwrap_or [] (pause_reason st)"

definition get_pause_info :: "'l rosca_state \<Rightarrow> bool \<times> string \<times> u64" where
  "get_pause_info st =
     (rosca_is_paused st, unwrap_or [] (pause_reason st), unwrap_or 0 (pause_timestamp st))"

section \<open>Readers of the settings\<close>

definition rosca_get_fee_bps :: "'l rosca_state \<Rightarrow> u32" where
  "rosca_get_fee_bps st = unwrap_or 0 (fee_bps st)"

definition rosca_get_fee_recipient :: "'l rosca_state \<Rightarrow> address option" where
  "rosca_get_fee_recipient st = fee_recipient st"

definition get_max_defaults :: "'l rosca_state \<Rightarrow> u32" where
  "get_max_defaults st = unwrap_or 3 (max_defaults st)"

definition get_max_members :: "'l rosca_state \<Rightarrow> u32" where
  "get_max_members st = unwrap_or 50 (max_members st)"

definition get_exchange_rates :: "'l rosca_state \<Rightarrow> address \<rightharpoonup> i128" where
  "get_exchange_rates st = exchange_rates st"

definition get_token_limits :: "'l rosca_state \<Rightarrow> address \<rightharpoonup> i128" where
  "get_token_limits st = token_limits st"

definition get_approved_tokens :: "'l rosca_state \<Rightarrow> address list" where
  "get_approved_tokens st = unwrap_or [] (approved_tokens st)"

definition get_insurance_pool :: "'l rosca_state \<Rightarrow> i128" where
  "get_insurance_pool st = unwrap_or 0 (insurance_pool st)"

definition get_quorum_percentage :: "'l rosca_state \<Rightarrow> u32" where
  "get_quorum_percentage st = unwrap_or 51 (quorum_percentage st)"

definition is_auto_close_enabled :: "'l host \<Rightarrow> 'l rosca_state \<Rightarrow> bool" where
  "is_auto_close_enabled h st = unwrap_or False (temp_get h () (auto_close_enabled st))"

end
