(* ===== verification/Rosca_Payout.thy ===== *)
theory Rosca_Payout
  imports Rosca_Admin
begin

text \<open>
  The payout of a round (internals.rs): the choice of the recipient, the expected and the actual
  pot, the draw on the insurance pool, the transfers, the record of the round and the start of the
  next one.
\<close>

section \<open>The recipient\<close>

definition skips_round :: "'l rosca_state \<Rightarrow> u32 \<Rightarrow> address \<Rightarrow> bool" where
  "skips_round st round member = unwrap_or False (skip_requests st (member, round))"

definition can_receive :: "'l rosca_state \<Rightarrow> u32 \<Rightarrow> address \<Rightarrow> bool" where
  "can_receive st round member \<longleftrightarrow>
     member \<notin> set (unwrap_or [] (suspended_members st)) \<and>
     member \<notin> set (unwrap_or [] (exited_members st)) \<and> \<not> skips_round st round member"

text \<open>
  The loop over the payout order: the index it stops at and the number of attempts; as many
  attempts as there are positions mean that nobody was found.
\<close>

function find_recipient ::
  "(address \<Rightarrow> bool) \<Rightarrow> address list \<Rightarrow> nat \<Rightarrow> nat \<Rightarrow> nat \<times> nat" where
  "find_recipient ok order idx attempts =
     (if attempts < length order then
        if ok (order ! idx) then (idx, attempts)
        else find_recipient ok order ((idx + 1) mod length order) (attempts + 1)
      else (idx, attempts))"
  by pat_completeness auto
termination
  by (relation "measure (\<lambda>(ok, order, idx, attempts). length order - attempts)") auto

declare find_recipient.simps [simp del]

definition select_recipient :: "'l rosca_state \<Rightarrow> (rosca_panic, u32 \<times> address) outcome" where
  "select_recipient st =
     and_then (entry UnwrapNone (current_round st)) (\<lambda>round.
     and_then (entry UnwrapNone (payout_order st)) (\<lambda>order.
     if order = [] then Inl DivisionByZero
     else
       case find_recipient (can_receive st round) order (round mod length order) 0 of
         (idx, attempts) \<Rightarrow>
           if length order \<le> attempts then fail AllMembersSuspended
           else Inr (round, order ! idx)))"

section \<open>The pot\<close>

text \<open>What a member owes per round: the base amount at its tier.\<close>

definition tier_share :: "i128 \<Rightarrow> u32 \<Rightarrow> (rosca_panic, i128) outcome" where
  "tier_share base_amount tier_bps =
     and_then (mul128 base_amount (int tier_bps)) (\<lambda>scaled. div128 scaled 10000)"

fun expected_pot ::
  "i128 \<Rightarrow> (address \<rightharpoonup> u32) \<Rightarrow> address list \<Rightarrow> i128 \<Rightarrow> (rosca_panic, i128) outcome" where
  "expected_pot base_amount tiers [] pot = Inr pot"
| "expected_pot base_amount tiers (member # mems) pot =
     and_then (tier_share base_amount (unwrap_or 10000 (tiers member))) (\<lambda>member_expected.
     and_then (add128 pot member_expected) (\<lambda>pot.
     expected_pot base_amount tiers mems pot))"

definition own_balance :: "'l host \<Rightarrow> address \<Rightarrow> 'l rosca_state \<Rightarrow> i128" where
  "own_balance h tk st = tok_balance h (ledger st) tk (self_address h)"

text \<open>The loop over the approved tokens: the balance of the base token less the reward pool.\<close>

fun actual_pot ::
  "'l host \<Rightarrow> address \<Rightarrow> i128 \<Rightarrow> address list \<Rightarrow> i128 \<Rightarrow> 'l rosca_state \<Rightarrow>
   (rosca_panic, i128) outcome" where
  "actual_pot h tk reserve [] pot st = Inr pot"
| "actual_pot h tk reserve (token_addr # tokens) pot st =
     (if token_addr = tk
      then and_then (sub128 (own_balance h token_addr st) reserve) (\<lambda>pot.
        actual_pot h tk reserve tokens pot st)
      else actual_pot h tk reserve tokens pot st)"

definition draw_insurance ::
  "u32 \<Rightarrow> i128 \<Rightarrow> i128 \<Rightarrow> 'l rosca_state \<Rightarrow> (rosca_panic, 'l rosca_state) outcome" where
  "draw_insurance round expected actual st =
     (let pool = unwrap_or 0 (insurance_pool st) in
      and_then (sub128 expected actual) (\<lambda>shortfall.
      if 0 < shortfall \<and> 0 < pool then
        let draw_amount = (if shortfall \<le> pool then shortfall else pool) in
        and_then (sub128 pool draw_amount) (\<lambda>remaining_pool.
        let st = emit_insurance_paid_out round draw_amount remaining_pool
              (st\<lparr>insurance_pool := Some remaining_pool\<rparr>) in
        and_then (add128 actual draw_amount) (\<lambda>_. Inr st))
      else Inr st))"

section \<open>The transfers\<close>

text \<open>
  The protocol fee and the payout of one token's balance; \<open>keep\<close> holds when the payout of the
  base token is reinvested.
\<close>

definition payout_fee :: "u32 \<Rightarrow> address option \<Rightarrow> i128 \<Rightarrow> (rosca_panic, i128) outcome" where
  "payout_fee bps recipient amount =
     (if 0 < bps \<and> recipient \<noteq> None
      then and_then (mul128 amount (int bps)) (\<lambda>scaled. div128 scaled 10000)
      else Inr 0)"

definition pay_member ::
  "'l host \<Rightarrow> u32 \<Rightarrow> address \<Rightarrow> address \<Rightarrow> bool \<Rightarrow> i128 \<Rightarrow> 'l rosca_state \<Rightarrow>
   (rosca_panic, 'l rosca_state) outcome" where
  "pay_member h round token_addr payee keep payout_amount st =
     (if keep then Inr (emit_payout_reinvested payee round payout_amount st)
      else if 0 < payout_amount
      then token_transfer h token_addr (self_address h) payee payout_amount st
      else Inr st)"

definition pay_fee ::
  "'l host \<Rightarrow> u32 \<Rightarrow> address \<Rightarrow> bool \<Rightarrow> address option \<Rightarrow> i128 \<Rightarrow> 'l rosca_state \<Rightarrow>
   (rosca_panic, 'l rosca_state) outcome" where
  "pay_fee h round token_addr is_base fee_to fee_amount st =
     (if 0 < fee_amount
      then (case fee_to of
              None \<Rightarrow> Inr st
            | Some recipient \<Rightarrow>
                and_then (token_transfer h token_addr (self_address h) recipient fee_amount st)
                  (\<lambda>st. Inr (if is_base then rosca_emit_fee_collected round fee_amount recipient st
                     else st)))
      else Inr st)"

text \<open>
  The loop over the approved tokens.  \<open>history\<close> is the amount of the base token recorded in the
  history, \<open>reinvested\<close> what stays with the contract for the next round.
\<close>

fun pay_pot ::
  "'l host \<Rightarrow> u32 \<Rightarrow> address \<Rightarrow> bool \<Rightarrow> address \<Rightarrow> i128 \<Rightarrow> u32 \<Rightarrow> address option \<Rightarrow> address list \<Rightarrow>
   i128 \<Rightarrow> i128 \<Rightarrow> 'l rosca_state \<Rightarrow> (rosca_panic, i128 \<times> i128 \<times> 'l rosca_state) outcome" where
  "pay_pot h round payee reinvest tk reserve bps fee_to [] history reinvested st =
     Inr (history, reinvested, st)"
| "pay_pot h round payee reinvest tk reserve bps fee_to (token_addr # tokens) history reinvested st =
     and_then (if token_addr = tk then sub128 (own_balance h token_addr st) reserve
               else Inr (own_balance h token_addr st)) (\<lambda>amount.
     let history = (if token_addr = tk then amount else history) in
     if 0 < amount then
       and_then (payout_fee bps fee_to amount) (\<lambda>fee_amount.
       and_then (sub128 amount fee_amount) (\<lambda>payout_amount.
       let keep = (reinvest \<and> token_addr = tk);
           reinvested = (if keep then payout_amount else reinvested) in
       and_then (pay_member h round token_addr payee keep payout_amount st) (\<lambda>st.
       and_then (pay_fee h round token_addr (token_addr = tk) fee_to fee_amount st) (\<lambda>st.
       pay_pot h round payee reinvest tk reserve bps fee_to tokens history reinvested st))))
     else pay_pot h round payee reinvest tk reserve bps fee_to tokens history reinvested st)"

section \<open>The next round\<close>

definition schedule_next_round ::
  "'l host \<Rightarrow> u32 \<Rightarrow> 'l rosca_state \<Rightarrow> (rosca_panic, 'l rosca_state) outcome" where
  "schedule_next_round h round st =
     (if unwrap_or False (use_timestamp_schedule st) then
        and_then (add_u64 (timestamp h) (unwrap_or 0 (round_duration_seconds st)))
          (\<lambda>next_timestamp_deadline.
        and_then (add_u32 round 1) (\<lambda>next_round.
        Inr (emit_round_deadline_timestamp_set next_round next_timestamp_deadline
          (st\<lparr>round_deadline_timestamp := Some next_timestamp_deadline\<rparr>))))
      else Inr st)"

definition reset_round_state ::
  "'l host \<Rightarrow> u32 \<Rightarrow> 'l rosca_state \<Rightarrow> (rosca_panic, 'l rosca_state) outcome" where
  "reset_round_state h round st =
     and_then (entry UnwrapNone (round_duration st)) (\<lambda>duration.
     and_then (add_u32 round 1) (\<lambda>next_round.
     and_then (add_u64 (timestamp h) duration) (\<lambda>deadline.
     let st = st\<lparr>current_round := Some next_round, paid_members := Some [],
           member_contributions := Map.empty, round_deadline := Some deadline\<rparr> in
     and_then (schedule_next_round h round st) (\<lambda>st.
     Inr (emit_reset round st)))))"

definition record_payout :: "u32 \<Rightarrow> address \<Rightarrow> i128 \<Rightarrow> 'l rosca_state \<Rightarrow> 'l rosca_state" where
  "record_payout round payee amount st =
     (let history = unwrap_or [] (round_history st)
            @ [\<lparr>pr_recipient = payee, pr_amount = amount\<rparr>] in
      emit_rd_done round payee amount (st\<lparr>round_history := Some history\<rparr>))"

text \<open>One more full contribution of a member counts for its rewards.\<close>

definition track_participation ::
  "address \<Rightarrow> 'l rosca_state \<Rightarrow> (rosca_panic, 'l rosca_state) outcome" where
  "track_participation member st =
     and_then (add_u32 (unwrap_or 0 (member_participation st member)) 1) (\<lambda>participation.
     and_then (add_u32 (unwrap_or 0 (total_participations st)) 1) (\<lambda>total.
     Inr (st\<lparr>total_participations := Some total,
       member_participation := (member_participation st)(member \<mapsto> participation)\<rparr>)))"

text \<open>What the recipient leaves with the group is its contribution to the round that begins.\<close>

definition reinvest_payout ::
  "address \<Rightarrow> i128 \<Rightarrow> 'l rosca_state \<Rightarrow> (rosca_panic, 'l rosca_state) outcome" where
  "reinvest_payout payee reinvested st =
     (let st = st\<lparr>member_contributions := (member_contributions st)(payee \<mapsto> reinvested)\<rparr> in
      and_then (tier_share (unwrap_or 0 (contribution_amt st))
          (unwrap_or 10000 (member_tiers st payee))) (\<lambda>member_required.
      if member_required \<le> reinvested then
        let paid = unwrap_or [] (paid_members st);
            st = (if payee \<notin> set paid then st\<lparr>paid_members := Some (paid @ [payee])\<rparr> else st)
        in track_participation payee st
      else Inr st))"

section \<open>The payout\<close>

definition complete_round_payout ::
  "'l host \<Rightarrow> address list \<Rightarrow> 'l rosca_state \<Rightarrow> (rosca_panic, 'l rosca_state) outcome" where
  "complete_round_payout h paid st =
     and_then (select_recipient st) (\<lambda>(round, payee).
     let reinvest = unwrap_or False (reinvest_preference st payee);
         reserve = unwrap_or 0 (reward_pool st) in
     and_then (entry UnwrapNone (base_token st)) (\<lambda>tk.
     let approved = unwrap_or [] (approved_tokens st);
         bps = unwrap_or 0 (fee_bps st);
         fee_to = fee_recipient st in
     and_then (expected_pot (unwrap_or 0 (contribution_amt st)) (member_tiers st) paid 0)
       (\<lambda>expected.
     and_then (actual_pot h tk reserve approved 0 st) (\<lambda>actual.
     and_then (draw_insurance round expected actual st) (\<lambda>st.
     and_then (pay_pot h round payee reinvest tk reserve bps fee_to approved 0 0 st)
       (\<lambda>(history, reinvested, st).
     let st = record_payout round payee history st in
     and_then (reset_round_state h round st) (\<lambda>st.
     if reinvest \<and> 0 < reinvested then reinvest_payout payee reinvested st
     else Inr st)))))))"

end
