(* ===== verification/Rosca_Rounds.thy ===== *)
theory Rosca_Rounds
  imports Rosca_Payout
begin

text \<open>
  The rounds of the savings group (lib.rs): contributions in one or several instalments, skipping
  a round, closing and finalizing a round after its deadline, the insurance pool, the rewards and
  the reinvestment of payouts, with the readers of the state of a round.
\<close>

section \<open>Deadlines\<close>

definition contribution_deadline :: "'l rosca_state \<Rightarrow> (rosca_panic, u64) outcome" where
  "contribution_deadline st =
     (if unwrap_or False (use_timestamp_schedule st)
      then entry TimestampDeadlineNotSet (round_deadline_timestamp st)
      else entry DeadlineNotSet (round_deadline st))"

definition closing_deadline :: "'l rosca_state \<Rightarrow> (rosca_panic, u64) outcome" where
  "closing_deadline st =
     (if unwrap_or False (use_timestamp_schedule st)
      then entry TimestampDeadlineNotSet (round_deadline_timestamp st)
      else entry UnwrapNone (round_deadline st))"

definition shown_deadline :: "'l rosca_state \<Rightarrow> u64" where
  "shown_deadline st =
     (if unwrap_or False (use_timestamp_schedule st)
      then unwrap_or 0 (round_deadline_timestamp st) else unwrap_or 0 (round_deadline st))"

section \<open>Contributions\<close>

text \<open>The conditions of a contribution; the result is the members and those who have paid.\<close>

definition contribution_guard ::
  "'l host \<Rightarrow> address \<Rightarrow> address \<Rightarrow> i128 \<Rightarrow> 'l rosca_state \<Rightarrow>
   (rosca_panic, address list \<times> address list) outcome" where
  "contribution_guard h contributor tk amount st =
     and_then (check_not_paused st) (\<lambda>_.
     and_then (require_auth h contributor) (\<lambda>_.
     if amount \<le> 0 then fail AmountMustBePositive
     else
       and_then (contribution_deadline st) (\<lambda>deadline.
       if deadline < timestamp h then fail ContributionWindowClosed
       else if contributor \<in> set (unwrap_or [] (exited_members st)) then fail MemberHasExited
       else
         and_then (entry RoscaNotInitialized (members st)) (\<lambda>mems.
         if contributor \<notin> set mems then fail NotAMember
         else
           and_then (entry RoscaNotInitialized (paid_members st)) (\<lambda>paid.
           if contributor \<in> set paid then fail AlreadyContributed
           else if tk \<notin> set (unwrap_or [] (approved_tokens st)) then fail TokenNotApproved
           else Inr (mems, paid))))))"

definition required_of ::
  "address \<Rightarrow> i128 \<Rightarrow> 'l rosca_state \<Rightarrow> (rosca_panic, i128) outcome" where
  "required_of member base_amount st =
     tier_share base_amount (unwrap_or 10000 (member_tiers st member))"

text \<open>The amount to take in the token of the contribution.\<close>

definition amount_in_token ::
  "address \<Rightarrow> address \<Rightarrow> i128 \<Rightarrow> 'l rosca_state \<Rightarrow> (rosca_panic, i128) outcome" where
  "amount_in_token base tk amount st =
     (if tk = base then Inr amount
      else
        and_then (entry ExchangeRateNotSet (exchange_rates st tk)) (\<lambda>rate.
        if rate \<le> 0 then fail InvalidExchangeRate
        else and_then (mul128 amount 10000000) (\<lambda>scaled. div128 scaled rate)))"

definition within_limit :: "address \<Rightarrow> i128 \<Rightarrow> 'l rosca_state \<Rightarrow> bool" where
  "within_limit tk amount st =
     (case token_limits st tk of None \<Rightarrow> True | Some limit \<Rightarrow> amount \<le> limit)"

definition insurance_share :: "i128 \<Rightarrow> 'l rosca_state \<Rightarrow> (rosca_panic, i128) outcome" where
  "insurance_share amount st =
     (let bps = unwrap_or 0 (insurance_contribution_bps st) in
      if 0 < bps then and_then (mul128 amount (int bps)) (\<lambda>scaled. div128 scaled 10000)
      else Inr 0)"

definition add_insurance ::
  "address \<Rightarrow> i128 \<Rightarrow> 'l rosca_state \<Rightarrow> (rosca_panic, 'l rosca_state) outcome" where
  "add_insurance contributor amount st =
     and_then (add128 (unwrap_or 0 (insurance_pool st)) amount) (\<lambda>pool.
     Inr (emit_insurance_top_up contributor amount (st\<lparr>insurance_pool := Some pool\<rparr>)))"

text \<open>Takes the amount and the insurance on top of it from the contributor.\<close>

definition take_contribution ::
  "'l host \<Rightarrow> address \<Rightarrow> address \<Rightarrow> i128 \<Rightarrow> 'l rosca_state \<Rightarrow> (rosca_panic, 'l rosca_state) outcome" where
  "take_contribution h contributor tk amount_to_transfer st =
     (if \<not> within_limit tk amount_to_transfer st then fail ExceedsTokenLimit
      else
        and_then (insurance_share amount_to_transfer st) (\<lambda>insurance_deduction.
        and_then (add128 amount_to_transfer insurance_deduction) (\<lambda>total_transfer_amount.
        and_then (token_transfer h tk contributor (self_address h) total_transfer_amount st)
          (\<lambda>st.
        if 0 < insurance_deduction then add_insurance contributor insurance_deduction st
        else Inr st))))"

fun reach_milestones ::
  "i128 \<Rightarrow> i128 \<Rightarrow> (u32 \<times> u32) list \<Rightarrow> u32 list \<Rightarrow> 'l rosca_state \<Rightarrow> u32 list \<times> 'l rosca_state" where
  "reach_milestones progress_bps collected [] reached st = (reached, st)"
| "reach_milestones progress_bps collected ((threshold, milestone) # ms) reached st =
     (if int threshold \<le> progress_bps \<and> milestone \<notin> set reached
      then reach_milestones progress_bps collected ms (reached @ [milestone])
             (emit_milestone milestone collected st)
      else reach_milestones progress_bps collected ms reached st)"

definition note_savings ::
  "address \<Rightarrow> i128 \<Rightarrow> 'l rosca_state \<Rightarrow> (rosca_panic, 'l rosca_state) outcome" where
  "note_savings contributor amount st =
     and_then (add128 (unwrap_or 0 (total_collected st)) amount) (\<lambda>collected.
     and_then (add128 (unwrap_or 0 (member_collected st contributor)) amount) (\<lambda>m_collected.
     let st = st\<lparr>total_collected := Some collected,
           member_collected := (member_collected st)(contributor \<mapsto> m_collected)\<rparr> in
     case collective_goal st of
       None \<Rightarrow> Inr st
     | Some goal \<Rightarrow>
         and_then (mul128 collected 10000) (\<lambda>scaled.
         and_then (div128 scaled goal) (\<lambda>progress_bps.
         case reach_milestones progress_bps collected
             [(2500, 25), (5000, 50), (7500, 75), (10000, 100)]
             (unwrap_or [] (milestones_reached st)) st of
           (reached, st) \<Rightarrow> Inr (st\<lparr>milestones_reached := Some reached\<rparr>)))))"

text \<open>The event of a round that closed because everybody has paid.\<close>

definition note_auto_close :: "'l host \<Rightarrow> 'l rosca_state \<Rightarrow> 'l rosca_state" where
  "note_auto_close h st =
     (if unwrap_or False (temp_get h () (auto_close_enabled st))
      then emit_round_auto_closed_early (unwrap_or 0 (current_round st)) (timestamp h) st
      else st)"

text \<open>A member has paid in full: the payout when it was the last one, and the savings goals.\<close>

definition complete_contribution ::
  "'l host \<Rightarrow> address list \<Rightarrow> address list \<Rightarrow> address \<Rightarrow> i128 \<Rightarrow> 'l rosca_state \<Rightarrow>
   (rosca_panic, 'l rosca_state) outcome" where
  "complete_contribution h mems paid contributor amount st =
     (let paid = paid @ [contributor];
          st = st\<lparr>paid_members := Some paid\<rparr> in
      and_then (track_participation contributor st) (\<lambda>st.
      and_then (if length paid = length mems
                then and_then (complete_round_payout h paid st) (\<lambda>st. Inr (note_auto_close h st))
                else Inr st) (\<lambda>st.
      note_savings contributor amount st)))"

definition contribute ::
  "'l host \<Rightarrow> address \<Rightarrow> address \<Rightarrow> i128 \<Rightarrow> 'l rosca_state \<Rightarrow> (rosca_panic, 'l rosca_state) outcome" where
  "contribute h contributor tk amount st =
     and_then (contribution_guard h contributor tk amount st) (\<lambda>(mems, paid).
     and_then (entry UnwrapNone (base_token st)) (\<lambda>base.
     and_then (entry UnwrapNone (contribution_amt st)) (\<lambda>base_amount.
     and_then (required_of contributor base_amount st) (\<lambda>required_amount.
     and_then (amount_in_token base tk amount st) (\<lambda>amount_to_transfer.
     and_then (take_contribution h contributor tk amount_to_transfer st) (\<lambda>st.
     let round = unwrap_or 0 (current_round st);
         already_paid = unwrap_or 0 (member_contributions st contributor) in
     and_then (sub128 required_amount already_paid) (\<lambda>remaining.
     if remaining < amount then fail ExceedsRemainingContribution
     else
       and_then (add128 already_paid amount) (\<lambda>new_total.
       let st = emit_contrib contributor round tk amount_to_transfer
             (st\<lparr>member_contributions := (member_contributions st)(contributor \<mapsto> new_total)\<rparr>) in
       and_then (sub128 required_amount new_total) (\<lambda>remaining_after.
       let st = (if 0 < remaining_after
             then emit_partial_contribution contributor round amount remaining_after st else st) in
       if new_total = required_amount
       then complete_contribution h mems paid contributor amount st
       else Inr st)))))))))"

section \<open>Skipping a round\<close>

definition request_skip ::
  "'l host \<Rightarrow> address \<Rightarrow> u32 \<Rightarrow> 'l rosca_state \<Rightarrow> (rosca_panic, 'l rosca_state) outcome" where
  "request_skip h member round st =
     and_then (check_not_paused st) (\<lambda>_.
     and_then (require_auth h member) (\<lambda>_.
     let now_round = unwrap_or 0 (current_round st) in
     if round < now_round then fail RoundDeadlinePassed
     else
       and_then (contribution_deadline st) (\<lambda>deadline.
       if round = now_round \<and> deadline < timestamp h then fail ContributionWindowClosed
       else
         and_then (entry RoscaNotInitialized (members st)) (\<lambda>mems.
         if member \<notin> set mems then fail NotAMember
         else if skips_round st round member then fail AlreadySkipped
         else
           and_then (if round = now_round
                     then and_then (entry RoscaNotInitialized (paid_members st)) (\<lambda>paid.
                       if member \<in> set paid then fail AlreadyContributed else Inr ())
                     else Inr ()) (\<lambda>_.
           and_then (entry RoscaNotInitialized (payout_order st)) (\<lambda>order.
           if order = [] then Inl DivisionByZero
           else
             let cycle_index = round div length order;
                 max_skips = unwrap_or 0 (max_skips_per_cycle st);
                 current_skips = unwrap_or 0 (member_skips st (member, cycle_index)) in
             if max_skips \<le> current_skips then fail SkipLimitReached
             else
               let fee = unwrap_or 0 (skip_fee st) in
               and_then (if 0 < fee
                         then and_then (entry UnwrapNone (base_token st)) (\<lambda>tk.
                           token_transfer h tk member (self_address h) fee st)
                         else Inr st) (\<lambda>st.
               and_then (add_u32 current_skips 1) (\<lambda>skips.
               Inr (emit_round_skip_requested member round fee
                 (st\<lparr>skip_requests := (skip_requests st)((member, round) \<mapsto> True),
                    member_skips := (member_skips st)((member, cycle_index) \<mapsto> skips)\<rparr>))))))))))"

section \<open>The end of a round\<close>

definition late_members ::
  "'l rosca_state \<Rightarrow> u32 \<Rightarrow> address list \<Rightarrow> address list \<Rightarrow> address list" where
  "late_members st round mems paid =
     filter (\<lambda>m. m \<notin> set paid \<and> m \<notin> set (unwrap_or [] (exited_members st)) \<and>
       \<not> skips_round st round m) mems"

definition close_round ::
  "'l host \<Rightarrow> 'l rosca_state \<Rightarrow> (rosca_panic, 'l rosca_state) outcome" where
  "close_round h st =
     and_then (check_not_paused st) (\<lambda>_.
     and_then (group_admin h st) (\<lambda>_.
     and_then (closing_deadline st) (\<lambda>deadline.
     if timestamp h \<le> deadline then fail DeadlineNotPassed
     else
       and_then (entry UnwrapNone (members st)) (\<lambda>mems.
       and_then (entry UnwrapNone (paid_members st)) (\<lambda>paid.
       and_then (entry UnwrapNone (current_round st)) (\<lambda>round.
       let late = late_members st round mems paid;
           st = emit_closed round late (st\<lparr>defaulters := Some late\<rparr>)
       in reset_round_state h round st))))))"

text \<open>
  The loop of \<open>finalize_round\<close> over the defaulters: the count of each goes up, and who reaches
  the limit is suspended.
\<close>

fun mark_defaulters ::
  "u32 \<Rightarrow> i128 \<Rightarrow> u32 \<Rightarrow> address list \<Rightarrow> (address \<rightharpoonup> u32) \<Rightarrow> address list \<Rightarrow> 'l rosca_state \<Rightarrow>
   (rosca_panic, (address \<rightharpoonup> u32) \<times> address list \<times> 'l rosca_state) outcome" where
  "mark_defaulters round penalty limit [] counts suspended st = Inr (counts, suspended, st)"
| "mark_defaulters round penalty limit (member # late) counts suspended st =
     and_then (add_u32 (unwrap_or 0 (counts member)) 1) (\<lambda>count.
     let counts = counts(member \<mapsto> count);
         st = emit_defaulted member round penalty count st in
     if limit \<le> count \<and> member \<notin> set suspended
     then mark_defaulters round penalty limit late counts (suspended @ [member])
            (emit_suspended member count st)
     else mark_defaulters round penalty limit late counts suspended st)"

definition finalize_round ::
  "'l host \<Rightarrow> 'l rosca_state \<Rightarrow> (rosca_panic, 'l rosca_state) outcome" where
  "finalize_round h st =
     and_then (check_not_paused st) (\<lambda>_.
     and_then (group_admin h st) (\<lambda>_.
     and_then (closing_deadline st) (\<lambda>deadline.
     if timestamp h \<le> deadline then fail DeadlineNotPassed
     else
       and_then (entry UnwrapNone (members st)) (\<lambda>mems.
       and_then (entry UnwrapNone (paid_members st)) (\<lambda>paid.
       let round = unwrap_or 0 (current_round st);
           penalty = unwrap_or 0 (penalty_amount st);
           counts = default_count st;
           suspended = unwrap_or [] (suspended_members st);
           late = late_members st round mems paid;
           st = emit_round_finalized round late (st\<lparr>defaulters := Some late\<rparr>) in
       and_then (complete_round_payout h paid st) (\<lambda>st.
       let limit = unwrap_or 3 (max_defaults st) in
       and_then (mark_defaulters round penalty limit late counts suspended st)
         (\<lambda>(counts, suspended, st).
       Inr (st\<lparr>default_count := counts, suspended_members := Some suspended\<rparr>))))))))"

section \<open>Insurance and rewards\<close>

definition contribute_to_insurance ::
  "'l host \<Rightarrow> address \<Rightarrow> address \<Rightarrow> i128 \<Rightarrow> 'l rosca_state \<Rightarrow> (rosca_panic, 'l rosca_state) outcome" where
  "contribute_to_insurance h contributor tk amount st =
     and_then (check_not_paused st) (\<lambda>_.
     and_then (require_auth h contributor) (\<lambda>_.
     if amount \<le> 0 then fail InvalidInsuranceContribution
     else
       and_then (entry RoscaNotInitialized (members st)) (\<lambda>mems.
       if contributor \<notin> set mems then fail NotAMember
       else if contributor \<in> set (unwrap_or [] (exited_members st)) then fail MemberHasExited
       else if tk \<notin> set (unwrap_or [] (approved_tokens st)) then fail TokenNotApproved
       else
         and_then (token_transfer h tk contributor (self_address h) amount st) (\<lambda>st.
         add_insurance contributor amount st))))"

definition deposit_rewards ::
  "'l host \<Rightarrow> address \<Rightarrow> i128 \<Rightarrow> 'l rosca_state \<Rightarrow> (rosca_panic, 'l rosca_state) outcome" where
  "deposit_rewards h depositor amount st =
     and_then (check_not_paused st) (\<lambda>_.
     and_then (require_auth h depositor) (\<lambda>_.
     and_then (entry UnwrapNone (base_token st)) (\<lambda>tk.
     and_then (token_transfer h tk depositor (self_address h) amount st) (\<lambda>st.
     and_then (add128 (unwrap_or 0 (reward_pool st)) amount) (\<lambda>pool.
     Inr (emit_rew_dep depositor amount (st\<lparr>reward_pool := Some pool\<rparr>)))))))"

fun sum_weights :: "u32 \<Rightarrow> (address \<times> u32) list \<Rightarrow> (rosca_panic, u32) outcome" where
  "sum_weights s [] = Inr s"
| "sum_weights s ((a, w) # ws) = and_then (add_u32 s w) (\<lambda>s. sum_weights s ws)"

text \<open>The part of the reward pool that stands for \<open>part\<close> of \<open>whole\<close>.\<close>

definition pool_share :: "i128 \<Rightarrow> u32 \<Rightarrow> u32 \<Rightarrow> (rosca_panic, i128) outcome" where
  "pool_share pool part whole =
     and_then (mul128 pool (int part)) (\<lambda>scaled. div128 scaled (int whole))"

definition reward_share ::
  "address \<Rightarrow> address list \<Rightarrow> i128 \<Rightarrow> 'l rosca_state \<Rightarrow> (rosca_panic, i128) outcome" where
  "reward_share member mems pool st =
     (case unwrap_or EqualShares (reward_dist_type st) of
        EqualShares \<Rightarrow> div128 pool (int (length mems))
      | Proportional \<Rightarrow>
          let total = unwrap_or 0 (total_participations st) in
          if total = 0 then Inr 0
          else pool_share pool (unwrap_or 0 (member_participation st member)) total
      | Weighted \<Rightarrow>
          and_then (sum_weights 0 (reward_weights st)) (\<lambda>total_weight.
          if total_weight = 0 then div128 pool (int (length mems))
          else pool_share pool (unwrap_or 0 (map_of (reward_weights st) member)) total_weight))"

definition get_claimable_reward :: "address \<Rightarrow> 'l rosca_state \<Rightarrow> (rosca_panic, i128) outcome" where
  "get_claimable_reward member st =
     and_then (entry RoscaNotInitialized (members st)) (\<lambda>mems.
     if member \<notin> set mems then Inr 0
     else
       let pool = unwrap_or 0 (reward_pool st) in
       if pool = 0 then Inr 0
       else
         and_then (reward_share member mems pool st) (\<lambda>share.
         sub128 share (unwrap_or 0 (claimed_rewards st member))))"

definition claim_rewards ::
  "'l host \<Rightarrow> address \<Rightarrow> 'l rosca_state \<Rightarrow> (rosca_panic, 'l rosca_state) outcome" where
  "claim_rewards h member st =
     and_then (check_not_paused st) (\<lambda>_.
     and_then (require_auth h member) (\<lambda>_.
     and_then (get_claimable_reward member st) (\<lambda>claimable.
     if claimable \<le> 0 then fail NoRewardsToClaim
     else
       and_then (add128 (unwrap_or 0 (claimed_rewards st member)) claimable) (\<lambda>total_claimed.
       let st = st\<lparr>claimed_rewards := (claimed_rewards st)(member \<mapsto> total_claimed)\<rparr> in
       and_then (entry UnwrapNone (base_token st)) (\<lambda>tk.
       and_then (token_transfer h tk (self_address h) member claimable st) (\<lambda>st.
       Inr (emit_rew_clm member claimable st)))))))"

section \<open>Reinvestment\<close>

definition set_reinvest_preference ::
  "'l host \<Rightarrow> address \<Rightarrow> bool \<Rightarrow> 'l rosca_state \<Rightarrow> (rosca_panic, 'l rosca_state) outcome" where
  "set_reinvest_preference h member reinvest st =
     and_then (check_not_paused st) (\<lambda>_.
     and_then (require_auth h member) (\<lambda>_.
     and_then (entry RoscaNotInitialized (members st)) (\<lambda>mems.
     if member \<notin> set mems then fail NotAMember
     else
       and_then (contribution_deadline st) (\<lambda>deadline.
       if deadline < timestamp h then fail ContributionWindowClosed
       else Inr (st\<lparr>reinvest_preference := (reinvest_preference st)(member \<mapsto> reinvest)\<rparr>)))))"

definition get_reinvest_preference :: "address \<Rightarrow> 'l rosca_state \<Rightarrow> bool" where
  "get_reinvest_preference member st = unwrap_or False (reinvest_preference st member)"

section \<open>Readers of a round\<close>

definition get_group_info :: "'l rosca_state \<Rightarrow> (rosca_panic, group_info) outcome" where
  "get_group_info st =
     and_then (entry UnwrapNone (members st)) (\<lambda>mems.
     and_then (entry UnwrapNone (payout_order st)) (\<lambda>order.
     let round = unwrap_or 0 (current_round st) in
     if order = [] then Inl DivisionByZero
     else
       let next_recipient = order ! (round mod length order) in
       and_then (entry UnwrapNone (base_token st)) (\<lambda>tk.
       Inr \<lparr>gi_members = mems, gi_contribution_amount = unwrap_or 0 (contribution_amt st),
          gi_token = tk, gi_current_round = round, gi_total_rounds = length order,
          gi_paid_members = unwrap_or [] (paid_members st), gi_next_recipient = next_recipient,
          gi_round_deadline = shown_deadline st\<rparr>)))"

definition get_member_status :: "address \<Rightarrow> 'l rosca_state \<Rightarrow> (rosca_panic, member_status) outcome" where
  "get_member_status member st =
     and_then (get_claimable_reward member st) (\<lambda>claimable.
     Inr \<lparr>ms_is_member = (member \<in> set (unwrap_or [] (members st))),
        ms_is_suspended = (member \<in> set (unwrap_or [] (suspended_members st))),
        ms_is_exited = (member \<in> set (unwrap_or [] (exited_members st))),
        ms_contributions_this_round = unwrap_or 0 (member_contributions st member),
        ms_has_paid_this_round = (member \<in> set (unwrap_or [] (paid_members st))),
        ms_default_count = unwrap_or 0 (default_count st member),
        ms_lifetime_contributions = unwrap_or 0 (member_collected st member),
        ms_claimable_rewards = claimable\<rparr>)"

definition get_member_contribution_status ::
  "address \<Rightarrow> 'l rosca_state \<Rightarrow> (rosca_panic, i128 \<times> i128) outcome" where
  "get_member_contribution_status member st =
     (let target = unwrap_or 0 (contribution_amt st);
          contributed = unwrap_or 0 (member_contributions st member) in
      and_then (sub128 target contributed) (\<lambda>remaining. Inr (contributed, remaining)))"

definition get_round_history :: "'l rosca_state \<Rightarrow> payout_record list" where
  "get_round_history st = unwrap_or [] (round_history st)"

definition get_state ::
  "'l rosca_state \<Rightarrow>
   (rosca_panic, u32 \<times> address list \<times> u64 \<times> payout_strategy \<times> address) outcome" where
  "get_state st =
     and_then (entry UnwrapNone (base_token st)) (\<lambda>tk.
     Inr (unwrap_or 0 (current_round st), unwrap_or [] (paid_members st), shown_deadline st,
       unwrap_or RoundRobin (strategy st), tk))"

definition emit_deadline_reminder ::
  "'l host \<Rightarrow> string \<Rightarrow> 'l rosca_state \<Rightarrow> (rosca_panic, 'l rosca_state) outcome" where
  "emit_deadline_reminder h interval st =
     and_then (check_not_paused st) (\<lambda>_.
     let deadline = shown_deadline st in
     and_then (entry RoscaNotInitialized (members st)) (\<lambda>mems.
     let paid = unwrap_or [] (paid_members st);
         exited = unwrap_or [] (exited_members st);
         time_remaining = (if timestamp h < deadline then deadline - timestamp h else 0);
         non_contributors = filter (\<lambda>m. m \<notin> set paid \<and> m \<notin> set exited) mems
     in Inr (emit_reminder (unwrap_or 0 (current_round st)) time_remaining non_contributors
          interval st)))"

text \<open>The loop of \<open>get_upcoming_deadlines\<close> over the rounds from \<open>i\<close> on.\<close>

fun upcoming_deadlines ::
  "u32 \<Rightarrow> u64 \<Rightarrow> u64 \<Rightarrow> nat \<Rightarrow> nat \<Rightarrow> (u32 \<rightharpoonup> u64) \<Rightarrow> (rosca_panic, u32 \<rightharpoonup> u64) outcome" where
  "upcoming_deadlines round first duration i 0 deadlines = Inr deadlines"
| "upcoming_deadlines round first duration i (Suc n) deadlines =
     and_then (add_u32 round i) (\<lambda>r.
     and_then (if i = 0 then Inr first
               else if 2 ^ 64 \<le> i * duration then Inl Overflow
               else add_u64 first (i * duration)) (\<lambda>deadline.
     upcoming_deadlines round first duration (Suc i) n (deadlines(r \<mapsto> deadline))))"

definition get_upcoming_deadlines ::
  "u32 \<Rightarrow> 'l rosca_state \<Rightarrow> (rosca_panic, u32 \<rightharpoonup> u64) outcome" where
  "get_upcoming_deadlines count st =
     (let duration = (if unwrap_or False (use_timestamp_schedule st)
                      then unwrap_or 0 (round_duration_seconds st)
                      else unwrap_or 0 (round_duration st)) in
      upcoming_deadlines (unwrap_or 0 (current_round st)) (shown_deadline st) duration 0 count
        Map.empty)"

definition get_next_deadline_timestamp :: "'l rosca_state \<Rightarrow> u64" where
  "get_next_deadline_timestamp st = unwrap_or 0 (round_deadline_timestamp st)"

definition get_savings_progress ::
  "address option \<Rightarrow> 'l rosca_state \<Rightarrow> i128 \<times> i128 \<times> i128 \<times> i128" where
  "get_savings_progress member st =
     (case member of
        None \<Rightarrow> (unwrap_or 0 (total_collected st), unwrap_or 0 (collective_goal st), 0, 0)
      | Some m \<Rightarrow> (unwrap_or 0 (total_collected st), unwrap_or 0 (collective_goal st),
          unwrap_or 0 (member_collected st m), unwrap_or 0 (member_goals st m)))"

end
