(* ===== verification/Rosca_Members.thy ===== *)
theory Rosca_Members
  imports Rosca_Rounds
begin

text \<open>
  The membership of the savings group (lib.rs): members added and removed by the admin, invites,
  penalties, the emergency exit, and the actions proposed to and approved by co-admins.
\<close>

section \<open>Members\<close>

definition between_rounds :: "'l rosca_state \<Rightarrow> bool" where
  "between_rounds st \<longleftrightarrow> unwrap_or [] (paid_members st) = []"

text \<open>A new member joins the group and the end of the payout order.\<close>

definition admit ::
  "address \<Rightarrow> 'l rosca_state \<Rightarrow> (rosca_panic, nat \<times> 'l rosca_state) outcome" where
  "admit new_member st =
     (if \<not> between_rounds st then fail CannotChangeMidRound
      else
        and_then (entry RoscaNotInitialized (members st)) (\<lambda>mems.
        if unwrap_or 50 (max_members st) \<le> length mems then fail GroupFull
        else if new_member \<in> set mems then fail AlreadyAMember
        else
          let mems = mems @ [new_member];
              st = st\<lparr>members := Some mems\<rparr> in
          and_then (entry PayoutOrderNotSet (payout_order st)) (\<lambda>order.
          Inr (length mems, st\<lparr>payout_order := Some (order @ [new_member])\<rparr>))))"

definition add_member ::
  "'l host \<Rightarrow> address \<Rightarrow> 'l rosca_state \<Rightarrow> (rosca_panic, 'l rosca_state) outcome" where
  "add_member h new_member st =
     and_then (check_not_paused st) (\<lambda>_.
     and_then (group_admin h st) (\<lambda>_.
     and_then (admit new_member st) (\<lambda>(count, st).
     Inr (emit_mem_add new_member count st))))"

definition remove_member ::
  "'l host \<Rightarrow> address \<Rightarrow> 'l rosca_state \<Rightarrow> (rosca_panic, 'l rosca_state) outcome" where
  "remove_member h member st =
     and_then (check_not_paused st) (\<lambda>_.
     and_then (group_admin h st) (\<lambda>_.
     if \<not> between_rounds st then fail CannotChangeMidRound
     else
       and_then (entry RoscaNotInitialized (members st)) (\<lambda>mems.
       if member \<notin> set mems then fail NotAMember
       else
         let new_members = filter (\<lambda>m. m \<noteq> member) mems;
             st = st\<lparr>members := Some new_members\<rparr> in
         and_then (entry PayoutOrderNotSet (payout_order st)) (\<lambda>order.
         Inr (emit_mem_rmv member (length new_members)
           (st\<lparr>payout_order := Some (filter (\<lambda>m. m \<noteq> member) order)\<rparr>))))))"

section \<open>Invites\<close>

definition generate_invite ::
  "'l host \<Rightarrow> address \<Rightarrow> 'l rosca_state \<Rightarrow> (rosca_panic, 'l rosca_state) outcome" where
  "generate_invite h invitee st =
     and_then (check_not_paused st) (\<lambda>_.
     and_then (group_admin h st) (\<lambda>_.
     and_then (entry RoscaNotInitialized (members st)) (\<lambda>mems.
     if invitee \<in> set mems then fail AlreadyAMember
     else
       let invitees = unwrap_or [] (temp_get h () (approved_invitees st));
           st = (if invitee \<notin> set invitees
                 then st\<lparr>approved_invitees :=
                   temp_extend_ttl h () ROSCA_TEMP_LIFETIME_THRESHOLD ROSCA_TEMP_BUMP_AMOUNT
                     (temp_set h () (invitees @ [invitee]) (approved_invitees st))\<rparr>
                 else st)
       in Inr (emit_invite_generated invitee (timestamp h) st))))"

definition join_with_invite ::
  "'l host \<Rightarrow> address \<Rightarrow> 'l rosca_state \<Rightarrow> (rosca_panic, 'l rosca_state) outcome" where
  "join_with_invite h invitee st =
     and_then (check_not_paused st) (\<lambda>_.
     and_then (require_auth h invitee) (\<lambda>_.
     let invitees = unwrap_or [] (temp_get h () (approved_invitees st)) in
     if invitee \<notin> set invitees then fail InviteNotFound
     else
       let st = st\<lparr>approved_invitees :=
             temp_set h () (filter (\<lambda>a. a \<noteq> invitee) invitees) (approved_invitees st)\<rparr> in
       and_then (admit invitee st) (\<lambda>(count, st).
       Inr (emit_mem_add invitee count (emit_invite_redeemed invitee st)))))"

section \<open>Penalties\<close>

definition suspend_at_limit :: "address \<Rightarrow> u32 \<Rightarrow> 'l rosca_state \<Rightarrow> 'l rosca_state" where
  "suspend_at_limit member count st =
     (if unwrap_or 3 (max_defaults st) \<le> count then
        let suspended = unwrap_or [] (suspended_members st) in
        if member \<notin> set suspended
        then emit_suspended member count (st\<lparr>suspended_members := Some (suspended @ [member])\<rparr>)
        else st
      else st)"

definition penalise_defaulter ::
  "'l host \<Rightarrow> address \<Rightarrow> 'l rosca_state \<Rightarrow> (rosca_panic, 'l rosca_state) outcome" where
  "penalise_defaulter h member st =
     and_then (check_not_paused st) (\<lambda>_.
     and_then (group_admin h st) (\<lambda>_.
     let penalty = unwrap_or 0 (penalty_amount st) in
     if penalty = 0 then fail PenaltyDisabled
     else if member \<notin> set (unwrap_or [] (defaulters st)) then fail NotADefaulter
     else
       and_then (entry UnwrapNone (base_token st)) (\<lambda>tk.
       and_then (require_auth h member) (\<lambda>_.
       and_then (token_transfer h tk member (self_address h) penalty st) (\<lambda>st.
       and_then (add_u32 (unwrap_or 0 (default_count st member)) 1) (\<lambda>count.
       let st = st\<lparr>default_count := (default_count st)(member \<mapsto> count)\<rparr> in
       and_then (entry UnwrapNone (current_round st)) (\<lambda>round.
       Inr (suspend_at_limit member count (emit_defaulted member round penalty count st)))))))))"

section \<open>Emergency exit\<close>

definition request_emergency_exit ::
  "'l host \<Rightarrow> address \<Rightarrow> 'l rosca_state \<Rightarrow> (rosca_panic, 'l rosca_state) outcome" where
  "request_emergency_exit h member st =
     and_then (check_not_paused st) (\<lambda>_.
     and_then (require_auth h member) (\<lambda>_.
     if member \<in> set (unwrap_or [] (exited_members st)) then fail MemberAlreadyExited
     else
       and_then (entry RoscaNotInitialized (members st)) (\<lambda>mems.
       if member \<notin> set mems then fail NotAMember
       else if \<not> between_rounds st then fail ExitNotAllowedMidRound
       else
         let requests = unwrap_or Map.empty (temp_get h () (exit_requests st)) in
         if requests member \<noteq> None then fail ExitRequestPending
         else
           let round = unwrap_or 0 (current_round st);
               request = \<lparr>x_member = member, x_rounds_contributed = round, x_refund_amount = 0,
                 x_approved = False\<rparr>
           in Inr (emit_exit_req member round
                (st\<lparr>exit_requests :=
                   temp_extend_ttl h () ROSCA_TEMP_LIFETIME_THRESHOLD ROSCA_TEMP_BUMP_AMOUNT
                     (temp_set h () (requests(member \<mapsto> request)) (exit_requests st))\<rparr>)))))"

text \<open>The sum of the payouts a member has received.\<close>

fun received_payouts ::
  "address \<Rightarrow> payout_record list \<Rightarrow> i128 \<Rightarrow> (rosca_panic, i128) outcome" where
  "received_payouts member [] acc = Inr acc"
| "received_payouts member (record # history) acc =
     (if pr_recipient record = member
      then and_then (add128 acc (pr_amount record)) (\<lambda>acc. received_payouts member history acc)
      else received_payouts member history acc)"

definition exit_refund ::
  "address \<Rightarrow> u32 \<Rightarrow> 'l rosca_state \<Rightarrow> (rosca_panic, i128) outcome" where
  "exit_refund member rounds_contributed st =
     and_then (mul128 (unwrap_or 0 (contribution_amt st)) (int rounds_contributed))
       (\<lambda>contributed_total.
     and_then (received_payouts member (unwrap_or [] (round_history st)) 0)
       (\<lambda>received_payout.
     and_then (mul128 contributed_total (int (unwrap_or 0 (exit_penalty_bps st)))) (\<lambda>scaled.
     and_then (div128 scaled 10000) (\<lambda>penalty.
     and_then (sub128 contributed_total received_payout) (\<lambda>less_payout.
     and_then (sub128 less_payout penalty) (\<lambda>net.
     Inr (if 0 < net then net else 0)))))))"

definition approve_exit ::
  "'l host \<Rightarrow> address \<Rightarrow> 'l rosca_state \<Rightarrow> (rosca_panic, 'l rosca_state) outcome" where
  "approve_exit h member st =
     and_then (check_not_paused st) (\<lambda>_.
     and_then (group_admin h st) (\<lambda>_.
     let requests = unwrap_or Map.empty (temp_get h () (exit_requests st)) in
     and_then (expect (Code NoExitRequestFound) (requests member)) (\<lambda>request.
     and_then (exit_refund member (x_rounds_contributed request) st) (\<lambda>refund_amount.
     and_then (if 0 < refund_amount
               then and_then (entry UnwrapNone (base_token st)) (\<lambda>tk.
                 token_transfer h tk (self_address h) member refund_amount st)
               else Inr st) (\<lambda>st.
     let mems = filter (\<lambda>m. m \<noteq> member) (unwrap_or [] (members st));
         exited = unwrap_or [] (exited_members st) @ [member]
     in Inr (emit_exit_ok member refund_amount
          (st\<lparr>members := Some mems, exited_members := Some exited,
             exit_requests := temp_set h () (requests(member := None)) (exit_requests st)\<rparr>)))))))"

definition reject_exit ::
  "'l host \<Rightarrow> address \<Rightarrow> 'l rosca_state \<Rightarrow> (rosca_panic, 'l rosca_state) outcome" where
  "reject_exit h member st =
     and_then (check_not_paused st) (\<lambda>_.
     and_then (group_admin h st) (\<lambda>_.
     let requests = unwrap_or Map.empty (temp_get h () (exit_requests st)) in
     if requests member = None then fail NoExitRequestFound
     else Inr (emit_exit_no member
            (st\<lparr>exit_requests :=
               temp_set h () (requests(member := None)) (exit_requests st)\<rparr>))))"

definition get_exit_requests :: "'l host \<Rightarrow> 'l rosca_state \<Rightarrow> address \<rightharpoonup> exit_request" where
  "get_exit_requests h st = unwrap_or Map.empty (temp_get h () (exit_requests st))"

definition get_exited_members :: "'l rosca_state \<Rightarrow> address list" where
  "get_exited_members st = unwrap_or [] (exited_members st)"

section \<open>Co-admins\<close>

definition init_multisig ::
  "'l host \<Rightarrow> address list \<Rightarrow> u32 \<Rightarrow> 'l rosca_state \<Rightarrow> (rosca_panic, 'l rosca_state) outcome" where
  "init_multisig h admins threshold st =
     and_then (check_not_paused st) (\<lambda>_.
     and_then (group_admin h st) (\<lambda>_.
     if threshold < 1 \<or> length admins + 1 < threshold then panic InvalidMultisigThreshold
     else Inr (st\<lparr>co_admins :=
              temp_extend_ttl h () ROSCA_TEMP_LIFETIME_THRESHOLD ROSCA_TEMP_BUMP_AMOUNT
                (temp_set h () admins (co_admins st)),
            multisig_threshold :=
              temp_extend_ttl h () ROSCA_TEMP_LIFETIME_THRESHOLD ROSCA_TEMP_BUMP_AMOUNT
                (temp_set h () threshold (multisig_threshold st))\<rparr>)))"

text \<open>The action of a code: 0 removes a member, 1 penalises one, 2 changes the fee.\<close>

definition run_admin_action ::
  "'l host \<Rightarrow> u32 \<Rightarrow> address option \<Rightarrow> i128 option \<Rightarrow> 'l rosca_state \<Rightarrow>
   (rosca_panic, 'l rosca_state) outcome" where
  "run_admin_action h action_type target_member payload st =
     (if action_type = 0 then
        (case target_member of None \<Rightarrow> Inr st | Some member \<Rightarrow> remove_member h member st)
      else if action_type = 1 then
        (case target_member of None \<Rightarrow> Inr st | Some member \<Rightarrow> penalise_defaulter h member st)
      else if action_type = 2 then
        (case payload of None \<Rightarrow> Inr st | Some bps \<Rightarrow> rosca_update_fee h (as_u32 bps) st)
      else panic InvalidActionType)"

definition action_name :: "u32 \<Rightarrow> string" where
  "action_name action_type =
     (if action_type = 0 then ''RemoveMember'' else if action_type = 1 then ''PenaliseDefaulter''
      else if action_type = 2 then ''UpdateFee'' else ''Unknown'')"

definition propose_admin_action ::
  "'l host \<Rightarrow> u32 \<Rightarrow> address option \<Rightarrow> i128 option \<Rightarrow> 'l rosca_state \<Rightarrow>
   (rosca_panic, 'l rosca_state) outcome" where
  "propose_admin_action h action_type target_member payload st =
     and_then (check_not_paused st) (\<lambda>_.
     and_then (group_admin h st) (\<lambda>adm.
     if unwrap_or 1 (temp_get h () (multisig_threshold st)) = 1
     then run_admin_action h action_type target_member payload st
     else Inr (emit_admin_action_proposed 0 (action_name action_type) adm st)))"

definition approve_admin_action ::
  "'l host \<Rightarrow> address \<Rightarrow> u32 \<Rightarrow> address option \<Rightarrow> i128 option \<Rightarrow> 'l rosca_state \<Rightarrow>
   (rosca_panic, 'l rosca_state) outcome" where
  "approve_admin_action h approver action_type target_member payload st =
     and_then (check_not_paused st) (\<lambda>_.
     and_then (require_auth h approver) (\<lambda>_.
     let admins = unwrap_or [] (temp_get h () (co_admins st)) in
     and_then (entry AdminNotSet (admin st)) (\<lambda>adm.
     if approver \<notin> set admins \<and> approver \<noteq> adm then fail NotACoAdmin
     else
       and_then (run_admin_action h action_type target_member payload st) (\<lambda>st.
       Inr (emit_admin_action_executed 0 (action_name action_type) st)))))"

definition get_multisig_config :: "'l host \<Rightarrow> 'l rosca_state \<Rightarrow> address list \<times> u32" where
  "get_multisig_config h st =
     (unwrap_or [] (temp_get h () (co_admins st)),
      unwrap_or 1 (temp_get h () (multisig_threshold st)))"

end
