(* ===== verification/Rosca_Votes.thy ===== *)
theory Rosca_Votes
  imports Rosca_Members "HOL-Library.AList"
begin

text \<open>
  Governance of the savings group (lib.rs, internals.rs): proposals, votes with weights and
  delegations, the execution of a proposal that meets its quorum, and its effects.
\<close>

section \<open>Proposals\<close>

text \<open>The quorum in basis points: of the type of the proposal, or the general percentage.\<close>

definition quorum_for :: "proposal_type \<Rightarrow> 'l rosca_state \<Rightarrow> (rosca_panic, u32) outcome" where
  "quorum_for kind st =
     (case quorum_config st kind of
        Some q \<Rightarrow> Inr q
      | None \<Rightarrow>
          let global_q = unwrap_or 51 (quorum_percentage st) in
          if global_q * 100 < 2 ^ 32 then Inr (global_q * 100) else Inl Overflow)"

definition create_proposal ::
  "'l host \<Rightarrow> address \<Rightarrow> proposal_type \<Rightarrow> string \<Rightarrow> address \<Rightarrow> u64 \<Rightarrow> i128 option \<Rightarrow>
   'l rosca_state \<Rightarrow> (rosca_panic, 'l rosca_state) outcome" where
  "create_proposal h creator kind description target voting_duration data st =
     and_then (check_not_paused st) (\<lambda>_.
     and_then (require_auth h creator) (\<lambda>_.
     and_then (entry RoscaNotInitialized (members st)) (\<lambda>mems.
     if creator \<notin> set mems then fail OnlyMembersAllowed
     else
       and_then (add_u64 (timestamp h) voting_duration) (\<lambda>deadline.
       let proposal_id = unwrap_or 0 (proposal_counter st) in
       and_then (add_u32 proposal_id 1) (\<lambda>counter.
       and_then (quorum_for kind st) (\<lambda>required_quorum.
       let prop = \<lparr>p_id = proposal_id, p_type = kind, p_creator = creator,
             p_description = description, p_target_member = target, p_votes_for = 0,
             p_votes_against = 0, p_created_at = timestamp h, p_deadline = deadline,
             p_status = Pending, p_execution_data = data, p_required_quorum = required_quorum\<rparr>
       in Inr (emit_prop_new proposal_id creator target (timestamp h) deadline
            (st\<lparr>proposals := (proposals st)(proposal_id \<mapsto> prop),
               proposal_votes := (proposal_votes st)(proposal_id \<mapsto> Map.empty),
               proposal_counter := Some counter\<rparr>))))))))"

definition get_proposal :: "u32 \<Rightarrow> 'l rosca_state \<Rightarrow> proposal option" where
  "get_proposal proposal_id st = proposals st proposal_id"

definition get_proposal_counter :: "'l rosca_state \<Rightarrow> u32" where
  "get_proposal_counter st = unwrap_or 0 (proposal_counter st)"

definition get_member_vote :: "u32 \<Rightarrow> address \<Rightarrow> 'l rosca_state \<Rightarrow> bool" where
  "get_member_vote proposal_id member st =
     (case proposal_votes st proposal_id of
        None \<Rightarrow> False
      | Some votes \<Rightarrow> unwrap_or False (votes member))"

section \<open>Delegations\<close>

definition delegations :: "'l host \<Rightarrow> 'l rosca_state \<Rightarrow> (address \<times> address) list" where
  "delegations h st = unwrap_or [] (temp_get h () (vote_delegations st))"

definition delegate_vote ::
  "'l host \<Rightarrow> address \<Rightarrow> address \<Rightarrow> 'l rosca_state \<Rightarrow> (rosca_panic, 'l rosca_state) outcome" where
  "delegate_vote h delegator delegate st =
     and_then (check_not_paused st) (\<lambda>_.
     and_then (require_auth h delegator) (\<lambda>_.
     and_then (entry RoscaNotInitialized (members st)) (\<lambda>mems.
     if delegator \<notin> set mems then fail NotAMember
     else if delegate \<notin> set mems then fail NotAMember
     else if map_of (delegations h st) delegate \<noteq> None then fail CannotSubDelegate
     else Inr (emit_vote_delegated delegator delegate
            (st\<lparr>vote_delegations :=
               temp_extend_ttl h () ROSCA_TEMP_LIFETIME_THRESHOLD ROSCA_TEMP_BUMP_AMOUNT
                 (temp_set h () (AList.update delegator delegate (delegations h st))
                   (vote_delegations st))\<rparr>)))))"

definition revoke_delegation ::
  "'l host \<Rightarrow> address \<Rightarrow> 'l rosca_state \<Rightarrow> (rosca_panic, 'l rosca_state) outcome" where
  "revoke_delegation h delegator st =
     and_then (check_not_paused st) (\<lambda>_.
     and_then (require_auth h delegator) (\<lambda>_.
     if map_of (delegations h st) delegator = None then fail NoDelegationFound
     else Inr (emit_delegation_revoked delegator
            (st\<lparr>vote_delegations :=
               temp_set h () (AList.delete delegator (delegations h st))
                 (vote_delegations st)\<rparr>))))"

definition get_vote_delegation :: "'l host \<Rightarrow> address \<Rightarrow> 'l rosca_state \<Rightarrow> address option" where
  "get_vote_delegation h delegator st = map_of (delegations h st) delegator"

section \<open>Votes\<close>

definition get_member_voting_weight :: "address \<Rightarrow> 'l rosca_state \<Rightarrow> i128" where
  "get_member_voting_weight member st =
     (case unwrap_or EqualVotes (voting_mode st) of
        EqualVotes \<Rightarrow> 1
      | WeightedByContributions \<Rightarrow> unwrap_or 0 (member_contributions st member))"

text \<open>
  The loop over the delegations: the weight of the delegators of \<open>voter\<close> who have not voted, and
  their votes.
\<close>

fun count_delegators ::
  "address \<Rightarrow> bool \<Rightarrow> (address \<times> address) list \<Rightarrow> (address \<rightharpoonup> bool) \<Rightarrow> i128 \<Rightarrow> 'l rosca_state \<Rightarrow>
   (rosca_panic, (address \<rightharpoonup> bool) \<times> i128) outcome" where
  "count_delegators voter vote_for [] votes weight st = Inr (votes, weight)"
| "count_delegators voter vote_for ((delegator, delegate) # ds) votes weight st =
     (if delegate = voter \<and> votes delegator = None
      then and_then (add128 weight (get_member_voting_weight delegator st)) (\<lambda>weight.
        count_delegators voter vote_for ds (votes(delegator \<mapsto> vote_for)) weight st)
      else count_delegators voter vote_for ds votes weight st)"

definition add_votes :: "bool \<Rightarrow> i128 \<Rightarrow> proposal \<Rightarrow> (rosca_panic, proposal) outcome" where
  "add_votes vote_for weight prop =
     (if vote_for
      then and_then (add128 (p_votes_for prop) weight) (\<lambda>n. Inr (prop\<lparr>p_votes_for := n\<rparr>))
      else and_then (add128 (p_votes_against prop) weight) (\<lambda>n.
        Inr (prop\<lparr>p_votes_against := n\<rparr>)))"

definition vote_on_proposal ::
  "'l host \<Rightarrow> address \<Rightarrow> u32 \<Rightarrow> bool \<Rightarrow> 'l rosca_state \<Rightarrow> (rosca_panic, 'l rosca_state) outcome" where
  "vote_on_proposal h voter proposal_id vote_for st =
     and_then (check_not_paused st) (\<lambda>_.
     and_then (require_auth h voter) (\<lambda>_.
     and_then (entry RoscaNotInitialized (members st)) (\<lambda>mems.
     if voter \<notin> set mems then fail OnlyMembersAllowed
     else if map_of (delegations h st) voter \<noteq> None then fail CannotVoteWithActiveDelegation
     else
       and_then (expect (Code ProposalNotFound) (proposals st proposal_id)) (\<lambda>prop.
       if p_deadline prop < timestamp h then fail VotingDeadlinePassed
       else if p_status prop \<noteq> Pending then fail ProposalNotPending
       else
         let votes = unwrap_or Map.empty (proposal_votes st proposal_id) in
         if votes voter \<noteq> None then fail AlreadyVoted
         else
           let votes = votes(voter \<mapsto> vote_for);
               mode = unwrap_or EqualVotes (voting_mode st);
               voter_weight = get_member_voting_weight voter st in
           if voter_weight = 0 \<and> mode = WeightedByContributions then fail InsufficientWeight
           else
             and_then (add_votes vote_for voter_weight prop) (\<lambda>prop.
             and_then (count_delegators voter vote_for (delegations h st) votes 0 st)
               (\<lambda>(votes, delegated).
             and_then (add_votes vote_for delegated prop) (\<lambda>prop.
             let st = st\<lparr>proposals := (proposals st)(proposal_id \<mapsto> prop),
                   proposal_votes := (proposal_votes st)(proposal_id \<mapsto> votes)\<rparr>
             in Inr (if mode = WeightedByContributions
                     then emit_weighted_vote_cast voter proposal_id voter_weight st
                     else emit_voted proposal_id voter vote_for st))))))))"

section \<open>The effects of a proposal\<close>

definition execute_penalty_appeal :: "address \<Rightarrow> 'l rosca_state \<Rightarrow> 'l rosca_state" where
  "execute_penalty_appeal member st =
     emit_appeal_ok member
       (st\<lparr>default_count := (default_count st)(member \<mapsto> 0),
          suspended_members :=
            Some (filter (\<lambda>m. m \<noteq> member) (unwrap_or [] (suspended_members st)))\<rparr>)"

definition execute_rule_change :: "i128 option \<Rightarrow> 'l rosca_state \<Rightarrow> 'l rosca_state" where
  "execute_rule_change new_quorum st =
     (case new_quorum of
        None \<Rightarrow> st
      | Some quorum \<Rightarrow>
          if 1 \<le> quorum \<and> quorum \<le> 100
          then emit_rule_upd quorum (st\<lparr>quorum_percentage := Some (as_u32 quorum)\<rparr>)
          else st)"

definition execute_max_members_update :: "i128 option \<Rightarrow> 'l rosca_state \<Rightarrow> 'l rosca_state" where
  "execute_max_members_update new_max_val st =
     (case new_max_val of
        None \<Rightarrow> st
      | Some new_max_i128 \<Rightarrow>
          let new_max = as_u32 new_max_i128 in
          if 1 \<le> new_max \<and> new_max \<le> 100 then
            if length (unwrap_or [] (members st)) \<le> new_max then
              let old_max = unwrap_or 50 (max_members st) in
              emit_max_members_upd old_max new_max (st\<lparr>max_members := Some new_max\<rparr>)
            else st
          else st)"

definition execute_member_removal :: "address \<Rightarrow> 'l rosca_state \<Rightarrow> 'l rosca_state" where
  "execute_member_removal member st =
     emit_mem_del member
       (st\<lparr>members := Some (filter (\<lambda>m. m \<noteq> member) (unwrap_or [] (members st))),
          payout_order := Some (filter (\<lambda>m. m \<noteq> member) (unwrap_or [] (payout_order st)))\<rparr>)"

definition apply_proposal :: "proposal \<Rightarrow> 'l rosca_state \<Rightarrow> 'l rosca_state" where
  "apply_proposal prop st =
     (case p_type prop of
        PenaltyAppeal \<Rightarrow> execute_penalty_appeal (p_target_member prop) st
      | RuleChange \<Rightarrow> execute_rule_change (p_execution_data prop) st
      | MemberRemoval \<Rightarrow> execute_member_removal (p_target_member prop) st
      | MaxMembersUpdate \<Rightarrow> execute_max_members_update (p_execution_data prop) st)"

section \<open>Execution\<close>

fun sum_contributions ::
  "(address \<rightharpoonup> i128) \<Rightarrow> address list \<Rightarrow> i128 \<Rightarrow> (rosca_panic, i128) outcome" where
  "sum_contributions contributions [] acc = Inr acc"
| "sum_contributions contributions (member # mems) acc =
     and_then (add128 acc (unwrap_or 0 (contributions member))) (\<lambda>acc.
     sum_contributions contributions mems acc)"

definition possible_votes ::
  "address list \<Rightarrow> 'l rosca_state \<Rightarrow> (rosca_panic, i128) outcome" where
  "possible_votes mems st =
     (case unwrap_or EqualVotes (voting_mode st) of
        EqualVotes \<Rightarrow> Inr (int (length mems))
      | WeightedByContributions \<Rightarrow> sum_contributions (member_contributions st) mems 0)"

text \<open>The quorum of the possible votes, rounded up.\<close>

definition votes_needed :: "i128 \<Rightarrow> u32 \<Rightarrow> (rosca_panic, i128) outcome" where
  "votes_needed possible quorum =
     and_then (mul128 possible (int quorum)) (\<lambda>scaled.
     and_then (add128 scaled 9999) (\<lambda>raised. div128 raised 10000))"

definition reject_proposal ::
  "u32 \<Rightarrow> proposal \<Rightarrow> string \<Rightarrow> i128 \<Rightarrow> i128 \<Rightarrow> 'l rosca_state \<Rightarrow> 'l rosca_state" where
  "reject_proposal proposal_id prop reason a b st =
     emit_prop_rej proposal_id reason a b
       (st\<lparr>proposals := (proposals st)(proposal_id \<mapsto> prop\<lparr>p_status := Rejected\<rparr>)\<rparr>)"

definition execute_proposal ::
  "'l host \<Rightarrow> u32 \<Rightarrow> 'l rosca_state \<Rightarrow> (rosca_panic, 'l rosca_state) outcome" where
  "execute_proposal h proposal_id st =
     and_then (check_not_paused st) (\<lambda>_.
     and_then (entry RoscaNotInitialized (members st)) (\<lambda>mems.
     and_then (expect (Code ProposalNotFound) (proposals st proposal_id)) (\<lambda>prop.
     if p_status prop \<noteq> Pending then fail ProposalNotPending
     else if timestamp h \<le> p_deadline prop then fail VotingNotEnded
     else
       and_then (add128 (p_votes_for prop) (p_votes_against prop)) (\<lambda>total_votes.
       and_then (possible_votes mems st) (\<lambda>total_possible_votes.
       and_then (votes_needed total_possible_votes (p_required_quorum prop)) (\<lambda>required_votes.
       if total_votes < required_votes
       then Inr (reject_proposal proposal_id prop ''insufficient_quorum'' total_votes
              required_votes st)
       else if p_votes_for prop \<le> p_votes_against prop
       then Inr (reject_proposal proposal_id prop ''votes_failed'' (p_votes_for prop)
              (p_votes_against prop) st)
       else
         let st = apply_proposal prop st;
             st = st\<lparr>proposals := (proposals st)(proposal_id \<mapsto> prop\<lparr>p_status := Executed\<rparr>)\<rparr>
         in Inr (emit_prop_exec proposal_id (proposal_code (p_type prop))
              (p_target_member prop) st)))))))"

end
