(* ===== verification/Rosca_Machine.thy ===== *)
theory Rosca_Machine
  imports Rosca_Votes
begin

text \<open>
  The savings group as a machine: its state-changing entry points as one operation type, and what
  each of them leaves alone.  \<open>outside_round\<close> erases the token ledger, the events and the
  bookkeeping of the rounds; the operations on rounds do not change what is left.
\<close>

section \<open>What a round does not touch\<close>

definition outside_round :: "'l rosca_state \<Rightarrow> 'l rosca_state" where
  "outside_round st = st\<lparr>ledger := undefined, events := [], current_round := None, paid_members := None,
     round_deadline := None, round_deadline_timestamp := None,
     member_contributions := Map.empty, defaulters := None, default_count := Map.empty,
     suspended_members := None, exited_members := None, skip_requests := Map.empty,
     member_skips := Map.empty, insurance_pool := None, total_collected := None,
     member_collected := Map.empty, milestones_reached := None, round_history := None,
     reinvest_preference := Map.empty, reward_pool := None, reward_dist_type := None,
     reward_weights := [], total_participations := None, member_participation := Map.empty,
     claimed_rewards := Map.empty\<rparr>"

lemma outside_round_updates [simp]:
  "outside_round (st\<lparr>ledger := x1\<rparr>) = outside_round st"
  "outside_round (st\<lparr>events := x2\<rparr>) = outside_round st"
  "outside_round (st\<lparr>current_round := x3\<rparr>) = outside_round st"
  "outside_round (st\<lparr>paid_members := x4\<rparr>) = outside_round st"
  "outside_round (st\<lparr>round_deadline := x5\<rparr>) = outside_round st"
  "outside_round (st\<lparr>round_deadline_timestamp := x6\<rparr>) = outside_round st"
  "outside_round (st\<lparr>member_contributions := x7\<rparr>) = outside_round st"
  "outside_round (st\<lparr>defaulters := x8\<rparr>) = outside_round st"
  "outside_round (st\<lparr>default_count := x9\<rparr>) = outside_round st"
  "outside_round (st\<lparr>suspended_members := x10\<rparr>) = outside_round st"
  "outside_round (st\<lparr>exited_members := x11\<rparr>) = outside_round st"
  "outside_round (st\<lparr>skip_requests := x12\<rparr>) = outside_round st"
  "outside_round (st\<lparr>member_skips := x13\<rparr>) = outside_round st"
  "outside_round (st\<lparr>insurance_pool := x14\<rparr>) = outside_round st"
  "outside_round (st\<lparr>total_collected := x15\<rparr>) = outside_round st"
  "outside_round (st\<lparr>member_collected := x16\<rparr>) = outside_round st"
  "outside_round (st\<lparr>milestones_reached := x17\<rparr>) = outside_round st"
  "outside_round (st\<lparr>round_history := x18\<rparr>) = outside_round st"
  "outside_round (st\<lparr>reinvest_preference := x19\<rparr>) = outside_round st"
  "outside_round (st\<lparr>reward_pool := x20\<rparr>) = outside_round st"
  "outside_round (st\<lparr>reward_dist_type := x21\<rparr>) = outside_round st"
  "outside_round (st\<lparr>reward_weights := x22\<rparr>) = outside_round st"
  "outside_round (st\<lparr>total_participations := x23\<rparr>) = outside_round st"
  "outside_round (st\<lparr>member_participation := x24\<rparr>) = outside_round st"
  "outside_round (st\<lparr>claimed_rewards := x25\<rparr>) = outside_round st"
  by (simp_all add: outside_round_def)

lemma outside_round_publish [simp]: "outside_round (publish ev st) = outside_round st"
  by (simp add: publish_def)

lemma outside_round_same:
  assumes "outside_round st' = outside_round st"
  shows "admin st' = admin st"
    "contract_version st' = contract_version st"
    "paused st' = paused st"
    "pause_reason st' = pause_reason st"
    "proposed_admin st' = proposed_admin st"
    "is_paused_flag st' = is_paused_flag st"
    "pause_timestamp st' = pause_timestamp st"
    "members st' = members st"
    "payout_order st' = payout_order st"
    "strategy st' = strategy st"
    "contribution_amt st' = contribution_amt st"
    "base_token st' = base_token st"
    "approved_tokens st' = approved_tokens st"
    "exchange_rates st' = exchange_rates st"
    "token_limits st' = token_limits st"
    "exit_penalty_bps st' = exit_penalty_bps st"
    "penalty_amount st' = penalty_amount st"
    "fee_bps st' = fee_bps st"
    "fee_recipient st' = fee_recipient st"
    "max_defaults st' = max_defaults st"
    "max_members st' = max_members st"
    "member_tiers st' = member_tiers st"
    "insurance_contribution_bps st' = insurance_contribution_bps st"
    "skip_fee st' = skip_fee st"
    "max_skips_per_cycle st' = max_skips_per_cycle st"
    "collective_goal st' = collective_goal st"
    "member_goals st' = member_goals st"
    "round_duration st' = round_duration st"
    "use_timestamp_schedule st' = use_timestamp_schedule st"
    "round_duration_seconds st' = round_duration_seconds st"
    "voting_mode st' = voting_mode st"
    "voting_deadline st' = voting_deadline st"
    "quorum_percentage st' = quorum_percentage st"
    "quorum_config st' = quorum_config st"
    "proposal_counter st' = proposal_counter st"
    "proposals st' = proposals st"
    "proposal_votes st' = proposal_votes st"
    "vote_delegations st' = vote_delegations st"
    "exit_requests st' = exit_requests st"
    "auto_close_enabled st' = auto_close_enabled st"
    "approved_invitees st' = approved_invitees st"
    "co_admins st' = co_admins st"
    "multisig_threshold st' = multisig_threshold st"
proof -
  have same: "\<And>f. f (outside_round st') = f (outside_round st)" using assms by simp
  show "admin st' = admin st" using same [of admin] by (simp add: outside_round_def)
  show "contract_version st' = contract_version st" using same [of contract_version] by (simp add: outside_round_def)
  show "paused st' = paused st" using same [of paused] by (simp add: outside_round_def)
  show "pause_reason st' = pause_reason st" using same [of pause_reason] by (simp add: outside_round_def)
  show "proposed_admin st' = proposed_admin st" using same [of proposed_admin] by (simp add: outside_round_def)
  show "is_paused_flag st' = is_paused_flag st" using same [of is_paused_flag] by (simp add: outside_round_def)
  show "pause_timestamp st' = pause_timestamp st" using same [of pause_timestamp] by (simp add: outside_round_def)
  show "members st' = members st" using same [of members] by (simp add: outside_round_def)
  show "payout_order st' = payout_order st" using same [of payout_order] by (simp add: outside_round_def)
  show "strategy st' = strategy st" using same [of strategy] by (simp add: outside_round_def)
  show "contribution_amt st' = contribution_amt st" using same [of contribution_amt] by (simp add: outside_round_def)
  show "base_token st' = base_token st" using same [of base_token] by (simp add: outside_round_def)
  show "approved_tokens st' = approved_tokens st" using same [of approved_tokens] by (simp add: outside_round_def)
  show "exchange_rates st' = exchange_rates st" using same [of exchange_rates] by (simp add: outside_round_def)
  show "token_limits st' = token_limits st" using same [of token_limits] by (simp add: outside_round_def)
  show "exit_penalty_bps st' = exit_penalty_bps st" using same [of exit_penalty_bps] by (simp add: outside_round_def)
  show "penalty_amount st' = penalty_amount st" using same [of penalty_amount] by (simp add: outside_round_def)
  show "fee_bps st' = fee_bps st" using same [of fee_bps] by (simp add: outside_round_def)
  show "fee_recipient st' = fee_recipient st" using same [of fee_recipient] by (simp add: outside_round_def)
  show "max_defaults st' = max_defaults st" using same [of max_defaults] by (simp add: outside_round_def)
  show "max_members st' = max_members st" using same [of max_members] by (simp add: outside_round_def)
  show "member_tiers st' = member_tiers st" using same [of member_tiers] by (simp add: outside_round_def)
  show "insurance_contribution_bps st' = insurance_contribution_bps st" using same [of insurance_contribution_bps] by (simp add: outside_round_def)
  show "skip_fee st' = skip_fee st" using same [of skip_fee] by (simp add: outside_round_def)
  show "max_skips_per_cycle st' = max_skips_per_cycle st" using same [of max_skips_per_cycle] by (simp add: outside_round_def)
  show "collective_goal st' = collective_goal st" using same [of collective_goal] by (simp add: outside_round_def)
  show "member_goals st' = member_goals st" using same [of member_goals] by (simp add: outside_round_def)
  show "round_duration st' = round_duration st" using same [of round_duration] by (simp add: outside_round_def)
  show "use_timestamp_schedule st' = use_timestamp_schedule st" using same [of use_timestamp_schedule] by (simp add: outside_round_def)
  show "round_duration_seconds st' = round_duration_seconds st" using same [of round_duration_seconds] by (simp add: outside_round_def)
  show "voting_mode st' = voting_mode st" using same [of voting_mode] by (simp add: outside_round_def)
  show "voting_deadline st' = voting_deadline st" using same [of voting_deadline] by (simp add: outside_round_def)
  show "quorum_percentage st' = quorum_percentage st" using same [of quorum_percentage] by (simp add: outside_round_def)
  show "quorum_config st' = quorum_config st" using same [of quorum_config] by (simp add: outside_round_def)
  show "proposal_counter st' = proposal_counter st" using same [of proposal_counter] by (simp add: outside_round_def)
  show "proposals st' = proposals st" using same [of proposals] by (simp add: outside_round_def)
  show "proposal_votes st' = proposal_votes st" using same [of proposal_votes] by (simp add: outside_round_def)
  show "vote_delegations st' = vote_delegations st" using same [of vote_delegations] by (simp add: outside_round_def)
  show "exit_requests st' = exit_requests st" using same [of exit_requests] by (simp add: outside_round_def)
  show "auto_close_enabled st' = auto_close_enabled st" using same [of auto_close_enabled] by (simp add: outside_round_def)
  show "approved_invitees st' = approved_invitees st" using same [of approved_invitees] by (simp add: outside_round_def)
  show "co_admins st' = co_admins st" using same [of co_admins] by (simp add: outside_round_def)
  show "multisig_threshold st' = multisig_threshold st" using same [of multisig_threshold] by (simp add: outside_round_def)
qed

named_theorems round_frames "what a successful operation on rounds leaves alone"

lemma transfer_outside [round_frames]:
  "token_transfer h tk src dst amt st = Inr st' \<Longrightarrow> outside_round st' = outside_round st"
  by (clarsimp simp: ok_simps)

lemma draw_insurance_outside [round_frames]:
  "draw_insurance round expected actual st = Inr st' \<Longrightarrow> outside_round st' = outside_round st"
  by (auto simp: draw_insurance_def Let_def ok_simps split: if_splits)

lemma pay_member_outside [round_frames]:
  "pay_member h round tk payee keep amount st = Inr st' \<Longrightarrow> outside_round st' = outside_round st"
  by (auto simp: pay_member_def ok_simps split: if_splits)

lemma pay_fee_outside [round_frames]:
  "pay_fee h round tk is_base fee_to amount st = Inr st' \<Longrightarrow> outside_round st' = outside_round st"
  by (cases fee_to; cases "0 < amount") (clarsimp simp: pay_fee_def ok_simps)+

lemma pay_pot_outside [round_frames]:
  "pay_pot h round payee reinvest tk reserve bps fee_to tokens hist kept st = Inr (hist', kept', st') \<Longrightarrow>
     outside_round st' = outside_round st"
proof (induction tokens arbitrary: hist kept st)
  case Nil
  then show ?case by simp
next
  case (Cons t tokens)
  let ?amount = "own_balance h t st - (if t = tk then reserve else 0)"
  show ?case
  proof (cases "0 < ?amount")
    case True
    then obtain hist1 kept1 fee keep st1 st2 where
      "pay_member h round t payee keep (?amount - fee) st = Inr st1"
      "pay_fee h round t (t = tk) fee_to fee st1 = Inr st2"
      "pay_pot h round payee reinvest tk reserve bps fee_to tokens hist1 kept1 st2
         = Inr (hist', kept', st')"
      using Cons.prems by (cases "t = tk") (auto simp: Let_def ok_simps)
    then show ?thesis by (metis Cons.IH pay_member_outside pay_fee_outside)
  next
    case False
    with Cons.prems Cons.IH show ?thesis by (cases "t = tk") (auto simp: Let_def ok_simps)
  qed
qed

lemma schedule_next_round_outside [round_frames]:
  "schedule_next_round h round st = Inr st' \<Longrightarrow> outside_round st' = outside_round st"
  by (auto simp: schedule_next_round_def ok_simps split: if_splits)

lemma reset_round_state_outside [round_frames]:
  "reset_round_state h round st = Inr st' \<Longrightarrow> outside_round st' = outside_round st"
  by (auto simp: reset_round_state_def Let_def ok_simps dest: schedule_next_round_outside)

lemma record_payout_outside [simp]:
  "outside_round (record_payout round payee amount st) = outside_round st"
  by (simp add: record_payout_def Let_def)

lemma track_participation_outside [round_frames]:
  "track_participation member st = Inr st' \<Longrightarrow> outside_round st' = outside_round st"
  by (clarsimp simp: track_participation_def ok_simps)

lemma reinvest_payout_outside [round_frames]:
  "reinvest_payout payee amount st = Inr st' \<Longrightarrow> outside_round st' = outside_round st"
  by (auto simp: reinvest_payout_def Let_def ok_simps dest!: track_participation_outside
      split: if_splits)

lemma complete_round_payout_outside [round_frames]:
  "complete_round_payout h paid st = Inr st' \<Longrightarrow> outside_round st' = outside_round st"
  by (auto simp: complete_round_payout_def Let_def ok_simps
      dest!: draw_insurance_outside pay_pot_outside reset_round_state_outside reinvest_payout_outside
      split: if_splits)

lemma add_insurance_outside [round_frames]:
  "add_insurance contributor amount st = Inr st' \<Longrightarrow> outside_round st' = outside_round st"
  by (clarsimp simp: add_insurance_def ok_simps)

lemma take_contribution_outside [round_frames]:
  "take_contribution h contributor tk amount st = Inr st' \<Longrightarrow> outside_round st' = outside_round st"
  unfolding take_contribution_def and_then_Inr if_fail_Inr
  by (elim conjE exE) (auto dest!: transfer_outside add_insurance_outside split: if_split_asm)

lemma reach_milestones_outside [round_frames]:
  "reach_milestones progress collected ms reached st = (reached', st') \<Longrightarrow>
     outside_round st' = outside_round st"
  by (induction progress collected ms reached st rule: reach_milestones.induct)
     (auto split: if_splits)

lemma note_savings_outside [round_frames]:
  "note_savings contributor amount st = Inr st' \<Longrightarrow> outside_round st' = outside_round st"
  by (auto simp: note_savings_def Let_def ok_simps simp del: reach_milestones.simps
      dest!: reach_milestones_outside split: option.splits prod.splits)

lemma note_auto_close_outside [simp]: "outside_round (note_auto_close h st) = outside_round st"
  by (simp add: note_auto_close_def)

lemma complete_contribution_outside [round_frames]:
  "complete_contribution h mems paid contributor amount st = Inr st' \<Longrightarrow>
     outside_round st' = outside_round st"
  by (auto simp: complete_contribution_def Let_def ok_simps
      dest!: track_participation_outside complete_round_payout_outside note_savings_outside
      split: if_splits)

lemma contribute_outside [round_frames]:
  "contribute h contributor tk amount st = Inr st' \<Longrightarrow> outside_round st' = outside_round st"
  by (auto simp: contribute_def Let_def ok_simps
      dest!: take_contribution_outside complete_contribution_outside split: if_splits)

lemma request_skip_outside [round_frames]:
  "request_skip h member round st = Inr st' \<Longrightarrow> outside_round st' = outside_round st"
  by (auto simp: request_skip_def Let_def ok_simps split: if_splits)

lemma close_round_outside [round_frames]:
  "close_round h st = Inr st' \<Longrightarrow> outside_round st' = outside_round st"
  by (auto simp: close_round_def Let_def ok_simps dest!: reset_round_state_outside)

lemma mark_defaulters_outside [round_frames]:
  "mark_defaulters round penalty limit late counts suspended st = Inr (counts', suspended', st') \<Longrightarrow>
     outside_round st' = outside_round st"
  by (induction round penalty limit late counts suspended st rule: mark_defaulters.induct)
     (auto simp: Let_def ok_simps split: if_splits)

lemma finalize_round_outside [round_frames]:
  "finalize_round h st = Inr st' \<Longrightarrow> outside_round st' = outside_round st"
  by (auto simp: finalize_round_def Let_def ok_simps
      dest!: complete_round_payout_outside mark_defaulters_outside)

lemma insurance_and_rewards_outside [round_frames]:
  "contribute_to_insurance h a tk amount st = Inr st' \<Longrightarrow> outside_round st' = outside_round st"
  "deposit_rewards h a amount st = Inr st' \<Longrightarrow> outside_round st' = outside_round st"
  "claim_rewards h a st = Inr st' \<Longrightarrow> outside_round st' = outside_round st"
  "set_reinvest_preference h a b st = Inr st' \<Longrightarrow> outside_round st' = outside_round st"
  "set_reward_dist_params h d w st = Inr st' \<Longrightarrow> outside_round st' = outside_round st"
  "emit_deadline_reminder h s st = Inr st' \<Longrightarrow> outside_round st' = outside_round st"
  by (auto simp: contribute_to_insurance_def deposit_rewards_def claim_rewards_def Let_def
      set_reinvest_preference_def set_reward_dist_params_def emit_deadline_reminder_def ok_simps
      dest!: add_insurance_outside split: if_splits option.splits)

lemma penalise_defaulter_outside [round_frames]:
  "penalise_defaulter h member st = Inr st' \<Longrightarrow> outside_round st' = outside_round st"
  by (auto simp: penalise_defaulter_def suspend_at_limit_def Let_def ok_simps split: if_splits)

section \<open>Operations\<close>

datatype (plugins only: size) rosca_op =
    RInit address "address list" i128 address u64 rosca_config
  | RProposeAdmin address | RAcceptAdmin
  | RUpgrade address bytes32 | RMigrate address | RGetVersion | RBump
  | RSetTier address address u32 | RAddToken address | RRemoveToken address
  | RSetRate address i128 | RSetLimit address i128
  | RSetRewards distribution_type "(address \<times> u32) list option"
  | RUpdateFee u32 | RUpdateMaxMembers u32 | RSetAutoClose bool
  | RSetQuorum address proposal_type u32
  | RPauseGroup string | RResumeGroup string | RPause address string | RResume address
  | RContribute address address i128 | RSkip address u32 | RClose | RFinalize
  | RInsure address address i128 | RDepositRewards address i128 | RClaim address
  | RReinvest address bool | RRemind string
  | RAddMember address | RRemoveMember address | RInvite address | RJoin address
  | RPenalise address | RRequestExit address | RApproveExit address | RRejectExit address
  | RInitMultisig "address list" u32
  | RProposeAction u32 "address option" "i128 option"
  | RApproveAction address u32 "address option" "i128 option"
  | RCreateProposal address proposal_type string address u64 "i128 option"
  | RDelegate address address | RRevoke address | RVote address u32 bool | RExecute u32

fun rosca_exec ::
  "'l host \<Rightarrow> rosca_op \<Rightarrow> 'l rosca_state \<Rightarrow> (rosca_panic, 'l rosca_state) outcome" where
  "rosca_exec h (RInit a ms n tk d c) st = rosca_init h a ms n tk d c st"
| "rosca_exec h (RProposeAdmin a) st = rosca_propose_admin_transfer h a st"
| "rosca_exec h RAcceptAdmin st = rosca_accept_admin_role h st"
| "rosca_exec h (RUpgrade a w) st = rosca_upgrade h a w st"
| "rosca_exec h (RMigrate a) st = rosca_migrate h a st"
| "rosca_exec h RGetVersion st = Inr (snd (rosca_get_version st))"
| "rosca_exec h RBump st = bump_storage st"
| "rosca_exec h (RSetTier a m n) st = set_member_tier h a m n st"
| "rosca_exec h (RAddToken tk) st = add_approved_token h tk st"
| "rosca_exec h (RRemoveToken tk) st = remove_approved_token h tk st"
| "rosca_exec h (RSetRate tk n) st = set_exchange_rate h tk n st"
| "rosca_exec h (RSetLimit tk n) st = set_token_limit h tk n st"
| "rosca_exec h (RSetRewards d w) st = set_reward_dist_params h d w st"
| "rosca_exec h (RUpdateFee n) st = rosca_update_fee h n st"
| "rosca_exec h (RUpdateMaxMembers n) st = update_max_members h n st"
| "rosca_exec h (RSetAutoClose b) st = set_auto_close_enabled h b st"
| "rosca_exec h (RSetQuorum a k n) st = set_quorum_per_type h a k n st"
| "rosca_exec h (RPauseGroup r) st = pause_group h r st"
| "rosca_exec h (RResumeGroup r) st = resume_group h r st"
| "rosca_exec h (RPause a r) st = rosca_pause_contract h a r st"
| "rosca_exec h (RResume a) st = rosca_resume_contract h a st"
| "rosca_exec h (RContribute a tk n) st = contribute h a tk n st"
| "rosca_exec h (RSkip a r) st = request_skip h a r st"
| "rosca_exec h RClose st = close_round h st"
| "rosca_exec h RFinalize st = finalize_round h st"
| "rosca_exec h (RInsure a tk n) st = contribute_to_insurance h a tk n st"
| "rosca_exec h (RDepositRewards a n) st = deposit_rewards h a n st"
| "rosca_exec h (RClaim a) st = claim_rewards h a st"
| "rosca_exec h (RReinvest a b) st = set_reinvest_preference h a b st"
| "rosca_exec h (RRemind s) st = emit_deadline_reminder h s st"
| "rosca_exec h (RAddMember a) st = add_member h a st"
| "rosca_exec h (RRemoveMember a) st = remove_member h a st"
| "rosca_exec h (RInvite a) st = generate_invite h a st"
| "rosca_exec h (RJoin a) st = join_with_invite h a st"
| "rosca_exec h (RPenalise a) st = penalise_defaulter h a st"
| "rosca_exec h (RRequestExit a) st = request_emergency_exit h a st"
| "rosca_exec h (RApproveExit a) st = approve_exit h a st"
| "rosca_exec h (RRejectExit a) st = reject_exit h a st"
| "rosca_exec h (RInitMultisig as n) st = init_multisig h as n st"
| "rosca_exec h (RProposeAction t m p) st = propose_admin_action h t m p st"
| "rosca_exec h (RApproveAction a t m p) st = approve_admin_action h a t m p st"
| "rosca_exec h (RCreateProposal a k d m v x) st = create_proposal h a k d m v x st"
| "rosca_exec h (RDelegate a b) st = delegate_vote h a b st"
| "rosca_exec h (RRevoke a) st = revoke_delegation h a st"
| "rosca_exec h (RVote a i b) st = vote_on_proposal h a i b st"
| "rosca_exec h (RExecute i) st = execute_proposal h i st"

text \<open>The operations on rounds.\<close>

fun on_round :: "rosca_op \<Rightarrow> bool" where
  "on_round (RContribute a tk n) = True"
| "on_round (RSkip a r) = True"
| "on_round RClose = True"
| "on_round RFinalize = True"
| "on_round (RInsure a tk n) = True"
| "on_round (RDepositRewards a n) = True"
| "on_round (RClaim a) = True"
| "on_round (RReinvest a b) = True"
| "on_round (RSetRewards d w) = True"
| "on_round (RRemind s) = True"
| "on_round (RPenalise a) = True"
| "on_round _ = False"

lemma on_round_outside:
  "on_round op \<Longrightarrow> rosca_exec h op st = Inr st' \<Longrightarrow> outside_round st' = outside_round st"
  by (cases op) (auto dest: round_frames)

end
