(* ===== verification/Rosca_Pot.thy ===== *)
theory Rosca_Pot
  imports Rosca_Machine
begin

text \<open>
  What a payout does: the recipient the loop of internals.rs finds, and the effect of the payout on
  the balances of every token, on the history and on the round.
\<close>

section \<open>The recipient\<close>

text \<open>The member \<open>k\<close> positions after the one whose turn it is in round \<open>r\<close>.\<close>

definition in_turn :: "address list \<Rightarrow> u32 \<Rightarrow> nat \<Rightarrow> address" where
  "in_turn order r k = order ! ((r + k) mod length order)"

lemma find_recipient_result:
  assumes "idx < length order" and "attempts \<le> length order"
  shows "\<exists>d. find_recipient ok order idx attempts = ((idx + d) mod length order, attempts + d) \<and>
    attempts + d \<le> length order \<and> (\<forall>k<d. \<not> ok (in_turn order idx k)) \<and>
    (attempts + d < length order \<longrightarrow> ok (in_turn order idx d))"
  using assms
proof (induction ok order idx attempts rule: find_recipient.induct)
  case (1 ok order idx attempts)
  let ?n = "length order"
  consider (found) "attempts < ?n" "ok (order ! idx)" | (next_one) "attempts < ?n" "\<not> ok (order ! idx)"
    | (none) "\<not> attempts < ?n" by blast
  then show ?case
  proof cases
    case found
    then show ?thesis
      using "1.prems" by (intro exI [of _ 0]) (simp add: find_recipient.simps in_turn_def)
  next
    case next_one
    let ?idx = "(idx + 1) mod ?n"
    have "?idx < ?n" "attempts + 1 \<le> ?n" using next_one by (auto intro: mod_less_divisor)
    from "1.IH" [OF next_one this] obtain d where d:
      "find_recipient ok order ?idx (attempts + 1) = ((?idx + d) mod ?n, attempts + 1 + d)"
      "attempts + 1 + d \<le> ?n" "\<forall>k<d. \<not> ok (in_turn order ?idx k)"
      "attempts + 1 + d < ?n \<longrightarrow> ok (in_turn order ?idx d)" by blast
    have turn: "in_turn order (Suc idx mod ?n) k = in_turn order idx (Suc k)" for k
      by (simp add: in_turn_def mod_add_left_eq)
    have "find_recipient ok order idx attempts = find_recipient ok order ?idx (attempts + 1)"
      using next_one by (subst find_recipient.simps) simp
    moreover have "\<forall>k<Suc d. \<not> ok (in_turn order idx k)"
    proof (intro allI impI)
      fix k
      assume "k < Suc d"
      then show "\<not> ok (in_turn order idx k)"
        using d(3) turn next_one "1.prems" by (cases k) (auto simp: in_turn_def)
    qed
    moreover have "(?idx + d) mod ?n = (idx + Suc d) mod ?n" by (simp add: mod_add_left_eq)
    ultimately show ?thesis
      using d by (intro exI [of _ "Suc d"]) (simp add: turn)
  next
    case none
    then show ?thesis
      using "1.prems" by (intro exI [of _ 0]) (simp add: find_recipient.simps)
  qed
qed

lemma all_turns: "order \<noteq> [] \<Longrightarrow> m \<in> set order \<Longrightarrow> \<exists>k<length order. m = in_turn order r k"
proof -
  assume "order \<noteq> []" "m \<in> set order"
  then obtain i where i: "i < length order" "m = order ! i" by (metis in_set_conv_nth)
  let ?n = "length order"
  let ?k = "(i + (?n - r mod ?n)) mod ?n"
  have "(r + ?k) mod ?n = (r mod ?n + (i + (?n - r mod ?n))) mod ?n"
    by (simp add: mod_add_left_eq mod_add_right_eq)
  also have "r mod ?n + (i + (?n - r mod ?n)) = i + ?n"
    using i(1) mod_less_divisor [of ?n r] by linarith
  finally have "(r + ?k) mod ?n = i" using i(1) by simp
  moreover have "?k < ?n" using i(1) by (auto intro: mod_less_divisor)
  ultimately show ?thesis using i(2) by (auto simp: in_turn_def intro!: exI [of _ ?k])
qed

section \<open>The transfers of one token\<close>

text \<open>What the contract has of a token beyond the rewards it keeps.\<close>

definition pot_of :: "'l view \<Rightarrow> address \<Rightarrow> address \<Rightarrow> i128 \<Rightarrow> 'l \<Rightarrow> address \<Rightarrow> int" where
  "pot_of V self tk reserve l t = balance V l t self - (if t = tk then reserve else 0)"

definition fee_of :: "u32 \<Rightarrow> address option \<Rightarrow> int \<Rightarrow> int" where
  "fee_of bps fee_to x = (if 0 < bps \<and> fee_to \<noteq> None then bps_share x bps else 0)"

text \<open>
  What an account gains from the pot \<open>x\<close> of a token: the payee the rest after the fee (unless it
  is kept for the next round), the fee recipient the fee, and the contract pays both.
\<close>

definition gain ::
  "address \<Rightarrow> address \<Rightarrow> bool \<Rightarrow> u32 \<Rightarrow> address option \<Rightarrow> int \<Rightarrow> address \<Rightarrow> int" where
  "gain self payee keep bps fee_to x a =
     (let fee = fee_of bps fee_to x; out = (if keep then 0 else x - fee) in
      if 0 < x
      then (if a = payee then out else 0) + (if fee_to = Some a then fee else 0)
           - (if a = self then out + fee else 0)
      else 0)"

lemma payout_fee_Inr:
  "payout_fee bps fee_to x = Inr fee \<Longrightarrow> fee = fee_of bps fee_to x"
  by (auto simp: payout_fee_def fee_of_def bps_share_def ok_simps split: if_splits)

lemma fee_of_bounds:
  assumes "0 \<le> x"
  shows "0 \<le> fee_of bps fee_to x" and "fee_of bps fee_to x * 10000 \<le> x * int bps"
  using assms sum_bps_share_le [of x "[bps]"] by (auto simp: fee_of_def bps_share_nonneg)

lemma fee_of_le: "0 \<le> x \<Longrightarrow> bps \<le> 10000 \<Longrightarrow> fee_of bps fee_to x \<le> x"
  by (simp add: fee_of_def bps_share_le)

lemma transfer_balance:
  assumes "token_laws V h" and "token_transfer h tk src dst amt st = Inr st'"
  shows "balance V (ledger st') t a = balance V (ledger st) t a
    - (if t = tk \<and> a = src then amt else 0) + (if t = tk \<and> a = dst then amt else 0)"
proof -
  obtain l where "tok_transfer h (ledger st) tk src dst amt = Some l" "ledger st' = l"
    using assms(2) by (auto simp: ok_simps)
  with token_laws_transfer [OF assms(1)] show ?thesis by (metis moves_balance)
qed

lemma pay_member_balance:
  assumes "token_laws V h" and "pay_member h round t payee keep amount st = Inr st'" and "0 \<le> amount"
  shows "balance V (ledger st') u a = balance V (ledger st) u a
    + (if u = t \<and> \<not> keep
       then (if a = payee then amount else 0) - (if a = self_address h then amount else 0) else 0)"
  using assms(2,3) unfolding pay_member_def
  by (cases keep; cases "0 < amount")
     (auto dest!: transfer_balance [OF assms(1), where t = u and a = a])

lemma pay_fee_balance:
  assumes "token_laws V h" and "pay_fee h round t is_base fee_to fee st = Inr st'" and "0 \<le> fee"
    and "fee_to = None \<Longrightarrow> fee = 0"
  shows "balance V (ledger st') u a = balance V (ledger st) u a
    + (if u = t then (if fee_to = Some a then fee else 0) - (if a = self_address h then fee else 0)
       else 0)"
proof (cases "0 < fee")
  case True
  then obtain f where f: "fee_to = Some f" using assms(4) by (cases fee_to) auto
  with True assms(2) obtain st1 where
    "(token_transfer h t (self_address h) f fee st :: (rosca_panic, _) outcome) = Inr st1"
    "ledger st' = ledger st1"
    by (auto simp: pay_fee_def and_then_Inr split: if_splits)
  with f show ?thesis by (auto dest!: transfer_balance [OF assms(1), where t = u and a = a])
next
  case False
  with assms show ?thesis by (simp add: pay_fee_def)
qed

section \<open>The transfers of all tokens\<close>

lemma pay_pot_step:
  assumes "pay_pot h round payee reinvest tk reserve bps fee_to (t # tokens) hist kept st = Inr r"
    and "x = own_balance h t st - (if t = tk then reserve else 0)"
  obtains (paid) fee st1 st2 where "0 < x" "payout_fee bps fee_to x = Inr fee"
      "pay_member h round t payee (reinvest \<and> t = tk) (x - fee) st = Inr st1"
      "pay_fee h round t (t = tk) fee_to fee st1 = Inr st2"
      "pay_pot h round payee reinvest tk reserve bps fee_to tokens (if t = tk then x else hist)
         (if reinvest \<and> t = tk then x - fee else kept) st2 = Inr r"
  | (empty) "x \<le> 0"
      "pay_pot h round payee reinvest tk reserve bps fee_to tokens (if t = tk then x else hist)
         kept st = Inr r"
proof (cases "0 < x")
  case True
  with assms paid show ?thesis by (cases "t = tk") (auto simp: Let_def ok_simps)
next
  case False
  then have "x \<le> 0" by simp
  moreover have "pay_pot h round payee reinvest tk reserve bps fee_to tokens
      (if t = tk then x else hist) kept st = Inr r"
    using assms False by (cases "t = tk") (auto simp: Let_def ok_simps)
  ultimately show ?thesis by (rule empty)
qed

lemma pay_pot_effect:
  assumes laws: "token_laws V h" "balance_law V h" and bps: "bps \<le> 10000"
    and "pay_pot h round payee reinvest tk reserve bps fee_to tokens hist kept st
      = Inr (hist', kept', st')"
    and "distinct tokens"
  shows "(\<forall>t a. balance V (ledger st') t a = balance V (ledger st) t a +
        (if t \<in> set tokens
         then gain (self_address h) payee (reinvest \<and> t = tk) bps fee_to
           (pot_of V (self_address h) tk reserve (ledger st) t) a
         else 0)) \<and>
    hist' = (if tk \<in> set tokens then pot_of V (self_address h) tk reserve (ledger st) tk else hist) \<and>
    kept' = (let x = pot_of V (self_address h) tk reserve (ledger st) tk in
      if tk \<in> set tokens \<and> reinvest \<and> 0 < x then x - fee_of bps fee_to x else kept)"
  using assms(4,5)
proof (induction tokens arbitrary: hist kept st)
  case Nil
  then show ?case by simp
next
  case (Cons t tokens)
  let ?self = "self_address h"
  define x where "x = own_balance h t st - (if t = tk then reserve else 0)"
  have x: "x = pot_of V ?self tk reserve (ledger st) t"
    using laws(2) by (simp add: x_def pot_of_def own_balance_def balance_law_def)
  from Cons.prems(1) x_def show ?case
  proof (cases rule: pay_pot_step)
    case (paid fee st1 st2)
    have fee: "fee = fee_of bps fee_to x" by (rule payout_fee_Inr [OF paid(2)])
    have bounds: "0 \<le> fee" "fee \<le> x" "fee_to = None \<Longrightarrow> fee = 0"
      using paid(1) bps fee fee_of_bounds(1) [of x bps fee_to] fee_of_le [of x bps fee_to]
      by (auto simp: fee_of_def)
    have b2: "balance V (ledger st2) u a = balance V (ledger st) u a +
        (if u = t then gain ?self payee (reinvest \<and> t = tk) bps fee_to x a else 0)" for u a
      using pay_member_balance [OF laws(1) paid(3), of u a] bounds paid(1)
        pay_fee_balance [OF laws(1) paid(4) bounds(1,3), of u a]
      by (auto simp: gain_def Let_def fee [symmetric])
    have same: "pot_of V ?self tk reserve (ledger st2) u = pot_of V ?self tk reserve (ledger st) u"
      if "u \<noteq> t" for u
      using that by (simp add: pot_of_def b2)
    from Cons.IH [OF paid(5)] Cons.prems(2) have ih:
      "\<forall>u a. balance V (ledger st') u a = balance V (ledger st2) u a +
        (if u \<in> set tokens
         then gain ?self payee (reinvest \<and> u = tk) bps fee_to
           (pot_of V ?self tk reserve (ledger st2) u) a else 0)"
      "hist' = (if tk \<in> set tokens then pot_of V ?self tk reserve (ledger st2) tk
        else if t = tk then x else hist)"
      "kept' = (let y = pot_of V ?self tk reserve (ledger st2) tk in
        if tk \<in> set tokens \<and> reinvest \<and> 0 < y then y - fee_of bps fee_to y
        else if reinvest \<and> t = tk then x - fee else kept)"
      by simp_all
    have t: "t \<notin> set tokens" using Cons.prems(2) by simp
    show ?thesis
    proof (intro conjI allI)
      fix u a
      show "balance V (ledger st') u a = balance V (ledger st) u a +
        (if u \<in> set (t # tokens)
         then gain ?self payee (reinvest \<and> u = tk) bps fee_to
           (pot_of V ?self tk reserve (ledger st) u) a else 0)"
        using ih(1) b2 [of u a] same [of u] t x by (cases "u = t") auto
      show "hist' = (if tk \<in> set (t # tokens) then pot_of V ?self tk reserve (ledger st) tk else hist)"
        using ih(2) same [of tk] t x by auto
      show "kept' = (let y = pot_of V ?self tk reserve (ledger st) tk in
        if tk \<in> set (t # tokens) \<and> reinvest \<and> 0 < y then y - fee_of bps fee_to y else kept)"
        using ih(3) same [of tk] t x fee paid(1) by (cases "t = tk") (auto simp: Let_def)
    qed
  next
    case empty
    from Cons.IH [OF empty(2)] Cons.prems(2) have ih:
      "\<forall>u a. balance V (ledger st') u a = balance V (ledger st) u a +
        (if u \<in> set tokens
         then gain ?self payee (reinvest \<and> u = tk) bps fee_to
           (pot_of V ?self tk reserve (ledger st) u) a else 0)"
      "hist' = (if tk \<in> set tokens then pot_of V ?self tk reserve (ledger st) tk
        else if t = tk then x else hist)"
      "kept' = (let y = pot_of V ?self tk reserve (ledger st) tk in
        if tk \<in> set tokens \<and> reinvest \<and> 0 < y then y - fee_of bps fee_to y else kept)"
      by simp_all
    have none: "gain ?self payee k bps fee_to (pot_of V ?self tk reserve (ledger st) t) a = 0" for k a
      using empty(1) x by (simp add: gain_def)
    show ?thesis
    proof (intro conjI allI)
      fix u a
      show "balance V (ledger st') u a = balance V (ledger st) u a +
        (if u \<in> set (t # tokens)
         then gain ?self payee (reinvest \<and> u = tk) bps fee_to
           (pot_of V ?self tk reserve (ledger st) u) a else 0)"
        using ih(1) none Cons.prems(2) by (cases "u = t") auto
      show "hist' = (if tk \<in> set (t # tokens) then pot_of V ?self tk reserve (ledger st) tk else hist)"
        using ih(2) x by auto
      show "kept' = (let y = pot_of V ?self tk reserve (ledger st) tk in
        if tk \<in> set (t # tokens) \<and> reinvest \<and> 0 < y then y - fee_of bps fee_to y else kept)"
        using ih(3) x empty(1) by (auto simp: Let_def)
    qed
  qed
qed

end
