(* ===== verification/Rosca_Laws.thy ===== *)
theory Rosca_Laws
  imports Rosca_Pot
begin

text \<open>
  The laws every call of the savings group keeps: the limits of the settings and of the size of the
  group, and the books of the votes; with the group as an instance of the machine of Soroban.thy.
\<close>

section \<open>The laws\<close>

definition within_limits :: "'l rosca_state \<Rightarrow> bool" where
  "within_limits st \<longleftrightarrow>
     rosca_get_fee_bps st \<le> 500 \<and> 1 \<le> get_max_defaults st \<and>
     1 \<le> get_max_members st \<and> get_max_members st \<le> 100 \<and>
     length (unwrap_or [] (members st)) \<le> get_max_members st \<and>
     distinct (get_approved_tokens st) \<and>
     1 \<le> get_quorum_percentage st \<and> get_quorum_percentage st \<le> 100 \<and>
     (\<forall>k q. quorum_config st k = Some q \<longrightarrow> 100 \<le> q \<and> q \<le> 10000) \<and>
     (\<forall>i p. proposals st i = Some p \<longrightarrow>
        100 \<le> p_required_quorum p \<and> p_required_quorum p \<le> 10000)"

definition equal_votes :: "'l rosca_state \<Rightarrow> bool" where
  "equal_votes st \<longleftrightarrow> unwrap_or EqualVotes (voting_mode st) = EqualVotes"

text \<open>The voters of a proposal who voted \<open>b\<close>, and the tallies that count them.\<close>

definition voters :: "u32 \<Rightarrow> bool \<Rightarrow> 'l rosca_state \<Rightarrow> address set" where
  "voters i b st = {a. unwrap_or Map.empty (proposal_votes st i) a = Some b}"

definition ballots_ok :: "'l rosca_state \<Rightarrow> bool" where
  "ballots_ok st \<longleftrightarrow>
     (\<forall>i p. proposals st i = Some p \<longrightarrow> i < get_proposal_counter st \<and>
        finite (dom (unwrap_or Map.empty (proposal_votes st i))) \<and>
        (equal_votes st \<longrightarrow> p_votes_for p = int (card (voters i True st)) \<and>
           p_votes_against p = int (card (voters i False st))))"

definition rosca_laws :: "'l rosca_state \<Rightarrow> bool" where
  "rosca_laws st \<longleftrightarrow> within_limits st \<and> ballots_ok st"

lemmas limit_readers = rosca_get_fee_bps_def get_max_defaults_def get_max_members_def
  get_approved_tokens_def get_quorum_percentage_def

lemmas law_defs = within_limits_def ballots_ok_def equal_votes_def voters_def limit_readers
  get_proposal_counter_def

section \<open>The charter\<close>

text \<open>The part of the storage the laws speak of; every other entry may change.\<close>

definition charter :: "'l rosca_state \<Rightarrow> address list option \<times> address list option \<times> u32 option \<times>
    u32 option \<times> u32 option \<times> voting_mode option \<times> u32 option \<times> (proposal_type \<rightharpoonup> u32) \<times>
    u32 option \<times> (u32 \<rightharpoonup> proposal) \<times> (u32 \<rightharpoonup> address \<rightharpoonup> bool)" where
  "charter st = (members st, approved_tokens st, fee_bps st, max_defaults st, max_members st,
     voting_mode st, quorum_percentage st, quorum_config st, proposal_counter st, proposals st,
     proposal_votes st)"

lemma charter_updates [simp]:
  "charter (st\<lparr>ledger := x0\<rparr>) = charter st"
  "charter (st\<lparr>events := x1\<rparr>) = charter st"
  "charter (st\<lparr>admin := x2\<rparr>) = charter st"
  "charter (st\<lparr>contract_version := x3\<rparr>) = charter st"
  "charter (st\<lparr>migration_completed := x4\<rparr>) = charter st"
  "charter (st\<lparr>paused := x5\<rparr>) = charter st"
  "charter (st\<lparr>pause_reason := x6\<rparr>) = charter st"
  "charter (st\<lparr>proposed_admin := x7\<rparr>) = charter st"
  "charter (st\<lparr>is_paused_flag := x8\<rparr>) = charter st"
  "charter (st\<lparr>pause_timestamp := x9\<rparr>) = charter st"
  "charter (st\<lparr>payout_order := x10\<rparr>) = charter st"
  "charter (st\<lparr>strategy := x11\<rparr>) = charter st"
  "charter (st\<lparr>contribution_amt := x12\<rparr>) = charter st"
  "charter (st\<lparr>base_token := x13\<rparr>) = charter st"
  "charter (st\<lparr>exchange_rates := x14\<rparr>) = charter st"
  "charter (st\<lparr>token_limits := x15\<rparr>) = charter st"
  "charter (st\<lparr>exit_penalty_bps := x16\<rparr>) = charter st"
  "charter (st\<lparr>penalty_amount := x17\<rparr>) = charter st"
  "charter (st\<lparr>fee_recipient := x18\<rparr>) = charter st"
  "charter (st\<lparr>member_tiers := x19\<rparr>) = charter st"
  "charter (st\<lparr>insurance_contribution_bps := x20\<rparr>) = charter st"
  "charter (st\<lparr>skip_fee := x21\<rparr>) = charter st"
  "charter (st\<lparr>max_skips_per_cycle := x22\<rparr>) = charter st"
  "charter (st\<lparr>collective_goal := x23\<rparr>) = charter st"
  "charter (st\<lparr>member_goals := x24\<rparr>) = charter st"
  "charter (st\<lparr>round_duration := x25\<rparr>) = charter st"
  "charter (st\<lparr>use_timestamp_schedule := x26\<rparr>) = charter st"
  "charter (st\<lparr>round_duration_seconds := x27\<rparr>) = charter st"
  "charter (st\<lparr>current_round := x28\<rparr>) = charter st"
  "charter (st\<lparr>paid_members := x29\<rparr>) = charter st"
  "charter (st\<lparr>round_deadline := x30\<rparr>) = charter st"
  "charter (st\<lparr>round_deadline_timestamp := x31\<rparr>) = charter st"
  "charter (st\<lparr>member_contributions := x32\<rparr>) = charter st"
  "charter (st\<lparr>defaulters := x33\<rparr>) = charter st"
  "charter (st\<lparr>default_count := x34\<rparr>) = charter st"
  "charter (st\<lparr>suspended_members := x35\<rparr>) = charter st"
  "charter (st\<lparr>exited_members := x36\<rparr>) = charter st"
  "charter (st\<lparr>skip_requests := x37\<rparr>) = charter st"
  "charter (st\<lparr>member_skips := x38\<rparr>) = charter st"
  "charter (st\<lparr>insurance_pool := x39\<rparr>) = charter st"
  "charter (st\<lparr>total_collected := x40\<rparr>) = charter st"
  "charter (st\<lparr>member_collected := x41\<rparr>) = charter st"
  "charter (st\<lparr>milestones_reached := x42\<rparr>) = charter st"
  "charter (st\<lparr>round_history := x43\<rparr>) = charter st"
  "charter (st\<lparr>reinvest_preference := x44\<rparr>) = charter st"
  "charter (st\<lparr>reward_pool := x45\<rparr>) = charter st"
  "charter (st\<lparr>reward_dist_type := x46\<rparr>) = charter st"
  "charter (st\<lparr>reward_weights := x47\<rparr>) = charter st"
  "charter (st\<lparr>total_participations := x48\<rparr>) = charter st"
  "charter (st\<lparr>member_participation := x49\<rparr>) = charter st"
  "charter (st\<lparr>claimed_rewards := x50\<rparr>) = charter st"
  "charter (st\<lparr>voting_deadline := x51\<rparr>) = charter st"
  "charter (st\<lparr>vote_delegations := x52\<rparr>) = charter st"
  "charter (st\<lparr>exit_requests := x53\<rparr>) = charter st"
  "charter (st\<lparr>auto_close_enabled := x54\<rparr>) = charter st"
  "charter (st\<lparr>approved_invitees := x55\<rparr>) = charter st"
  "charter (st\<lparr>co_admins := x56\<rparr>) = charter st"
  "charter (st\<lparr>multisig_threshold := x57\<rparr>) = charter st"
  by (simp_all add: charter_def)

lemma charter_publish [simp]: "charter (publish ev st) = charter st"
  by (simp add: publish_def)

lemma charter_laws:
  assumes "charter st' = charter st"
  shows "within_limits st' = within_limits st" "ballots_ok st' = ballots_ok st"
  using assms by (simp_all add: charter_def law_defs)

lemma law_updates [simp]:
  "within_limits (st\<lparr>ledger := x0\<rparr>) = within_limits st"
  "within_limits (st\<lparr>events := x1\<rparr>) = within_limits st"
  "within_limits (st\<lparr>admin := x2\<rparr>) = within_limits st"
  "within_limits (st\<lparr>contract_version := x3\<rparr>) = within_limits st"
  "within_limits (st\<lparr>migration_completed := x4\<rparr>) = within_limits st"
  "within_limits (st\<lparr>paused := x5\<rparr>) = within_limits st"
  "within_limits (st\<lparr>pause_reason := x6\<rparr>) = within_limits st"
  "within_limits (st\<lparr>proposed_admin := x7\<rparr>) = within_limits st"
  "within_limits (st\<lparr>is_paused_flag := x8\<rparr>) = within_limits st"
  "within_limits (st\<lparr>pause_timestamp := x9\<rparr>) = within_limits st"
  "within_limits (st\<lparr>payout_order := x10\<rparr>) = within_limits st"
  "within_limits (st\<lparr>strategy := x11\<rparr>) = within_limits st"
  "within_limits (st\<lparr>contribution_amt := x12\<rparr>) = within_limits st"
  "within_limits (st\<lparr>base_token := x13\<rparr>) = within_limits st"
  "within_limits (st\<lparr>exchange_rates := x14\<rparr>) = within_limits st"
  "within_limits (st\<lparr>token_limits := x15\<rparr>) = within_limits st"
  "within_limits (st\<lparr>exit_penalty_bps := x16\<rparr>) = within_limits st"
  "within_limits (st\<lparr>penalty_amount := x17\<rparr>) = within_limits st"
  "within_limits (st\<lparr>fee_recipient := x18\<rparr>) = within_limits st"
  "within_limits (st\<lparr>member_tiers := x19\<rparr>) = within_limits st"
  "within_limits (st\<lparr>insurance_contribution_bps := x20\<rparr>) = within_limits st"
  "within_limits (st\<lparr>skip_fee := x21\<rparr>) = within_limits st"
  "within_limits (st\<lparr>max_skips_per_cycle := x22\<rparr>) = within_limits st"
  "within_limits (st\<lparr>collective_goal := x23\<rparr>) = within_limits st"
  "within_limits (st\<lparr>member_goals := x24\<rparr>) = within_limits st"
  "within_limits (st\<lparr>round_duration := x25\<rparr>) = within_limits st"
  "within_limits (st\<lparr>use_timestamp_schedule := x26\<rparr>) = within_limits st"
  "within_limits (st\<lparr>round_duration_seconds := x27\<rparr>) = within_limits st"
  "within_limits (st\<lparr>current_round := x28\<rparr>) = within_limits st"
  "within_limits (st\<lparr>paid_members := x29\<rparr>) = within_limits st"
  "within_limits (st\<lparr>round_deadline := x30\<rparr>) = within_limits st"
  "within_limits (st\<lparr>round_deadline_timestamp := x31\<rparr>) = within_limits st"
  "within_limits (st\<lparr>member_contributions := x32\<rparr>) = within_limits st"
  "within_limits (st\<lparr>defaulters := x33\<rparr>) = within_limits st"
  "within_limits (st\<lparr>default_count := x34\<rparr>) = within_limits st"
  "within_limits (st\<lparr>suspended_members := x35\<rparr>) = within_limits st"
  "within_limits (st\<lparr>exited_members := x36\<rparr>) = within_limits st"
  "within_limits (st\<lparr>skip_requests := x37\<rparr>) = within_limits st"
  "within_limits (st\<lparr>member_skips := x38\<rparr>) = within_limits st"
  "within_limits (st\<lparr>insurance_pool := x39\<rparr>) = within_limits st"
  "within_limits (st\<lparr>total_collected := x40\<rparr>) = within_limits st"
  "within_limits (st\<lparr>member_collected := x41\<rparr>) = within_limits st"
  "within_limits (st\<lparr>milestones_reached := x42\<rparr>) = within_limits st"
  "within_limits (st\<lparr>round_history := x43\<rparr>) = within_limits st"
  "within_limits (st\<lparr>reinvest_preference := x44\<rparr>) = within_limits st"
  "within_limits (st\<lparr>reward_pool := x45\<rparr>) = within_limits st"
  "within_limits (st\<lparr>reward_dist_type := x46\<rparr>) = within_limits st"
  "within_limits (st\<lparr>reward_weights := x47\<rparr>) = within_limits st"
  "within_limits (st\<lparr>total_participations := x48\<rparr>) = within_limits st"
  "within_limits (st\<lparr>member_participation := x49\<rparr>) = within_limits st"
  "within_limits (st\<lparr>claimed_rewards := x50\<rparr>) = within_limits st"
  "within_limits (st\<lparr>voting_deadline := x51\<rparr>) = within_limits st"
  "within_limits (st\<lparr>vote_delegations := x52\<rparr>) = within_limits st"
  "within_limits (st\<lparr>exit_requests := x53\<rparr>) = within_limits st"
  "within_limits (st\<lparr>auto_close_enabled := x54\<rparr>) = within_limits st"
  "within_limits (st\<lparr>approved_invitees := x55\<rparr>) = within_limits st"
  "within_limits (st\<lparr>co_admins := x56\<rparr>) = within_limits st"
  "within_limits (st\<lparr>multisig_threshold := x57\<rparr>) = within_limits st"
  "ballots_ok (st\<lparr>ledger := x0\<rparr>) = ballots_ok st"
  "ballots_ok (st\<lparr>events := x1\<rparr>) = ballots_ok st"
  "ballots_ok (st\<lparr>admin := x2\<rparr>) = ballots_ok st"
  "ballots_ok (st\<lparr>contract_version := x3\<rparr>) = ballots_ok st"
  "ballots_ok (st\<lparr>migration_completed := x4\<rparr>) = ballots_ok st"
  "ballots_ok (st\<lparr>paused := x5\<rparr>) = ballots_ok st"
  "ballots_ok (st\<lparr>pause_reason := x6\<rparr>) = ballots_ok st"
  "ballots_ok (st\<lparr>proposed_admin := x7\<rparr>) = ballots_ok st"
  "ballots_ok (st\<lparr>is_paused_flag := x8\<rparr>) = ballots_ok st"
  "ballots_ok (st\<lparr>pause_timestamp := x9\<rparr>) = ballots_ok st"
  "ballots_ok (st\<lparr>payout_order := x10\<rparr>) = ballots_ok st"
  "ballots_ok (st\<lparr>strategy := x11\<rparr>) = ballots_ok st"
  "ballots_ok (st\<lparr>contribution_amt := x12\<rparr>) = ballots_ok st"
  "ballots_ok (st\<lparr>base_token := x13\<rparr>) = ballots_ok st"
  "ballots_ok (st\<lparr>exchange_rates := x14\<rparr>) = ballots_ok st"
  "ballots_ok (st\<lparr>token_limits := x15\<rparr>) = ballots_ok st"
  "ballots_ok (st\<lparr>exit_penalty_bps := x16\<rparr>) = ballots_ok st"
  "ballots_ok (st\<lparr>penalty_amount := x17\<rparr>) = ballots_ok st"
  "ballots_ok (st\<lparr>fee_recipient := x18\<rparr>) = ballots_ok st"
  "ballots_ok (st\<lparr>member_tiers := x19\<rparr>) = ballots_ok st"
  "ballots_ok (st\<lparr>insurance_contribution_bps := x20\<rparr>) = ballots_ok st"
  "ballots_ok (st\<lparr>skip_fee := x21\<rparr>) = ballots_ok st"
  "ballots_ok (st\<lparr>max_skips_per_cycle := x22\<rparr>) = ballots_ok st"
  "ballots_ok (st\<lparr>collective_goal := x23\<rparr>) = ballots_ok st"
  "ballots_ok (st\<lparr>member_goals := x24\<rparr>) = ballots_ok st"
  "ballots_ok (st\<lparr>round_duration := x25\<rparr>) = ballots_ok st"
  "ballots_ok (st\<lparr>use_timestamp_schedule := x26\<rparr>) = ballots_ok st"
  "ballots_ok (st\<lparr>round_duration_seconds := x27\<rparr>) = ballots_ok st"
  "ballots_ok (st\<lparr>current_round := x28\<rparr>) = ballots_ok st"
  "ballots_ok (st\<lparr>paid_members := x29\<rparr>) = ballots_ok st"
  "ballots_ok (st\<lparr>round_deadline := x30\<rparr>) = ballots_ok st"
  "ballots_ok (st\<lparr>round_deadline_timestamp := x31\<rparr>) = ballots_ok st"
  "ballots_ok (st\<lparr>member_contributions := x32\<rparr>) = ballots_ok st"
  "ballots_ok (st\<lparr>defaulters := x33\<rparr>) = ballots_ok st"
  "ballots_ok (st\<lparr>default_count := x34\<rparr>) = ballots_ok st"
  "ballots_ok (st\<lparr>suspended_members := x35\<rparr>) = ballots_ok st"
  "ballots_ok (st\<lparr>exited_members := x36\<rparr>) = ballots_ok st"
  "ballots_ok (st\<lparr>skip_requests := x37\<rparr>) = ballots_ok st"
  "ballots_ok (st\<lparr>member_skips := x38\<rparr>) = ballots_ok st"
  "ballots_ok (st\<lparr>insurance_pool := x39\<rparr>) = ballots_ok st"
  "ballots_ok (st\<lparr>total_collected := x40\<rparr>) = ballots_ok st"
  "ballots_ok (st\<lparr>member_collected := x41\<rparr>) = ballots_ok st"
  "ballots_ok (st\<lparr>milestones_reached := x42\<rparr>) = ballots_ok st"
  "ballots_ok (st\<lparr>round_history := x43\<rparr>) = ballots_ok st"
  "ballots_ok (st\<lparr>reinvest_preference := x44\<rparr>) = ballots_ok st"
  "ballots_ok (st\<lparr>reward_pool := x45\<rparr>) = ballots_ok st"
  "ballots_ok (st\<lparr>reward_dist_type := x46\<rparr>) = ballots_ok st"
  "ballots_ok (st\<lparr>reward_weights := x47\<rparr>) = ballots_ok st"
  "ballots_ok (st\<lparr>total_participations := x48\<rparr>) = ballots_ok st"
  "ballots_ok (st\<lparr>member_participation := x49\<rparr>) = ballots_ok st"
  "ballots_ok (st\<lparr>claimed_rewards := x50\<rparr>) = ballots_ok st"
  "ballots_ok (st\<lparr>voting_deadline := x51\<rparr>) = ballots_ok st"
  "ballots_ok (st\<lparr>vote_delegations := x52\<rparr>) = ballots_ok st"
  "ballots_ok (st\<lparr>exit_requests := x53\<rparr>) = ballots_ok st"
  "ballots_ok (st\<lparr>auto_close_enabled := x54\<rparr>) = ballots_ok st"
  "ballots_ok (st\<lparr>approved_invitees := x55\<rparr>) = ballots_ok st"
  "ballots_ok (st\<lparr>co_admins := x56\<rparr>) = ballots_ok st"
  "ballots_ok (st\<lparr>multisig_threshold := x57\<rparr>) = ballots_ok st"
  by (rule charter_laws, simp)+

lemma publish_laws [simp]:
  "within_limits (publish ev st) = within_limits st" "ballots_ok (publish ev st) = ballots_ok st"
  by (rule charter_laws, simp)+

lemma limit_updates:
  "within_limits st \<Longrightarrow> n \<le> 500 \<Longrightarrow> within_limits (st\<lparr>fee_bps := Some n\<rparr>)"
  "within_limits st \<Longrightarrow> distinct ts \<Longrightarrow> within_limits (st\<lparr>approved_tokens := Some ts\<rparr>)"
  "within_limits st \<Longrightarrow> 1 \<le> n \<Longrightarrow> n \<le> 100 \<Longrightarrow> length (unwrap_or [] (members st)) \<le> n \<Longrightarrow>
     within_limits (st\<lparr>max_members := Some n\<rparr>)"
  "within_limits st \<Longrightarrow> length ms \<le> get_max_members st \<Longrightarrow> within_limits (st\<lparr>members := Some ms\<rparr>)"
  "within_limits st \<Longrightarrow> 1 \<le> n \<Longrightarrow> n \<le> 100 \<Longrightarrow> within_limits (st\<lparr>quorum_percentage := Some n\<rparr>)"
  "within_limits st \<Longrightarrow> 100 \<le> n \<Longrightarrow> n \<le> 10000 \<Longrightarrow>
     within_limits (st\<lparr>quorum_config := (quorum_config st)(k \<mapsto> n)\<rparr>)"
  by (simp_all add: within_limits_def limit_readers)

lemma ballot_updates [simp]:
  "ballots_ok (st\<lparr>fee_bps := a\<rparr>) = ballots_ok st"
  "ballots_ok (st\<lparr>approved_tokens := b\<rparr>) = ballots_ok st"
  "ballots_ok (st\<lparr>max_members := c\<rparr>) = ballots_ok st"
  "ballots_ok (st\<lparr>members := d\<rparr>) = ballots_ok st"
  "ballots_ok (st\<lparr>quorum_percentage := e\<rparr>) = ballots_ok st"
  "ballots_ok (st\<lparr>quorum_config := f\<rparr>) = ballots_ok st"
  by (simp_all add: ballots_ok_def equal_votes_def voters_def get_proposal_counter_def)

lemma approved_tokens_distinct: "within_limits st \<Longrightarrow> distinct (unwrap_or [] (approved_tokens st))"
  by (simp add: within_limits_def limit_readers)

lemma few_members:
  "within_limits st \<Longrightarrow> length (filter P (unwrap_or [] (members st))) \<le> get_max_members st"
  by (simp add: within_limits_def le_trans [OF length_filter_le])

lemma outside_round_charter: "outside_round st' = outside_round st \<Longrightarrow> charter st' = charter st"
  by (simp add: charter_def outside_round_same [of st' st])

section \<open>Administration\<close>

lemma init_steps_charter:
  "charter (init_group adm mems order n tk config st) = charter (st\<lparr>members := Some mems,
     approved_tokens := if tk \<in> set (unwrap_or [] (approved_tokens st)) then approved_tokens st
       else Some (unwrap_or [] (approved_tokens st) @ [tk])\<rparr>)"
  "charter (init_bookkeeping h st) = charter st"
  "charter (init_terms duration deadline max_count config st) = charter
     (st\<lparr>fee_bps := Some (cfg_fee_bps config), max_defaults := Some (cfg_max_defaults config),
        max_members := Some max_count\<rparr>)"
  "init_round_schedule h config st = Inr st' \<Longrightarrow> charter st' = charter st"
  "charter (init_goals config st) = charter
     (st\<lparr>voting_mode := Some (cfg_voting_mode config), quorum_percentage := Some 51,
        proposal_counter := Some 0, proposals := Map.empty, proposal_votes := Map.empty\<rparr>)"
  by (auto simp: init_group_def init_bookkeeping_def init_terms_def init_round_schedule_def
      init_goals_def Let_def ok_simps charter_def split: option.split if_split_asm)

lemma rosca_init_charter:
  assumes "rosca_init h adm mems n tk d config st = Inr st'"
  shows "charter st' = (Some mems,
      if tk \<in> set (unwrap_or [] (approved_tokens st)) then approved_tokens st
      else Some (unwrap_or [] (approved_tokens st) @ [tk]),
      Some (cfg_fee_bps config), Some (cfg_max_defaults config),
      Some (unwrap_or 50 (cfg_max_members config)), Some (cfg_voting_mode config), Some 51,
      quorum_config st, Some 0, Map.empty, Map.empty) \<and>
    cfg_fee_bps config \<le> 500 \<and> 1 \<le> cfg_max_defaults config \<and>
    1 \<le> unwrap_or 50 (cfg_max_members config) \<and> unwrap_or 50 (cfg_max_members config) \<le> 100 \<and>
    length mems \<le> unwrap_or 50 (cfg_max_members config)"
proof -
  from assms obtain order deadline st1 where
    guards: "cfg_fee_bps config \<le> 500" "1 \<le> cfg_max_defaults config"
    "1 \<le> unwrap_or 50 (cfg_max_members config)" "unwrap_or 50 (cfg_max_members config) \<le> 100"
    "length mems \<le> unwrap_or 50 (cfg_max_members config)"
    and st1: "init_round_schedule h config (init_terms d deadline
      (unwrap_or 50 (cfg_max_members config)) config (init_bookkeeping h
        (init_group adm mems order n tk config st))) = Inr st1"
    and st': "st' = emit_rosc_init (length mems) n (init_goals config st1)"
    by (auto simp: rosca_init_def Let_def ok_simps simp del: rosca_emit_defs)
  have "charter st1 = charter (init_terms d deadline (unwrap_or 50 (cfg_max_members config)) config
      (init_bookkeeping h (init_group adm mems order n tk config st)))"
    using init_steps_charter(4) [OF st1] .
  then show ?thesis
    using guards st' init_steps_charter(1) [of adm mems order n tk config st]
      init_steps_charter(2) [of h "init_group adm mems order n tk config st"]
      init_steps_charter(3) [of d deadline "unwrap_or 50 (cfg_max_members config)" config
        "init_bookkeeping h (init_group adm mems order n tk config st)"]
      init_steps_charter(5) [of config st1]
    by (simp add: charter_def)
qed

lemma rosca_init_laws:
  assumes "rosca_init h adm mems n tk d config st = Inr st'" and "within_limits st"
  shows "within_limits st' \<and> ballots_ok st'"
  using rosca_init_charter [OF assms(1)] assms(2)
  by (auto simp: charter_def law_defs)

lemma settings_charter:
  "rosca_propose_admin_transfer h a st = Inr st' \<Longrightarrow> charter st' = charter st"
  "rosca_accept_admin_role h st = Inr st' \<Longrightarrow> charter st' = charter st"
  "rosca_upgrade h a w st = Inr st' \<Longrightarrow> charter st' = charter st"
  "rosca_migrate h a st = Inr st' \<Longrightarrow> charter st' = charter st"
  "charter (snd (rosca_get_version st)) = charter st"
  "set_member_tier h a m t st = Inr st' \<Longrightarrow> charter st' = charter st"
  "set_exchange_rate h tk n st = Inr st' \<Longrightarrow> charter st' = charter st"
  "set_token_limit h tk n st = Inr st' \<Longrightarrow> charter st' = charter st"
  "set_auto_close_enabled h b st = Inr st' \<Longrightarrow> charter st' = charter st"
  "generate_invite h a st = Inr st' \<Longrightarrow> charter st' = charter st"
  "request_emergency_exit h a st = Inr st' \<Longrightarrow> charter st' = charter st"
  "reject_exit h a st = Inr st' \<Longrightarrow> charter st' = charter st"
  "init_multisig h as k st = Inr st' \<Longrightarrow> charter st' = charter st"
  "delegate_vote h a b' st = Inr st' \<Longrightarrow> charter st' = charter st"
  "revoke_delegation h a st = Inr st' \<Longrightarrow> charter st' = charter st"
  by (clarsimp simp: Let_def ok_simps rosca_propose_admin_transfer_def
      rosca_accept_admin_role_def rosca_upgrade_def rosca_get_or_init_version_def rosca_migrate_def
      rosca_get_version_def set_member_tier_def set_exchange_rate_def set_token_limit_def
      set_auto_close_enabled_def generate_invite_def request_emergency_exit_def reject_exit_def
      init_multisig_def delegate_vote_def revoke_delegation_def
      split: option.splits if_split_asm; fail)+

lemma pause_charter:
  "pause_group h r st = Inr st' \<Longrightarrow> charter st' = charter st"
  "rosca_pause_contract h a r st = Inr st' \<Longrightarrow> charter st' = charter st"
  by (clarsimp simp: pause_group_def rosca_pause_contract_def ok_simps)+

lemma deadline_charter:
  "extend_round_deadline d st = Inr st' \<Longrightarrow> charter st' = charter st"
  "extend_timestamp_deadline d st = Inr st' \<Longrightarrow> charter st' = charter st"
  by (auto simp: extend_round_deadline_def extend_timestamp_deadline_def Let_def ok_simps
      split: if_split_asm)

lemma resume_charter:
  "resume_group h r st = Inr st' \<Longrightarrow> charter st' = charter st"
  "rosca_resume_contract h a st = Inr st' \<Longrightarrow> charter st' = charter st"
  by (auto simp: resume_group_def rosca_resume_contract_def ok_simps dest!: deadline_charter)

lemma limited_settings_laws:
  "add_approved_token h tk st = Inr st' \<Longrightarrow> within_limits st \<Longrightarrow> within_limits st' \<and> ballots_ok st' = ballots_ok st"
  "remove_approved_token h tk st = Inr st' \<Longrightarrow> within_limits st \<Longrightarrow> within_limits st' \<and> ballots_ok st' = ballots_ok st"
  "rosca_update_fee h n st = Inr st' \<Longrightarrow> within_limits st \<Longrightarrow> within_limits st' \<and> ballots_ok st' = ballots_ok st"
  "update_max_members h n st = Inr st' \<Longrightarrow> within_limits st \<Longrightarrow> within_limits st' \<and> ballots_ok st' = ballots_ok st"
  "set_quorum_per_type h a k n st = Inr st' \<Longrightarrow> within_limits st \<Longrightarrow> within_limits st' \<and> ballots_ok st' = ballots_ok st"
  by (auto simp: Let_def ok_simps add_approved_token_def remove_approved_token_def
      rosca_update_fee_def update_max_members_def set_quorum_per_type_def
      approved_tokens_distinct intro!: limit_updates split: if_split_asm)

section \<open>Members\<close>

lemma admit_Inr [ok_simps]:
  "admit a st = Inr (n, st') \<longleftrightarrow>
     (\<exists>mems order. between_rounds st \<and> members st = Some mems \<and> a \<notin> set mems \<and>
        length mems < get_max_members st \<and> payout_order st = Some order \<and>
        n = Suc (length mems) \<and>
        st' = st\<lparr>members := Some (mems @ [a]), payout_order := Some (order @ [a])\<rparr>)"
  by (auto simp: admit_def Let_def ok_simps get_max_members_def)

lemma member_laws:
  "add_member h a st = Inr st' \<Longrightarrow> within_limits st \<Longrightarrow> within_limits st' \<and> ballots_ok st' = ballots_ok st"
  "join_with_invite h a st = Inr st' \<Longrightarrow> within_limits st \<Longrightarrow> within_limits st' \<and> ballots_ok st' = ballots_ok st"
  by (auto simp: Let_def ok_simps add_member_def join_with_invite_def get_max_members_def
      intro!: limit_updates)

lemma remove_member_laws:
  assumes "remove_member h a st = Inr st'" and "within_limits st"
  shows "within_limits st' \<and> ballots_ok st' = ballots_ok st"
proof -
  obtain mems order where "members st = Some mems"
    "st' = emit_mem_rmv a (length (filter (\<lambda>m. m \<noteq> a) mems))
       (st\<lparr>members := Some (filter (\<lambda>m. m \<noteq> a) mems), payout_order := Some order\<rparr>)"
    using assms(1) by (auto simp: remove_member_def Let_def ok_simps)
  with few_members [OF assms(2), of "\<lambda>m. m \<noteq> a"] assms(2) show ?thesis
    by (auto intro: limit_updates)
qed

lemma approve_exit_Inr:
  assumes "approve_exit h a st = Inr st'"
  obtains request refund st1 where
    "\<not> rosca_is_paused st" "\<exists>adm. admin st = Some adm \<and> authorized h adm"
    "unwrap_or Map.empty (temp_get h () (exit_requests st)) a = Some request"
    "exit_refund a (x_rounds_contributed request) st = Inr refund"
    "(if 0 < refund
      then and_then (entry UnwrapNone (base_token st)) (\<lambda>tk.
        token_transfer h tk (self_address h) a refund st)
      else Inr st) = Inr st1"
    "st' = emit_exit_ok a refund
       (st1\<lparr>members := Some (filter (\<lambda>m. m \<noteq> a) (unwrap_or [] (members st1))),
          exited_members := Some (unwrap_or [] (exited_members st1) @ [a]),
          exit_requests := temp_set h ()
            ((unwrap_or Map.empty (temp_get h () (exit_requests st)))(a := None))
            (exit_requests st1)\<rparr>)"
    "outside_round st1 = outside_round st"
proof -
  from assms obtain request refund st1 where
    r: "\<not> rosca_is_paused st" "\<exists>adm. admin st = Some adm \<and> authorized h adm"
    "unwrap_or Map.empty (temp_get h () (exit_requests st)) a = Some request"
    "exit_refund a (x_rounds_contributed request) st = Inr refund"
    and pay: "(if 0 < refund
      then and_then (entry UnwrapNone (base_token st)) (\<lambda>tk.
        token_transfer h tk (self_address h) a refund st)
      else Inr st) = Inr st1"
    and st': "st' = emit_exit_ok a refund
       (st1\<lparr>members := Some (filter (\<lambda>m. m \<noteq> a) (unwrap_or [] (members st1))),
          exited_members := Some (unwrap_or [] (exited_members st1) @ [a]),
          exit_requests := temp_set h ()
            ((unwrap_or Map.empty (temp_get h () (exit_requests st)))(a := None))
            (exit_requests st1)\<rparr>)"
    unfolding approve_exit_def Let_def and_then_Inr expect_Inr rosca_guards_Inr
    by (elim exE conjE) (simp del: rosca_emit_defs)
  have "outside_round st1 = outside_round st"
    using pay by (cases "0 < refund") (auto simp: and_then_Inr dest: transfer_outside)
  with that r pay st' show ?thesis by blast
qed

lemma approve_exit_laws:
  assumes "approve_exit h a st = Inr st'" and "within_limits st"
  shows "within_limits st' \<and> ballots_ok st' = ballots_ok st"
  using assms(1)
proof (rule approve_exit_Inr)
  fix request refund st1
  assume same: "outside_round st1 = outside_round st" and st': "st' = emit_exit_ok a refund
       (st1\<lparr>members := Some (filter (\<lambda>m. m \<noteq> a) (unwrap_or [] (members st1))),
          exited_members := Some (unwrap_or [] (exited_members st1) @ [a]),
          exit_requests := temp_set h ()
            ((unwrap_or Map.empty (temp_get h () (exit_requests st)))(a := None))
            (exit_requests st1)\<rparr>)"
  have "within_limits st1" "ballots_ok st1 = ballots_ok st"
    using assms(2) charter_laws [OF outside_round_charter [OF same]] by simp_all
  then show ?thesis
    by (auto simp: st' intro!: limit_updates few_members)
qed

lemma run_admin_action_cases:
  assumes "run_admin_action h n m p st = Inr st'"
  shows "st' = st \<or> (\<exists>a. remove_member h a st = Inr st') \<or>
    (\<exists>a. penalise_defaulter h a st = Inr st') \<or> (\<exists>b. rosca_update_fee h b st = Inr st')"
  using assms unfolding run_admin_action_def
  by (cases "n = 0"; cases "n = 1"; cases "n = 2"; cases m; cases p) (simp_all, blast+)

lemma run_admin_action_laws:
  assumes "run_admin_action h n m p st = Inr st'" and "within_limits st"
  shows "within_limits st' \<and> ballots_ok st' = ballots_ok st"
  using run_admin_action_cases [OF assms(1)]
proof (elim disjE exE)
  fix a
  assume "penalise_defaulter h a st = Inr st'"
  from charter_laws [OF outside_round_charter [OF penalise_defaulter_outside [OF this]]] assms(2)
  show ?thesis by simp
next
  fix a
  assume "remove_member h a st = Inr st'"
  then show ?thesis using assms(2) by (rule remove_member_laws)
next
  fix b
  assume "rosca_update_fee h b st = Inr st'"
  then show ?thesis using assms(2) by (rule limited_settings_laws)
qed (use assms(2) in simp)

text \<open>A proposed or approved action runs at once, or only an event is published.\<close>

lemma admin_action_runs:
  "propose_admin_action h n m p st = Inr st' \<Longrightarrow>
     \<exists>ev st1. (run_admin_action h n m p st = Inr st1 \<or> st1 = st) \<and> (st' = st1 \<or> st' = publish ev st1)"
  "approve_admin_action h a n m p st = Inr st' \<Longrightarrow>
     \<exists>ev st1. (run_admin_action h n m p st = Inr st1 \<or> st1 = st) \<and> (st' = st1 \<or> st' = publish ev st1)"
  by (auto simp: propose_admin_action_def approve_admin_action_def Let_def ok_simps
      split: if_split_asm)

lemma admin_action_laws:
  assumes "\<exists>ev st1. (run_admin_action h n m p st = Inr st1 \<or> st1 = st) \<and>
      (st' = st1 \<or> st' = publish ev st1)" and "within_limits st"
  shows "within_limits st' \<and> ballots_ok st' = ballots_ok st"
  using assms(1)
proof (elim exE conjE)
  fix ev st1
  assume "run_admin_action h n m p st = Inr st1 \<or> st1 = st"
  then have "within_limits st1 \<and> ballots_ok st1 = ballots_ok st"
    using run_admin_action_laws [OF _ assms(2)] assms(2) by blast
  moreover assume "st' = st1 \<or> st' = publish ev st1"
  ultimately show ?thesis by auto
qed

section \<open>Votes\<close>

lemma create_proposal_laws:
  assumes "create_proposal h c k d t v x st = Inr st'" and "within_limits st" and "ballots_ok st"
  shows "within_limits st' \<and> ballots_ok st'"
proof -
  let ?i = "unwrap_or 0 (proposal_counter st)"
  let ?pr = "\<lambda>q deadline. \<lparr>p_id = ?i, p_type = k, p_creator = c, p_description = d,
    p_target_member = t, p_votes_for = 0, p_votes_against = 0, p_created_at = timestamp h,
    p_deadline = deadline, p_status = Pending, p_execution_data = x, p_required_quorum = q\<rparr>"
  obtain q deadline where q: "quorum_for k st = Inr q"
    and st': "st' = emit_prop_new ?i c t (timestamp h) deadline
      (st\<lparr>proposals := (proposals st)(?i \<mapsto> ?pr q deadline),
         proposal_votes := (proposal_votes st)(?i \<mapsto> Map.empty), proposal_counter := Some (?i + 1)\<rparr>)"
    using assms(1) by (auto simp: create_proposal_def Let_def ok_simps)
  have "100 \<le> q \<and> q \<le> 10000"
    using q assms(2)
    by (auto simp: quorum_for_def Let_def within_limits_def limit_readers
        split: option.splits if_split_asm)
  with assms(2) have "within_limits st'" by (auto simp: st' law_defs)
  moreover have "ballots_ok st'"
    using assms(3) unfolding st' law_defs
    by (auto simp: less_Suc_eq)
  ultimately show ?thesis ..
qed

lemma count_delegators_counts:
  assumes "count_delegators voter b ds votes w st = Inr (votes', w')" and "equal_votes st"
    and "finite (dom votes)"
  shows "finite (dom votes') \<and> {a. votes' a = Some (\<not> b)} = {a. votes a = Some (\<not> b)} \<and>
    int (card {a. votes' a = Some b}) = int (card {a. votes a = Some b}) + (w' - w)"
  using assms
proof (induction voter b ds votes w st rule: count_delegators.induct)
  case (1 voter b votes w st)
  then show ?case by simp
next
  case (2 voter b delegator delegate ds votes w st)
  show ?case
  proof (cases "delegate = voter \<and> votes delegator = None")
    case True
    have one: "get_member_voting_weight delegator st = 1"
      using "2.prems"(2) by (simp add: equal_votes_def get_member_voting_weight_def)
    have step: "add128 w (get_member_voting_weight delegator st) = (Inr (w + 1) :: (rosca_panic, _) outcome)"
      using "2.prems"(1) True by (auto simp: ok_simps one)
    have rest: "count_delegators voter b ds (votes(delegator \<mapsto> b)) (w + 1) st = Inr (votes', w')"
      using "2.prems"(1) True by (simp add: ok_simps one)
    have ih: "finite (dom votes') \<and>
      {a. votes' a = Some (\<not> b)} = {a. (votes(delegator \<mapsto> b)) a = Some (\<not> b)} \<and>
      int (card {a. votes' a = Some b}) =
        int (card {a. (votes(delegator \<mapsto> b)) a = Some b}) + (w' - (w + 1))"
      by (rule "2.IH"(1) [OF True step rest "2.prems"(2)]) (simp only: dom_fun_upd option.simps if_False finite_insert "2.prems"(3))
    have "{a. (votes(delegator \<mapsto> b)) a = Some b} = insert delegator {a. votes a = Some b}"
      by auto
    moreover have "finite {a. votes a = Some b}"
      using "2.prems"(3) by (rule rev_finite_subset) auto
    moreover have "{a. (votes(delegator \<mapsto> b)) a = Some (\<not> b)} = {a. votes a = Some (\<not> b)}"
      using True by auto
    ultimately show ?thesis using ih True by simp
  next
    case False
    with "2.IH"(2) [OF False] "2.prems" show ?thesis by simp
  qed
qed

lemma count_delegators_finite:
  "count_delegators voter b ds votes w st = Inr (votes', w') \<Longrightarrow> finite (dom votes) \<Longrightarrow>
     finite (dom votes')"
  by (induction voter b ds votes w st rule: count_delegators.induct)
     (auto simp: ok_simps split: if_split_asm)

lemma add_votes_Inr:
  "add_votes b w p = Inr p' \<longleftrightarrow>
     (if b then i128_ok (p_votes_for p + w) \<and> p' = p\<lparr>p_votes_for := p_votes_for p + w\<rparr>
      else i128_ok (p_votes_against p + w) \<and> p' = p\<lparr>p_votes_against := p_votes_against p + w\<rparr>)"
  by (auto simp: add_votes_def ok_simps)

lemma vote_on_proposal_laws:
  assumes "vote_on_proposal h voter i b st = Inr st'" and "within_limits st" and "ballots_ok st"
  shows "within_limits st' \<and> ballots_ok st'"
proof -
  let ?votes = "unwrap_or Map.empty (proposal_votes st i)"
  let ?w = "get_member_voting_weight voter st"
  obtain pr pr1 pr2 votes delegated ev where
    pr: "proposals st i = Some pr" and fresh: "?votes voter = None"
    and one: "add_votes b ?w pr = Inr pr1"
    and count: "count_delegators voter b (delegations h st) (?votes(voter \<mapsto> b)) 0 st
      = Inr (votes, delegated)"
    and two: "add_votes b delegated pr1 = Inr pr2"
    and st': "st' = publish ev (st\<lparr>proposals := (proposals st)(i \<mapsto> pr2),
      proposal_votes := (proposal_votes st)(i \<mapsto> votes)\<rparr>)"
    using assms(1) by (auto simp: vote_on_proposal_def Let_def ok_simps split: if_split_asm)
  have quorum: "p_required_quorum pr2 = p_required_quorum pr"
    using one two by (auto simp: add_votes_Inr split: if_split_asm)
  have "within_limits st'"
    using assms(2) pr by (auto simp: st' within_limits_def limit_readers quorum)
  moreover have "ballots_ok st'"
  proof -
    have old: "i < get_proposal_counter st" "finite (dom ?votes)"
      and tally: "equal_votes st \<Longrightarrow> p_votes_for pr = int (card {a. ?votes a = Some True}) \<and>
        p_votes_against pr = int (card {a. ?votes a = Some False})"
      using assms(3) pr by (auto simp: ballots_ok_def voters_def)
    have fin: "finite (dom (?votes(voter \<mapsto> b)))" using old(2) by simp
    have finite: "finite (dom votes)" by (rule count_delegators_finite [OF count fin])
    have new: "p_votes_for pr2 = int (card {a. votes a = Some True}) \<and>
        p_votes_against pr2 = int (card {a. votes a = Some False})" if eq: "equal_votes st"
    proof -
      have w: "?w = 1" using eq by (simp add: equal_votes_def get_member_voting_weight_def)
      have ins: "{a. (?votes(voter \<mapsto> b)) a = Some b} = insert voter {a. ?votes a = Some b}"
        and keep: "{a. (?votes(voter \<mapsto> b)) a = Some (\<not> b)} = {a. ?votes a = Some (\<not> b)}"
        using fresh by auto
      have "finite {a. ?votes a = Some b}"
        using old(2) by (rule rev_finite_subset) auto
      then have card: "int (card {a. (?votes(voter \<mapsto> b)) a = Some b})
          = int (card {a. ?votes a = Some b}) + 1"
        unfolding ins using fresh by (subst card_insert_disjoint) simp_all
      from count_delegators_counts [OF count eq fin] card keep one two tally [OF eq] w
      show ?thesis by (cases b) (auto simp: add_votes_Inr)
    qed
    show ?thesis
      using assms(3) old(1) finite new
      by (auto simp: st' ballots_ok_def voters_def equal_votes_def get_proposal_counter_def)
  qed
  ultimately show ?thesis ..
qed

lemma apply_proposal_laws:
  assumes "within_limits st"
  shows "within_limits (apply_proposal p st) \<and> ballots_ok (apply_proposal p st) = ballots_ok st"
proof (cases "p_type p")
  case MemberRemoval
  then show ?thesis
    using assms
    by (auto simp: apply_proposal_def execute_member_removal_def intro!: limit_updates few_members)
qed (use assms in \<open>auto simp: apply_proposal_def execute_penalty_appeal_def execute_rule_change_def
  execute_max_members_update_def as_u32_def Let_def intro!: limit_updates
  split: option.splits if_split_asm\<close>)

lemma apply_proposal_ballots [simp]:
  "proposals (apply_proposal p st) = proposals st"
  "proposal_votes (apply_proposal p st) = proposal_votes st"
  "proposal_counter (apply_proposal p st) = proposal_counter st"
  "voting_mode (apply_proposal p st) = voting_mode st"
  by (auto simp: apply_proposal_def execute_penalty_appeal_def execute_rule_change_def
      execute_max_members_update_def execute_member_removal_def Let_def
      split: proposal_type.split option.split)

lemma proposal_status_laws:
  assumes "proposals st i = Some p"
  shows "within_limits st \<Longrightarrow>
      within_limits (st\<lparr>proposals := (proposals st)(i \<mapsto> p\<lparr>p_status := s\<rparr>)\<rparr>)"
    and "ballots_ok st \<Longrightarrow>
      ballots_ok (st\<lparr>proposals := (proposals st)(i \<mapsto> p\<lparr>p_status := s\<rparr>)\<rparr>)"
  using assms
  by (auto simp: within_limits_def limit_readers ballots_ok_def voters_def equal_votes_def
      get_proposal_counter_def)

text \<open>What a successful execution is: a rejection, or the effect of a proposal that passed.\<close>

lemma execute_proposal_Inr:
  assumes "execute_proposal h i st = Inr st'"
  obtains (rejected) p mems possible needed reason a b where "proposals st i = Some p"
      "p_status p = Pending" "p_deadline p < timestamp h" "members st = Some mems"
      "possible_votes mems st = Inr possible"
      "votes_needed possible (p_required_quorum p) = Inr needed"
      "p_votes_for p + p_votes_against p < needed \<or> p_votes_for p \<le> p_votes_against p"
      "st' = reject_proposal i p reason a b st"
  | (passed) p mems possible needed where "proposals st i = Some p" "p_status p = Pending"
      "p_deadline p < timestamp h" "members st = Some mems"
      "possible_votes mems st = Inr possible"
      "votes_needed possible (p_required_quorum p) = Inr needed"
      "needed \<le> p_votes_for p + p_votes_against p" "p_votes_against p < p_votes_for p"
      "st' = emit_prop_exec i (proposal_code (p_type p)) (p_target_member p)
        ((apply_proposal p st)\<lparr>proposals := (proposals st)(i \<mapsto> p\<lparr>p_status := Executed\<rparr>)\<rparr>)"
proof -
  from assms obtain mems p total possible needed where
    p: "proposals st i = Some p" "p_status p = Pending" "p_deadline p < timestamp h"
    "members st = Some mems" "possible_votes mems st = Inr possible"
    "votes_needed possible (p_required_quorum p) = Inr needed"
    and total: "add128 (p_votes_for p) (p_votes_against p) = (Inr total :: (rosca_panic, _) outcome)"
    and raw: "(if total < needed
       then Inr (reject_proposal i p ''insufficient_quorum'' total needed st)
       else if p_votes_for p \<le> p_votes_against p
       then Inr (reject_proposal i p ''votes_failed'' (p_votes_for p) (p_votes_against p) st)
       else Inr (emit_prop_exec i (proposal_code (p_type p)) (p_target_member p)
        ((apply_proposal p st)\<lparr>proposals :=
           (proposals (apply_proposal p st))(i \<mapsto> p\<lparr>p_status := Executed\<rparr>)\<rparr>)))
      = (Inr st' :: (rosca_panic, _) outcome)"
    unfolding execute_proposal_def Let_def and_then_Inr expect_Inr if_fail_Inr not_not not_le
    by (elim exE conjE) (rule that; assumption)
  have total: "total = p_votes_for p + p_votes_against p"
    using total by (simp add: ok_simps)
  note st' = raw [unfolded total apply_proposal_ballots]
  show ?thesis
  proof (cases "p_votes_for p + p_votes_against p < needed \<or> p_votes_for p \<le> p_votes_against p")
    case True
    with st' show ?thesis by (cases "p_votes_for p + p_votes_against p < needed")
        (auto intro: rejected [OF p])
  next
    case False
    with st' show ?thesis by (intro passed [OF p]) simp_all
  qed
qed

lemma execute_proposal_laws:
  assumes "execute_proposal h i st = Inr st'" and "within_limits st" and "ballots_ok st"
  shows "within_limits st' \<and> ballots_ok st'"
  using assms(1)
proof (cases rule: execute_proposal_Inr)
  case (rejected p mems possible needed reason a b)
  with proposal_status_laws [OF rejected(1)] assms(2,3) show ?thesis
    by (simp add: reject_proposal_def)
next
  case (passed p mems possible needed)
  have "proposals (apply_proposal p st) i = Some p" using passed(1) by simp
  from proposal_status_laws [OF this] apply_proposal_laws [OF assms(2), of p] assms(3) passed(9)
  show ?thesis by simp
qed

section \<open>The machine\<close>

lemma rosca_exec_laws:
  assumes "rosca_exec h op st = Inr st'" and "rosca_laws st"
  shows "rosca_laws st'"
proof (cases "on_round op")
  case True
  then have "charter st' = charter st"
    using assms(1) by (intro outside_round_charter on_round_outside)
  from charter_laws [OF this] assms(2) show ?thesis by (simp add: rosca_laws_def)
next
  case False
  have charter: "charter st' = charter st \<Longrightarrow> rosca_laws st'"
    using charter_laws [of st' st] assms(2) by (simp add: rosca_laws_def)
  have laws: "within_limits st' \<and> ballots_ok st' = ballots_ok st \<Longrightarrow> rosca_laws st'"
    using assms(2) by (simp add: rosca_laws_def)
  have limits: "within_limits st" and ballots: "ballots_ok st"
    using assms(2) by (simp_all add: rosca_laws_def)
  from False assms(1) show ?thesis
  proof (cases op)
    case (RInit a ms n tk d c)
    with assms(1) rosca_init_laws limits show ?thesis by (simp add: rosca_laws_def) blast
  next
    case (RCreateProposal a k d m v x)
    with assms(1) create_proposal_laws limits ballots show ?thesis by (simp add: rosca_laws_def) blast
  next
    case (RVote a i b)
    with assms(1) vote_on_proposal_laws limits ballots show ?thesis by (simp add: rosca_laws_def) blast
  next
    case (RExecute i)
    with assms(1) execute_proposal_laws limits ballots show ?thesis by (simp add: rosca_laws_def) blast
  next
    case RBump
    with assms show ?thesis by (simp add: bump_storage_def)
  next
    case (RSetQuorum a k n)
    with assms(1) have "set_quorum_per_type h a k n st = Inr st'" by simp
    from limited_settings_laws(5) [OF this limits] show ?thesis by (rule laws)
  next
    case RGetVersion
    with assms(1) have "st' = snd (rosca_get_version st)" by simp
    then show ?thesis using settings_charter(5) [of st] charter by simp
  qed (auto intro: charter [OF settings_charter(1)] charter [OF settings_charter(2)]
      charter [OF settings_charter(3)] charter [OF settings_charter(4)]
      charter [OF settings_charter(6)] charter [OF settings_charter(7)]
      charter [OF settings_charter(8)] charter [OF settings_charter(9)]
      charter [OF settings_charter(10)] charter [OF settings_charter(11)]
      charter [OF settings_charter(12)] charter [OF settings_charter(13)]
      charter [OF settings_charter(14)] charter [OF settings_charter(15)]
      charter [OF pause_charter(1)] charter [OF pause_charter(2)]
      charter [OF resume_charter(1)] charter [OF resume_charter(2)]
      laws [OF limited_settings_laws(1) [OF _ limits]] laws [OF limited_settings_laws(2) [OF _ limits]]
      laws [OF limited_settings_laws(3) [OF _ limits]] laws [OF limited_settings_laws(4) [OF _ limits]]
      laws [OF member_laws(1) [OF _ limits]] laws [OF member_laws(2) [OF _ limits]]
      laws [OF remove_member_laws [OF _ limits]] laws [OF approve_exit_laws [OF _ limits]]
      laws [OF admin_action_laws [OF admin_action_runs(1) limits]]
      laws [OF admin_action_laws [OF admin_action_runs(2) limits]])
qed

text \<open>Between calls only the token ledger changes.\<close>

definition rosca_drift :: "'l rosca_state \<Rightarrow> 'l rosca_state \<Rightarrow> bool" where
  "rosca_drift st st' \<longleftrightarrow> (\<exists>l. st' = st\<lparr>ledger := l\<rparr>)"

definition rosca_start :: "'l rosca_state \<Rightarrow> bool" where
  "rosca_start st \<longleftrightarrow> (\<exists>l. st = deployed_rosca l)"

interpretation rosca_machine: contract_machine rosca_exec "\<lambda>_. True" rosca_drift rosca_start rosca_laws
proof unfold_locales
  fix s s' :: "'l rosca_state"
  show "rosca_start s \<Longrightarrow> rosca_laws s"
    by (auto simp: rosca_start_def rosca_laws_def law_defs deployed_rosca_def)
  show "rosca_drift s s' \<Longrightarrow> rosca_laws s \<Longrightarrow> rosca_laws s'"
    by (auto simp: rosca_drift_def rosca_laws_def)
qed (rule rosca_exec_laws)

end
