(* ===== verification/Rosca_Demo.thy ===== *)
theory Rosca_Demo
  imports Rosca_Laws
begin

text \<open>
  A small concrete history of a savings group of three members, for the witnesses of the
  properties: each owes 100 per round, the fee is two percent, and a proposal is under vote.
\<close>

definition circle_token :: address where "circle_token = Contract 9"
definition circle_admin :: address where "circle_admin = Account 1"
definition ann :: address where "ann = Account 2"
definition bob :: address where "bob = Account 3"
definition cleo :: address where "cleo = Account 4"
definition circle_guest :: address where "circle_guest = Account 5"
definition circle_treasury :: address where "circle_treasury = Account 6"

lemmas circle_address_defs = circle_token_def circle_admin_def ann_def bob_def cleo_def
  circle_guest_def circle_treasury_def

definition circle_ledger :: plain_ledger where
  "circle_ledger = \<lparr>pl_bal = (\<lambda>t a. if a = ann \<or> a = bob \<or> a = cleo then 1000 else 0),
     pl_allow = (\<lambda>_ _ _. 0)\<rparr>"

definition circle_terms :: rosca_config where
  "circle_terms = \<lparr>cfg_strategy = RoundRobin, cfg_custom_order = None, cfg_penalty_amount = 10,
     cfg_exit_penalty_bps = 1000, cfg_collective_goal = None, cfg_member_goals = None,
     cfg_fee_bps = 200, cfg_fee_recipient = Some circle_treasury, cfg_max_defaults = 3,
     cfg_use_timestamp_schedule = False, cfg_round_duration_seconds = 0,
     cfg_max_members = Some 5, cfg_skip_fee = 0, cfg_max_skips_per_cycle = 1,
     cfg_voting_mode = EqualVotes\<rparr>"

definition circle_at :: "u64 \<Rightarrow> plain_ledger host" where
  "circle_at now = demo_host now 1 [circle_admin, ann, bob, cleo, circle_guest]"

definition circle_founding :: "(plain_ledger host \<times> rosca_op) list" where
  "circle_founding =
     [(circle_at 1, RInit circle_admin [ann, bob, cleo] 100 circle_token 1000 circle_terms),
      (circle_at 2, RCreateProposal ann RuleChange ''quorum'' ann 50 (Some 60)),
      (circle_at 3, RInvite circle_guest)]"

definition circle_payments :: "(plain_ledger host \<times> rosca_op) list" where
  "circle_payments =
     [(circle_at 4, RVote ann 0 True),
      (circle_at 5, RVote bob 0 True),
      (circle_at 6, RContribute ann circle_token 100),
      (circle_at 7, RContribute bob circle_token 100),
      (circle_at 8, RContribute cleo circle_token 40)]"

definition founded :: "plain_ledger rosca_state" where
  "founded = run_calls rosca_exec circle_founding (deployed_rosca circle_ledger)"

definition circle :: "plain_ledger rosca_state" where
  "circle = run_calls rosca_exec circle_payments founded"

lemma circle_reachable:
  "reachable rosca_exec (\<lambda>_. True) rosca_drift rosca_start founded"
  "reachable rosca_exec (\<lambda>_. True) rosca_drift rosca_start circle"
proof -
  have "reachable rosca_exec (\<lambda>_. True) rosca_drift rosca_start (deployed_rosca circle_ledger)"
    by (rule reachable.start) (auto simp: rosca_start_def)
  then show founded: "reachable rosca_exec (\<lambda>_. True) rosca_drift rosca_start founded"
    unfolding founded_def by (rule run_calls_reachable) simp
  show "reachable rosca_exec (\<lambda>_. True) rosca_drift rosca_start circle"
    unfolding circle_def using founded by (rule run_calls_reachable) simp
qed

lemma circle_laws: "rosca_laws founded" "rosca_laws circle"
  using rosca_machine.reachable_inv circle_reachable by blast+

lemmas circle_host_defs = call_tx_def circle_at_def demo_defs circle_address_defs

lemmas rosca_eval = rosca_init_def resolve_order_def init_group_def init_bookkeeping_def
  init_terms_def init_round_schedule_def init_goals_def group_admin_def named_admin_def
  check_not_paused_def rosca_is_paused_def create_proposal_def quorum_for_def generate_invite_def
  vote_on_proposal_def delegations_def get_member_voting_weight_def add_votes_def
  contribute_def contribution_guard_def contribution_deadline_def required_of_def tier_share_def
  amount_in_token_def take_contribution_def within_limit_def insurance_share_def
  complete_contribution_def track_participation_def note_savings_def note_auto_close_def
  temp_get_def temp_set_def temp_extend_ttl_def ROSCA_TEMP_LIFETIME_THRESHOLD_def
  ROSCA_TEMP_BUMP_AMOUNT_def Let_def arith_defs publish_def signed_divide_int_def

lemmas circle_eval = rosca_eval circle_host_defs circle_founding_def circle_payments_def
  deployed_rosca_def circle_ledger_def circle_terms_def

lemmas payout_eval = complete_round_payout_def select_recipient_def find_recipient.simps
  can_receive_def skips_round_def draw_insurance_def payout_fee_def pay_member_def pay_fee_def
  own_balance_def record_payout_def reset_round_state_def schedule_next_round_def

definition circle_proposal :: proposal where
  "circle_proposal = \<lparr>p_id = 0, p_type = RuleChange, p_creator = ann, p_description = ''quorum'',
     p_target_member = ann, p_votes_for = 2, p_votes_against = 0, p_created_at = 2,
     p_deadline = 52, p_status = Pending, p_execution_data = Some 60, p_required_quorum = 5100\<rparr>"

lemma founded_fields:
  "members founded = Some [ann, bob, cleo]" "payout_order founded = Some [ann, bob, cleo]"
  "current_round founded = Some 0" "paid_members founded = Some []"
  "admin founded = Some circle_admin"
  by (simp_all add: founded_def circle_eval)

lemma circle_fields:
  "members circle = Some [ann, bob, cleo]" "payout_order circle = Some [ann, bob, cleo]"
  "current_round circle = Some 0" "paid_members circle = Some [ann, bob]"
  "proposals circle 0 = Some circle_proposal" "base_token circle = Some circle_token"
  "suspended_members circle = Some []" "exited_members circle = Some []"
  "skip_requests circle = Map.empty" "admin circle = Some circle_admin"
  by (simp_all add: circle_def founded_def circle_eval circle_proposal_def)

end
