(* ===== verification/Rosca_Group.thy ===== *)
theory Rosca_Group
  imports Rosca_Demo
begin

text \<open>
  The governance of the savings group: the limits of its settings, the rule of the majority in its
  votes, and who may change its membership.
\<close>

section \<open>Limits\<close>

text \<open>
  C38. Whatever calls have run, and by whomever they were sent: the fee is at most five percent,
  the limit of defaults at least one, the group never outgrows its maximum size, which is between 1
  and 100, no token is approved twice, every quorum is between 1 and 100 percent, and the ballots
  are in order: proposals have ids below the counter, and under equal votes the tallies of a
  proposal are the numbers of the accounts recorded for and against it.
\<close>

theorem group_stays_within_limits:
  assumes "reachable rosca_exec (\<lambda>_. True) rosca_drift rosca_start st"
  shows "within_limits st \<and> ballots_ok st"
  using rosca_machine.reachable_inv [OF assms] by (simp add: rosca_laws_def)

lemma group_stays_within_limits_witness:
  "within_limits circle \<and> card (voters 0 True circle) = 2"
proof -
  have "voting_mode circle = Some EqualVotes"
    by (simp add: circle_def founded_def circle_eval)
  then have "equal_votes circle" by (simp add: equal_votes_def)
  with group_stays_within_limits [OF circle_reachable(2)] circle_fields(5)
  have "within_limits circle" "p_votes_for circle_proposal = int (card (voters 0 True circle))"
    unfolding ballots_ok_def by blast+
  then show ?thesis by (simp add: circle_proposal_def)
qed

section \<open>Votes\<close>

lemma rounded_up_le: "(x + 9999) div 10000 \<le> t \<longleftrightarrow> x \<le> 10000 * (t :: int)"
  by linarith

text \<open>
  All the votes there are: one per member, or under weighted votes what the members have paid into
  the current round.
\<close>

definition electorate :: "address list \<Rightarrow> 'l rosca_state \<Rightarrow> i128" where
  "electorate mems st =
     (if equal_votes st then int (length mems)
      else \<Sum>m\<leftarrow>mems. unwrap_or 0 (member_contributions st m))"

lemma sum_contributions_Inr:
  "sum_contributions cs mems acc = Inr x \<Longrightarrow> x = acc + (\<Sum>m\<leftarrow>mems. unwrap_or 0 (cs m))"
  by (induction mems arbitrary: acc) (fastforce simp: ok_simps)+

lemma possible_votes_Inr: "possible_votes mems st = Inr possible \<Longrightarrow> possible = electorate mems st"
  by (auto simp: possible_votes_def electorate_def equal_votes_def dest!: sum_contributions_Inr
      split: voting_mode.splits)

text \<open>The quorum of the possible votes, rounded up; the division rounds towards zero.\<close>

definition quorum_of :: "i128 \<Rightarrow> u32 \<Rightarrow> i128" where
  "quorum_of possible quorum = (possible * int quorum + 9999) sdiv 10000"

lemma votes_needed_quorum: "votes_needed possible quorum = Inr needed \<Longrightarrow> needed = quorum_of possible quorum"
  by (auto simp: votes_needed_def quorum_of_def ok_simps)

lemma quorum_of_nonneg:
  assumes "0 \<le> possible"
  shows "quorum_of possible quorum \<le> t \<longleftrightarrow> possible * int quorum \<le> 10000 * t"
proof -
  have "0 \<le> possible * int quorum" using assms by simp
  then have "sgn (possible * int quorum + 9999) = 1"
    "\<bar>possible * int quorum + 9999\<bar> = possible * int quorum + 9999" by simp_all
  then have "quorum_of possible quorum = (possible * int quorum + 9999) div 10000"
    by (simp add: quorum_of_def signed_divide_int_def)
  then show ?thesis by (simp add: rounded_up_le)
qed

text \<open>
  C39. In both voting modes a proposal is decided once, after its deadline: it passes exactly when
  the votes cast are at least the quorum of the electorate (rounded up) and more of them are for it
  than against it.  If it passes, its effect is applied and it is Executed; otherwise it is Rejected
  and nothing but its status changes.  The votes cast are the tallies of the proposal.  Under equal
  votes they are the numbers of its voters, and the quorum is of the number of members.  Under
  weighted votes the tallies add up what each voter had paid into the round when it voted, and the
  quorum is of what the members have paid into the round that is current at the execution; as long
  as that is not negative, rounding up does not matter.
\<close>

theorem proposal_needs_majority:
  assumes "execute_proposal h i st = Inr st'" and "ballots_ok st"
  shows "\<exists>p mems ev. proposals st i = Some p \<and> p_status p = Pending \<and> p_deadline p < timestamp h \<and>
    members st = Some mems \<and>
    (let cast = p_votes_for p + p_votes_against p;
         quorate = (quorum_of (electorate mems st) (p_required_quorum p) \<le> cast);
         passed = (quorate \<and> p_votes_against p < p_votes_for p);
         result = (if passed then apply_proposal p st else st)
     in st' = publish ev (result\<lparr>proposals := (proposals st)(i \<mapsto>
          p\<lparr>p_status := if passed then Executed else Rejected\<rparr>)\<rparr>) \<and>
        (0 \<le> electorate mems st \<longrightarrow>
           (quorate \<longleftrightarrow> electorate mems st * int (p_required_quorum p) \<le> 10000 * cast)) \<and>
        (equal_votes st \<longrightarrow> electorate mems st = int (length mems) \<and>
           p_votes_for p = int (card (voters i True st)) \<and>
           p_votes_against p = int (card (voters i False st)) \<and>
           (quorate \<longleftrightarrow> length mems * p_required_quorum p
              \<le> 10000 * (card (voters i True st) + card (voters i False st)))))"
proof -
  let ?yes = "card (voters i True st)" and ?no = "card (voters i False st)"
  have equal: "electorate mems st = int (length mems) \<and> p_votes_for p = int ?yes \<and>
      p_votes_against p = int ?no \<and>
      (quorum_of (electorate mems st) (p_required_quorum p) \<le> p_votes_for p + p_votes_against p \<longleftrightarrow>
        length mems * p_required_quorum p \<le> 10000 * (?yes + ?no))"
    if "proposals st i = Some p" and "equal_votes st" for p mems
  proof -
    have "electorate mems st = int (length mems)" and "p_votes_for p = int ?yes"
      and "p_votes_against p = int ?no"
      using assms(2) that by (auto simp: ballots_ok_def electorate_def)
    moreover have "int (length mems) * int q \<le> 10000 * (int ?yes + int ?no) \<longleftrightarrow>
        length mems * q \<le> 10000 * (?yes + ?no)" for q :: nat
      unfolding of_nat_le_iff [where 'a = int, symmetric] by simp
    ultimately show ?thesis by (simp add: quorum_of_nonneg)
  qed
  from assms(1) show ?thesis
  proof (cases rule: execute_proposal_Inr)
    case (rejected p mems possible needed reason a b)
    have "needed = quorum_of (electorate mems st) (p_required_quorum p)"
      using votes_needed_quorum [OF rejected(6)] possible_votes_Inr [OF rejected(5)] by simp
    then have "\<not> (quorum_of (electorate mems st) (p_required_quorum p) \<le> p_votes_for p + p_votes_against p
        \<and> p_votes_against p < p_votes_for p)"
      using rejected(7) by linarith
    with rejected equal [OF rejected(1), of mems] show ?thesis
      by (auto simp: reject_proposal_def emit_prop_rej_def Let_def quorum_of_nonneg)
  next
    case (passed p mems possible needed)
    have "needed = quorum_of (electorate mems st) (p_required_quorum p)"
      using votes_needed_quorum [OF passed(6)] possible_votes_Inr [OF passed(5)] by simp
    with passed equal [OF passed(1), of mems] show ?thesis
      by (auto simp: emit_prop_exec_def Let_def quorum_of_nonneg)
  qed
qed

lemma proposal_needs_majority_witness:
  "\<exists>st'. execute_proposal (circle_at 60) 0 circle = Inr st' \<and>
     quorum_percentage st' = Some 60 \<and>
     map_option p_status (proposals st' 0) = Some Executed"
proof -
  obtain st' where ok: "execute_proposal (circle_at 60) 0 circle = Inr st'"
    by (simp add: execute_proposal_def possible_votes_def votes_needed_def apply_proposal_def
        execute_rule_change_def as_u32_def circle_def founded_def circle_eval)
  have "voting_mode circle = Some EqualVotes"
    by (simp add: circle_def founded_def circle_eval)
  then have equal: "equal_votes circle" by (simp add: equal_votes_def)
  have votes: "voters 0 True circle = {ann, bob}" "voters 0 False circle = {}"
    by (auto simp: voters_def circle_def founded_def circle_eval split: if_splits)
  have "card {ann, bob} = 2" by (simp add: circle_address_defs)
  with proposal_needs_majority [OF ok] circle_laws(2) equal ok show ?thesis
    by (auto simp: rosca_laws_def votes circle_fields circle_proposal_def apply_proposal_def
        execute_rule_change_def as_u32_def publish_def Let_def)
qed

section \<open>Membership\<close>

definition group_signs :: "'l host \<Rightarrow> 'l rosca_state \<Rightarrow> bool" where
  "group_signs h st \<longleftrightarrow> (\<exists>a. admin st = Some a \<and> authorized h a)"

text \<open>The admin adds \<open>m\<close>, or \<open>m\<close> redeems its invite, between two rounds and if there is room.\<close>

definition may_join :: "'l host \<Rightarrow> 'l rosca_state \<Rightarrow> address list \<Rightarrow> address \<Rightarrow> bool" where
  "may_join h st mems m \<longleftrightarrow>
     between_rounds st \<and> m \<notin> set mems \<and> length mems < get_max_members st \<and>
     (group_signs h st \<or>
      authorized h m \<and> m \<in> set (unwrap_or [] (temp_get h () (approved_invitees st))))"

text \<open>What a member gets back when it leaves: what it paid in, less its payouts and the penalty.\<close>

definition received_by :: "address \<Rightarrow> 'l rosca_state \<Rightarrow> int" where
  "received_by m st = (\<Sum>r \<leftarrow> filter (\<lambda>r. pr_recipient r = m) (unwrap_or [] (round_history st)). pr_amount r)"

definition leaving_share :: "address \<Rightarrow> u32 \<Rightarrow> 'l rosca_state \<Rightarrow> int" where
  "leaving_share m rounds st =
     (let paid_in = unwrap_or 0 (contribution_amt st) * int rounds in
      max 0 (paid_in - received_by m st
        - bps_share paid_in (unwrap_or 0 (exit_penalty_bps st))))"

text \<open>The admin grants the exit \<open>m\<close> has asked for, with the refund of the base token.\<close>

definition granted_exit ::
  "'l view \<Rightarrow> 'l host \<Rightarrow> 'l rosca_state \<Rightarrow> address \<Rightarrow> 'l rosca_state \<Rightarrow> bool" where
  "granted_exit V h st m st' \<longleftrightarrow> group_signs h st \<and>
     (\<exists>request. unwrap_or Map.empty (temp_get h () (exit_requests st)) m = Some request \<and>
       (\<forall>t b. balance V (ledger st') t b = balance V (ledger st) t b +
         (if base_token st = Some t
          then (let share = leaving_share m (x_rounds_contributed request) st in
            (if b = m then share else 0) - (if b = self_address h then share else 0))
          else 0)))"

definition voted_out :: "'l host \<Rightarrow> 'l rosca_state \<Rightarrow> address list \<Rightarrow> address \<Rightarrow> bool" where
  "voted_out h st mems m \<longleftrightarrow>
     (\<exists>i p possible needed. proposals st i = Some p \<and> p_status p = Pending \<and>
       p_type p = MemberRemoval \<and> p_target_member p = m \<and> p_deadline p < timestamp h \<and>
       possible_votes mems st = Inr possible \<and>
       votes_needed possible (p_required_quorum p) = Inr needed \<and>
       needed \<le> p_votes_for p + p_votes_against p \<and> p_votes_against p < p_votes_for p)"

lemma received_payouts_Inr:
  "received_payouts m history acc = Inr x \<Longrightarrow>
     x = acc + (\<Sum>r \<leftarrow> filter (\<lambda>r. pr_recipient r = m) history. pr_amount r)"
  by (induction m history acc rule: received_payouts.induct) (auto simp: ok_simps split: if_splits)

lemma exit_refund_Inr:
  "exit_refund m rounds st = Inr refund \<Longrightarrow> refund = leaving_share m rounds st"
  by (auto simp: exit_refund_def leaving_share_def received_by_def bps_share_def Let_def ok_simps
      dest!: received_payouts_Inr split: if_splits)

lemma approve_exit_granted:
  assumes laws: "token_laws V h" and "approve_exit h m st = Inr st'" and "members st = Some mems"
  shows "granted_exit V h st m st' \<and> members st' = Some (filter (\<lambda>a. a \<noteq> m) mems)"
  using assms(2)
proof (rule approve_exit_Inr)
  fix request refund st1
  assume signs: "\<exists>adm. admin st = Some adm \<and> authorized h adm"
    and request: "unwrap_or Map.empty (temp_get h () (exit_requests st)) m = Some request"
    and refund: "exit_refund m (x_rounds_contributed request) st = Inr refund"
    and pay: "(if 0 < refund
      then and_then (entry UnwrapNone (base_token st)) (\<lambda>tk.
        token_transfer h tk (self_address h) m refund st)
      else Inr st) = Inr st1"
    and same: "outside_round st1 = outside_round st"
    and st': "st' = emit_exit_ok m refund
       (st1\<lparr>members := Some (filter (\<lambda>a. a \<noteq> m) (unwrap_or [] (members st1))),
          exited_members := Some (unwrap_or [] (exited_members st1) @ [m]),
          exit_requests := temp_set h ()
            ((unwrap_or Map.empty (temp_get h () (exit_requests st)))(m := None))
            (exit_requests st1)\<rparr>)"
  have share: "refund = leaving_share m (x_rounds_contributed request) st" "0 \<le> refund"
    using exit_refund_Inr [OF refund] by (simp_all add: leaving_share_def Let_def)
  have "balance V (ledger st1) t b = balance V (ledger st) t b +
      (if base_token st = Some t
       then (if b = m then refund else 0) - (if b = self_address h then refund else 0) else 0)" for t b
  proof (cases "0 < refund")
    case True
    with pay obtain tk where "base_token st = Some tk"
        "(token_transfer h tk (self_address h) m refund st :: (rosca_panic, _) outcome) = Inr st1"
      by (auto simp: and_then_Inr expect_Inr)
    then show ?thesis using transfer_balance [OF laws, of tk "self_address h" m refund st st1 t b]
      by auto
  next
    case False
    with pay share(2) show ?thesis by simp
  qed
  with signs request share st' assms(3) outside_round_same(8) [OF same] show ?thesis
    by (auto simp: granted_exit_def group_signs_def Let_def)
qed

lemma remove_member_Inr:
  assumes "remove_member h m st = Inr st'" and "members st = Some mems"
  shows "between_rounds st \<and> group_signs h st \<and> members st' = Some (filter (\<lambda>a. a \<noteq> m) mems)"
  using assms by (auto simp: remove_member_def Let_def ok_simps group_signs_def)

lemma admit_joins:
  assumes "admit m st = Inr (n, st')" and "members st = Some mems"
  shows "between_rounds st \<and> m \<notin> set mems \<and> length mems < get_max_members st \<and>
    members st' = Some (mems @ [m]) \<and>
    payout_order st' = map_option (\<lambda>order. order @ [m]) (payout_order st)"
  using assms by (auto simp: admit_Inr)

lemma joins:
  assumes "members st = Some mems"
  shows "add_member h m st = Inr st' \<Longrightarrow> may_join h st mems m \<and> members st' = Some (mems @ [m]) \<and>
      payout_order st' = map_option (\<lambda>order. order @ [m]) (payout_order st)"
    and "join_with_invite h m st = Inr st' \<Longrightarrow> may_join h st mems m \<and>
      members st' = Some (mems @ [m]) \<and>
      payout_order st' = map_option (\<lambda>order. order @ [m]) (payout_order st)"
  using assms
  by (auto simp: add_member_def join_with_invite_def Let_def ok_simps may_join_def group_signs_def
      between_rounds_def get_max_members_def)

lemma charter_members: "charter st' = charter st \<Longrightarrow> members st' = members st"
  by (simp add: charter_def)

lemma limited_settings_members:
  "add_approved_token h tk st = Inr st' \<Longrightarrow> members st' = members st"
  "remove_approved_token h tk st = Inr st' \<Longrightarrow> members st' = members st"
  "rosca_update_fee h n st = Inr st' \<Longrightarrow> members st' = members st"
  "update_max_members h n st = Inr st' \<Longrightarrow> members st' = members st"
  "set_quorum_per_type h a k n st = Inr st' \<Longrightarrow> members st' = members st"
  "create_proposal h a k d m v x st = Inr st' \<Longrightarrow> members st' = members st"
  "vote_on_proposal h a i b st = Inr st' \<Longrightarrow> members st' = members st"
  by (auto simp: Let_def ok_simps add_approved_token_def remove_approved_token_def
      rosca_update_fee_def update_max_members_def set_quorum_per_type_def create_proposal_def
      vote_on_proposal_def split: if_split_asm)

lemma admin_action_members:
  assumes "run_admin_action h n x p st = Inr st'" and "members st = Some mems"
  shows "members st' = members st \<or> (\<exists>m. between_rounds st \<and> group_signs h st \<and>
    members st' = Some (filter (\<lambda>a. a \<noteq> m) mems))"
  using run_admin_action_cases [OF assms(1)]
proof (elim disjE exE)
  fix m
  assume "penalise_defaulter h m st = Inr st'"
  from outside_round_same(8) [OF penalise_defaulter_outside [OF this]] show ?thesis by simp
next
  fix m
  assume "remove_member h m st = Inr st'"
  from remove_member_Inr [OF this assms(2)] show ?thesis by blast
next
  fix b
  assume "rosca_update_fee h b st = Inr st'"
  from limited_settings_members(3) [OF this] show ?thesis by simp
qed simp

lemma action_members:
  assumes "\<exists>ev st1. (run_admin_action h n x p st = Inr st1 \<or> st1 = st) \<and>
      (st' = st1 \<or> st' = publish ev st1)" and "members st = Some mems"
  shows "members st' = members st \<or> (\<exists>m. between_rounds st \<and> group_signs h st \<and>
    members st' = Some (filter (\<lambda>a. a \<noteq> m) mems))"
  using assms(1)
proof (elim exE conjE)
  fix ev st1
  assume "run_admin_action h n x p st = Inr st1 \<or> st1 = st"
  then have "members st1 = members st \<or> (\<exists>m. between_rounds st \<and> group_signs h st \<and>
      members st1 = Some (filter (\<lambda>a. a \<noteq> m) mems))"
    using admin_action_members [OF _ assms(2)] by blast
  moreover assume "st' = st1 \<or> st' = publish ev st1"
  ultimately show ?thesis by auto
qed

lemma execute_proposal_members:
  assumes "execute_proposal h i st = Inr st'" and "members st = Some mems"
  shows "members st' = members st \<or> (\<exists>m. voted_out h st mems m \<and>
    members st' = Some (filter (\<lambda>a. a \<noteq> m) mems))"
  using assms(1)
proof (cases rule: execute_proposal_Inr)
  case (rejected p ms possible needed reason a b)
  then show ?thesis by (simp add: reject_proposal_def)
next
  case (passed p ms possible needed)
  show ?thesis
  proof (cases "p_type p = MemberRemoval")
    case True
    with passed assms(2) have "voted_out h st mems (p_target_member p)"
      by (auto simp: voted_out_def)
    moreover have "members st' = Some (filter (\<lambda>a. a \<noteq> p_target_member p) mems)"
      using passed(9) True assms(2) by (simp add: apply_proposal_def execute_member_removal_def)
    ultimately show ?thesis by blast
  next
    case False
    with passed(9) show ?thesis
      by (cases "p_type p") (auto simp: apply_proposal_def execute_penalty_appeal_def
          execute_rule_change_def execute_max_members_update_def Let_def split: option.splits)
  qed
qed

lemma other_ops_members:
  assumes "rosca_exec h op st = Inr st'" and "members st = Some mems"
    and "\<nexists>m. op = RAddMember m" "\<nexists>m. op = RJoin m" "\<nexists>m. op = RRemoveMember m"
    "\<nexists>m. op = RApproveExit m" "\<nexists>t m p. op = RProposeAction t m p"
    "\<nexists>a t m p. op = RApproveAction a t m p" "\<nexists>i. op = RExecute i"
  shows "members st' = members st"
proof (cases "on_round op")
  case True
  then show ?thesis using assms(1) by (intro charter_members outside_round_charter on_round_outside)
next
  case False
  from False assms(1,3-) show ?thesis
  proof (cases op)
    case (RInit a ms n tk d c)
    with assms(1,2) show ?thesis by (simp add: rosca_init_def)
  next
    case RGetVersion
    with assms(1) have "st' = snd (rosca_get_version st)" by simp
    then show ?thesis using settings_charter(5) [of st] charter_members by simp
  next
    case RBump
    with assms(1) show ?thesis by (simp add: bump_storage_def)
  qed (auto intro: charter_members [OF settings_charter(1)] charter_members [OF settings_charter(2)]
      charter_members [OF settings_charter(3)] charter_members [OF settings_charter(4)]
      charter_members [OF settings_charter(6)] charter_members [OF settings_charter(7)]
      charter_members [OF settings_charter(8)] charter_members [OF settings_charter(9)]
      charter_members [OF settings_charter(10)] charter_members [OF settings_charter(11)]
      charter_members [OF settings_charter(12)] charter_members [OF settings_charter(13)]
      charter_members [OF settings_charter(14)] charter_members [OF settings_charter(15)]
      charter_members [OF pause_charter(1)] charter_members [OF pause_charter(2)]
      charter_members [OF resume_charter(1)] charter_members [OF resume_charter(2)]
      limited_settings_members)
qed

text \<open>
  C40. The membership changes only in these ways: between two rounds, the admin adds an account or
  an invited account redeems its own invite, while there is room, and it joins at the end of the
  payout order; between two rounds, the admin removes a member; the admin grants the exit a member
  has asked for, which pays that member, in the base token, exactly what it paid in less its
  payouts and the penalty; or, after its deadline, a removal proposal with quorum and majority is
  executed.  No other call of the contract adds or removes anybody.
\<close>

theorem membership_needs_authority:
  assumes "token_laws V h" and "rosca_exec h op st = Inr st'" and "members st = Some mems"
    and "members st' \<noteq> members st"
  shows "(\<exists>m. may_join h st mems m \<and> members st' = Some (mems @ [m]) \<and>
      payout_order st' = map_option (\<lambda>order. order @ [m]) (payout_order st)) \<or>
    (\<exists>m. members st' = Some (filter (\<lambda>a. a \<noteq> m) mems) \<and>
      (between_rounds st \<and> group_signs h st \<or> granted_exit V h st m st' \<or> voted_out h st mems m))"
    (is "?joins \<or> ?leaves")
proof -
  have leaves: "?joins \<or> ?leaves"
    if "members st' = members st \<or> (\<exists>m. between_rounds st \<and> group_signs h st \<and>
      members st' = Some (filter (\<lambda>a. a \<noteq> m) mems))"
    using that assms(4) by blast
  consider (add) m where "op = RAddMember m" | (join) m where "op = RJoin m"
    | (remove) m where "op = RRemoveMember m" | (exit) m where "op = RApproveExit m"
    | (propose) t m p where "op = RProposeAction t m p"
    | (approve) a t m p where "op = RApproveAction a t m p"
    | (vote) i where "op = RExecute i"
    using other_ops_members [OF assms(2,3)] assms(4) by blast
  then show ?thesis
  proof cases
    case add
    with assms(2) joins(1) [OF assms(3)] show ?thesis by auto
  next
    case join
    with assms(2) joins(2) [OF assms(3)] show ?thesis by auto
  next
    case remove
    with assms(2) remove_member_Inr [OF _ assms(3)] show ?thesis by auto
  next
    case exit
    with assms(2) approve_exit_granted [OF assms(1) _ assms(3)] show ?thesis by auto
  next
    case propose
    with assms(2) show ?thesis by (intro leaves action_members [OF admin_action_runs(1) assms(3)]) simp
  next
    case approve
    with assms(2) show ?thesis by (intro leaves action_members [OF admin_action_runs(2) assms(3)]) simp
  next
    case vote
    with assms(2) have "execute_proposal h i st = Inr st'" by simp
    from execute_proposal_members [OF this assms(3)] assms(4) show ?thesis by blast
  qed
qed

lemma membership_needs_authority_witness:
  "\<exists>st'. rosca_exec (circle_at 10) (RJoin circle_guest) founded = Inr st' \<and>
     members st' = Some [ann, bob, cleo, circle_guest] \<and>
     may_join (circle_at 10) founded [ann, bob, cleo] circle_guest"
proof -
  obtain st' where ok: "rosca_exec (circle_at 10) (RJoin circle_guest) founded = Inr st'"
    and new: "members st' = Some [ann, bob, cleo, circle_guest]"
    by (simp add: join_with_invite_def admit_def between_rounds_def founded_def circle_eval)
  have laws: "token_laws plain_view (circle_at 10)" by (simp add: circle_at_def token_laws_demo)
  have "\<not> (\<exists>m. members st' = Some (filter (\<lambda>a. a \<noteq> m) [ann, bob, cleo]))"
  proof
    assume "\<exists>m. members st' = Some (filter (\<lambda>a. a \<noteq> m) [ann, bob, cleo])"
    then obtain m where
      eq: "filter (\<lambda>a. a \<noteq> m) [ann, bob, cleo] = [ann, bob, cleo, circle_guest]"
      by (metis option.inject new)
    have "length (filter (\<lambda>a. a \<noteq> m) [ann, bob, cleo]) = 4" by (simp only: eq) simp
    then show False using length_filter_le [of "\<lambda>a. a \<noteq> m" "[ann, bob, cleo]"] by simp
  qed
  moreover have "members st' \<noteq> members founded" by (simp add: new founded_fields)
  ultimately obtain m where "may_join (circle_at 10) founded [ann, bob, cleo] m"
      "members st' = Some ([ann, bob, cleo] @ [m])"
    using membership_needs_authority [OF laws ok founded_fields(1)] by blast
  with ok new show ?thesis by simp
qed

end
