(* ===== verification/Rosca_Interfaces.thy ===== *)
theory Rosca_Interfaces
  imports Rosca_Laws
begin

text \<open>
  The savings group as an instance of the emergency stop of Soroban.thy: which entry points refuse
  to run while it is paused, and what resuming does to the deadlines.
\<close>

fun rosca_guarded :: "rosca_op \<Rightarrow> bool" where
  "rosca_guarded (RInit a ms n tk d c) = False"
| "rosca_guarded (RProposeAdmin a) = False"
| "rosca_guarded RAcceptAdmin = False"
| "rosca_guarded (RUpgrade a w) = False"
| "rosca_guarded (RMigrate a) = False"
| "rosca_guarded RGetVersion = False"
| "rosca_guarded RBump = False"
| "rosca_guarded (RSetTier a m n) = False"
| "rosca_guarded (RUpdateMaxMembers n) = False"
| "rosca_guarded (RSetQuorum a k n) = False"
| "rosca_guarded (RPauseGroup r) = False"
| "rosca_guarded (RResumeGroup r) = False"
| "rosca_guarded (RPause a r) = False"
| "rosca_guarded (RResume a) = False"
| "rosca_guarded _ = True"

lemma paused_check: "rosca_is_paused st \<Longrightarrow> check_not_paused st = fail ContractPaused"
  by (simp add: check_not_paused_def rosca_is_paused_def)

lemma rosca_paused_blocks:
  assumes "rosca_is_paused st" and "rosca_guarded op"
  shows "\<not> succeeds (rosca_exec h op st)"
  using assms(2)
  by (cases op) (simp_all add: paused_check [OF assms(1)] succeeds_iff add_approved_token_def
      remove_approved_token_def set_exchange_rate_def set_token_limit_def
      set_reward_dist_params_def rosca_update_fee_def set_auto_close_enabled_def contribute_def
      contribution_guard_def request_skip_def close_round_def finalize_round_def
      contribute_to_insurance_def deposit_rewards_def claim_rewards_def
      set_reinvest_preference_def emit_deadline_reminder_def add_member_def remove_member_def
      generate_invite_def join_with_invite_def penalise_defaulter_def request_emergency_exit_def
      approve_exit_def reject_exit_def init_multisig_def propose_admin_action_def
      approve_admin_action_def create_proposal_def delegate_vote_def revoke_delegation_def
      vote_on_proposal_def execute_proposal_def)

lemma pause_group_effect:
  "pause_group h r st = Inr st' \<Longrightarrow>
     \<not> rosca_is_paused st \<and> rosca_is_paused st' \<and> rosca_get_pause_reason st' = r"
  by (auto simp: pause_group_def rosca_is_paused_def rosca_get_pause_reason_def ok_simps)

lemma resume_group_effect:
  "resume_group h r st = Inr st' \<Longrightarrow>
     rosca_is_paused st \<and> \<not> rosca_is_paused st' \<and> rosca_get_pause_reason st' = []"
  by (auto simp: resume_group_def ok_simps)
    (auto simp: rosca_is_paused_def rosca_get_pause_reason_def)

interpretation rosca_stop: pausable_machine rosca_is_paused rosca_get_pause_reason
  rosca_pause_contract rosca_resume_contract rosca_exec rosca_guarded
proof unfold_locales
  fix h :: "'l host" and a r and s s' :: "'l rosca_state"
  show "rosca_pause_contract h a r s = Inr s' \<Longrightarrow>
      \<not> rosca_is_paused s \<and> rosca_is_paused s' \<and> rosca_get_pause_reason s' = r"
    by (auto simp: rosca_pause_contract_def ok_simps dest: pause_group_effect)
  show "rosca_resume_contract h a s = Inr s' \<Longrightarrow>
      rosca_is_paused s \<and> \<not> rosca_is_paused s' \<and> rosca_get_pause_reason s' = []"
    by (auto simp: rosca_resume_contract_def ok_simps dest: resume_group_effect)
qed (rule rosca_paused_blocks)

text \<open>Resuming gives the members back the time of the pause.\<close>

lemma extend_deadlines:
  "extend_round_deadline d st = Inr st' \<Longrightarrow>
     round_deadline st' = map_option (\<lambda>t. if 0 < t then t + d else t) (round_deadline st)"
  "extend_timestamp_deadline d st = Inr st' \<Longrightarrow> round_deadline st' = round_deadline st"
  by (cases "round_deadline st"; auto simp: extend_round_deadline_def extend_timestamp_deadline_def
      Let_def ok_simps split: if_split_asm; fail)+

lemma resume_group_shifts_deadline:
  assumes "resume_group h r st = Inr st'"
  shows "\<exists>since. pause_timestamp st = Some since \<and> since \<le> timestamp h \<and> round_deadline st' =
    map_option (\<lambda>t. if 0 < t then t + (timestamp h - since) else t) (round_deadline st)"
proof -
  from assms obtain since st1 st2 where since: "pause_timestamp st = Some since" "since \<le> timestamp h"
    and moved: "extend_round_deadline (timestamp h - since) st = Inr st1"
      "extend_timestamp_deadline (timestamp h - since) st1 = Inr st2"
    and st': "round_deadline st' = round_deadline st2"
    by (auto simp: resume_group_def ok_simps)
  with extend_deadlines(1) [OF moved(1)] extend_deadlines(2) [OF moved(2)] show ?thesis by simp
qed

lemma pause_then_resume:
  assumes "rosca_pause_contract h a r st = Inr st1" and "\<forall>c \<in> set cs. rosca_guarded (snd c)"
    and "rosca_resume_contract h' a' (run_calls rosca_exec cs st1) = Inr st2"
  shows "timestamp h \<le> timestamp h' \<and> round_deadline st2 =
    map_option (\<lambda>t. if 0 < t then t + (timestamp h' - timestamp h) else t) (round_deadline st)"
proof -
  have frozen: "run_calls rosca_exec cs st1 = st1"
    by (rule rosca_stop.pause_freezes [OF assms(1,2)])
  have "pause_timestamp st1 = Some (timestamp h)" "round_deadline st1 = round_deadline st"
    using assms(1) by (auto simp: rosca_pause_contract_def pause_group_def ok_simps)
  moreover obtain r' where "resume_group h' r' st1 = Inr st2"
    using assms(3) unfolding frozen rosca_resume_contract_def by (auto simp: ok_simps)
  ultimately show ?thesis using resume_group_shifts_deadline by fastforce
qed

end
