(* ===== verification/Rosca_Money.thy ===== *)
theory Rosca_Money
  imports Rosca_Demo
begin

text \<open>
  The money of the savings group: whose turn the payout is, what a payout pays to whom, and what a
  contribution takes and changes.
\<close>

section \<open>Turns\<close>

lemma select_recipient_found:
  assumes "current_round st = Some r" and "payout_order st = Some order" and "order \<noteq> []"
    and "\<exists>m\<in>set order. can_receive st r m"
  shows "\<exists>k<length order. select_recipient st = Inr (r, in_turn order r k) \<and>
    can_receive st r (in_turn order r k) \<and> (\<forall>j<k. \<not> can_receive st r (in_turn order r j))"
proof -
  let ?n = "length order" and ?ok = "can_receive st r"
  have "0 < ?n" using assms(3) by simp
  then obtain d where d: "find_recipient ?ok order (r mod ?n) 0 = ((r mod ?n + d) mod ?n, d)"
      "d \<le> ?n" "\<forall>k<d. \<not> ?ok (in_turn order (r mod ?n) k)"
      "d < ?n \<longrightarrow> ?ok (in_turn order (r mod ?n) d)"
    using find_recipient_result [of "r mod ?n" order 0 ?ok] by auto
  have turn: "in_turn order (r mod ?n) k = in_turn order r k" for k
    by (simp add: in_turn_def mod_add_left_eq)
  obtain k where k: "k < ?n" "?ok (in_turn order r k)"
    using assms(3,4) all_turns [of order _ r] by metis
  have "d < ?n"
  proof (rule ccontr)
    assume "\<not> d < ?n"
    with k d(3) show False by (simp add: turn)
  qed
  moreover have "select_recipient st = Inr (r, in_turn order r d)"
    using assms(1-3) d(1) \<open>d < ?n\<close> by (simp add: select_recipient_def in_turn_def mod_add_left_eq)
  ultimately show ?thesis using d(3,4) by (auto simp: turn)
qed

lemma select_recipient_nobody:
  assumes "current_round st = Some r" and "payout_order st = Some order" and "order \<noteq> []"
    and "\<forall>m\<in>set order. \<not> can_receive st r m"
  shows "select_recipient st = fail AllMembersSuspended"
proof -
  let ?n = "length order" and ?ok = "can_receive st r"
  have "0 < ?n" using assms(3) by simp
  then obtain d where d: "find_recipient ?ok order (r mod ?n) 0 = ((r mod ?n + d) mod ?n, d)"
      "d \<le> ?n" "d < ?n \<longrightarrow> ?ok (in_turn order (r mod ?n) d)"
    using find_recipient_result [of "r mod ?n" order 0 ?ok] by auto
  have "in_turn order (r mod ?n) d \<in> set order" using \<open>0 < ?n\<close> by (simp add: in_turn_def)
  with assms(4) d(2,3) have "d = ?n" by (metis le_neq_implies_less)
  with assms(1-3) d(1) show ?thesis by (simp add: select_recipient_def)
qed

text \<open>
  C35. The search for the recipient of a payout ends for every group: from the position of the
  round on, cyclically, it takes the first member of the payout order that is neither suspended
  nor gone nor skips the round, and it reports that all are suspended exactly when no member of
  the order can receive.
\<close>

theorem payout_recipient_in_turn:
  assumes "current_round st = Some r" and "payout_order st = Some order" and "order \<noteq> []"
  shows "(if \<exists>m\<in>set order. can_receive st r m
    then \<exists>k<length order. select_recipient st = Inr (r, order ! ((r + k) mod length order)) \<and>
      can_receive st r (order ! ((r + k) mod length order)) \<and>
      (\<forall>j<k. \<not> can_receive st r (order ! ((r + j) mod length order)))
    else select_recipient st = fail AllMembersSuspended)"
  using select_recipient_found [OF assms] select_recipient_nobody [OF assms]
  by (auto simp: in_turn_def)

lemma payout_recipient_in_turn_witness: "select_recipient circle = Inr (0, ann)"
proof -
  let ?order = "[ann, bob, cleo]"
  let ?turn = "\<lambda>k. ?order ! ((0 + k) mod length ?order)"
  have ann: "can_receive circle 0 ann"
    by (simp add: can_receive_def skips_round_def circle_fields)
  then have "\<exists>m\<in>set ?order. can_receive circle 0 m" by simp
  with payout_recipient_in_turn [OF circle_fields(3,2)] obtain k where
    k: "select_recipient circle = Inr (0, ?turn k)"
    and least: "\<forall>j<k. \<not> can_receive circle 0 (?turn j)"
    by (metis list.distinct(1))
  have "k = 0"
  proof (rule ccontr)
    assume "k \<noteq> 0"
    then have "\<not> can_receive circle 0 (?turn 0)" using least by blast
    with ann show False by simp
  qed
  with k show ?thesis by simp
qed

section \<open>The steps of a payout\<close>

definition round_books :: "'l rosca_state \<Rightarrow> u32 option \<times> address list option \<times>
    (address \<rightharpoonup> i128) \<times> payout_record list option \<times> (address \<rightharpoonup> bool) \<times> i128 option \<times>
    address list option" where
  "round_books st = (current_round st, paid_members st, member_contributions st, round_history st,
     reinvest_preference st, reward_pool st, defaulters st)"

lemma round_books_updates [simp]:
  "round_books (st\<lparr>ledger := l\<rparr>) = round_books st"
  "round_books (st\<lparr>events := es\<rparr>) = round_books st"
  "round_books (st\<lparr>insurance_pool := i\<rparr>) = round_books st"
  "round_books (publish ev st) = round_books st"
  by (simp_all add: round_books_def publish_def)

lemma draw_insurance_keeps:
  assumes "draw_insurance round expected actual st = Inr st'"
  shows "ledger st' = ledger st" "round_books st' = round_books st"
  using assms by (auto simp: draw_insurance_def Let_def ok_simps split: if_splits)

lemma transfer_books:
  "token_transfer h tk src dst amt st = (Inr st' :: (rosca_panic, _) outcome) \<Longrightarrow>
     round_books st' = round_books st"
  by (clarsimp simp: ok_simps)

lemma pay_member_books:
  "pay_member h round tk payee keep amount st = Inr st' \<Longrightarrow> round_books st' = round_books st"
  by (auto simp: pay_member_def dest: transfer_books split: if_splits)

lemma pay_fee_books:
  "pay_fee h round tk is_base fee_to amount st = Inr st' \<Longrightarrow> round_books st' = round_books st"
  by (cases fee_to; cases "0 < amount") (clarsimp simp: pay_fee_def ok_simps)+

lemma pay_pot_books:
  "pay_pot h round payee reinvest tk reserve bps fee_to tokens hist kept st = Inr (hist', kept', st') \<Longrightarrow>
     round_books st' = round_books st"
proof (induction tokens arbitrary: hist kept st)
  case Nil
  then show ?case by simp
next
  case (Cons t tokens)
  from Cons.prems refl show ?case
  proof (cases rule: pay_pot_step)
    case (paid fee st1 st2)
    with Cons.IH [OF paid(5)] show ?thesis by (simp add: pay_member_books pay_fee_books)
  next
    case empty
    show ?thesis by (rule Cons.IH [OF empty(2)])
  qed
qed

lemma reset_round_state_effect:
  assumes "reset_round_state h round st = Inr st'"
  shows "current_round st' = Some (round + 1)" "paid_members st' = Some []"
    "member_contributions st' = Map.empty" "ledger st' = ledger st"
    "round_history st' = round_history st" "defaulters st' = defaulters st"
  using assms
  by (auto simp: reset_round_state_def schedule_next_round_def Let_def ok_simps split: if_splits)

lemma record_payout_effect:
  "ledger (record_payout round payee amount st) = ledger st"
  "round_history (record_payout round payee amount st) =
     Some (unwrap_or [] (round_history st) @ [\<lparr>pr_recipient = payee, pr_amount = amount\<rparr>])"
  "defaulters (record_payout round payee amount st) = defaulters st"
  by (simp_all add: record_payout_def Let_def)

lemma reinvest_payout_effect:
  assumes "reinvest_payout payee kept st = Inr st'" and "paid_members st = Some []"
    and "member_contributions st = Map.empty"
  obtains required where
    "required_of payee (unwrap_or 0 (contribution_amt st)) st = Inr required"
    "ledger st' = ledger st" "current_round st' = current_round st"
    "round_history st' = round_history st" "member_contributions st' = [payee \<mapsto> kept]"
    "paid_members st' = Some (if required \<le> kept then [payee] else [])"
    "defaulters st' = defaulters st"
proof -
  obtain required where required:
    "required_of payee (unwrap_or 0 (contribution_amt st)) st = Inr required"
    using assms(1) by (auto simp: reinvest_payout_def required_of_def Let_def and_then_Inr)
  have "ledger st' = ledger st \<and> current_round st' = current_round st \<and>
    round_history st' = round_history st \<and> member_contributions st' = [payee \<mapsto> kept] \<and>
    paid_members st' = Some (if required \<le> kept then [payee] else []) \<and>
    defaulters st' = defaulters st"
    using assms required
    by (cases "required \<le> kept")
      (auto simp: reinvest_payout_def required_of_def track_participation_def Let_def ok_simps)
  with required show ?thesis by (intro that) auto
qed

section \<open>The payout\<close>

lemma complete_round_payout_Inr:
  assumes "complete_round_payout h paid st = Inr st'"
  obtains round payee tk expected actual st1 history kept st2 st3 where
    "select_recipient st = Inr (round, payee)" "base_token st = Some tk"
    "draw_insurance round expected actual st = Inr st1"
    "pay_pot h round payee (unwrap_or False (reinvest_preference st payee)) tk
       (unwrap_or 0 (reward_pool st)) (rosca_get_fee_bps st) (fee_recipient st)
       (get_approved_tokens st) 0 0 st1 = Inr (history, kept, st2)"
    "reset_round_state h round (record_payout round payee history st2) = Inr st3"
    "(if unwrap_or False (reinvest_preference st payee) \<and> 0 < kept
      then reinvest_payout payee kept st3 else Inr st3) = Inr st'"
  using assms
  by (auto simp: complete_round_payout_def Let_def and_then_Inr rosca_get_fee_bps_def
      get_approved_tokens_def expect_Inr simp del: if_fail_Inr)

lemma complete_round_payout_defaulters:
  assumes "complete_round_payout h paid st = Inr st'"
  shows "defaulters st' = defaulters st"
proof -
  from assms obtain round payee tk expected actual st1 history kept st2 st3 where
    draw: "draw_insurance round expected actual st = Inr st1"
    and pay: "pay_pot h round payee (unwrap_or False (reinvest_preference st payee)) tk
       (unwrap_or 0 (reward_pool st)) (rosca_get_fee_bps st) (fee_recipient st)
       (get_approved_tokens st) 0 0 st1 = Inr (history, kept, st2)"
    and reset: "reset_round_state h round (record_payout round payee history st2) = Inr st3"
    and last: "(if unwrap_or False (reinvest_preference st payee) \<and> 0 < kept
      then reinvest_payout payee kept st3 else Inr st3) = Inr st'"
    by (rule complete_round_payout_Inr)
  have "defaulters st2 = defaulters st"
    using pay_pot_books [OF pay] draw_insurance_keeps(2) [OF draw] by (simp add: round_books_def)
  moreover note st3 = reset_round_state_effect [OF reset, unfolded record_payout_effect]
  moreover have "defaulters st' = defaulters st3"
  proof (cases "unwrap_or False (reinvest_preference st payee) \<and> 0 < kept")
    case True
    with last have "reinvest_payout payee kept st3 = Inr st'" by simp
    then show ?thesis by (rule reinvest_payout_effect [OF _ st3(2,3)])
  next
    case False
    with last show ?thesis by auto
  qed
  ultimately show ?thesis by simp
qed

text \<open>
  C36. A payout pays, for every approved token, the balance of the contract (for the base token
  without the rewards it keeps): the fee, at most five percent, to the fee recipient, and the rest
  to the member whose turn it is, or to nobody if the member leaves it with the group.  No other
  balance changes.  The pot of the base token is recorded in the history, the round counter goes up
  by one, and the new round begins with no contributions but the reinvested one, which counts as
  paid exactly when it covers what the member owes.
\<close>

theorem payout_distributes_pot:
  assumes "token_laws V h" and "balance_law V h" and "within_limits st"
    and "complete_round_payout h paid st = Inr st'"
  shows "\<exists>round payee tk. select_recipient st = Inr (round, payee) \<and> base_token st = Some tk \<and>
    (let self = self_address h; reserve = unwrap_or 0 (reward_pool st); bps = rosca_get_fee_bps st;
         fee = fee_of bps (fee_recipient st); keep = unwrap_or False (reinvest_preference st payee);
         pot = (\<lambda>t. pot_of V self tk reserve (ledger st) t);
         recorded = (if tk \<in> set (get_approved_tokens st) then pot tk else 0);
         kept = (if keep \<and> 0 < recorded then recorded - fee recorded else 0)
     in (\<forall>t a. balance V (ledger st') t a = balance V (ledger st) t a +
          (if t \<in> set (get_approved_tokens st)
           then gain self payee (keep \<and> t = tk) bps (fee_recipient st) (pot t) a else 0)) \<and>
        (\<forall>x>0. 0 \<le> fee x \<and> 20 * fee x \<le> x) \<and>
        round_history st' = Some (unwrap_or [] (round_history st)
          @ [\<lparr>pr_recipient = payee, pr_amount = recorded\<rparr>]) \<and>
        current_round st' = Some (round + 1) \<and>
        (if 0 < kept
         then \<exists>required. required_of payee (unwrap_or 0 (contribution_amt st)) st = Inr required \<and>
           member_contributions st' = [payee \<mapsto> kept] \<and>
           paid_members st' = Some (if required \<le> kept then [payee] else [])
         else member_contributions st' = Map.empty \<and> paid_members st' = Some []))"
proof -
  from assms(4) obtain round payee tk expected actual st1 history kept st2 st3 where
    rec: "select_recipient st = Inr (round, payee)" and tk: "base_token st = Some tk"
    and draw: "draw_insurance round expected actual st = Inr st1"
    and pay: "pay_pot h round payee (unwrap_or False (reinvest_preference st payee)) tk
       (unwrap_or 0 (reward_pool st)) (rosca_get_fee_bps st) (fee_recipient st)
       (get_approved_tokens st) 0 0 st1 = Inr (history, kept, st2)"
    and reset: "reset_round_state h round (record_payout round payee history st2) = Inr st3"
    and last: "(if unwrap_or False (reinvest_preference st payee) \<and> 0 < kept
      then reinvest_payout payee kept st3 else Inr st3) = Inr st'"
    by (rule complete_round_payout_Inr)
  have bps: "rosca_get_fee_bps st \<le> 500" and distinct: "distinct (get_approved_tokens st)"
    using assms(3) by (simp_all add: within_limits_def)
  have "rosca_get_fee_bps st \<le> 10000" using bps by simp
  note money = pay_pot_effect [OF assms(1,2) this pay distinct,
      unfolded draw_insurance_keeps(1) [OF draw]]
  have fees: "0 \<le> fee_of (rosca_get_fee_bps st) (fee_recipient st) x \<and>
      20 * fee_of (rosca_get_fee_bps st) (fee_recipient st) x \<le> x" if "0 < x" for x
  proof -
    have "x * int (rosca_get_fee_bps st) \<le> x * 500" using bps that by (intro mult_left_mono) auto
    with fee_of_bounds [of x "rosca_get_fee_bps st" "fee_recipient st"] that show ?thesis
      by linarith
  qed
  have books: "round_history st2 = round_history st"
    using pay_pot_books [OF pay] draw_insurance_keeps(2) [OF draw] by (simp add: round_books_def)
  have same: "outside_round st3 = outside_round st"
    using draw_insurance_outside [OF draw] pay_pot_outside [OF pay] reset_round_state_outside [OF reset]
    by simp
  note st3 = reset_round_state_effect [OF reset, unfolded record_payout_effect books]
  have req: "required_of payee (unwrap_or 0 (contribution_amt st3)) st3 =
      required_of payee (unwrap_or 0 (contribution_amt st)) st"
    by (simp add: required_of_def outside_round_same [OF same])
  have final: "ledger st' = ledger st3 \<and> current_round st' = current_round st3 \<and>
    round_history st' = round_history st3 \<and>
    (if unwrap_or False (reinvest_preference st payee) \<and> 0 < kept
     then \<exists>required. required_of payee (unwrap_or 0 (contribution_amt st)) st = Inr required \<and>
       member_contributions st' = [payee \<mapsto> kept] \<and>
       paid_members st' = Some (if required \<le> kept then [payee] else [])
     else member_contributions st' = Map.empty \<and> paid_members st' = Some [])"
  proof (cases "unwrap_or False (reinvest_preference st payee) \<and> 0 < kept")
    case True
    with last have "reinvest_payout payee kept st3 = Inr st'" by simp
    then show ?thesis
    proof (rule reinvest_payout_effect [OF _ st3(2,3)])
      fix required
      assume "required_of payee (unwrap_or 0 (contribution_amt st3)) st3 = Inr required"
      then have "required_of payee (unwrap_or 0 (contribution_amt st)) st = Inr required"
        by (simp add: req)
      moreover assume "ledger st' = ledger st3" "current_round st' = current_round st3"
        "round_history st' = round_history st3" "member_contributions st' = [payee \<mapsto> kept]"
        "paid_members st' = Some (if required \<le> kept then [payee] else [])"
      ultimately show ?thesis using True by simp
    qed
  next
    case False
    with last st3 show ?thesis by auto
  qed
  let ?pot = "pot_of V (self_address h) tk (unwrap_or 0 (reward_pool st)) (ledger st) tk"
  have recorded: "history = (if tk \<in> set (get_approved_tokens st) then ?pot else 0)"
    using money by blast
  have kept: "kept = (if unwrap_or False (reinvest_preference st payee) \<and> 0 < history
      then history - fee_of (rosca_get_fee_bps st) (fee_recipient st) history else 0)"
    using money recorded by (simp add: Let_def)
  have balances: "\<forall>t a. balance V (ledger st') t a = balance V (ledger st) t a +
      (if t \<in> set (get_approved_tokens st)
       then gain (self_address h) payee (unwrap_or False (reinvest_preference st payee) \<and> t = tk)
         (rosca_get_fee_bps st) (fee_recipient st)
         (pot_of V (self_address h) tk (unwrap_or 0 (reward_pool st)) (ledger st) t) a else 0)"
    using money final st3(4) by simp
  have pos: "(unwrap_or False (reinvest_preference st payee) \<and> 0 < kept) = (0 < kept)"
    using kept by auto
  note final = final [unfolded pos st3(1,4,5), unfolded kept, unfolded recorded]
  show ?thesis
    unfolding Let_def
    by (rule exI [of _ round], rule exI [of _ payee], rule exI [of _ tk])
      (use rec tk balances fees final in \<open>intro conjI; blast\<close>)
qed

lemma circle_balances:
  "pl_bal (ledger circle) circle_token (Contract 0) = 240"
  "pl_bal (ledger circle) circle_token ann = 900"
  "get_approved_tokens circle = [circle_token]" "rosca_get_fee_bps circle = 200"
  "fee_recipient circle = Some circle_treasury" "reward_pool circle = Some 0"
  "reinvest_preference circle = Map.empty"
  by (simp_all add: circle_def founded_def circle_eval get_approved_tokens_def
      rosca_get_fee_bps_def)

lemma payout_distributes_pot_witness:
  "\<exists>st'. complete_round_payout (circle_at 2000) [ann, bob] circle = Inr st' \<and>
     pl_bal (ledger st') circle_token ann = 1136 \<and> current_round st' = Some 1"
proof -
  have sel: "select_recipient circle = Inr (0, ann)"
    by (simp add: select_recipient_def circle_fields find_recipient.simps can_receive_def
        skips_round_def)
  obtain st' where ok: "complete_round_payout (circle_at 2000) [ann, bob] circle = Inr st'"
    by (simp add: payout_eval circle_def founded_def circle_eval)
  have "token_laws plain_view (circle_at 2000)" "balance_law plain_view (circle_at 2000)"
    by (simp_all add: circle_at_def token_laws_demo balance_law_demo)
  from payout_distributes_pot [OF this _ ok] circle_laws(2)
  have "balance plain_view (ledger st') circle_token ann =
      balance plain_view (ledger circle) circle_token ann +
      gain (Contract 0) ann False 200 (Some circle_treasury) 240 ann \<and> current_round st' = Some 1"
    by (simp add: rosca_laws_def sel circle_fields circle_balances pot_of_def circle_at_def
        plain_view_def Let_def)
  moreover have "gain (Contract 0) ann False 200 (Some circle_treasury) 240 ann = 236"
    by (simp add: gain_def fee_of_def bps_share_def circle_address_defs)
  ultimately show ?thesis using ok by (simp add: plain_view_def circle_balances)
qed

section \<open>Contributions\<close>

lemma take_contribution_effect:
  assumes "token_laws V h" and "take_contribution h a tk amount st = Inr st'"
  obtains insurance where "within_limit tk amount st" "insurance_share amount st = Inr insurance"
    "\<forall>t b. balance V (ledger st') t b = balance V (ledger st) t b
      - (if t = tk \<and> b = a then amount + insurance else 0)
      + (if t = tk \<and> b = self_address h then amount + insurance else 0)"
    "round_books st' = round_books st"
proof -
  from assms(2) obtain insurance st1 where ins: "within_limit tk amount st"
    "insurance_share amount st = Inr insurance"
    and move: "(token_transfer h tk a (self_address h) (amount + insurance) st :: (rosca_panic, _) outcome)
      = Inr st1"
    and pool: "(if 0 < insurance then add_insurance a insurance st1 else Inr st1) = Inr st'"
    by (auto simp: take_contribution_def and_then_Inr arith128_Inr split: if_splits)
  have "ledger st' = ledger st1" "round_books st' = round_books st1"
    using pool by (auto simp: add_insurance_def ok_simps split: if_splits)
  with that ins transfer_balance [OF assms(1) move] transfer_books [OF move] show ?thesis by simp
qed

lemma track_participation_keeps:
  assumes "track_participation a st = Inr st'"
  shows "ledger st' = ledger st" "round_books st' = round_books st"
  using assms by (auto simp: track_participation_def round_books_def ok_simps)

lemma reach_milestones_keeps:
  "reach_milestones progress collected ms reached st = (reached', st') \<Longrightarrow>
     ledger st' = ledger st \<and> round_books st' = round_books st"
  by (induction progress collected ms reached st rule: reach_milestones.induct)
     (auto split: if_splits)

lemma note_savings_keeps:
  assumes "note_savings a amount st = Inr st'"
  shows "ledger st' = ledger st \<and> round_books st' = round_books st"
  using assms unfolding note_savings_def Let_def and_then_Inr
  by (auto simp: round_books_def ok_simps simp del: reach_milestones.simps
      dest!: reach_milestones_keeps split: option.splits prod.splits)

lemma note_auto_close_keeps [simp]:
  "ledger (note_auto_close h st) = ledger st" "round_books (note_auto_close h st) = round_books st"
  by (simp_all add: note_auto_close_def)

text \<open>
  A contribution of \<open>a\<close> in the books: \<open>moved\<close> has gone from it to the contract, its total for the
  round is \<open>sofar\<close>, and \<open>paid\<close> are those who have paid in full.
\<close>

definition contributed ::
  "'l view \<Rightarrow> address \<Rightarrow> address \<Rightarrow> address \<Rightarrow> int \<Rightarrow> i128 \<Rightarrow> address list \<Rightarrow>
   'l rosca_state \<Rightarrow> 'l rosca_state \<Rightarrow> bool" where
  "contributed V self a tk moved sofar paid st st' \<longleftrightarrow>
     (\<forall>t b. balance V (ledger st') t b = balance V (ledger st) t b
       - (if t = tk \<and> b = a then moved else 0) + (if t = tk \<and> b = self then moved else 0)) \<and>
     member_contributions st' = (member_contributions st)(a \<mapsto> sofar) \<and>
     paid_members st' = Some paid \<and> current_round st' = current_round st \<and>
     round_history st' = round_history st \<and> reward_pool st' = reward_pool st \<and>
     outside_round st' = outside_round st"

lemma complete_contribution_effect:
  assumes "complete_contribution h mems paid a amount st = Inr st'"
  shows "if length paid + 1 = length mems
    then \<exists>mid after. ledger mid = ledger st \<and> outside_round mid = outside_round st \<and>
      round_books mid = round_books (st\<lparr>paid_members := Some (paid @ [a])\<rparr>) \<and>
      complete_round_payout h (paid @ [a]) mid = Inr after \<and>
      ledger st' = ledger after \<and> round_books st' = round_books after
    else ledger st' = ledger st \<and> outside_round st' = outside_round st \<and>
      round_books st' = round_books (st\<lparr>paid_members := Some (paid @ [a])\<rparr>)"
proof -
  let ?st = "st\<lparr>paid_members := Some (paid @ [a])\<rparr>"
  from assms obtain mid st2 where track: "track_participation a ?st = Inr mid"
    and step: "(if length paid + 1 = length mems
      then and_then (complete_round_payout h (paid @ [a]) mid) (\<lambda>st. Inr (note_auto_close h st))
      else Inr mid) = Inr st2"
    and saved: "note_savings a amount st2 = Inr st'"
    by (auto simp: complete_contribution_def Let_def and_then_Inr)
  have mid: "ledger mid = ledger st" "round_books mid = round_books ?st"
      "outside_round mid = outside_round st"
    using track_participation_keeps [OF track] track_participation_outside [OF track] by simp_all
  show ?thesis
  proof (cases "length paid + 1 = length mems")
    case True
    with step obtain after where after: "complete_round_payout h (paid @ [a]) mid = Inr after"
        "st2 = note_auto_close h after"
      by (auto simp: and_then_Inr)
    have "ledger st' = ledger after" "round_books st' = round_books after"
      using note_savings_keeps [OF saved] after(2) by simp_all
    with mid after(1) True show ?thesis by auto
  next
    case False
    with step have "st2 = mid" by simp
    with mid note_savings_keeps [OF saved] note_savings_outside [OF saved] False show ?thesis by simp
  qed
qed

lemma and_thenE:
  assumes "and_then m f = Inr b"
  obtains a where "m = Inr a" "f a = Inr b"
  using assms by (auto simp: and_then_Inr)

lemma contribution_guard_Inr:
  "contribution_guard h a tk n st = Inr (mems, paid) \<longleftrightarrow>
     \<not> rosca_is_paused st \<and> authorized h a \<and> 0 < n \<and>
     (\<exists>deadline. contribution_deadline st = Inr deadline \<and> timestamp h \<le> deadline) \<and>
     a \<notin> set (unwrap_or [] (exited_members st)) \<and> members st = Some mems \<and> a \<in> set mems \<and>
     paid_members st = Some paid \<and> a \<notin> set paid \<and> tk \<in> set (get_approved_tokens st)"
  by (auto simp: contribution_guard_def ok_simps get_approved_tokens_def not_less not_le)

text \<open>The end of \<open>contribute\<close>, once the transfer is done.\<close>

lemma contribute_rest:
  assumes "(let round = unwrap_or 0 (current_round st);
         already_paid = unwrap_or 0 (member_contributions st a) in
     and_then (sub128 required already_paid) (\<lambda>remaining.
     if remaining < n then fail ExceedsRemainingContribution
     else
       and_then (add128 already_paid n) (\<lambda>new_total.
       let st = emit_contrib a round tk amount
             (st\<lparr>member_contributions := (member_contributions st)(a \<mapsto> new_total)\<rparr>) in
       and_then (sub128 required new_total) (\<lambda>remaining_after.
       let st = (if 0 < remaining_after
             then emit_partial_contribution a round n remaining_after st else st) in
       if new_total = required
       then complete_contribution h mems paid a n st
       else Inr st)))) = Inr st'"
  shows "unwrap_or 0 (member_contributions st a) + n \<le> required \<and>
    (\<exists>mid. ledger mid = ledger st \<and> outside_round mid = outside_round st \<and>
      round_books mid = round_books (st\<lparr>member_contributions :=
        (member_contributions st)(a \<mapsto> unwrap_or 0 (member_contributions st a) + n)\<rparr>) \<and>
      (if unwrap_or 0 (member_contributions st a) + n = required
       then complete_contribution h mems paid a n mid = Inr st' else st' = mid))"
proof -
  let ?sofar = "unwrap_or 0 (member_contributions st a) + n"
  let ?mid = "\<lambda>evs. st\<lparr>member_contributions := (member_contributions st)(a \<mapsto> ?sofar), events := evs\<rparr>"
  obtain evs where le: "?sofar \<le> required"
    and evs: "(if ?sofar = required then complete_contribution h mems paid a n (?mid evs)
      else Inr (?mid evs)) = Inr st'"
    using assms by (auto simp: Let_def ok_simps publish_def split: if_splits)
  have "ledger (?mid evs) = ledger st" "outside_round (?mid evs) = outside_round st"
    "round_books (?mid evs) = round_books (st\<lparr>member_contributions :=
      (member_contributions st)(a \<mapsto> ?sofar)\<rparr>)"
    by (simp_all add: round_books_def)
  with le evs show ?thesis
    by (intro conjI exI [of _ "?mid evs"]) (simp_all split: if_splits)
qed

lemma contribute_Inr:
  assumes "contribute h a tk n st = Inr st'"
  obtains mems paid base base_amount required amount st1 where
    "contribution_guard h a tk n st = Inr (mems, paid)" "base_token st = Some base"
    "contribution_amt st = Some base_amount" "required_of a base_amount st = Inr required"
    "amount_in_token base tk n st = Inr amount" "take_contribution h a tk amount st = Inr st1"
    "unwrap_or 0 (member_contributions st1 a) + n \<le> required"
    "\<exists>mid. ledger mid = ledger st1 \<and> outside_round mid = outside_round st1 \<and>
      round_books mid = round_books (st1\<lparr>member_contributions :=
        (member_contributions st1)(a \<mapsto> unwrap_or 0 (member_contributions st1 a) + n)\<rparr>) \<and>
      (if unwrap_or 0 (member_contributions st1 a) + n = required
       then complete_contribution h mems paid a n mid = Inr st' else st' = mid)"
  by (insert assms, unfold contribute_def, erule and_thenE,
      simp only: split_paired_all prod.case, elim and_thenE, drule contribute_rest,
      simp only: expect_Inr)

lemma amount_in_token_Inr:
  "amount_in_token base tk n st = Inr amount \<Longrightarrow> 0 < n \<Longrightarrow>
     (if tk = base then amount = n
      else \<exists>rate>0. exchange_rates st tk = Some rate \<and> amount = n * 10000000 div rate)"
  by (auto simp: amount_in_token_def ok_simps signed_divide_int_def split: if_splits)

lemma insurance_share_Inr:
  "insurance_share x st = Inr y \<Longrightarrow> 0 \<le> x \<Longrightarrow>
     y = bps_share x (unwrap_or 0 (insurance_contribution_bps st))"
  by (auto simp: insurance_share_def bps_share_def Let_def ok_simps signed_divide_int_def
      split: if_splits)

text \<open>
  C37. A contribution goes through only while the contract is not paused, before the deadline of
  the round, signed by a member who has neither left nor paid in full, in an approved token.  It
  takes exactly the amount, at the exchange rate of the token, and the insurance on top of it; the
  member's total goes up by the amount and never above what its tier owes; the member counts as
  paid exactly when the total reaches that; and the payout of the round runs, once the contribution
  is booked, exactly when the member was the last one to pay.
\<close>

theorem contribution_counts:
  assumes "token_laws V h" and "contribute h a tk n st = Inr st'"
  shows "\<exists>mems paid base base_amount required amount. \<not> rosca_is_paused st \<and> authorized h a \<and>
    (\<exists>deadline. contribution_deadline st = Inr deadline \<and> timestamp h \<le> deadline) \<and>
    members st = Some mems \<and> a \<in> set mems \<and> a \<notin> set (unwrap_or [] (exited_members st)) \<and>
    paid_members st = Some paid \<and> a \<notin> set paid \<and> tk \<in> set (get_approved_tokens st) \<and> 0 < n \<and>
    base_token st = Some base \<and> contribution_amt st = Some base_amount \<and>
    required_of a base_amount st = Inr required \<and> within_limit tk amount st \<and>
    (if tk = base then amount = n
     else \<exists>rate>0. exchange_rates st tk = Some rate \<and> amount = n * 10000000 div rate) \<and>
    (let sofar = unwrap_or 0 (member_contributions st a) + n;
         moved = amount + bps_share amount (unwrap_or 0 (insurance_contribution_bps st));
         books = contributed V (self_address h) a tk moved sofar
     in sofar \<le> required \<and>
       (if sofar < required then books paid st st'
        else if length paid + 1 \<noteq> length mems then books (paid @ [a]) st st'
        else \<exists>mid after. books (paid @ [a]) st mid \<and>
          complete_round_payout h (paid @ [a]) mid = Inr after \<and>
          ledger st' = ledger after \<and> round_books st' = round_books after))"
proof -
  from assms(2) obtain mems paid base base_amount required amount st1 where
    guard: "contribution_guard h a tk n st = Inr (mems, paid)" and base: "base_token st = Some base"
    and req: "contribution_amt st = Some base_amount" "required_of a base_amount st = Inr required"
    and amount: "amount_in_token base tk n st = Inr amount"
    and take: "take_contribution h a tk amount st = Inr st1"
    and le: "unwrap_or 0 (member_contributions st1 a) + n \<le> required"
    and mid: "\<exists>mid. ledger mid = ledger st1 \<and> outside_round mid = outside_round st1 \<and>
      round_books mid = round_books (st1\<lparr>member_contributions :=
        (member_contributions st1)(a \<mapsto> unwrap_or 0 (member_contributions st1 a) + n)\<rparr>) \<and>
      (if unwrap_or 0 (member_contributions st1 a) + n = required
       then complete_contribution h mems paid a n mid = Inr st' else st' = mid)"
    by (rule contribute_Inr)
  note guards = guard [unfolded contribution_guard_Inr]
  have inexact: "if tk = base then amount = n
     else \<exists>rate>0. exchange_rates st tk = Some rate \<and> amount = n * 10000000 div rate"
    using amount_in_token_Inr [OF amount] guards by blast
  have pos: "0 \<le> amount"
    using inexact guards by (auto simp: pos_imp_zdiv_nonneg_iff split: if_splits)
  let ?sofar = "unwrap_or 0 (member_contributions st a) + n"
  let ?moved = "amount + bps_share amount (unwrap_or 0 (insurance_contribution_bps st))"
  from take obtain limit: "within_limit tk amount st"
    and moves: "\<forall>t b. balance V (ledger st1) t b = balance V (ledger st) t b
      - (if t = tk \<and> b = a then ?moved else 0) + (if t = tk \<and> b = self_address h then ?moved else 0)"
    and books: "round_books st1 = round_books st"
    by (rule take_contribution_effect [OF assms(1)]) (auto dest: insurance_share_Inr [OF _ pos])
  have same: "outside_round st1 = outside_round st" by (rule take_contribution_outside [OF take])
  have sofar: "unwrap_or 0 (member_contributions st1 a) + n = ?sofar"
    using books by (simp add: round_books_def)
  from mid obtain mid where mid: "ledger mid = ledger st1" "outside_round mid = outside_round st"
    "round_books mid = round_books (st\<lparr>member_contributions := (member_contributions st)(a \<mapsto> ?sofar)\<rparr>)"
    and ends: "if ?sofar = required then complete_contribution h mems paid a n mid = Inr st'
      else st' = mid"
    using books same unfolding sofar by (auto simp: round_books_def)
  let ?books = "contributed V (self_address h) a tk ?moved ?sofar"
  have booked: "?books ps st st2"
    if "ledger st2 = ledger mid" "outside_round st2 = outside_round mid"
      "round_books st2 = round_books (mid\<lparr>paid_members := Some ps\<rparr>)" for ps st2
    using that mid moves by (simp add: contributed_def round_books_def)
  have "if ?sofar < required then ?books paid st st'
    else if length paid + 1 \<noteq> length mems then ?books (paid @ [a]) st st'
    else \<exists>mid after. ?books (paid @ [a]) st mid \<and>
      complete_round_payout h (paid @ [a]) mid = Inr after \<and>
      ledger st' = ledger after \<and> round_books st' = round_books after"
  proof (cases "?sofar = required")
    case True
    with ends have "complete_contribution h mems paid a n mid = Inr st'" by simp
    from complete_contribution_effect [OF this] True booked show ?thesis
      by (cases "length paid + 1 = length mems") auto
  next
    case False
    with ends have st': "st' = mid" by simp
    have "round_books mid = round_books (mid\<lparr>paid_members := Some paid\<rparr>)"
      using mid(3) guards by (simp add: round_books_def)
    with False st' le sofar booked show ?thesis by simp
  qed
  then show ?thesis
    unfolding Let_def
    by (rule_tac exI [of _ mems], rule_tac exI [of _ paid], rule_tac exI [of _ base],
        rule_tac exI [of _ base_amount], rule_tac exI [of _ required], rule_tac exI [of _ amount])
      (use guards base req inexact limit le [unfolded sofar] in \<open>intro conjI; blast\<close>)
qed

lemma contribution_counts_witness:
  "\<exists>mid after. contributed plain_view (Contract 0) cleo circle_token 60 100 [ann, bob, cleo] circle mid \<and>
     complete_round_payout (circle_at 9) [ann, bob, cleo] mid = Inr after"
proof -
  obtain st' where ok: "contribute (circle_at 9) cleo circle_token 60 circle = Inr st'"
    by (simp add: payout_eval circle_def founded_def circle_eval)
  have facts: "contribution_amt circle = Some 100" "member_contributions circle cleo = Some 40"
    "insurance_contribution_bps circle = None" "required_of cleo 100 circle = Inr 100"
    by (simp_all add: circle_def founded_def circle_eval)
  have "token_laws plain_view (circle_at 9)" by (simp add: circle_at_def token_laws_demo)
  from contribution_counts [OF this ok] show ?thesis
    by (simp add: facts circle_fields bps_share_def circle_at_def Let_def) blast
qed

section \<open>Finalized rounds\<close>

lemma mark_defaulters_effect:
  assumes "mark_defaulters round penalty limit late counts suspended st =
    Inr (counts', suspended', st')"
  shows "(\<forall>m. unwrap_or 0 (counts' m) = unwrap_or 0 (counts m) + count_list late m) \<and>
    set suspended' = set suspended \<union>
      {m \<in> set late. limit \<le> unwrap_or 0 (counts m) + count_list late m} \<and>
    ledger st' = ledger st \<and> round_books st' = round_books st \<and> defaulters st' = defaulters st"
  using assms
proof (induction late arbitrary: counts suspended st)
  case Nil
  then show ?case by simp
next
  case (Cons member late)
  let ?count = "unwrap_or 0 (counts member) + 1"
  let ?counts = "counts(member \<mapsto> ?count)"
  let ?new = "if limit \<le> ?count \<and> member \<notin> set suspended then suspended @ [member] else suspended"
  have counted: "unwrap_or 0 (?counts m) + count_list late m =
      unwrap_or 0 (counts m) + count_list (member # late) m" for m
    by simp
  obtain st1 where rest: "mark_defaulters round penalty limit late ?counts ?new st1 =
        Inr (counts', suspended', st')"
    and st1: "ledger st1 = ledger st" "round_books st1 = round_books st" "defaulters st1 = defaulters st"
    using Cons.prems by (auto simp: Let_def ok_simps split: if_split_asm)
  from Cons.IH [OF rest] have ih:
    "\<forall>m. unwrap_or 0 (counts' m) = unwrap_or 0 (counts m) + count_list (member # late) m"
    "set suspended' = set ?new \<union>
      {m \<in> set late. limit \<le> unwrap_or 0 (counts m) + count_list (member # late) m}"
    "ledger st' = ledger st \<and> round_books st' = round_books st \<and> defaulters st' = defaulters st"
    unfolding counted st1 by blast+
  have "set ?new \<union> {m \<in> set late. limit \<le> unwrap_or 0 (counts m) + count_list (member # late) m} =
      set suspended \<union> {m \<in> set (member # late).
        limit \<le> unwrap_or 0 (counts m) + count_list (member # late) m}"
    by (cases "member \<in> set late") auto
  with ih show ?case by blast
qed

lemma count_list_filter:
  "count_list (filter P xs) x = (if P x then count_list xs x else 0)"
  by (induction xs) auto

lemma finalize_round_Inr:
  assumes "finalize_round h st = Inr st'"
  obtains mems paid deadline after counts suspended st1 where
    "\<not> rosca_is_paused st" "\<exists>adm. admin st = Some adm \<and> authorized h adm"
    "closing_deadline st = Inr deadline" "deadline < timestamp h"
    "members st = Some mems" "paid_members st = Some paid"
    "complete_round_payout h paid (emit_round_finalized (unwrap_or 0 (current_round st))
        (late_members st (unwrap_or 0 (current_round st)) mems paid)
        (st\<lparr>defaulters := Some (late_members st (unwrap_or 0 (current_round st)) mems paid)\<rparr>))
      = Inr after"
    "mark_defaulters (unwrap_or 0 (current_round st)) (unwrap_or 0 (penalty_amount st))
       (unwrap_or 3 (max_defaults after))
       (late_members st (unwrap_or 0 (current_round st)) mems paid) (default_count st)
       (unwrap_or [] (suspended_members st)) after = Inr (counts, suspended, st1)"
    "st' = st1\<lparr>default_count := counts, suspended_members := Some suspended\<rparr>"
  using assms unfolding finalize_round_def Let_def and_then_Inr expect_Inr if_fail_Inr rosca_guards_Inr
  by (auto simp: not_le simp del: rosca_emit_defs split: prod.splits)

text \<open>
  C15. Finalizing a round, which only the admin can do and only after the deadline, pays out what
  has been collected and then marks exactly the members who owe: those who have neither paid, nor
  left, nor skipped the round become the defaulters, the default count of each goes up by its
  entries in the list of members (by one, unless it is listed twice) and nobody else's changes, and
  those whose count reaches the limit join the suspended members.  The payout is chosen before the
  new suspensions count.
\<close>

theorem finalize_marks_defaulters:
  assumes "finalize_round h st = Inr st'"
  shows "\<exists>mems paid deadline start after. \<not> rosca_is_paused st \<and>
    (\<exists>adm. admin st = Some adm \<and> authorized h adm) \<and>
    closing_deadline st = Inr deadline \<and> deadline < timestamp h \<and>
    members st = Some mems \<and> paid_members st = Some paid \<and>
    (let round = unwrap_or 0 (current_round st);
         late = {m \<in> set mems. m \<notin> set paid \<and> m \<notin> set (unwrap_or [] (exited_members st)) \<and>
           \<not> skips_round st round m};
         count = (\<lambda>m. unwrap_or 0 (default_count st m) + (if m \<in> late then count_list mems m else 0))
     in set (unwrap_or [] (defaulters st')) = late \<and>
       (\<forall>m. unwrap_or 0 (default_count st' m) = count m) \<and>
       set (unwrap_or [] (suspended_members st')) =
         set (unwrap_or [] (suspended_members st)) \<union> {m \<in> late. get_max_defaults st \<le> count m} \<and>
       ledger start = ledger st \<and> round_books start = round_books (st\<lparr>defaulters := defaulters st'\<rparr>) \<and>
       outside_round start = outside_round st \<and> suspended_members start = suspended_members st \<and>
       complete_round_payout h paid start = Inr after \<and>
       ledger st' = ledger after \<and> round_books st' = round_books after)"
proof -
  from assms obtain mems paid deadline after counts suspended st1 where
    guards: "\<not> rosca_is_paused st" "\<exists>adm. admin st = Some adm \<and> authorized h adm"
      "closing_deadline st = Inr deadline" "deadline < timestamp h"
      "members st = Some mems" "paid_members st = Some paid"
    and payout: "complete_round_payout h paid (emit_round_finalized (unwrap_or 0 (current_round st))
        (late_members st (unwrap_or 0 (current_round st)) mems paid)
        (st\<lparr>defaulters := Some (late_members st (unwrap_or 0 (current_round st)) mems paid)\<rparr>))
      = Inr after" (is "complete_round_payout h paid ?start = _")
    and mark: "mark_defaulters (unwrap_or 0 (current_round st)) (unwrap_or 0 (penalty_amount st))
       (unwrap_or 3 (max_defaults after))
       (late_members st (unwrap_or 0 (current_round st)) mems paid) (default_count st)
       (unwrap_or [] (suspended_members st)) after = Inr (counts, suspended, st1)"
    and st': "st' = st1\<lparr>default_count := counts, suspended_members := Some suspended\<rparr>"
    by (rule finalize_round_Inr)
  let ?late = "late_members st (unwrap_or 0 (current_round st)) mems paid"
  let ?set = "{m \<in> set mems. m \<notin> set paid \<and> m \<notin> set (unwrap_or [] (exited_members st)) \<and>
    \<not> skips_round st (unwrap_or 0 (current_round st)) m}"
  let ?count = "\<lambda>m. unwrap_or 0 (default_count st m) + (if m \<in> ?set then count_list mems m else 0)"
  have late: "set ?late = ?set" by (auto simp: late_members_def)
  have entries: "count_list ?late m = (if m \<in> ?set then count_list mems m else 0)" for m
    by (simp add: late_members_def count_list_filter)
  have limit: "unwrap_or 3 (max_defaults after) = get_max_defaults st"
    using outside_round_same(20) [OF complete_round_payout_outside [OF payout]]
    by (simp add: get_max_defaults_def)
  from mark_defaulters_effect [OF mark, unfolded late entries limit] have marked:
    "\<forall>m. unwrap_or 0 (counts m) = ?count m"
    "set suspended = set (unwrap_or [] (suspended_members st)) \<union>
      {m \<in> ?set. get_max_defaults st \<le> ?count m}"
    "ledger st1 = ledger after" "round_books st1 = round_books after" "defaulters st1 = defaulters after"
    by blast+
  have kept: "defaulters st' = Some ?late"
    using complete_round_payout_defaulters [OF payout] marked(5) st' by simp
  have start: "ledger ?start = ledger st" "round_books ?start = round_books (st\<lparr>defaulters := Some ?late\<rparr>)"
    "outside_round ?start = outside_round st" "suspended_members ?start = suspended_members st"
    by simp_all
  show ?thesis
    unfolding Let_def
    by (rule exI [of _ mems], rule exI [of _ paid], rule exI [of _ deadline], rule exI [of _ ?start],
        rule exI [of _ after])
      (use guards payout late marked kept start st' in \<open>intro conjI; simp add: round_books_def\<close>)
qed

lemma finalize_marks_defaulters_witness:
  "\<exists>st'. finalize_round (circle_at 2000) circle = Inr st' \<and>
     set (unwrap_or [] (defaulters st')) = {cleo} \<and> default_count st' cleo = Some 1"
proof -
  obtain st' where ok: "finalize_round (circle_at 2000) circle = Inr st'"
    and count: "default_count st' cleo = Some 1"
    by (simp add: finalize_round_def closing_deadline_def late_members_def payout_eval circle_def
        founded_def circle_eval)
  from finalize_marks_defaulters [OF ok] obtain mems paid where
    lists: "members circle = Some mems" "paid_members circle = Some paid"
    and late: "set (unwrap_or [] (defaulters st')) = {m \<in> set mems. m \<notin> set paid \<and>
      m \<notin> set (unwrap_or [] (exited_members circle)) \<and>
      \<not> skips_round circle (unwrap_or 0 (current_round circle)) m}"
    unfolding Let_def by (elim exE conjE) (rule that)
  have "mems = [ann, bob, cleo]" "paid = [ann, bob]"
    using lists by (simp_all add: circle_fields)
  moreover have "\<not> skips_round circle r m" for r m
    by (simp add: skips_round_def circle_fields)
  moreover have "{m \<in> {ann, bob, cleo}. m \<notin> {ann, bob}} = {cleo}"
    by (auto simp: circle_address_defs)
  ultimately have "set (unwrap_or [] (defaulters st')) = {cleo}"
    unfolding late by (simp add: circle_fields)
  with ok count show ?thesis by blast
qed

end
