(* ===== verification/Rosca_Inexact.thy ===== *)
theory Rosca_Inexact
  imports Rosca_Money
begin

text \<open>
  What the savings group does where its bookkeeping and its funds part, or where a check is
  missing: concrete histories from the states \<open>founded\<close> and \<open>circle\<close>.
\<close>

lemmas inexact_eval = payout_eval circle_eval contribute_to_insurance_def add_insurance_def
  deposit_rewards_def claim_rewards_def get_claimable_reward_def reward_share_def
  set_member_tier_def request_emergency_exit_def approve_exit_def exit_refund_def
  between_rounds_def add_member_def admit_def init_multisig_def approve_admin_action_def
  run_admin_action_def rosca_update_fee_def action_name_def delegate_vote_def
  remove_approved_token_def as_u32_def

section \<open>Funds\<close>

text \<open>The insurance pool is part of what a payout pays; the pool is booked on.\<close>

definition insured :: "plain_ledger rosca_state" where
  "insured = run_calls rosca_exec [(circle_at 8, RInsure ann circle_token 50),
     (circle_at 9, RContribute cleo circle_token 60)] circle"

lemma insurance_paid_out:
  "insurance_pool insured = Some 50 \<and>
   balance plain_view (ledger insured) circle_token (Contract 0) = 0"
  by (simp add: insured_def circle_def founded_def inexact_eval plain_view_def)

text \<open>Claimed rewards stay in the reward pool, which is held back from every pot.\<close>

definition rewarded :: "plain_ledger rosca_state" where
  "rewarded = run_calls rosca_exec [(circle_at 8, RDepositRewards ann 30),
     (circle_at 8, RClaim bob), (circle_at 9, RContribute cleo circle_token 60)] circle"

lemma claimed_rewards_reduce_pot:
  "reward_pool rewarded = Some 30 \<and>
   round_history rewarded = Some [\<lparr>pr_recipient = ann, pr_amount = 290\<rparr>]"
  by (simp add: rewarded_def circle_def founded_def inexact_eval)

text \<open>Only the last instalment counts for the savings.\<close>

lemma instalments_not_collected:
  "total_collected (run_calls rosca_exec [(circle_at 9, RContribute cleo circle_token 60)] circle)
     = Some 260"
  by (simp add: circle_def founded_def inexact_eval)

text \<open>Without the base token among the approved ones a payout pays nothing, and the round goes on.\<close>

lemma pot_left_behind:
  "\<exists>st'. complete_round_payout (circle_at 2000) [ann, bob]
       (run_calls rosca_exec [(circle_at 9, RRemoveToken circle_token)] circle) = Inr st' \<and>
     round_history st' = Some [\<lparr>pr_recipient = ann, pr_amount = 0\<rparr>] \<and>
     balance plain_view (ledger st') circle_token (Contract 0) = 240"
  by (simp add: circle_def founded_def inexact_eval plain_view_def)

section \<open>Members\<close>

text \<open>A tier lowered below what a member has paid leaves it no way to complete the round.\<close>

lemma lowered_tier_blocks:
  assumes "0 < n"
  shows "\<not> succeeds (rosca_exec (circle_at 10) (RContribute cleo circle_token n)
    (run_calls rosca_exec [(circle_at 9, RSetTier circle_admin cleo 2000)] circle))"
  using assms by (simp add: succeeds_iff circle_def founded_def inexact_eval)

text \<open>A member that left and was added again counts for the group but cannot contribute.\<close>

lemma returned_member_blocked:
  "\<exists>st'. st' = run_calls rosca_exec [(circle_at 4, RRequestExit cleo), (circle_at 5, RApproveExit cleo),
       (circle_at 6, RAddMember cleo)] founded \<and>
     members st' = Some [ann, bob, cleo] \<and>
     rosca_exec (circle_at 7) (RContribute cleo circle_token 100) st' = fail MemberHasExited"
  by (simp add: founded_def inexact_eval)

text \<open>Anybody founds the group, for any admin and with a member listed twice.\<close>

lemma founded_by_anyone:
  "\<exists>st'. rosca_exec (demo_host 1 1 [])
       (RInit circle_admin [ann, ann, bob] 100 circle_token 1000 circle_terms)
       (deployed_rosca circle_ledger) = Inr st' \<and> members st' = Some [ann, ann, bob]"
  by (simp add: inexact_eval)

section \<open>Votes\<close>

text \<open>One approval runs an action although two are required.\<close>

lemma threshold_ignored:
  "\<exists>st'. rosca_exec (demo_host 10 1 [circle_admin]) (RApproveAction circle_admin 2 None (Some 100))
       (run_calls rosca_exec [(circle_at 9, RInitMultisig [bob, cleo] 3)] circle) = Inr st' \<and>
     fee_bps st' = Some 100"
  by (simp add: circle_def founded_def inexact_eval)

text \<open>A vote delegated to oneself, or along a chain, is lost.\<close>

lemma self_delegation_locks_out:
  "rosca_exec (circle_at 5) (RVote cleo 0 True)
     (run_calls rosca_exec [(circle_at 4, RDelegate cleo cleo)] founded)
   = fail CannotVoteWithActiveDelegation"
  by (simp add: founded_def inexact_eval)

lemma delegation_chain_loses_vote:
  "map_option p_votes_for (proposals (run_calls rosca_exec
     [(circle_at 4, RDelegate ann bob), (circle_at 5, RDelegate bob cleo),
      (circle_at 6, RVote cleo 0 True)] founded) 0) = Some 2"
  by (simp add: founded_def inexact_eval)

text \<open>
  A weighted vote counts what its voter has paid into the round, but the quorum is taken of what is
  paid into the round current at the execution, which a payout empties.  Ann alone votes, with 100
  of the 300 that the three members pay in, against a quorum of 51 percent: executed after the
  round, when nothing is paid in yet, the proposal passes; executed before the payout it fails.
\<close>

definition weighted_founding :: "(plain_ledger host \<times> rosca_op) list" where
  "weighted_founding =
     [(circle_at 1, RInit circle_admin [ann, bob, cleo] 100 circle_token 1000
         (circle_terms\<lparr>cfg_voting_mode := WeightedByContributions\<rparr>)),
      (circle_at 2, RCreateProposal ann RuleChange ''quorum'' ann 50 (Some 60)),
      (circle_at 3, RContribute ann circle_token 100), (circle_at 4, RVote ann 0 True),
      (circle_at 5, RContribute bob circle_token 100), (circle_at 6, RContribute cleo circle_token 90)]"

definition weighted_circle :: "plain_ledger rosca_state" where
  "weighted_circle = run_calls rosca_exec weighted_founding (deployed_rosca circle_ledger)"

lemma weighted_quorum_vanishes:
  "quorum_percentage (call_tx rosca_exec (circle_at 60, RExecute 0) weighted_circle)
     = quorum_percentage weighted_circle \<and>
   quorum_percentage weighted_circle \<noteq> Some 60 \<and>
   quorum_percentage (run_calls rosca_exec
     [(circle_at 59, RContribute cleo circle_token 10), (circle_at 60, RExecute 0)] weighted_circle)
     = Some 60"
  by (simp add: weighted_circle_def weighted_founding_def inexact_eval execute_proposal_def
      possible_votes_def votes_needed_def reject_proposal_def apply_proposal_def
      execute_rule_change_def emit_weighted_vote_cast_def emit_prop_rej_def emit_prop_exec_def)

end
