(* ===== verification/Spec2Isabelle.thy ===== *)
theory Spec2Isabelle
  imports Escrow_Money Escrow_Issuance Escrow_Parties Payments_Money Payments_Safety Payments_Records
    Payments_Rates Payments_Inexact Refund_Requests Refund_Inexact Rosca_Group Rosca_Interfaces
    Rosca_Inexact
begin

text \<open>
  A verification development of the Ahjoor smart contracts: four Soroban contracts in Rust, in
  src/contracts, that hold other people's tokens.

  ahjoor-escrow holds the price of a deal until the buyer or the arbiter releases it, with
  disputes, partial releases, several sellers, automatic renewal, release for inactivity, deadline
  extensions, evidence, templates and a pool of arbiters.  ahjoor-payments takes payments from
  customers to merchants (single, scheduled, batch, multi-token over a price oracle), completes
  them net of a fee and splits, settles, expires, disputes and refunds them and charges
  subscriptions.  ahjoor-refund takes refund requests against payments of the payments contract,
  with approval, tiers, fees, a pending queue, automatic paths and appeals.  ahjoor-rosca is a
  rotating savings group.  The contracts do not share storage; the refund contract reads the
  payments contract through a cross-contract call, and each of them moves funds only through
  token contracts.

  How the model stands to the code.  One invocation is a function from the arguments and the
  storage to a failure or a result with the new storage.  A failure carries no storage: the host
  rolls the transaction back.  Each entry point and each private helper of a lib.rs is one
  definition of the same name (with the prefix of the contract where two contracts share a name),
  with its guards and effects in the order of the code; each events.rs is a datatype of events
  and one publisher per emit function.  The storage is a record with one field per key of DataKey,
  on top of the record \<open>contract\<close> of what all the contracts keep.  Arithmetic is checked, as the
  release profile of Cargo.toml asks for (overflow-checks), so an overflow is a failure.

  Not under src, and so a parameter of the model, the record \<open>host\<close> of Soroban: the token
  contracts, the oracle, the hash function, the encoding of addresses, the ledger's clock and the
  set of addresses that have authorised the call; and for the refund contract the result \<open>q\<close> of the
  call into the payments contract.  \<open>token_laws\<close> states the documented behaviour of a SEP-41 token
  that the money theorems rely on; other transactions are \<open>drift\<close>, which may do anything that does
  not take tokens out of the contract's account or raise the contract's allowances.

  Theories:
  Prelude: outcomes, checked arithmetic, shares in basis points, sums.  Soroban: the host, the
  shared storage, token calls, reachable states, and the interfaces as locales: a machine with an
  invariant, the emergency stop, records under counter ids.  Payouts: sequences of payments out
  of a contract and shares of an amount.

  For each contract X of Escrow, Payments and Refund (the savings group follows below):
  X_Types (types.rs or the data of lib.rs, constants, panics, storage, events), X_Admin (guards,
  initialization, settings, the emergency stop, indexes and statistics), X_Create with X_Settle
  or X_Ops (the business entry points); X_Machine (the entry points as one operation type, and
  their effect on the books), X_Spec (the abstract specification: the lifecycle of a record, who
  may move it and where its money goes), X_Refine (every successful entry point is a finite
  sequence of steps of the specification), X_Settings (what an entry point leaves alone, limits of
  the settings), X_Solvency and X_Interfaces (the money, and the contract as an instance of the
  locales), X_Demo (a concrete history for the witnesses), and the properties: Escrow_Money,
  Escrow_Safety, Escrow_Issuance, Escrow_Parties; Payments_Money, Payments_Safety,
  Payments_Records, Payments_Rates; Refund_Money, Refund_Requests.  Payments_Inexact and
  Refund_Inexact show by concrete histories what the code does outside the hypotheses of the
  solvency theorems and against its comments: a payment listed twice in one settlement batch is
  paid twice, and a refund the dispute window approved stays listed as pending.

  What the properties show: a contract can always pay what it owes (the escrow contract without
  further hypotheses, the other two over exact calls); every call refines the specification;
  releases, resolutions, completions and refunds pay exactly the right shares to the right
  parties; a record moves only along its lifecycle, with the authority of the right party, and
  never leaves a final status; the settings belong to the admin and the emergency stop freezes the
  contract; ids, batches, pools, evidence, queues, receipts, tiers, retries and charges behave as
  documented.  For the savings group: the payout goes to the first member in turn that can receive
  it and pays exactly the pot net of the fee; a contribution takes and books exactly what it should
  and the last one triggers the payout; finalizing a round marks exactly those who owe; the
  settings, the group and the tallies stay within their limits in every reachable state; a
  proposal needs quorum and majority in both voting modes; nobody joins or leaves without the right authority.

  Bounds: no fuel is used; every loop of the code runs over a list, except the cyclic search for
  the recipient of a payout, which ends after one turn of the payout order.  Instance and
  persistent storage entries do not expire in the model (an archived entry is restored, not lost);
  the temporary entries of the payments contract and of the savings group do, and the network's
  minimum time to live of such an entry is a parameter: an idempotency key lives until
  \<open>key_expiry\<close> for any value of it.  SHA-256 is an arbitrary function: the theorem on receipts names
  the two inputs that would have to collide.

  ahjoor-rosca: Rosca_Types (types.rs, errors.rs, events.rs and the storage), Rosca_Admin,
  Rosca_Rounds, Rosca_Members and Rosca_Votes (lib.rs by topic; the effects of proposals are in
  internals.rs), Rosca_Payout (the payout of internals.rs); Rosca_Machine (the entry points as one
  operation type and what a round leaves alone), Rosca_Pot (the recipient and the transfers of a
  payout), Rosca_Laws (what every call keeps, and the group as an instance of contract_machine),
  Rosca_Interfaces (the emergency stop), Rosca_Demo, and the properties: Rosca_Money and
  Rosca_Group, with Rosca_Inexact for what the code does against its own intent.  The emergency
  stop of all four contracts is stated in this theory.  No solvency is
  stated for it: the contract keeps no sum it owes, a payout pays whatever it holds.  A second
  require_auth of the same address within one call is the same check, which the host would refuse
  when both stand in one frame.

  Not modelled: the generated client and contract glue of soroban_sdk; the tests, documents,
  build files and fixtures.
\<close>

section \<open>The emergency stop of the four contracts\<close>

text \<open>
  C10. Emergency stop: after a successful pause of any of the four contracts, it reports the reason
  it was paused for, and no history of guarded calls (every entry point that moves funds among
  them) changes anything at all.  When the savings group is resumed after such a history, the
  deadline of the round has moved by exactly the time of the pause.
\<close>

theorem emergency_stop_freezes_contracts:
  "(escrow_pause_contract h a r e = Inr e' \<and> (\<forall>c \<in> set ecs. escrow_guarded (snd c)) \<longrightarrow>
      run_calls escrow_exec ecs e' = e' \<and> escrow_is_paused e' \<and> escrow_get_pause_reason e' = r) \<and>
   (payments_pause_contract h a r p = Inr p' \<and> (\<forall>c \<in> set pcs. payments_guarded (snd c)) \<longrightarrow>
      run_calls payments_exec pcs p' = p' \<and> payments_is_paused p' \<and> payments_get_pause_reason p' = r) \<and>
   (refund_pause_contract h a r f = Inr f' \<and> (\<forall>c \<in> set fcs. refund_guarded (snd c)) \<longrightarrow>
      run_calls refund_exec fcs f' = f' \<and> refund_is_paused f' \<and> refund_get_pause_reason f' = r) \<and>
   (rosca_pause_contract h a r g = Inr g' \<and> (\<forall>c \<in> set gcs. rosca_guarded (snd c)) \<longrightarrow>
      run_calls rosca_exec gcs g' = g' \<and> rosca_is_paused g' \<and> rosca_get_pause_reason g' = r \<and>
      (\<forall>h' a' g''. rosca_resume_contract h' a' (run_calls rosca_exec gcs g') = Inr g'' \<longrightarrow>
         timestamp h \<le> timestamp h' \<and> round_deadline g'' =
           map_option (\<lambda>t. if 0 < t then t + (timestamp h' - timestamp h) else t) (round_deadline g)))"
  (is "?E \<and> ?P \<and> ?F \<and> ?G")
proof (intro conjI)
  show ?E using escrow_stop.pause_freezes escrow_stop.pause_ok by blast
  show ?P using payments_stop.pause_freezes payments_stop.pause_ok by blast
  show ?F
    using refund_stop.pause_freezes [of "(h, q)" for q, simplified]
      refund_stop.pause_ok [of "(h, q)" for q, simplified] by blast
  show ?G
  proof (intro impI conjI allI; elim conjE)
    assume "rosca_pause_contract h a r g = Inr g'" and "\<forall>c \<in> set gcs. rosca_guarded (snd c)"
    note pause_then_resume [OF this]
    then show "timestamp h \<le> timestamp h'" and "round_deadline g'' =
        map_option (\<lambda>t. if 0 < t then t + (timestamp h' - timestamp h) else t) (round_deadline g)"
      if "rosca_resume_contract h' a' (run_calls rosca_exec gcs g') = Inr g''" for h' a' g''
      using that by simp_all
  qed (blast dest: rosca_stop.pause_freezes rosca_stop.pause_ok)+
qed

lemma emergency_stop_freezes_contracts_witness:
  "\<exists>e' p' f' g'. escrow_pause_contract (demo_at 700) demo_admin ''audit'' demo_escrow = Inr e' \<and>
     payments_pause_contract (demo_at 700) demo_admin ''audit'' shop = Inr p' \<and>
     refund_pause_contract (demo_at 700) demo_admin ''audit'' desk = Inr f' \<and>
     rosca_pause_contract (demo_at 700) demo_admin ''audit'' circle = Inr g' \<and>
     run_calls escrow_exec [(demo_at 701, OpRelease demo_buyer 0)] e' = e' \<and>
     run_calls payments_exec [(shop_at 701, PayComplete 0)] p' = p' \<and>
     run_calls refund_exec [(desk_at 701, RefProcess desk_admin 0)] f' = f' \<and>
     run_calls rosca_exec [(circle_at 701, RContribute cleo circle_token 60)] g' = g' \<and>
     (\<exists>g''. rosca_resume_contract (demo_at 720) demo_admin g' = Inr g'' \<and>
        round_deadline g'' = Some 1021)"
proof -
  obtain e' where e: "escrow_pause_contract (demo_at 700) demo_admin ''audit'' demo_escrow = Inr e'"
    by (simp add: demo_escrow_def demo_eval require_or_bootstrap_admin_def)
  obtain p' where p: "payments_pause_contract (demo_at 700) demo_admin ''audit'' shop = Inr p'"
    by (simp add: shop_def shop_eval demo_at_def demo_admin_def everyone_def)
  obtain f' where f: "refund_pause_contract (demo_at 700) demo_admin ''audit'' desk = Inr f'"
    by (simp add: desk_def desk_eval refund_pause_contract_def demo_at_def demo_admin_def
        everyone_def)
  obtain g' where g: "rosca_pause_contract (demo_at 700) demo_admin ''audit'' circle = Inr g'"
    by (simp add: circle_def founded_def circle_eval rosca_pause_contract_def pause_group_def
        demo_at_def demo_admin_def everyone_def)
  from g obtain g'' where resumed: "rosca_resume_contract (demo_at 720) demo_admin g' = Inr g''"
    by (auto simp: circle_def founded_def circle_eval rosca_pause_contract_def pause_group_def
        rosca_resume_contract_def resume_group_def extend_round_deadline_def
        extend_timestamp_deadline_def demo_at_def demo_admin_def everyone_def)
  have "round_deadline circle = Some 1001"
    by (simp add: circle_def founded_def circle_eval)
  with emergency_stop_freezes_contracts [of "demo_at 700" demo_admin "''audit''" demo_escrow e'
      "[(demo_at 701, OpRelease demo_buyer 0)]" shop p' "[(shop_at 701, PayComplete 0)]" desk f'
      "[(desk_at 701, RefProcess desk_admin 0)]" circle g'
      "[(circle_at 701, RContribute cleo circle_token 60)]"] e p f g resumed
  show ?thesis by (simp add: demo_at_def)
qed

end
